(* ===== verification/Vb2_Prelude.thy ===== *)
theory Vb2_Prelude
  imports Main "HOL-Library.Word"
begin

unbundle bit_operations_syntax

text \<open>
  Shared vocabulary of the development: the machine integers of the C sources, little-endian
  access to byte buffers, and the generic facts on words and lists that the component proofs use.
  The sources cast byte buffers to packed structs, so the layout of a multi-byte field is that of
  the little-endian machines verified boot runs on.
\<close>

type_synonym u8 = "8 word"
type_synonym u16 = "16 word"
type_synonym u32 = "32 word"
type_synonym u64 = "64 word"
type_synonym bytes = "u8 list"

section \<open>The shift operators of C\<close>

text \<open>
  \<^verbatim>\<open>x << n\<close> and \<^verbatim>\<open>x >> n\<close> on an unsigned type.  They are constants of their own because the
  simplifier turns a \<^const>\<open>push_bit\<close> by a small numeral into a multiplication, which hides the
  bits.
\<close>

definition shl :: "'a::len word \<Rightarrow> nat \<Rightarrow> 'a word" where
  "shl x n = push_bit n x"

definition shr :: "'a::len word \<Rightarrow> nat \<Rightarrow> 'a word" where
  "shr x n = drop_bit n x"

lemma bit_shl [bit_simps]: "bit (shl (x::'a::len word) n) k \<longleftrightarrow> n \<le> k \<and> k < LENGTH('a) \<and> bit x (k - n)"
  by (auto simp: shl_def bit_push_bit_iff)

lemma bit_shr [bit_simps]: "bit (shr (x::'a::len word) n) k \<longleftrightarrow> bit x (n + k)"
  by (simp add: shr_def bit_drop_bit_eq)

lemma unat_shr: "unat (shr (x::'a::len word) n) = unat x div 2 ^ n"
proof -
  have "unat (drop_bit n x) = drop_bit n (unat x)" by (rule unat_drop_bit_eq)
  also have "\<dots> = unat x div 2 ^ n" by (rule drop_bit_eq_div)
  finally show ?thesis by (simp add: shr_def)
qed

lemma unat_shl: "unat (shl (x::'a::len word) n) = unat x * 2 ^ n mod 2 ^ LENGTH('a)"
proof -
  have "unat (push_bit n x) = take_bit LENGTH('a) (push_bit n (unat x))"
    by (rule unsigned_push_bit_eq)
  then show ?thesis by (simp add: shl_def take_bit_eq_mod push_bit_eq_mult)
qed

lemma shl_eq_mult: "shl x n = x * 2 ^ n"
  by (simp add: shl_def push_bit_eq_mult)

lemma shr_0 [simp]: "shr x 0 = x"
  by (simp add: shr_def)

lemma shl_0_left [simp]: "shl 0 n = 0" and shr_0_left [simp]: "shr 0 n = 0"
  by (simp_all add: shl_def shr_def)

section \<open>Bits of machine words, one by one\<close>

text \<open>
  Two words are equal when their bits are; the quantifier over the bit positions unfolds into a
  conjunction over numerals, where every shift distance evaluates.
\<close>

lemma not_bit_u8 [simp]: "8 \<le> n \<Longrightarrow> \<not> bit (s::u8) n"
  using bit_imp_le_length [of s n] by auto

lemma not_bit_u32 [simp]: "32 \<le> n \<Longrightarrow> \<not> bit (s::u32) n"
  using bit_imp_le_length [of s n] by auto

lemma all_less_8:
  "(\<forall>n<8::nat. P n) \<longleftrightarrow> P 0 \<and> P 1 \<and> P 2 \<and> P 3 \<and> P 4 \<and> P 5 \<and> P 6 \<and> P 7"
proof -
  have "(\<forall>n<8::nat. P n) \<longleftrightarrow> list_all P [0..<8]" by (auto simp: list_all_iff)
  also have "[0..<8] = [0,1,2,3,4,5,6,7::nat]" by (simp add: upt_conv_Cons)
  finally show ?thesis by simp
qed

lemma all_less_32:
  "(\<forall>n<32::nat. P n) \<longleftrightarrow> P 0 \<and> P 1 \<and> P 2 \<and> P 3 \<and> P 4 \<and> P 5 \<and> P 6 \<and> P 7 \<and> P 8 \<and> P 9 \<and> P 10 \<and>
    P 11 \<and> P 12 \<and> P 13 \<and> P 14 \<and> P 15 \<and> P 16 \<and> P 17 \<and> P 18 \<and> P 19 \<and> P 20 \<and> P 21 \<and> P 22 \<and>
    P 23 \<and> P 24 \<and> P 25 \<and> P 26 \<and> P 27 \<and> P 28 \<and> P 29 \<and> P 30 \<and> P 31"
proof -
  have "(\<forall>n<32::nat. P n) \<longleftrightarrow> list_all P [0..<32]" by (auto simp: list_all_iff)
  also have "[0..<32] = [0,1,2,3,4,5,6,7,8,9,10,11,12,13,14,15,16,17,18,19,20,21,22,23,24,25,26,27,28,29,30,31::nat]"
    by (simp add: upt_conv_Cons)
  finally show ?thesis by simp
qed

lemma u8_eq_bits: "(x::u8) = y \<longleftrightarrow> (\<forall>n<8. bit x n = bit y n)"
  by (auto simp: bit_eq_iff)

lemma u32_eq_bits: "(x::u32) = y \<longleftrightarrow> (\<forall>n<32. bit x n = bit y n)"
  by (auto simp: bit_eq_iff)

lemmas u8_bitwise = u8_eq_bits all_less_8
lemmas u32_bitwise = u32_eq_bits all_less_32

lemma and_single_bit: "(x::'a::len word) AND 2 ^ n \<noteq> 0 \<longleftrightarrow> bit x n"
  by (simp add: and_exp_eq_0_iff_not_bit)

lemma xor_cancel_right: "(x::'a::len word) XOR z = y XOR z \<longleftrightarrow> x = y"
  by (metis xor.assoc xor.right_neutral xor_self_eq)

lemma unat_less_bit:
  fixes v :: "'a::len word"
  assumes "unat v < 2 ^ n" and "bit v k"
  shows "k < n"
proof -
  have "bit (unat v) k" using assms(2) by (simp add: bit_unsigned_iff bit_imp_le_length)
  moreover have "take_bit n (unat v) = unat v" using assms(1) by (simp add: take_bit_nat_eq_self)
  ultimately show ?thesis by (metis bit_take_bit_iff)
qed

lemma u8_and_ff [simp]: "(x::u8) AND 0xff = x"
  unfolding u8_bitwise by (simp add: bit_simps)

lemma disjoint_bits: "(x::'a::len word) AND y = 0 \<Longrightarrow> bit y k \<Longrightarrow> \<not> bit x k"
  using bit_and_iff [of x y k] by simp

lemma bit_imp_less_8: "bit (x::u8) k \<Longrightarrow> k < 8"
  using bit_imp_le_length [of x k] by simp

lemma unat_u8_less: "unat (x::u8) < 256"
  using unsigned_less [where ?'a = nat, of x] by simp

lemma unat_ucast_u8 [simp]: "unat (ucast (x::u8) :: u32) = unat x"
  using unat_u8_less [of x] by (simp add: unsigned_ucast_eq take_bit_nat_eq_self)

lemma unat_and_le: "unat (x AND (y::'a::len word)) \<le> unat y"
  using word_and_le1 [of x y] by (simp add: word_le_nat_alt and.commute)

lemma low_bits:
  "\<not> 3 < (v::u32) \<Longrightarrow> 2 \<le> k \<Longrightarrow> \<not> bit v k"
  "\<not> 15 < (v::u32) \<Longrightarrow> 4 \<le> k \<Longrightarrow> \<not> bit v k"
  "\<not> 255 < (v::u32) \<Longrightarrow> 8 \<le> k \<Longrightarrow> \<not> bit v k"
  using unat_less_bit [of v 2 k] unat_less_bit [of v 4 k] unat_less_bit [of v 8 k]
  by (auto simp: word_less_nat_alt)

lemma ucast_ucast_le_ff: "\<not> 0xff < (v::u32) \<Longrightarrow> ucast (ucast v :: u8) = v"
  by (simp add: u32_bitwise bit_simps low_bits)

lemma u32_ucast_and_ff [simp]: "ucast (x::u8) AND 255 = (ucast x :: u32)"
  by (simp add: u32_bitwise bit_simps)

lemma split_word32:
  "(ucast (ucast (v::u32) :: u8) :: u32) OR shl (ucast (ucast (shr v 8) :: u8)) 8 OR
   shl (ucast (ucast (shr v 16) :: u8)) 16 OR shl (ucast (ucast (shr v 24) :: u8)) 24 = v"
  unfolding u32_bitwise by (simp add: bit_simps)

section \<open>Little-endian fields of a byte buffer\<close>

definition rd16 :: "bytes \<Rightarrow> nat \<Rightarrow> u16" where
  "rd16 bs off = ucast (bs ! off) OR shl (ucast (bs ! (off + 1))) 8"

definition rd32 :: "bytes \<Rightarrow> nat \<Rightarrow> u32" where
  "rd32 bs off = ucast (bs ! off) OR shl (ucast (bs ! (off + 1))) 8 OR
     shl (ucast (bs ! (off + 2))) 16 OR shl (ucast (bs ! (off + 3))) 24"

definition wr32 :: "bytes \<Rightarrow> nat \<Rightarrow> u32 \<Rightarrow> bytes" where
  "wr32 bs off v = bs[off := ucast v, off + 1 := ucast (shr v 8),
     off + 2 := ucast (shr v 16), off + 3 := ucast (shr v 24)]"

lemma length_wr32 [simp]: "length (wr32 bs off v) = length bs"
  by (simp add: wr32_def)

lemma rd32_wr32 [simp]: "off + 3 < length bs \<Longrightarrow> rd32 (wr32 bs off v) off = v"
  by (simp add: rd32_def wr32_def split_word32)

lemma nth_wr32_other [simp]: "i < off \<or> off + 3 < i \<Longrightarrow> wr32 bs off v ! i = bs ! i"
  by (auto simp: wr32_def)

lemma rd32_update_other [simp]: "i < off \<or> off + 3 < i \<Longrightarrow> rd32 (bs[i := v]) off = rd32 bs off"
  by (auto simp: rd32_def)

lemma rd32_wr32_other [simp]:
  "off' + 3 < off \<or> off + 3 < off' \<Longrightarrow> rd32 (wr32 bs off v) off' = rd32 bs off'"
  by (auto simp: rd32_def)

text \<open>\<^verbatim>\<open>memcpy(dst + off, src, length src)\<close>, and the shift of a loop counter.\<close>

definition copy_at :: "bytes \<Rightarrow> nat \<Rightarrow> bytes \<Rightarrow> bytes" where
  "copy_at dst off src = take off dst @ src @ drop (off + length src) dst"

lemma length_copy_at [simp]: "off + length src \<le> length dst \<Longrightarrow> length (copy_at dst off src) = length dst"
  by (simp add: copy_at_def)

lemma length_drop_blocks: "length (drop (length s div k * k) s) = length s mod k"
  by (simp add: minus_div_mult_eq_mod)

lemma take_drop_blocks: "take (length s mod k) (drop (length s div k * k) s) = drop (length s div k * k) s"
  by (rule take_all) (simp only: length_drop_blocks order_refl)

lemma copy_at_blocks:
  "copy_at b 0 (drop (length s div k * k) s) = drop (length s div k * k) s @ drop (length s mod k) b"
  unfolding copy_at_def length_drop_blocks by simp

lemma length_copy_at_blocks:
  "length s mod k \<le> length b \<Longrightarrow> length (copy_at b 0 (drop (length s div k * k) s)) = length b"
  unfolding copy_at_blocks length_append length_drop_blocks length_drop by simp

text \<open>The end of a padded message: a one bit, zeros, and the number of bits in the last bytes.\<close>

lemma padded_block:
  assumes "n < pm" and "pm \<le> length buf" and "length u \<le> pm - n - 1"
  shows "take pm (copy_at ((copy_at buf n (replicate (pm - n) 0))[n := x]) (pm - length u) u) =
    take n buf @ x # replicate (pm - n - 1 - length u) 0 @ u"
proof -
  obtain z where z: "pm - n = Suc z" using assms(1) by (metis Suc_diff_Suc)
  have pm: "pm = Suc (n + z)" using z by simp
  have "(copy_at buf n (replicate (pm - n) 0))[n := x] = take n buf @ x # replicate z 0 @ drop pm buf"
    using assms(1,2) unfolding copy_at_def z by (simp add: list_update_append z pm)
  then show ?thesis using assms(2,3) z
    by (simp add: copy_at_def pm Suc_diff_le take_Cons' min_absorb1)
qed

abbreviation shl_nat :: "nat \<Rightarrow> nat \<Rightarrow> nat" where
  "shl_nat i n \<equiv> i * 2 ^ n"

end
