(* ===== verification/Vb2_Context.thy ===== *)
theory Vb2_Context
  imports Vb2_Prelude
begin

text \<open>
  The state every verified boot call works on: the return codes and recovery reasons, the flag
  words, and the two structs \<^verbatim>\<open>vb2_context\<close> (owned by the caller) and \<^verbatim>\<open>vb2_shared_data\<close> (stored at
  the start of the caller's work buffer).  The shared data is a field of the context record: the
  record models the typed view \<^verbatim>\<open>vb2_get_sd(ctx)\<close> of the first \<^verbatim>\<open>sizeof(struct vb2_shared_data)\<close>
  bytes of the work buffer.  Return values are the \<^verbatim>\<open>int\<close>s of the sources, as 32-bit words, so
  that the truncation to the 8-bit recovery subcode is the one of the code.
\<close>

section \<open>Return codes (\<^verbatim>\<open>2return_codes.h\<close>)\<close>

abbreviation (input) VB2_SUCCESS :: u32 where "VB2_SUCCESS \<equiv> 0"
abbreviation (input) VB2_ERROR_SHA_INIT_ALGORITHM :: u32 where "VB2_ERROR_SHA_INIT_ALGORITHM \<equiv> 0x10010001"
abbreviation (input) VB2_ERROR_SHA_EXTEND_ALGORITHM :: u32 where "VB2_ERROR_SHA_EXTEND_ALGORITHM \<equiv> 0x10010002"
abbreviation (input) VB2_ERROR_SHA_FINALIZE_ALGORITHM :: u32 where "VB2_ERROR_SHA_FINALIZE_ALGORITHM \<equiv> 0x10010003"
abbreviation (input) VB2_ERROR_SHA_FINALIZE_DIGEST_SIZE :: u32 where "VB2_ERROR_SHA_FINALIZE_DIGEST_SIZE \<equiv> 0x10010004"
abbreviation (input) VB2_ERROR_RSA_PADDING :: u32 where "VB2_ERROR_RSA_PADDING \<equiv> 0x10020001"
abbreviation (input) VB2_ERROR_RSA_PADDING_ALGORITHM :: u32 where "VB2_ERROR_RSA_PADDING_ALGORITHM \<equiv> 0x10020002"
abbreviation (input) VB2_ERROR_RSA_VERIFY_PARAM :: u32 where "VB2_ERROR_RSA_VERIFY_PARAM \<equiv> 0x10020003"
abbreviation (input) VB2_ERROR_RSA_VERIFY_ALGORITHM :: u32 where "VB2_ERROR_RSA_VERIFY_ALGORITHM \<equiv> 0x10020004"
abbreviation (input) VB2_ERROR_RSA_VERIFY_SIG_LEN :: u32 where "VB2_ERROR_RSA_VERIFY_SIG_LEN \<equiv> 0x10020005"
abbreviation (input) VB2_ERROR_RSA_VERIFY_WORKBUF :: u32 where "VB2_ERROR_RSA_VERIFY_WORKBUF \<equiv> 0x10020006"
abbreviation (input) VB2_ERROR_RSA_VERIFY_DIGEST :: u32 where "VB2_ERROR_RSA_VERIFY_DIGEST \<equiv> 0x10020007"
abbreviation (input) VB2_ERROR_RSA_PADDING_SIZE :: u32 where "VB2_ERROR_RSA_PADDING_SIZE \<equiv> 0x10020008"
abbreviation (input) VB2_ERROR_NV_HEADER :: u32 where "VB2_ERROR_NV_HEADER \<equiv> 0x10030001"
abbreviation (input) VB2_ERROR_NV_CRC :: u32 where "VB2_ERROR_NV_CRC \<equiv> 0x10030002"
abbreviation (input) VB2_ERROR_SECDATA_CRC :: u32 where "VB2_ERROR_SECDATA_CRC \<equiv> 0x10040001"
abbreviation (input) VB2_ERROR_SECDATA_ZERO :: u32 where "VB2_ERROR_SECDATA_ZERO \<equiv> 0x10040002"
abbreviation (input) VB2_ERROR_SECDATA_GET_PARAM :: u32 where "VB2_ERROR_SECDATA_GET_PARAM \<equiv> 0x10040003"
abbreviation (input) VB2_ERROR_SECDATA_SET_PARAM :: u32 where "VB2_ERROR_SECDATA_SET_PARAM \<equiv> 0x10040004"
abbreviation (input) VB2_ERROR_SECDATA_SET_FLAGS :: u32 where "VB2_ERROR_SECDATA_SET_FLAGS \<equiv> 0x10040005"
abbreviation (input) VB2_ERROR_SECDATA_GET_UNINITIALIZED :: u32 where "VB2_ERROR_SECDATA_GET_UNINITIALIZED \<equiv> 0x10040006"
abbreviation (input) VB2_ERROR_SECDATA_SET_UNINITIALIZED :: u32 where "VB2_ERROR_SECDATA_SET_UNINITIALIZED \<equiv> 0x10040007"
abbreviation (input) VB2_ERROR_SECDATAK_CRC :: u32 where "VB2_ERROR_SECDATAK_CRC \<equiv> 0x10040008"
abbreviation (input) VB2_ERROR_SECDATAK_UID :: u32 where "VB2_ERROR_SECDATAK_UID \<equiv> 0x1004000a"
abbreviation (input) VB2_ERROR_SECDATAK_GET_PARAM :: u32 where "VB2_ERROR_SECDATAK_GET_PARAM \<equiv> 0x1004000b"
abbreviation (input) VB2_ERROR_SECDATAK_SET_PARAM :: u32 where "VB2_ERROR_SECDATAK_SET_PARAM \<equiv> 0x1004000c"
abbreviation (input) VB2_ERROR_SECDATAK_GET_UNINITIALIZED :: u32 where "VB2_ERROR_SECDATAK_GET_UNINITIALIZED \<equiv> 0x1004000e"
abbreviation (input) VB2_ERROR_SECDATAK_SET_UNINITIALIZED :: u32 where "VB2_ERROR_SECDATAK_SET_UNINITIALIZED \<equiv> 0x1004000f"
abbreviation (input) VB2_ERROR_ALIGN_BIGGER_THAN_SIZE :: u32 where "VB2_ERROR_ALIGN_BIGGER_THAN_SIZE \<equiv> 0x10050001"
abbreviation (input) VB2_ERROR_ALIGN_SIZE :: u32 where "VB2_ERROR_ALIGN_SIZE \<equiv> 0x10050002"
abbreviation (input) VB2_ERROR_INSIDE_PARENT_WRAPS :: u32 where "VB2_ERROR_INSIDE_PARENT_WRAPS \<equiv> 0x10050003"
abbreviation (input) VB2_ERROR_INSIDE_MEMBER_WRAPS :: u32 where "VB2_ERROR_INSIDE_MEMBER_WRAPS \<equiv> 0x10050004"
abbreviation (input) VB2_ERROR_INSIDE_MEMBER_OUTSIDE :: u32 where "VB2_ERROR_INSIDE_MEMBER_OUTSIDE \<equiv> 0x10050005"
abbreviation (input) VB2_ERROR_INSIDE_DATA_WRAPS :: u32 where "VB2_ERROR_INSIDE_DATA_WRAPS \<equiv> 0x10050006"
abbreviation (input) VB2_ERROR_INSIDE_DATA_OUTSIDE :: u32 where "VB2_ERROR_INSIDE_DATA_OUTSIDE \<equiv> 0x10050007"
abbreviation (input) VB2_ERROR_UNPACK_KEY_SIG_ALGORITHM :: u32 where "VB2_ERROR_UNPACK_KEY_SIG_ALGORITHM \<equiv> 0x10050008"
abbreviation (input) VB2_ERROR_UNPACK_KEY_SIZE :: u32 where "VB2_ERROR_UNPACK_KEY_SIZE \<equiv> 0x10050009"
abbreviation (input) VB2_ERROR_UNPACK_KEY_ALIGN :: u32 where "VB2_ERROR_UNPACK_KEY_ALIGN \<equiv> 0x1005000a"
abbreviation (input) VB2_ERROR_UNPACK_KEY_ARRAY_SIZE :: u32 where "VB2_ERROR_UNPACK_KEY_ARRAY_SIZE \<equiv> 0x1005000b"
abbreviation (input) VB2_ERROR_VDATA_SIG_SIZE :: u32 where "VB2_ERROR_VDATA_SIG_SIZE \<equiv> 0x1005000d"
abbreviation (input) VB2_ERROR_VDATA_NOT_ENOUGH_DATA :: u32 where "VB2_ERROR_VDATA_NOT_ENOUGH_DATA \<equiv> 0x1005000e"
abbreviation (input) VB2_ERROR_VDATA_WORKBUF_DIGEST :: u32 where "VB2_ERROR_VDATA_WORKBUF_DIGEST \<equiv> 0x1005000f"
abbreviation (input) VB2_ERROR_VDATA_WORKBUF_HASHING :: u32 where "VB2_ERROR_VDATA_WORKBUF_HASHING \<equiv> 0x10050010"
abbreviation (input) VB2_ERROR_VDATA_DIGEST_SIZE :: u32 where "VB2_ERROR_VDATA_DIGEST_SIZE \<equiv> 0x10050011"
abbreviation (input) VB2_ERROR_UNPACK_KEY_HASH_ALGORITHM :: u32 where "VB2_ERROR_UNPACK_KEY_HASH_ALGORITHM \<equiv> 0x10050012"
abbreviation (input) VB2_ERROR_INSIDE_DATA_OVERLAP :: u32 where "VB2_ERROR_INSIDE_DATA_OVERLAP \<equiv> 0x10050013"
abbreviation (input) VB2_ERROR_KEYBLOCK_TOO_SMALL_FOR_HEADER :: u32 where "VB2_ERROR_KEYBLOCK_TOO_SMALL_FOR_HEADER \<equiv> 0x10060001"
abbreviation (input) VB2_ERROR_KEYBLOCK_MAGIC :: u32 where "VB2_ERROR_KEYBLOCK_MAGIC \<equiv> 0x10060002"
abbreviation (input) VB2_ERROR_KEYBLOCK_HEADER_VERSION :: u32 where "VB2_ERROR_KEYBLOCK_HEADER_VERSION \<equiv> 0x10060003"
abbreviation (input) VB2_ERROR_KEYBLOCK_SIZE :: u32 where "VB2_ERROR_KEYBLOCK_SIZE \<equiv> 0x10060004"
abbreviation (input) VB2_ERROR_KEYBLOCK_SIG_OUTSIDE :: u32 where "VB2_ERROR_KEYBLOCK_SIG_OUTSIDE \<equiv> 0x10060005"
abbreviation (input) VB2_ERROR_KEYBLOCK_SIGNED_TOO_MUCH :: u32 where "VB2_ERROR_KEYBLOCK_SIGNED_TOO_MUCH \<equiv> 0x10060006"
abbreviation (input) VB2_ERROR_KEYBLOCK_SIGNED_TOO_LITTLE :: u32 where "VB2_ERROR_KEYBLOCK_SIGNED_TOO_LITTLE \<equiv> 0x10060007"
abbreviation (input) VB2_ERROR_KEYBLOCK_SIG_INVALID :: u32 where "VB2_ERROR_KEYBLOCK_SIG_INVALID \<equiv> 0x10060008"
abbreviation (input) VB2_ERROR_KEYBLOCK_DATA_KEY_OUTSIDE :: u32 where "VB2_ERROR_KEYBLOCK_DATA_KEY_OUTSIDE \<equiv> 0x10060009"
abbreviation (input) VB2_ERROR_KEYBLOCK_DATA_KEY_UNSIGNED :: u32 where "VB2_ERROR_KEYBLOCK_DATA_KEY_UNSIGNED \<equiv> 0x1006000a"
abbreviation (input) VB2_ERROR_PREAMBLE_TOO_SMALL_FOR_HEADER :: u32 where "VB2_ERROR_PREAMBLE_TOO_SMALL_FOR_HEADER \<equiv> 0x10070001"
abbreviation (input) VB2_ERROR_PREAMBLE_HEADER_VERSION :: u32 where "VB2_ERROR_PREAMBLE_HEADER_VERSION \<equiv> 0x10070002"
abbreviation (input) VB2_ERROR_PREAMBLE_HEADER_OLD :: u32 where "VB2_ERROR_PREAMBLE_HEADER_OLD \<equiv> 0x10070003"
abbreviation (input) VB2_ERROR_PREAMBLE_SIZE :: u32 where "VB2_ERROR_PREAMBLE_SIZE \<equiv> 0x10070004"
abbreviation (input) VB2_ERROR_PREAMBLE_SIG_OUTSIDE :: u32 where "VB2_ERROR_PREAMBLE_SIG_OUTSIDE \<equiv> 0x10070005"
abbreviation (input) VB2_ERROR_PREAMBLE_SIGNED_TOO_MUCH :: u32 where "VB2_ERROR_PREAMBLE_SIGNED_TOO_MUCH \<equiv> 0x10070006"
abbreviation (input) VB2_ERROR_PREAMBLE_SIGNED_TOO_LITTLE :: u32 where "VB2_ERROR_PREAMBLE_SIGNED_TOO_LITTLE \<equiv> 0x10070007"
abbreviation (input) VB2_ERROR_PREAMBLE_SIG_INVALID :: u32 where "VB2_ERROR_PREAMBLE_SIG_INVALID \<equiv> 0x10070008"
abbreviation (input) VB2_ERROR_PREAMBLE_BODY_SIG_OUTSIDE :: u32 where "VB2_ERROR_PREAMBLE_BODY_SIG_OUTSIDE \<equiv> 0x10070009"
abbreviation (input) VB2_ERROR_PREAMBLE_KERNEL_SUBKEY_OUTSIDE :: u32 where "VB2_ERROR_PREAMBLE_KERNEL_SUBKEY_OUTSIDE \<equiv> 0x1007000a"
abbreviation (input) VB2_ERROR_PREAMBLE_BOOTLOADER_OUTSIDE :: u32 where "VB2_ERROR_PREAMBLE_BOOTLOADER_OUTSIDE \<equiv> 0x1007000d"
abbreviation (input) VB2_ERROR_PREAMBLE_VMLINUZ_HEADER_OUTSIDE :: u32 where "VB2_ERROR_PREAMBLE_VMLINUZ_HEADER_OUTSIDE \<equiv> 0x1007000e"
abbreviation (input) VB2_ERROR_INITCTX_WORKBUF_SMALL :: u32 where "VB2_ERROR_INITCTX_WORKBUF_SMALL \<equiv> 0x10080001"
abbreviation (input) VB2_ERROR_INITCTX_WORKBUF_ALIGN :: u32 where "VB2_ERROR_INITCTX_WORKBUF_ALIGN \<equiv> 0x10080002"
abbreviation (input) VB2_ERROR_GBB_WORKBUF :: u32 where "VB2_ERROR_GBB_WORKBUF \<equiv> 0x10080003"
abbreviation (input) VB2_ERROR_GBB_MAGIC :: u32 where "VB2_ERROR_GBB_MAGIC \<equiv> 0x10080004"
abbreviation (input) VB2_ERROR_GBB_VERSION :: u32 where "VB2_ERROR_GBB_VERSION \<equiv> 0x10080005"
abbreviation (input) VB2_ERROR_GBB_TOO_OLD :: u32 where "VB2_ERROR_GBB_TOO_OLD \<equiv> 0x10080006"
abbreviation (input) VB2_ERROR_GBB_HEADER_SIZE :: u32 where "VB2_ERROR_GBB_HEADER_SIZE \<equiv> 0x10080007"
abbreviation (input) VB2_ERROR_FW_KEYBLOCK_WORKBUF_ROOT_KEY :: u32 where "VB2_ERROR_FW_KEYBLOCK_WORKBUF_ROOT_KEY \<equiv> 0x10080008"
abbreviation (input) VB2_ERROR_FW_KEYBLOCK_WORKBUF_HEADER :: u32 where "VB2_ERROR_FW_KEYBLOCK_WORKBUF_HEADER \<equiv> 0x10080009"
abbreviation (input) VB2_ERROR_FW_KEYBLOCK_WORKBUF :: u32 where "VB2_ERROR_FW_KEYBLOCK_WORKBUF \<equiv> 0x1008000a"
abbreviation (input) VB2_ERROR_FW_KEYBLOCK_VERSION_RANGE :: u32 where "VB2_ERROR_FW_KEYBLOCK_VERSION_RANGE \<equiv> 0x1008000b"
abbreviation (input) VB2_ERROR_FW_KEYBLOCK_VERSION_ROLLBACK :: u32 where "VB2_ERROR_FW_KEYBLOCK_VERSION_ROLLBACK \<equiv> 0x1008000c"
abbreviation (input) VB2_ERROR_FW_PREAMBLE2_DATA_KEY :: u32 where "VB2_ERROR_FW_PREAMBLE2_DATA_KEY \<equiv> 0x1008000d"
abbreviation (input) VB2_ERROR_FW_PREAMBLE2_WORKBUF_HEADER :: u32 where "VB2_ERROR_FW_PREAMBLE2_WORKBUF_HEADER \<equiv> 0x1008000e"
abbreviation (input) VB2_ERROR_FW_PREAMBLE2_WORKBUF :: u32 where "VB2_ERROR_FW_PREAMBLE2_WORKBUF \<equiv> 0x1008000f"
abbreviation (input) VB2_ERROR_FW_PREAMBLE_VERSION_RANGE :: u32 where "VB2_ERROR_FW_PREAMBLE_VERSION_RANGE \<equiv> 0x10080010"
abbreviation (input) VB2_ERROR_FW_PREAMBLE_VERSION_ROLLBACK :: u32 where "VB2_ERROR_FW_PREAMBLE_VERSION_ROLLBACK \<equiv> 0x10080011"
abbreviation (input) VB2_ERROR_KERNEL_KEYBLOCK_WORKBUF_HEADER :: u32 where "VB2_ERROR_KERNEL_KEYBLOCK_WORKBUF_HEADER \<equiv> 0x10080013"
abbreviation (input) VB2_ERROR_KERNEL_KEYBLOCK_WORKBUF :: u32 where "VB2_ERROR_KERNEL_KEYBLOCK_WORKBUF \<equiv> 0x10080014"
abbreviation (input) VB2_ERROR_KERNEL_KEYBLOCK_VERSION_RANGE :: u32 where "VB2_ERROR_KERNEL_KEYBLOCK_VERSION_RANGE \<equiv> 0x10080015"
abbreviation (input) VB2_ERROR_KERNEL_KEYBLOCK_VERSION_ROLLBACK :: u32 where "VB2_ERROR_KERNEL_KEYBLOCK_VERSION_ROLLBACK \<equiv> 0x10080016"
abbreviation (input) VB2_ERROR_KERNEL_KEYBLOCK_DEV_FLAG :: u32 where "VB2_ERROR_KERNEL_KEYBLOCK_DEV_FLAG \<equiv> 0x10080017"
abbreviation (input) VB2_ERROR_KERNEL_KEYBLOCK_REC_FLAG :: u32 where "VB2_ERROR_KERNEL_KEYBLOCK_REC_FLAG \<equiv> 0x10080018"
abbreviation (input) VB2_ERROR_KERNEL_PREAMBLE2_DATA_KEY :: u32 where "VB2_ERROR_KERNEL_PREAMBLE2_DATA_KEY \<equiv> 0x10080019"
abbreviation (input) VB2_ERROR_KERNEL_PREAMBLE2_WORKBUF_HEADER :: u32 where "VB2_ERROR_KERNEL_PREAMBLE2_WORKBUF_HEADER \<equiv> 0x1008001a"
abbreviation (input) VB2_ERROR_KERNEL_PREAMBLE2_WORKBUF :: u32 where "VB2_ERROR_KERNEL_PREAMBLE2_WORKBUF \<equiv> 0x1008001b"
abbreviation (input) VB2_ERROR_KERNEL_PREAMBLE_VERSION_RANGE :: u32 where "VB2_ERROR_KERNEL_PREAMBLE_VERSION_RANGE \<equiv> 0x1008001c"
abbreviation (input) VB2_ERROR_KERNEL_PREAMBLE_VERSION_ROLLBACK :: u32 where "VB2_ERROR_KERNEL_PREAMBLE_VERSION_ROLLBACK \<equiv> 0x1008001d"
abbreviation (input) VB2_ERROR_API_GET_KERNEL_SIZE_PREAMBLE :: u32 where "VB2_ERROR_API_GET_KERNEL_SIZE_PREAMBLE \<equiv> 0x1008001e"
abbreviation (input) VB2_ERROR_API_INIT_HASH_TAG :: u32 where "VB2_ERROR_API_INIT_HASH_TAG \<equiv> 0x10090001"
abbreviation (input) VB2_ERROR_API_INIT_HASH_PREAMBLE :: u32 where "VB2_ERROR_API_INIT_HASH_PREAMBLE \<equiv> 0x10090002"
abbreviation (input) VB2_ERROR_API_INIT_HASH_WORKBUF :: u32 where "VB2_ERROR_API_INIT_HASH_WORKBUF \<equiv> 0x10090003"
abbreviation (input) VB2_ERROR_API_INIT_HASH_DATA_KEY :: u32 where "VB2_ERROR_API_INIT_HASH_DATA_KEY \<equiv> 0x10090004"
abbreviation (input) VB2_ERROR_API_EXTEND_HASH_WORKBUF :: u32 where "VB2_ERROR_API_EXTEND_HASH_WORKBUF \<equiv> 0x10090005"
abbreviation (input) VB2_ERROR_API_EXTEND_HASH_SIZE :: u32 where "VB2_ERROR_API_EXTEND_HASH_SIZE \<equiv> 0x10090006"
abbreviation (input) VB2_ERROR_API_CHECK_HASH_PREAMBLE :: u32 where "VB2_ERROR_API_CHECK_HASH_PREAMBLE \<equiv> 0x10090007"
abbreviation (input) VB2_ERROR_API_CHECK_HASH_WORKBUF :: u32 where "VB2_ERROR_API_CHECK_HASH_WORKBUF \<equiv> 0x10090008"
abbreviation (input) VB2_ERROR_API_CHECK_HASH_SIZE :: u32 where "VB2_ERROR_API_CHECK_HASH_SIZE \<equiv> 0x10090009"
abbreviation (input) VB2_ERROR_API_CHECK_HASH_WORKBUF_DIGEST :: u32 where "VB2_ERROR_API_CHECK_HASH_WORKBUF_DIGEST \<equiv> 0x1009000a"
abbreviation (input) VB2_ERROR_API_CHECK_HASH_TAG :: u32 where "VB2_ERROR_API_CHECK_HASH_TAG \<equiv> 0x1009000b"
abbreviation (input) VB2_ERROR_API_CHECK_HASH_DATA_KEY :: u32 where "VB2_ERROR_API_CHECK_HASH_DATA_KEY \<equiv> 0x1009000c"
abbreviation (input) VB2_ERROR_API_PHASE1_RECOVERY :: u32 where "VB2_ERROR_API_PHASE1_RECOVERY \<equiv> 0x1009000e"
abbreviation (input) VB2_ERROR_API_PCR_DIGEST :: u32 where "VB2_ERROR_API_PCR_DIGEST \<equiv> 0x10090011"
abbreviation (input) VB2_ERROR_API_PCR_DIGEST_BUF :: u32 where "VB2_ERROR_API_PCR_DIGEST_BUF \<equiv> 0x10090012"
abbreviation (input) VB2_ERROR_API_KPHASE1_WORKBUF_REC_KEY :: u32 where "VB2_ERROR_API_KPHASE1_WORKBUF_REC_KEY \<equiv> 0x10090013"
abbreviation (input) VB2_ERROR_API_KPHASE1_PREAMBLE :: u32 where "VB2_ERROR_API_KPHASE1_PREAMBLE \<equiv> 0x10090014"
abbreviation (input) VB2_ERROR_API_VERIFY_KDATA_SIZE :: u32 where "VB2_ERROR_API_VERIFY_KDATA_SIZE \<equiv> 0x10090015"
abbreviation (input) VB2_ERROR_API_VERIFY_KDATA_PREAMBLE :: u32 where "VB2_ERROR_API_VERIFY_KDATA_PREAMBLE \<equiv> 0x10090016"
abbreviation (input) VB2_ERROR_API_VERIFY_KDATA_WORKBUF :: u32 where "VB2_ERROR_API_VERIFY_KDATA_WORKBUF \<equiv> 0x10090017"
abbreviation (input) VB2_ERROR_API_VERIFY_KDATA_KEY :: u32 where "VB2_ERROR_API_VERIFY_KDATA_KEY \<equiv> 0x10090018"
abbreviation (input) VB2_ERROR_API_PHASE1_SECDATA_REBOOT :: u32 where "VB2_ERROR_API_PHASE1_SECDATA_REBOOT \<equiv> 0x10090019"
abbreviation (input) VB2_ERROR_API_CHECK_DIGEST_SIZE :: u32 where "VB2_ERROR_API_CHECK_DIGEST_SIZE \<equiv> 0x1009001a"
abbreviation (input) VB2_ERROR_EX_READ_RESOURCE_UNIMPLEMENTED :: u32 where "VB2_ERROR_EX_READ_RESOURCE_UNIMPLEMENTED \<equiv> 0x100a0001"
abbreviation (input) VB2_ERROR_EX_TPM_CLEAR_OWNER_UNIMPLEMENTED :: u32 where "VB2_ERROR_EX_TPM_CLEAR_OWNER_UNIMPLEMENTED \<equiv> 0x100a0005"
abbreviation (input) VB2_ERROR_EX_HWCRYPTO_UNSUPPORTED :: u32 where "VB2_ERROR_EX_HWCRYPTO_UNSUPPORTED \<equiv> 0x100a0006"

section \<open>Recovery reasons (\<^verbatim>\<open>2recovery_reasons.h\<close>)\<close>

abbreviation (input) VB2_RECOVERY_NOT_REQUESTED :: u32 where "VB2_RECOVERY_NOT_REQUESTED \<equiv> 0"
abbreviation (input) VB2_RECOVERY_LEGACY :: u32 where "VB2_RECOVERY_LEGACY \<equiv> 0x01"
abbreviation (input) VB2_RECOVERY_RO_MANUAL :: u32 where "VB2_RECOVERY_RO_MANUAL \<equiv> 0x02"
abbreviation (input) VB2_RECOVERY_RO_INVALID_RW :: u32 where "VB2_RECOVERY_RO_INVALID_RW \<equiv> 0x03"
abbreviation (input) VB2_RECOVERY_FW_KEYBLOCK :: u32 where "VB2_RECOVERY_FW_KEYBLOCK \<equiv> 0x13"
abbreviation (input) VB2_RECOVERY_FW_KEY_ROLLBACK :: u32 where "VB2_RECOVERY_FW_KEY_ROLLBACK \<equiv> 0x14"
abbreviation (input) VB2_RECOVERY_FW_PREAMBLE :: u32 where "VB2_RECOVERY_FW_PREAMBLE \<equiv> 0x16"
abbreviation (input) VB2_RECOVERY_FW_ROLLBACK :: u32 where "VB2_RECOVERY_FW_ROLLBACK \<equiv> 0x17"
abbreviation (input) VB2_RECOVERY_FW_BODY :: u32 where "VB2_RECOVERY_FW_BODY \<equiv> 0x1b"
abbreviation (input) VB2_RECOVERY_RO_TPM_REBOOT :: u32 where "VB2_RECOVERY_RO_TPM_REBOOT \<equiv> 0x21"
abbreviation (input) VB2_RECOVERY_SECDATA_INIT :: u32 where "VB2_RECOVERY_SECDATA_INIT \<equiv> 0x2b"
abbreviation (input) VB2_RECOVERY_GBB_HEADER :: u32 where "VB2_RECOVERY_GBB_HEADER \<equiv> 0x2c"
abbreviation (input) VB2_RECOVERY_TPM_CLEAR_OWNER :: u32 where "VB2_RECOVERY_TPM_CLEAR_OWNER \<equiv> 0x2d"
abbreviation (input) VB2_RECOVERY_DEV_SWITCH :: u32 where "VB2_RECOVERY_DEV_SWITCH \<equiv> 0x2e"
abbreviation (input) VB2_RECOVERY_FW_SLOT :: u32 where "VB2_RECOVERY_FW_SLOT \<equiv> 0x2f"
abbreviation (input) VB2_RECOVERY_SECDATAK_INIT :: u32 where "VB2_RECOVERY_SECDATAK_INIT \<equiv> 0x5d"

section \<open>Flag words (\<^verbatim>\<open>2api.h\<close>, \<^verbatim>\<open>2struct.h\<close>)\<close>

text \<open>\<^verbatim>\<open>enum vb2_context_flags\<close>\<close>

abbreviation (input) VB2_CONTEXT_NVDATA_CHANGED :: u32 where "VB2_CONTEXT_NVDATA_CHANGED \<equiv> 0x1"
abbreviation (input) VB2_CONTEXT_SECDATA_CHANGED :: u32 where "VB2_CONTEXT_SECDATA_CHANGED \<equiv> 0x2"
abbreviation (input) VB2_CONTEXT_RECOVERY_MODE :: u32 where "VB2_CONTEXT_RECOVERY_MODE \<equiv> 0x4"
abbreviation (input) VB2_CONTEXT_DEVELOPER_MODE :: u32 where "VB2_CONTEXT_DEVELOPER_MODE \<equiv> 0x8"
abbreviation (input) VB2_CONTEXT_FORCE_RECOVERY_MODE :: u32 where "VB2_CONTEXT_FORCE_RECOVERY_MODE \<equiv> 0x10"
abbreviation (input) VB2_CONTEXT_FORCE_DEVELOPER_MODE :: u32 where "VB2_CONTEXT_FORCE_DEVELOPER_MODE \<equiv> 0x20"
abbreviation (input) VB2_CONTEXT_FW_SLOT_B :: u32 where "VB2_CONTEXT_FW_SLOT_B \<equiv> 0x40"
abbreviation (input) VB2_CONTEXT_CLEAR_RAM :: u32 where "VB2_CONTEXT_CLEAR_RAM \<equiv> 0x80"
abbreviation (input) VB2_CONTEXT_FORCE_WIPEOUT_MODE :: u32 where "VB2_CONTEXT_FORCE_WIPEOUT_MODE \<equiv> 0x100"
abbreviation (input) VB2_DISABLE_DEVELOPER_MODE :: u32 where "VB2_DISABLE_DEVELOPER_MODE \<equiv> 0x200"
abbreviation (input) VB2_CONTEXT_SECDATAK_CHANGED :: u32 where "VB2_CONTEXT_SECDATAK_CHANGED \<equiv> 0x400"
abbreviation (input) VB2_CONTEXT_ALLOW_KERNEL_ROLL_FORWARD :: u32 where "VB2_CONTEXT_ALLOW_KERNEL_ROLL_FORWARD \<equiv> 0x800"
abbreviation (input) VB2_CONTEXT_NOFAIL_BOOT :: u32 where "VB2_CONTEXT_NOFAIL_BOOT \<equiv> 0x1000"
abbreviation (input) VB2_CONTEXT_SECDATA_WANTS_REBOOT :: u32 where "VB2_CONTEXT_SECDATA_WANTS_REBOOT \<equiv> 0x2000"
abbreviation (input) VB2_CONTEXT_S3_RESUME :: u32 where "VB2_CONTEXT_S3_RESUME \<equiv> 0x4000"

text \<open>\<^verbatim>\<open>enum vb2_shared_data_flags\<close> and \<^verbatim>\<open>enum vb2_shared_data_status\<close>\<close>

abbreviation (input) VB2_SD_FLAG_MANUAL_RECOVERY :: u32 where "VB2_SD_FLAG_MANUAL_RECOVERY \<equiv> 0x1"
abbreviation (input) VB2_SD_DEV_MODE_ENABLED :: u32 where "VB2_SD_DEV_MODE_ENABLED \<equiv> 0x2"
abbreviation (input) VB2_SD_FLAG_KERNEL_SIGNED :: u32 where "VB2_SD_FLAG_KERNEL_SIGNED \<equiv> 0x4"
abbreviation (input) VB2_SD_STATUS_NV_REINIT :: u32 where "VB2_SD_STATUS_NV_REINIT \<equiv> 0x1"
abbreviation (input) VB2_SD_STATUS_NV_INIT :: u32 where "VB2_SD_STATUS_NV_INIT \<equiv> 0x2"
abbreviation (input) VB2_SD_STATUS_SECDATA_INIT :: u32 where "VB2_SD_STATUS_SECDATA_INIT \<equiv> 0x4"
abbreviation (input) VB2_SD_STATUS_CHOSE_SLOT :: u32 where "VB2_SD_STATUS_CHOSE_SLOT \<equiv> 0x8"
abbreviation (input) VB2_SD_STATUS_SECDATAK_INIT :: u32 where "VB2_SD_STATUS_SECDATAK_INIT \<equiv> 0x10"

text \<open>The flags of \<^verbatim>\<open>enum vb2_gbb_flag\<close> that the firmware code looks at\<close>

abbreviation (input) VB2_GBB_FLAG_FORCE_DEV_SWITCH_ON :: u32 where "VB2_GBB_FLAG_FORCE_DEV_SWITCH_ON \<equiv> 0x8"
abbreviation (input) VB2_GBB_FLAG_DISABLE_FW_ROLLBACK_CHECK :: u32 where "VB2_GBB_FLAG_DISABLE_FW_ROLLBACK_CHECK \<equiv> 0x20"

text \<open>Testing \<^verbatim>\<open>flags & mask\<close> as a C condition.\<close>

definition has_flag :: "u32 \<Rightarrow> u32 \<Rightarrow> bool" where
  "has_flag w m \<longleftrightarrow> w AND m \<noteq> 0"

section \<open>The shared data and the context\<close>

record vb2_shared_data =
  sd_flags :: u32
  sd_gbb_flags :: u32
  sd_recovery_reason :: u32
  sd_last_fw_slot :: u32
  sd_last_fw_result :: u32
  sd_fw_slot :: u32
  sd_fw_version :: u32
  sd_fw_version_secdata :: u32
  sd_status :: u32
  sd_kernel_version :: u32
  sd_kernel_version_secdatak :: u32
  sd_gbb_rootkey_offset :: u32
  sd_gbb_rootkey_size :: u32
  sd_gbb_hwid_digest :: bytes
  sd_vblock_preamble_offset :: u32
  sd_workbuf_data_key_offset :: u32
  sd_workbuf_data_key_size :: u32
  sd_workbuf_preamble_offset :: u32
  sd_workbuf_preamble_size :: u32
  sd_workbuf_hash_offset :: u32
  sd_workbuf_hash_size :: u32
  sd_hash_tag :: u32
  sd_hash_remaining_size :: u32
  sd_workbuf_kernel_key_offset :: u32
  sd_workbuf_kernel_key_size :: u32

text \<open>The struct is packed: 24 words and the 32 bytes of the HWID digest.\<close>

abbreviation (input) SIZEOF_SHARED_DATA :: nat where "SIZEOF_SHARED_DATA \<equiv> 128"
abbreviation (input) VB2_GBB_HWID_DIGEST_SIZE :: nat where "VB2_GBB_HWID_DIGEST_SIZE \<equiv> 32"

definition zero_shared_data :: vb2_shared_data where
  "zero_shared_data =
     \<lparr>sd_flags = 0, sd_gbb_flags = 0, sd_recovery_reason = 0, sd_last_fw_slot = 0,
      sd_last_fw_result = 0, sd_fw_slot = 0, sd_fw_version = 0, sd_fw_version_secdata = 0,
      sd_status = 0, sd_kernel_version = 0, sd_kernel_version_secdatak = 0,
      sd_gbb_rootkey_offset = 0, sd_gbb_rootkey_size = 0,
      sd_gbb_hwid_digest = replicate VB2_GBB_HWID_DIGEST_SIZE 0, sd_vblock_preamble_offset = 0,
      sd_workbuf_data_key_offset = 0, sd_workbuf_data_key_size = 0,
      sd_workbuf_preamble_offset = 0, sd_workbuf_preamble_size = 0,
      sd_workbuf_hash_offset = 0, sd_workbuf_hash_size = 0, sd_hash_tag = 0,
      sd_hash_remaining_size = 0, sd_workbuf_kernel_key_offset = 0,
      sd_workbuf_kernel_key_size = 0\<rparr>"

text \<open>
  \<^verbatim>\<open>workbuf\<close> is the address of the work buffer.  The opaque \<^verbatim>\<open>non_vboot_context\<close> pointer of the
  struct, which verified boot never reads, has no field here.
\<close>

record vb2_context =
  ctx_flags :: u32
  workbuf :: u64
  workbuf_size :: u32
  nvdata :: bytes
  secdata :: bytes
  workbuf_used :: u32
  secdatak :: bytes
  sd :: vb2_shared_data

abbreviation (input) VB2_NVDATA_SIZE :: nat where "VB2_NVDATA_SIZE \<equiv> 16"
abbreviation (input) VB2_SECDATA_SIZE :: nat where "VB2_SECDATA_SIZE \<equiv> 10"
abbreviation (input) VB2_SECDATAK_SIZE :: nat where "VB2_SECDATAK_SIZE \<equiv> 14"

text \<open>The state before the first call, which the callers of \<^verbatim>\<open>2api.h\<close> are told to provide: all zero.\<close>

definition zero_context :: vb2_context where
  "zero_context =
     \<lparr>ctx_flags = 0, workbuf = 0x1000, workbuf_size = 12288, nvdata = replicate VB2_NVDATA_SIZE 0,
      secdata = replicate VB2_SECDATA_SIZE 0, workbuf_used = 0,
      secdatak = replicate VB2_SECDATAK_SIZE 0, sd = zero_shared_data\<rparr>"

lemma zero_context_simps [simp]:
  "ctx_flags zero_context = 0" "workbuf zero_context = 0x1000" "workbuf_size zero_context = 12288"
  "nvdata zero_context = replicate VB2_NVDATA_SIZE 0" "secdata zero_context = replicate VB2_SECDATA_SIZE 0"
  "workbuf_used zero_context = 0" "secdatak zero_context = replicate VB2_SECDATAK_SIZE 0"
  "sd zero_context = zero_shared_data" "sd_status zero_shared_data = 0"
  by (simp_all add: zero_context_def zero_shared_data_def)

text \<open>Setting flag bits and updating the shared data in place.\<close>

abbreviation ctx_set_flag :: "u32 \<Rightarrow> vb2_context \<Rightarrow> vb2_context" where
  "ctx_set_flag m ctx \<equiv> ctx\<lparr>ctx_flags := ctx_flags ctx OR m\<rparr>"

definition upd_sd :: "(vb2_shared_data \<Rightarrow> vb2_shared_data) \<Rightarrow> vb2_context \<Rightarrow> vb2_context" where
  "upd_sd f ctx = ctx\<lparr>sd := f (sd ctx)\<rparr>"

lemma upd_sd_simps [simp]:
  "ctx_flags (upd_sd f ctx) = ctx_flags ctx"
  "workbuf (upd_sd f ctx) = workbuf ctx"
  "workbuf_size (upd_sd f ctx) = workbuf_size ctx"
  "nvdata (upd_sd f ctx) = nvdata ctx"
  "secdata (upd_sd f ctx) = secdata ctx"
  "workbuf_used (upd_sd f ctx) = workbuf_used ctx"
  "secdatak (upd_sd f ctx) = secdatak ctx"
  "sd (upd_sd f ctx) = f (sd ctx)"
  by (simp_all add: upd_sd_def)

section \<open>Flag arithmetic\<close>

lemma has_flag_or [simp]: "has_flag (w OR v) m \<longleftrightarrow> has_flag w m \<or> has_flag v m"
proof -
  have "(w OR v) AND m = (w AND m) OR (v AND m)" by (simp add: bit.conj_disj_distrib2)
  then show ?thesis by (simp add: has_flag_def or_eq_0_iff)
qed

lemma has_flag_0 [simp]: "\<not> has_flag 0 m"
  by (simp add: has_flag_def)

lemma has_flag_numeral [simp]:
  "has_flag (numeral k) (numeral l) \<longleftrightarrow> (numeral k AND numeral l :: u32) \<noteq> 0"
  "has_flag 1 (numeral l) \<longleftrightarrow> (1 AND numeral l :: u32) \<noteq> 0"
  "has_flag (numeral k) 1 \<longleftrightarrow> (numeral k AND 1 :: u32) \<noteq> 0"
  "has_flag 1 1"
  by (simp_all add: has_flag_def)

text \<open>\<^verbatim>\<open>flags &= ~mask\<close>\<close>

definition clear_flag :: "u32 \<Rightarrow> u32 \<Rightarrow> u32" where
  "clear_flag w m = w AND NOT m"

lemma clear_flag_0 [simp]: "clear_flag 0 m = 0"
  by (simp add: clear_flag_def)

lemma has_flag_clear_same [simp]: "\<not> has_flag (clear_flag w m) m"
  by (simp add: has_flag_def clear_flag_def and.assoc)

lemma has_flag_clear_other [simp]: "k AND m = 0 \<Longrightarrow> has_flag (clear_flag w k) m \<longleftrightarrow> has_flag w m"
proof -
  assume "k AND m = 0"
  then have "(w AND NOT k) AND m = w AND m"
    by (auto simp: bit_eq_iff bit_simps)
  then show ?thesis by (simp add: has_flag_def clear_flag_def)
qed

lemma clear_flag_clear: "\<not> has_flag w m \<Longrightarrow> clear_flag w m = w"
  by (auto simp: has_flag_def clear_flag_def bit_eq_iff bit_simps)

end
