(* ===== verification/Crc8.thy ===== *)
theory Crc8
  imports Vb2_Prelude
begin

text \<open>
  The CRC-8 of \<^verbatim>\<open>firmware/2lib/2crc8.c\<close> (and its vboot1 twin \<^verbatim>\<open>firmware/lib/crc8.c\<close>), which
  guards the non-volatile and the secure storage spaces.  The C code keeps the 8-bit remainder in
  bits 8 to 15 of an \<^verbatim>\<open>unsigned\<close>; the refinement below shows that nothing else is ever set there,
  so that the loop is the usual shift register on one byte.
\<close>

section \<open>The code\<close>

text \<open>One turn of the inner loop, on the \<^verbatim>\<open>unsigned crc\<close> of the source.\<close>

definition crc8_bit :: "u32 \<Rightarrow> u32" where
  "crc8_bit crc =
     (let crc = (if crc AND 0x8000 \<noteq> 0 then crc XOR shl 0x1070 3 else crc)
      in shl crc 1)"

text \<open>One turn of the outer loop: eight shifts after folding the byte in.\<close>

definition crc8_byte :: "u32 \<Rightarrow> u8 \<Rightarrow> u32" where
  "crc8_byte crc d = (crc8_bit ^^ 8) (crc XOR shl (ucast d) 8)"

definition vb2_crc8 :: "bytes \<Rightarrow> nat \<Rightarrow> u8" where
  "vb2_crc8 data sz = ucast (shr (foldl crc8_byte 0 (take sz data)) 8)"

section \<open>Refinement to an 8-bit shift register\<close>

definition crc8_shift :: "u8 \<Rightarrow> u8" where
  "crc8_shift s = (if bit s 7 then shl s 1 XOR 7 else shl s 1)"

definition crc8_step :: "u8 \<Rightarrow> u8 \<Rightarrow> u8" where
  "crc8_step s d = (crc8_shift ^^ 8) (s XOR d)"

abbreviation crc8_rep :: "u8 \<Rightarrow> u32" where
  "crc8_rep s \<equiv> shl (ucast s) 8"

lemma crc8_bit_rep: "crc8_bit (crc8_rep s) = crc8_rep (crc8_shift s)"
proof -
  have test: "crc8_rep s AND 0x8000 \<noteq> 0 \<longleftrightarrow> bit s 7"
    using and_single_bit [of "crc8_rep s" 15] by (simp add: bit_simps)
  have poly: "shl 0x1070 3 = (0x8380 :: u32)" by (simp add: shl_def)
  have "bit s 7 \<Longrightarrow> shl (crc8_rep s XOR 0x8380) 1 = crc8_rep (shl s 1 XOR 7)"
    and "\<not> bit s 7 \<Longrightarrow> shl (crc8_rep s) 1 = crc8_rep (shl s 1)"
    unfolding u32_bitwise by (simp_all add: bit_simps)
  with test show ?thesis by (auto simp: crc8_bit_def crc8_shift_def poly)
qed

lemma crc8_bits_rep: "(crc8_bit ^^ n) (crc8_rep s) = crc8_rep ((crc8_shift ^^ n) s)"
  by (induction n) (simp_all add: crc8_bit_rep)

lemma crc8_byte_rep: "crc8_byte (crc8_rep s) d = crc8_rep (crc8_step s d)"
proof -
  have "crc8_rep s XOR crc8_rep d = crc8_rep (s XOR d)"
    by (rule bit_word_eqI) (auto simp: bit_simps)
  then show ?thesis by (simp add: crc8_byte_def crc8_step_def crc8_bits_rep)
qed

lemma foldl_crc8_byte: "foldl crc8_byte (crc8_rep s) xs = crc8_rep (foldl crc8_step s xs)"
  by (induction xs arbitrary: s) (simp_all add: crc8_byte_rep)

lemma crc8_rep_inverse: "ucast (shr (crc8_rep s) 8) = s"
  unfolding u8_bitwise by (simp add: bit_simps)

lemma vb2_crc8_register: "vb2_crc8 data sz = foldl crc8_step 0 (take sz data)"
  using foldl_crc8_byte [of 0 "take sz data"]
  by (simp add: vb2_crc8_def crc8_rep_inverse)

section \<open>What the checksum detects\<close>

lemma crc8_shift_msb: "bit (crc8_shift s) 0 \<longleftrightarrow> bit s 7"
  by (simp add: crc8_shift_def bit_simps)

lemma shl_1_eq_u8: "shl (s::u8) 1 = shl t 1 \<Longrightarrow> bit s 7 = bit t 7 \<Longrightarrow> s = t"
  unfolding u8_bitwise by (simp add: bit_simps)

lemma crc8_shift_inj: "inj crc8_shift"
proof (rule injI)
  fix s t assume eq: "crc8_shift s = crc8_shift t"
  with crc8_shift_msb [of s] crc8_shift_msb [of t] have "bit s 7 = bit t 7" by simp
  with eq show "s = t"
    by (auto simp: crc8_shift_def xor_cancel_right intro: shl_1_eq_u8 split: if_splits)
qed

lemma crc8_shifts_inj: "inj (crc8_shift ^^ n)"
  by (rule inj_fn [OF crc8_shift_inj])

lemma crc8_step_inj_left: "crc8_step s d = crc8_step t d \<longleftrightarrow> s = t"
  using inj_eq [OF crc8_shifts_inj [of 8]] by (simp add: crc8_step_def xor_cancel_right)

lemma crc8_step_inj_right: "crc8_step s d = crc8_step s e \<longleftrightarrow> d = e"
  using crc8_step_inj_left [of d s e] by (simp add: crc8_step_def xor.commute)

lemma foldl_crc8_step_inj: "foldl crc8_step s xs = foldl crc8_step t xs \<longleftrightarrow> s = t"
  by (induction xs arbitrary: s t) (simp_all add: crc8_step_inj_left)

lemma crc8_step_0 [simp]: "crc8_step 0 0 = 0"
proof -
  have "(crc8_shift ^^ n) 0 = 0" for n
    by (induction n) (simp_all add: crc8_shift_def)
  then show ?thesis by (simp add: crc8_step_def)
qed

lemma vb2_crc8_zeroes: "vb2_crc8 (replicate n 0) sz = 0"
proof -
  have "foldl crc8_step 0 (replicate k 0) = 0" for k
    by (induction k) simp_all
  then show ?thesis by (simp add: vb2_crc8_register)
qed

lemma take_split_at:
  "i < n \<Longrightarrow> i < length xs \<Longrightarrow> take n xs = take i xs @ xs ! i # take (n - Suc i) (drop (Suc i) xs)"
  using id_take_nth_drop [of i "take n xs"] by (simp add: min_def drop_take)

lemma vb2_crc8_detects:
  assumes "i < sz" "i < length data" "data ! i \<noteq> v"
  shows "vb2_crc8 (data[i := v]) sz \<noteq> vb2_crc8 data sz"
  using assms take_split_at [of i sz data] take_split_at [of i sz "data[i := v]"]
  by (simp add: vb2_crc8_register foldl_crc8_step_inj crc8_step_inj_right)

lemma vb2_crc8_take: "sz \<le> n \<Longrightarrow> vb2_crc8 (take n data) sz = vb2_crc8 data sz"
  by (simp add: vb2_crc8_def min_def)

lemma vb2_crc8_beyond: "sz \<le> i \<Longrightarrow> vb2_crc8 (data[i := v]) sz = vb2_crc8 data sz"
  by (simp add: vb2_crc8_def)

end
