(* ===== verification/Nv_Spec.thy ===== *)
theory Nv_Spec
  imports Vb2_Prelude
begin

text \<open>
  The contract of a parameter store: every parameter is a cell of its own, a write stores a clipped
  value, and the store keeps its invariant.  Both generations of the non-volatile storage code
  (\<^verbatim>\<open>2lib/2nvstorage.c\<close> and \<^verbatim>\<open>lib/vboot_nvstorage.c\<close>) meet it; the consequences are proved once here.
\<close>

locale nv_storage =
  fixes ok :: "'s \<Rightarrow> bool"
    and get :: "'s \<Rightarrow> 'p \<Rightarrow> u32"
    and put :: "'s \<Rightarrow> 'p \<Rightarrow> u32 \<Rightarrow> 's"
    and clip :: "'p \<Rightarrow> u32 \<Rightarrow> u32"
  assumes ok_put: "ok s \<Longrightarrow> ok (put s q v)"
    and get_put_same: "ok s \<Longrightarrow> get (put s q v) q = clip q v"
    and get_put_other: "ok s \<Longrightarrow> q \<noteq> r \<Longrightarrow> get (put s q v) r = get s r"
    and clip_get: "ok s \<Longrightarrow> clip q (get s q) = get s q"
begin

text \<open>A run of writes, and the abstract store it acts on: one cell per parameter.\<close>

definition puts :: "'s \<Rightarrow> ('p \<times> u32) list \<Rightarrow> 's" where
  "puts s ws = foldl (\<lambda>s (q, v). put s q v) s ws"

definition cells :: "('p \<Rightarrow> u32) \<Rightarrow> ('p \<times> u32) list \<Rightarrow> 'p \<Rightarrow> u32" where
  "cells f ws = foldl (\<lambda>f (q, v). f(q := clip q v)) f ws"

lemma puts_Nil [simp]: "puts s [] = s"
  and puts_Cons [simp]: "puts s ((q, v) # ws) = puts (put s q v) ws"
  by (simp_all add: puts_def)

lemma cells_Nil [simp]: "cells f [] = f"
  and cells_Cons [simp]: "cells f ((q, v) # ws) = cells (f(q := clip q v)) ws"
  by (simp_all add: cells_def)

lemma get_put: "ok s \<Longrightarrow> get (put s q v) = (get s)(q := clip q v)"
  by (rule ext) (simp add: get_put_same get_put_other)

lemma ok_puts: "ok s \<Longrightarrow> ok (puts s ws)"
  by (induction ws arbitrary: s) (auto simp: ok_put)

text \<open>Reads after a run of writes see exactly the abstract cells.\<close>

lemma get_puts: "ok s \<Longrightarrow> get (puts s ws) = cells (get s) ws"
  by (induction ws arbitrary: s) (auto simp: ok_put get_put)

lemma cells_other: "r \<notin> fst ` set ws \<Longrightarrow> cells f ws r = f r"
  by (induction ws arbitrary: f) auto

lemma cells_last: "cells f (ws @ [(q, v)]) q = clip q v"
  by (simp add: cells_def)

lemma clip_clip: "ok s \<Longrightarrow> clip q (clip q v) = clip q v"
  using clip_get [OF ok_put, of s q q v] by (simp add: get_put_same)

lemma put_commute: "ok s \<Longrightarrow> q \<noteq> r \<Longrightarrow> get (put (put s q v) r w) = get (put (put s r w) q v)"
  by (auto simp: get_put ok_put fun_upd_twist)

lemma put_get: "ok s \<Longrightarrow> get (put s q (get s q)) = get s"
  by (simp add: get_put clip_get)

end

end
