(* ===== verification/Nvstorage.thy ===== *)
theory Nvstorage
  imports Vb2_Context Crc8 Nv_Spec
begin

text \<open>
  Non-volatile storage, \<^verbatim>\<open>firmware/2lib/2nvstorage.c\<close>: sixteen bytes, a header with a signature, bit
  fields for the boot parameters and a CRC-8 in the last byte.  After the code come its contract as
  a locale (what a read returns after a write, what every write keeps) and the interpretation that
  discharges the contract for the code.
\<close>

section \<open>Layout (\<^verbatim>\<open>2nvstorage_fields.h\<close>)\<close>

abbreviation (input) VB2_NV_OFFS_HEADER :: nat where "VB2_NV_OFFS_HEADER \<equiv> 0"
abbreviation (input) VB2_NV_OFFS_BOOT :: nat where "VB2_NV_OFFS_BOOT \<equiv> 1"
abbreviation (input) VB2_NV_OFFS_RECOVERY :: nat where "VB2_NV_OFFS_RECOVERY \<equiv> 2"
abbreviation (input) VB2_NV_OFFS_LOCALIZATION :: nat where "VB2_NV_OFFS_LOCALIZATION \<equiv> 3"
abbreviation (input) VB2_NV_OFFS_DEV :: nat where "VB2_NV_OFFS_DEV \<equiv> 4"
abbreviation (input) VB2_NV_OFFS_TPM :: nat where "VB2_NV_OFFS_TPM \<equiv> 5"
abbreviation (input) VB2_NV_OFFS_RECOVERY_SUBCODE :: nat where "VB2_NV_OFFS_RECOVERY_SUBCODE \<equiv> 6"
abbreviation (input) VB2_NV_OFFS_BOOT2 :: nat where "VB2_NV_OFFS_BOOT2 \<equiv> 7"
abbreviation (input) VB2_NV_OFFS_MISC :: nat where "VB2_NV_OFFS_MISC \<equiv> 8"
abbreviation (input) VB2_NV_OFFS_KERNEL :: nat where "VB2_NV_OFFS_KERNEL \<equiv> 11"
abbreviation (input) VB2_NV_OFFS_CRC :: nat where "VB2_NV_OFFS_CRC \<equiv> 15"

abbreviation (input) VB2_NV_HEADER_WIPEOUT :: u8 where "VB2_NV_HEADER_WIPEOUT \<equiv> 0x08"
abbreviation (input) VB2_NV_HEADER_KERNEL_SETTINGS_RESET :: u8 where "VB2_NV_HEADER_KERNEL_SETTINGS_RESET \<equiv> 0x10"
abbreviation (input) VB2_NV_HEADER_FW_SETTINGS_RESET :: u8 where "VB2_NV_HEADER_FW_SETTINGS_RESET \<equiv> 0x20"
abbreviation (input) VB2_NV_HEADER_SIGNATURE :: u8 where "VB2_NV_HEADER_SIGNATURE \<equiv> 0x40"
abbreviation (input) VB2_NV_HEADER_MASK :: u8 where "VB2_NV_HEADER_MASK \<equiv> 0xc0"
abbreviation (input) VB2_NV_BOOT_TRY_COUNT_MASK :: u8 where "VB2_NV_BOOT_TRY_COUNT_MASK \<equiv> 0x0f"
abbreviation (input) VB2_NV_BOOT_BACKUP_NVRAM :: u8 where "VB2_NV_BOOT_BACKUP_NVRAM \<equiv> 0x10"
abbreviation (input) VB2_NV_BOOT_OPROM_NEEDED :: u8 where "VB2_NV_BOOT_OPROM_NEEDED \<equiv> 0x20"
abbreviation (input) VB2_NV_BOOT_DISABLE_DEV :: u8 where "VB2_NV_BOOT_DISABLE_DEV \<equiv> 0x40"
abbreviation (input) VB2_NV_BOOT_DEBUG_RESET :: u8 where "VB2_NV_BOOT_DEBUG_RESET \<equiv> 0x80"
abbreviation (input) VB2_NV_BOOT2_RESULT_MASK :: u8 where "VB2_NV_BOOT2_RESULT_MASK \<equiv> 0x03"
abbreviation (input) VB2_NV_BOOT2_TRIED :: u8 where "VB2_NV_BOOT2_TRIED \<equiv> 0x04"
abbreviation (input) VB2_NV_BOOT2_TRY_NEXT :: u8 where "VB2_NV_BOOT2_TRY_NEXT \<equiv> 0x08"
abbreviation (input) VB2_NV_BOOT2_PREV_RESULT_MASK :: u8 where "VB2_NV_BOOT2_PREV_RESULT_MASK \<equiv> 0x30"
abbreviation (input) VB2_NV_BOOT2_PREV_TRIED :: u8 where "VB2_NV_BOOT2_PREV_TRIED \<equiv> 0x40"
abbreviation (input) VB2_NV_DEV_FLAG_USB :: u8 where "VB2_NV_DEV_FLAG_USB \<equiv> 0x01"
abbreviation (input) VB2_NV_DEV_FLAG_SIGNED_ONLY :: u8 where "VB2_NV_DEV_FLAG_SIGNED_ONLY \<equiv> 0x02"
abbreviation (input) VB2_NV_DEV_FLAG_LEGACY :: u8 where "VB2_NV_DEV_FLAG_LEGACY \<equiv> 0x04"
abbreviation (input) VB2_NV_DEV_FLAG_FASTBOOT_FULL_CAP :: u8 where "VB2_NV_DEV_FLAG_FASTBOOT_FULL_CAP \<equiv> 0x08"
abbreviation (input) VB2_NV_DEV_FLAG_DEFAULT_BOOT :: u8 where "VB2_NV_DEV_FLAG_DEFAULT_BOOT \<equiv> 0x30"
abbreviation (input) VB2_NV_TPM_CLEAR_OWNER_REQUEST :: u8 where "VB2_NV_TPM_CLEAR_OWNER_REQUEST \<equiv> 0x01"
abbreviation (input) VB2_NV_TPM_CLEAR_OWNER_DONE :: u8 where "VB2_NV_TPM_CLEAR_OWNER_DONE \<equiv> 0x02"
abbreviation (input) VB2_NV_TPM_REBOOTED :: u8 where "VB2_NV_TPM_REBOOTED \<equiv> 0x04"
abbreviation (input) VB2_NV_MISC_UNLOCK_FASTBOOT :: u8 where "VB2_NV_MISC_UNLOCK_FASTBOOT \<equiv> 0x01"
abbreviation (input) VB2_NV_MISC_BOOT_ON_AC_DETECT :: u8 where "VB2_NV_MISC_BOOT_ON_AC_DETECT \<equiv> 0x02"
abbreviation (input) VB2_NV_MISC_TRY_RO_SYNC :: u8 where "VB2_NV_MISC_TRY_RO_SYNC \<equiv> 0x04"

abbreviation (input) VB2_NV_BOOT2_PREV_RESULT_SHIFT :: nat where "VB2_NV_BOOT2_PREV_RESULT_SHIFT \<equiv> 4"
abbreviation (input) VB2_NV_DEV_DEFAULT_BOOT_SHIFT :: nat where "VB2_NV_DEV_DEFAULT_BOOT_SHIFT \<equiv> 4"

abbreviation (input) VB2_DEV_DEFAULT_BOOT_DISK :: u32 where "VB2_DEV_DEFAULT_BOOT_DISK \<equiv> 0"
abbreviation (input) VB2_FW_RESULT_UNKNOWN :: u32 where "VB2_FW_RESULT_UNKNOWN \<equiv> 0"
abbreviation (input) VB2_FW_RESULT_TRYING :: u32 where "VB2_FW_RESULT_TRYING \<equiv> 1"
abbreviation (input) VB2_FW_RESULT_SUCCESS :: u32 where "VB2_FW_RESULT_SUCCESS \<equiv> 2"
abbreviation (input) VB2_FW_RESULT_FAILURE :: u32 where "VB2_FW_RESULT_FAILURE \<equiv> 3"

datatype vb2_nv_param =
    VB2_NV_FIRMWARE_SETTINGS_RESET
  | VB2_NV_KERNEL_SETTINGS_RESET
  | VB2_NV_DEBUG_RESET_MODE
  | VB2_NV_TRY_NEXT
  | VB2_NV_TRY_COUNT
  | VB2_NV_RECOVERY_REQUEST
  | VB2_NV_LOCALIZATION_INDEX
  | VB2_NV_KERNEL_FIELD
  | VB2_NV_DEV_BOOT_USB
  | VB2_NV_DEV_BOOT_LEGACY
  | VB2_NV_DEV_BOOT_SIGNED_ONLY
  | VB2_NV_DEV_BOOT_FASTBOOT_FULL_CAP
  | VB2_NV_DEV_DEFAULT_BOOT
  | VB2_NV_DISABLE_DEV_REQUEST
  | VB2_NV_OPROM_NEEDED
  | VB2_NV_CLEAR_TPM_OWNER_REQUEST
  | VB2_NV_CLEAR_TPM_OWNER_DONE
  | VB2_NV_TPM_REQUESTED_REBOOT
  | VB2_NV_RECOVERY_SUBCODE
  | VB2_NV_BACKUP_NVRAM_REQUEST
  | VB2_NV_FW_TRIED
  | VB2_NV_FW_RESULT
  | VB2_NV_FW_PREV_TRIED
  | VB2_NV_FW_PREV_RESULT
  | VB2_NV_REQ_WIPEOUT
  | VB2_NV_FASTBOOT_UNLOCK_IN_FW
  | VB2_NV_BOOT_ON_AC_DETECT
  | VB2_NV_TRY_RO_SYNC

section \<open>The code\<close>

definition vb2_nv_regen_crc :: "vb2_context \<Rightarrow> vb2_context" where
  "vb2_nv_regen_crc ctx =
     ctx\<lparr>nvdata := (nvdata ctx)[VB2_NV_OFFS_CRC := vb2_crc8 (nvdata ctx) VB2_NV_OFFS_CRC],
         ctx_flags := ctx_flags ctx OR VB2_CONTEXT_NVDATA_CHANGED\<rparr>"

definition vb2_nv_check_crc :: "vb2_context \<Rightarrow> u32" where
  "vb2_nv_check_crc ctx =
     (let p = nvdata ctx in
      if VB2_NV_HEADER_SIGNATURE \<noteq> p ! VB2_NV_OFFS_HEADER AND VB2_NV_HEADER_MASK
      then VB2_ERROR_NV_HEADER
      else if vb2_crc8 p VB2_NV_OFFS_CRC \<noteq> p ! VB2_NV_OFFS_CRC then VB2_ERROR_NV_CRC
      else VB2_SUCCESS)"

definition vb2_nv_init :: "vb2_context \<Rightarrow> vb2_context" where
  "vb2_nv_init ctx =
     (let ctx =
        (if vb2_nv_check_crc ctx \<noteq> VB2_SUCCESS then
           let p = (replicate VB2_NVDATA_SIZE 0)
                 [VB2_NV_OFFS_HEADER := VB2_NV_HEADER_SIGNATURE OR VB2_NV_HEADER_FW_SETTINGS_RESET OR
                                        VB2_NV_HEADER_KERNEL_SETTINGS_RESET];
               ctx = vb2_nv_regen_crc (ctx\<lparr>nvdata := p\<rparr>)
           in upd_sd (\<lambda>d. d\<lparr>sd_status := sd_status d OR VB2_SD_STATUS_NV_REINIT\<rparr>) ctx
         else ctx)
      in upd_sd (\<lambda>d. d\<lparr>sd_status := sd_status d OR VB2_SD_STATUS_NV_INIT\<rparr>) ctx)"

text \<open>The macros \<^verbatim>\<open>GETBIT\<close> and \<^verbatim>\<open>SETBIT\<close>, and the two-statement field update of \<^verbatim>\<open>vb2_nv_set()\<close>.\<close>

definition GETBIT :: "bytes \<Rightarrow> nat \<Rightarrow> u8 \<Rightarrow> u32" where
  "GETBIT p offs m = (if p ! offs AND m \<noteq> 0 then 1 else 0)"

definition SETBIT :: "bytes \<Rightarrow> nat \<Rightarrow> u8 \<Rightarrow> u32 \<Rightarrow> bytes" where
  "SETBIT p offs m value =
     p[offs := (if value \<noteq> 0 then p ! offs OR m else p ! offs AND NOT m)]"

definition SETFIELD :: "bytes \<Rightarrow> nat \<Rightarrow> u8 \<Rightarrow> u8 \<Rightarrow> bytes" where
  "SETFIELD p offs m v = p[offs := (p ! offs AND NOT m) OR v]"

text \<open>
  An enumerator outside the list, which the C switch maps to 0 on a read and ignores on a write,
  is not a value of the datatype.
\<close>

fun vb2_nv_get :: "vb2_context \<Rightarrow> vb2_nv_param \<Rightarrow> u32" where
  "vb2_nv_get ctx VB2_NV_FIRMWARE_SETTINGS_RESET =
     GETBIT (nvdata ctx) VB2_NV_OFFS_HEADER VB2_NV_HEADER_FW_SETTINGS_RESET"
| "vb2_nv_get ctx VB2_NV_KERNEL_SETTINGS_RESET =
     GETBIT (nvdata ctx) VB2_NV_OFFS_HEADER VB2_NV_HEADER_KERNEL_SETTINGS_RESET"
| "vb2_nv_get ctx VB2_NV_DEBUG_RESET_MODE =
     GETBIT (nvdata ctx) VB2_NV_OFFS_BOOT VB2_NV_BOOT_DEBUG_RESET"
| "vb2_nv_get ctx VB2_NV_TRY_NEXT =
     GETBIT (nvdata ctx) VB2_NV_OFFS_BOOT2 VB2_NV_BOOT2_TRY_NEXT"
| "vb2_nv_get ctx VB2_NV_TRY_COUNT =
     ucast (nvdata ctx ! VB2_NV_OFFS_BOOT AND VB2_NV_BOOT_TRY_COUNT_MASK)"
| "vb2_nv_get ctx VB2_NV_FW_TRIED =
     GETBIT (nvdata ctx) VB2_NV_OFFS_BOOT2 VB2_NV_BOOT2_TRIED"
| "vb2_nv_get ctx VB2_NV_FW_RESULT =
     ucast (nvdata ctx ! VB2_NV_OFFS_BOOT2 AND VB2_NV_BOOT2_RESULT_MASK)"
| "vb2_nv_get ctx VB2_NV_FW_PREV_TRIED =
     GETBIT (nvdata ctx) VB2_NV_OFFS_BOOT2 VB2_NV_BOOT2_PREV_TRIED"
| "vb2_nv_get ctx VB2_NV_FW_PREV_RESULT =
     shr (ucast (nvdata ctx ! VB2_NV_OFFS_BOOT2 AND VB2_NV_BOOT2_PREV_RESULT_MASK)) VB2_NV_BOOT2_PREV_RESULT_SHIFT"
| "vb2_nv_get ctx VB2_NV_RECOVERY_REQUEST =
     ucast (nvdata ctx ! VB2_NV_OFFS_RECOVERY)"
| "vb2_nv_get ctx VB2_NV_RECOVERY_SUBCODE =
     ucast (nvdata ctx ! VB2_NV_OFFS_RECOVERY_SUBCODE)"
| "vb2_nv_get ctx VB2_NV_LOCALIZATION_INDEX =
     ucast (nvdata ctx ! VB2_NV_OFFS_LOCALIZATION)"
| "vb2_nv_get ctx VB2_NV_KERNEL_FIELD =
     rd32 (nvdata ctx) VB2_NV_OFFS_KERNEL"
| "vb2_nv_get ctx VB2_NV_DEV_BOOT_USB =
     GETBIT (nvdata ctx) VB2_NV_OFFS_DEV VB2_NV_DEV_FLAG_USB"
| "vb2_nv_get ctx VB2_NV_DEV_BOOT_LEGACY =
     GETBIT (nvdata ctx) VB2_NV_OFFS_DEV VB2_NV_DEV_FLAG_LEGACY"
| "vb2_nv_get ctx VB2_NV_DEV_BOOT_SIGNED_ONLY =
     GETBIT (nvdata ctx) VB2_NV_OFFS_DEV VB2_NV_DEV_FLAG_SIGNED_ONLY"
| "vb2_nv_get ctx VB2_NV_DEV_BOOT_FASTBOOT_FULL_CAP =
     GETBIT (nvdata ctx) VB2_NV_OFFS_DEV VB2_NV_DEV_FLAG_FASTBOOT_FULL_CAP"
| "vb2_nv_get ctx VB2_NV_DEV_DEFAULT_BOOT =
     shr (ucast (nvdata ctx ! VB2_NV_OFFS_DEV AND VB2_NV_DEV_FLAG_DEFAULT_BOOT)) VB2_NV_DEV_DEFAULT_BOOT_SHIFT"
| "vb2_nv_get ctx VB2_NV_DISABLE_DEV_REQUEST =
     GETBIT (nvdata ctx) VB2_NV_OFFS_BOOT VB2_NV_BOOT_DISABLE_DEV"
| "vb2_nv_get ctx VB2_NV_OPROM_NEEDED =
     GETBIT (nvdata ctx) VB2_NV_OFFS_BOOT VB2_NV_BOOT_OPROM_NEEDED"
| "vb2_nv_get ctx VB2_NV_BACKUP_NVRAM_REQUEST =
     GETBIT (nvdata ctx) VB2_NV_OFFS_BOOT VB2_NV_BOOT_BACKUP_NVRAM"
| "vb2_nv_get ctx VB2_NV_CLEAR_TPM_OWNER_REQUEST =
     GETBIT (nvdata ctx) VB2_NV_OFFS_TPM VB2_NV_TPM_CLEAR_OWNER_REQUEST"
| "vb2_nv_get ctx VB2_NV_CLEAR_TPM_OWNER_DONE =
     GETBIT (nvdata ctx) VB2_NV_OFFS_TPM VB2_NV_TPM_CLEAR_OWNER_DONE"
| "vb2_nv_get ctx VB2_NV_TPM_REQUESTED_REBOOT =
     GETBIT (nvdata ctx) VB2_NV_OFFS_TPM VB2_NV_TPM_REBOOTED"
| "vb2_nv_get ctx VB2_NV_REQ_WIPEOUT =
     GETBIT (nvdata ctx) VB2_NV_OFFS_HEADER VB2_NV_HEADER_WIPEOUT"
| "vb2_nv_get ctx VB2_NV_FASTBOOT_UNLOCK_IN_FW =
     GETBIT (nvdata ctx) VB2_NV_OFFS_MISC VB2_NV_MISC_UNLOCK_FASTBOOT"
| "vb2_nv_get ctx VB2_NV_BOOT_ON_AC_DETECT =
     GETBIT (nvdata ctx) VB2_NV_OFFS_MISC VB2_NV_MISC_BOOT_ON_AC_DETECT"
| "vb2_nv_get ctx VB2_NV_TRY_RO_SYNC =
     GETBIT (nvdata ctx) VB2_NV_OFFS_MISC VB2_NV_MISC_TRY_RO_SYNC"

text \<open>The switch of \<^verbatim>\<open>vb2_nv_set()\<close>, on the array.\<close>

fun nv_store :: "bytes \<Rightarrow> vb2_nv_param \<Rightarrow> u32 \<Rightarrow> bytes" where
  "nv_store p VB2_NV_FIRMWARE_SETTINGS_RESET value =
     SETBIT p VB2_NV_OFFS_HEADER VB2_NV_HEADER_FW_SETTINGS_RESET value"
| "nv_store p VB2_NV_KERNEL_SETTINGS_RESET value =
     SETBIT p VB2_NV_OFFS_HEADER VB2_NV_HEADER_KERNEL_SETTINGS_RESET value"
| "nv_store p VB2_NV_DEBUG_RESET_MODE value =
     SETBIT p VB2_NV_OFFS_BOOT VB2_NV_BOOT_DEBUG_RESET value"
| "nv_store p VB2_NV_TRY_NEXT value =
     SETBIT p VB2_NV_OFFS_BOOT2 VB2_NV_BOOT2_TRY_NEXT value"
| "nv_store p VB2_NV_TRY_COUNT value =
     (let value = (if value > ucast VB2_NV_BOOT_TRY_COUNT_MASK then ucast VB2_NV_BOOT_TRY_COUNT_MASK else value)
      in SETFIELD p VB2_NV_OFFS_BOOT VB2_NV_BOOT_TRY_COUNT_MASK (ucast value))"
| "nv_store p VB2_NV_FW_TRIED value =
     SETBIT p VB2_NV_OFFS_BOOT2 VB2_NV_BOOT2_TRIED value"
| "nv_store p VB2_NV_FW_RESULT value =
     (let value = (if value > ucast VB2_NV_BOOT2_RESULT_MASK then VB2_FW_RESULT_UNKNOWN else value)
      in SETFIELD p VB2_NV_OFFS_BOOT2 VB2_NV_BOOT2_RESULT_MASK (ucast value))"
| "nv_store p VB2_NV_FW_PREV_TRIED value =
     SETBIT p VB2_NV_OFFS_BOOT2 VB2_NV_BOOT2_PREV_TRIED value"
| "nv_store p VB2_NV_FW_PREV_RESULT value =
     (let value = (if value > ucast VB2_NV_BOOT2_RESULT_MASK then VB2_FW_RESULT_UNKNOWN else value)
      in SETFIELD p VB2_NV_OFFS_BOOT2 VB2_NV_BOOT2_PREV_RESULT_MASK
           (ucast (shl value VB2_NV_BOOT2_PREV_RESULT_SHIFT)))"
| "nv_store p VB2_NV_RECOVERY_REQUEST value =
     (let value = (if value > 0xff then VB2_RECOVERY_LEGACY else value)
      in p[VB2_NV_OFFS_RECOVERY := ucast value])"
| "nv_store p VB2_NV_RECOVERY_SUBCODE value =
     p[VB2_NV_OFFS_RECOVERY_SUBCODE := ucast value]"
| "nv_store p VB2_NV_LOCALIZATION_INDEX value =
     (let value = (if value > 0xff then 0 else value)
      in p[VB2_NV_OFFS_LOCALIZATION := ucast value])"
| "nv_store p VB2_NV_KERNEL_FIELD value =
     wr32 p VB2_NV_OFFS_KERNEL value"
| "nv_store p VB2_NV_DEV_BOOT_USB value =
     SETBIT p VB2_NV_OFFS_DEV VB2_NV_DEV_FLAG_USB value"
| "nv_store p VB2_NV_DEV_BOOT_LEGACY value =
     SETBIT p VB2_NV_OFFS_DEV VB2_NV_DEV_FLAG_LEGACY value"
| "nv_store p VB2_NV_DEV_BOOT_SIGNED_ONLY value =
     SETBIT p VB2_NV_OFFS_DEV VB2_NV_DEV_FLAG_SIGNED_ONLY value"
| "nv_store p VB2_NV_DEV_BOOT_FASTBOOT_FULL_CAP value =
     SETBIT p VB2_NV_OFFS_DEV VB2_NV_DEV_FLAG_FASTBOOT_FULL_CAP value"
| "nv_store p VB2_NV_DEV_DEFAULT_BOOT value =
     (let value = (if value > ucast (shr VB2_NV_DEV_FLAG_DEFAULT_BOOT VB2_NV_DEV_DEFAULT_BOOT_SHIFT)
                   then VB2_DEV_DEFAULT_BOOT_DISK else value)
      in SETFIELD p VB2_NV_OFFS_DEV VB2_NV_DEV_FLAG_DEFAULT_BOOT
           (ucast (shl value VB2_NV_DEV_DEFAULT_BOOT_SHIFT)))"
| "nv_store p VB2_NV_DISABLE_DEV_REQUEST value =
     SETBIT p VB2_NV_OFFS_BOOT VB2_NV_BOOT_DISABLE_DEV value"
| "nv_store p VB2_NV_OPROM_NEEDED value =
     SETBIT p VB2_NV_OFFS_BOOT VB2_NV_BOOT_OPROM_NEEDED value"
| "nv_store p VB2_NV_BACKUP_NVRAM_REQUEST value =
     SETBIT p VB2_NV_OFFS_BOOT VB2_NV_BOOT_BACKUP_NVRAM value"
| "nv_store p VB2_NV_CLEAR_TPM_OWNER_REQUEST value =
     SETBIT p VB2_NV_OFFS_TPM VB2_NV_TPM_CLEAR_OWNER_REQUEST value"
| "nv_store p VB2_NV_CLEAR_TPM_OWNER_DONE value =
     SETBIT p VB2_NV_OFFS_TPM VB2_NV_TPM_CLEAR_OWNER_DONE value"
| "nv_store p VB2_NV_TPM_REQUESTED_REBOOT value =
     SETBIT p VB2_NV_OFFS_TPM VB2_NV_TPM_REBOOTED value"
| "nv_store p VB2_NV_REQ_WIPEOUT value =
     SETBIT p VB2_NV_OFFS_HEADER VB2_NV_HEADER_WIPEOUT value"
| "nv_store p VB2_NV_FASTBOOT_UNLOCK_IN_FW value =
     SETBIT p VB2_NV_OFFS_MISC VB2_NV_MISC_UNLOCK_FASTBOOT value"
| "nv_store p VB2_NV_BOOT_ON_AC_DETECT value =
     SETBIT p VB2_NV_OFFS_MISC VB2_NV_MISC_BOOT_ON_AC_DETECT value"
| "nv_store p VB2_NV_TRY_RO_SYNC value =
     SETBIT p VB2_NV_OFFS_MISC VB2_NV_MISC_TRY_RO_SYNC value"

definition vb2_nv_set :: "vb2_context \<Rightarrow> vb2_nv_param \<Rightarrow> u32 \<Rightarrow> vb2_context" where
  "vb2_nv_set ctx param value =
     (if vb2_nv_get ctx param = value then ctx
      else vb2_nv_regen_crc (ctx\<lparr>nvdata := nv_store (nvdata ctx) param value\<rparr>))"

section \<open>Which bits belong to which parameter\<close>

text \<open>
  Every parameter owns a set of bits of the array, and no two parameters share one.  A read depends
  on the parameter's own bits only and a write changes no other bit; what a write leaves there is
  the value clipped to the range of the parameter.
\<close>

fun nv_mask :: "vb2_nv_param \<Rightarrow> nat \<Rightarrow> u8" where
  "nv_mask VB2_NV_FIRMWARE_SETTINGS_RESET = (\<lambda>i. if i = VB2_NV_OFFS_HEADER then VB2_NV_HEADER_FW_SETTINGS_RESET else 0)"
| "nv_mask VB2_NV_KERNEL_SETTINGS_RESET = (\<lambda>i. if i = VB2_NV_OFFS_HEADER then VB2_NV_HEADER_KERNEL_SETTINGS_RESET else 0)"
| "nv_mask VB2_NV_DEBUG_RESET_MODE = (\<lambda>i. if i = VB2_NV_OFFS_BOOT then VB2_NV_BOOT_DEBUG_RESET else 0)"
| "nv_mask VB2_NV_TRY_NEXT = (\<lambda>i. if i = VB2_NV_OFFS_BOOT2 then VB2_NV_BOOT2_TRY_NEXT else 0)"
| "nv_mask VB2_NV_TRY_COUNT = (\<lambda>i. if i = VB2_NV_OFFS_BOOT then VB2_NV_BOOT_TRY_COUNT_MASK else 0)"
| "nv_mask VB2_NV_FW_TRIED = (\<lambda>i. if i = VB2_NV_OFFS_BOOT2 then VB2_NV_BOOT2_TRIED else 0)"
| "nv_mask VB2_NV_FW_RESULT = (\<lambda>i. if i = VB2_NV_OFFS_BOOT2 then VB2_NV_BOOT2_RESULT_MASK else 0)"
| "nv_mask VB2_NV_FW_PREV_TRIED = (\<lambda>i. if i = VB2_NV_OFFS_BOOT2 then VB2_NV_BOOT2_PREV_TRIED else 0)"
| "nv_mask VB2_NV_FW_PREV_RESULT = (\<lambda>i. if i = VB2_NV_OFFS_BOOT2 then VB2_NV_BOOT2_PREV_RESULT_MASK else 0)"
| "nv_mask VB2_NV_RECOVERY_REQUEST = (\<lambda>i. if i = VB2_NV_OFFS_RECOVERY then 0xff else 0)"
| "nv_mask VB2_NV_RECOVERY_SUBCODE = (\<lambda>i. if i = VB2_NV_OFFS_RECOVERY_SUBCODE then 0xff else 0)"
| "nv_mask VB2_NV_LOCALIZATION_INDEX = (\<lambda>i. if i = VB2_NV_OFFS_LOCALIZATION then 0xff else 0)"
| "nv_mask VB2_NV_KERNEL_FIELD = (\<lambda>i. if VB2_NV_OFFS_KERNEL \<le> i \<and> i \<le> VB2_NV_OFFS_KERNEL + 3 then 0xff else 0)"
| "nv_mask VB2_NV_DEV_BOOT_USB = (\<lambda>i. if i = VB2_NV_OFFS_DEV then VB2_NV_DEV_FLAG_USB else 0)"
| "nv_mask VB2_NV_DEV_BOOT_LEGACY = (\<lambda>i. if i = VB2_NV_OFFS_DEV then VB2_NV_DEV_FLAG_LEGACY else 0)"
| "nv_mask VB2_NV_DEV_BOOT_SIGNED_ONLY = (\<lambda>i. if i = VB2_NV_OFFS_DEV then VB2_NV_DEV_FLAG_SIGNED_ONLY else 0)"
| "nv_mask VB2_NV_DEV_BOOT_FASTBOOT_FULL_CAP = (\<lambda>i. if i = VB2_NV_OFFS_DEV then VB2_NV_DEV_FLAG_FASTBOOT_FULL_CAP else 0)"
| "nv_mask VB2_NV_DEV_DEFAULT_BOOT = (\<lambda>i. if i = VB2_NV_OFFS_DEV then VB2_NV_DEV_FLAG_DEFAULT_BOOT else 0)"
| "nv_mask VB2_NV_DISABLE_DEV_REQUEST = (\<lambda>i. if i = VB2_NV_OFFS_BOOT then VB2_NV_BOOT_DISABLE_DEV else 0)"
| "nv_mask VB2_NV_OPROM_NEEDED = (\<lambda>i. if i = VB2_NV_OFFS_BOOT then VB2_NV_BOOT_OPROM_NEEDED else 0)"
| "nv_mask VB2_NV_BACKUP_NVRAM_REQUEST = (\<lambda>i. if i = VB2_NV_OFFS_BOOT then VB2_NV_BOOT_BACKUP_NVRAM else 0)"
| "nv_mask VB2_NV_CLEAR_TPM_OWNER_REQUEST = (\<lambda>i. if i = VB2_NV_OFFS_TPM then VB2_NV_TPM_CLEAR_OWNER_REQUEST else 0)"
| "nv_mask VB2_NV_CLEAR_TPM_OWNER_DONE = (\<lambda>i. if i = VB2_NV_OFFS_TPM then VB2_NV_TPM_CLEAR_OWNER_DONE else 0)"
| "nv_mask VB2_NV_TPM_REQUESTED_REBOOT = (\<lambda>i. if i = VB2_NV_OFFS_TPM then VB2_NV_TPM_REBOOTED else 0)"
| "nv_mask VB2_NV_REQ_WIPEOUT = (\<lambda>i. if i = VB2_NV_OFFS_HEADER then VB2_NV_HEADER_WIPEOUT else 0)"
| "nv_mask VB2_NV_FASTBOOT_UNLOCK_IN_FW = (\<lambda>i. if i = VB2_NV_OFFS_MISC then VB2_NV_MISC_UNLOCK_FASTBOOT else 0)"
| "nv_mask VB2_NV_BOOT_ON_AC_DETECT = (\<lambda>i. if i = VB2_NV_OFFS_MISC then VB2_NV_MISC_BOOT_ON_AC_DETECT else 0)"
| "nv_mask VB2_NV_TRY_RO_SYNC = (\<lambda>i. if i = VB2_NV_OFFS_MISC then VB2_NV_MISC_TRY_RO_SYNC else 0)"

fun nv_clip :: "vb2_nv_param \<Rightarrow> u32 \<Rightarrow> u32" where
  "nv_clip VB2_NV_TRY_COUNT v = (if v > 15 then 15 else v)"
| "nv_clip VB2_NV_FW_RESULT v = (if v > 3 then VB2_FW_RESULT_UNKNOWN else v)"
| "nv_clip VB2_NV_FW_PREV_RESULT v = (if v > 3 then VB2_FW_RESULT_UNKNOWN else v)"
| "nv_clip VB2_NV_RECOVERY_REQUEST v = (if v > 255 then VB2_RECOVERY_LEGACY else v)"
| "nv_clip VB2_NV_RECOVERY_SUBCODE v = v AND 255"
| "nv_clip VB2_NV_LOCALIZATION_INDEX v = (if v > 255 then 0 else v)"
| "nv_clip VB2_NV_KERNEL_FIELD v = v"
| "nv_clip VB2_NV_DEV_DEFAULT_BOOT v = (if v > 3 then VB2_DEV_DEFAULT_BOOT_DISK else v)"
| "nv_clip _ v = (if v \<noteq> 0 then 1 else 0)"

lemma nv_mask_disjoint: "q \<noteq> r \<Longrightarrow> nv_mask q i AND nv_mask r i = 0"
  by (cases q; cases r; simp)

lemma nv_mask_range: "bit (nv_mask q i) k \<Longrightarrow> i < VB2_NV_OFFS_CRC"
  by (cases q) (simp_all split: if_splits)

lemma nv_mask_header: "nv_mask q 0 AND 0xc0 = 0"
  by (cases q) simp_all

lemma length_nv_store [simp]: "length (nv_store p q v) = length p"
  by (cases q) (simp_all add: SETBIT_def SETFIELD_def Let_def)

lemma vb2_nv_get_mask:
  assumes "\<And>i k. bit (nv_mask q i) k \<Longrightarrow> bit (nvdata a ! i) k \<longleftrightarrow> bit (nvdata b ! i) k"
  shows "vb2_nv_get a q = vb2_nv_get b q"
proof -
  have m: "nvdata a ! i AND nv_mask q i = nvdata b ! i AND nv_mask q i" for i
    using assms [of i] by (auto simp: bit_eq_iff [where 'a = u8] bit_simps)
  show ?thesis
    using m [of 0] m [of 1] m [of 2] m [of 3] m [of 4] m [of 5] m [of 6] m [of 7] m [of 8] m [of 11]
      m [of 12] m [of 13] m [of 14]
    by (cases q) (simp_all add: GETBIT_def rd32_def)
qed

lemma GETBIT_SETBIT:
  "offs < length p \<Longrightarrow> m \<noteq> 0 \<Longrightarrow> GETBIT (SETBIT p offs m v) offs m = (if v \<noteq> 0 then 1 else 0)"
  by (simp add: GETBIT_def SETBIT_def and.assoc bit.conj_disj_distrib2 or_eq_0_iff)

lemma SETFIELD_same:
  "offs < length p \<Longrightarrow> w AND m = w \<Longrightarrow> SETFIELD p offs m w ! offs AND m = w"
  by (simp add: SETFIELD_def and.assoc bit.conj_disj_distrib2)

lemma field_values:
  "\<not> 15 < (v::u32) \<Longrightarrow> ucast v AND 15 = (ucast v :: u8)"
  "\<not> 3 < (v::u32) \<Longrightarrow> ucast v AND 3 = (ucast v :: u8)"
  "\<not> 3 < (v::u32) \<Longrightarrow> ucast (shl v 4) AND 0x30 = (ucast (shl v 4) :: u8)"
  by (simp_all add: u8_bitwise bit_simps low_bits)

lemma field_reads:
  "\<not> 15 < (v::u32) \<Longrightarrow> ucast (ucast v :: u8) = v"
  "\<not> 3 < (v::u32) \<Longrightarrow> ucast (ucast v :: u8) = v"
  "\<not> 255 < (v::u32) \<Longrightarrow> ucast (ucast v :: u8) = v"
  "\<not> 3 < (v::u32) \<Longrightarrow> shr (ucast (ucast (shl v 4) :: u8)) 4 = v"
  by (simp_all add: u32_bitwise bit_simps low_bits)

lemma subcode_read: "ucast (ucast (v::u32) :: u8) = v AND 0xff"
  by (simp add: u32_bitwise bit_simps)

lemma default_boot_max: "ucast (shr (0x30::u8) 4) = (3::u32)"
  by (simp add: u32_bitwise bit_simps)

lemma vb2_nv_get_store:
  "length p = VB2_NVDATA_SIZE \<Longrightarrow> vb2_nv_get (ctx\<lparr>nvdata := nv_store p q v\<rparr>) q = nv_clip q v"
  by (cases "q = VB2_NV_RECOVERY_SUBCODE", simp add: subcode_read, cases q)
    (simp_all add: GETBIT_SETBIT SETFIELD_same field_values field_reads default_boot_max)

lemma SETBIT_mask:
  "\<not> bit (if i = offs then m else 0) k \<Longrightarrow> k < 8 \<Longrightarrow> bit (SETBIT p offs m v ! i) k \<longleftrightarrow> bit (p ! i) k"
  by (cases "offs < length p"; cases "i = offs") (simp_all add: SETBIT_def bit_simps list_update_beyond)

lemma SETFIELD_mask:
  assumes "\<not> bit (if i = offs then m else 0) k" and "k < 8" and "w AND m = w"
  shows "bit (SETFIELD p offs m w ! i) k \<longleftrightarrow> bit (p ! i) k"
proof -
  have "i = offs \<Longrightarrow> \<not> bit w k" using assms by (metis bit_and_iff)
  with assms(1,2) show ?thesis
    by (cases "offs < length p"; cases "i = offs") (simp_all add: SETFIELD_def bit_simps list_update_beyond)
qed

lemma not_bit_ff: "\<not> bit (if P then 0xff else 0 :: u8) k \<Longrightarrow> k < 8 \<Longrightarrow> \<not> P"
proof -
  have "\<forall>k<8. bit (0xff::u8) k" unfolding all_less_8 by simp
  then show "\<not> bit (if P then 0xff else 0 :: u8) k \<Longrightarrow> k < 8 \<Longrightarrow> \<not> P" by auto
qed

lemma update_mask:
  "\<not> bit (if i = offs then 0xff else 0 :: u8) k \<Longrightarrow> k < 8 \<Longrightarrow> bit (p[offs := w] ! i) k \<longleftrightarrow> bit (p ! i) k"
  by (drule (1) not_bit_ff) simp

lemma wr32_mask:
  "\<not> bit (if offs \<le> i \<and> i \<le> offs + 3 then 0xff else 0 :: u8) k \<Longrightarrow> k < 8 \<Longrightarrow>
   bit (wr32 p offs w ! i) k \<longleftrightarrow> bit (p ! i) k"
  by (drule (1) not_bit_ff) auto

lemma nv_store_mask:
  assumes "\<not> bit (nv_mask q i) k" and "k < 8"
  shows "bit (nv_store p q v ! i) k \<longleftrightarrow> bit (p ! i) k"
  using assms
  by (cases q; simp only: nv_store.simps nv_mask.simps SETBIT_mask Let_def update_mask wr32_mask
        simp_thms)
    (simp_all add: SETFIELD_mask field_values default_boot_max)

declare vb2_nv_get.simps [simp del] nv_store.simps [simp del]

section \<open>Contract\<close>

text \<open>The invariant of the stored bytes: the length, and what \<^const>\<open>vb2_nv_check_crc\<close> accepts.\<close>

definition nv_ok :: "vb2_context \<Rightarrow> bool" where
  "nv_ok ctx \<longleftrightarrow> length (nvdata ctx) = VB2_NVDATA_SIZE \<and> vb2_nv_check_crc ctx = VB2_SUCCESS"

lemma vb2_nv_get_regen [simp]: "vb2_nv_get (vb2_nv_regen_crc ctx) q = vb2_nv_get ctx q"
proof (rule vb2_nv_get_mask)
  fix i k assume "bit (nv_mask q i) k"
  then have "i \<noteq> VB2_NV_OFFS_CRC" using nv_mask_range [of q i k] by simp
  then show "bit (nvdata (vb2_nv_regen_crc ctx) ! i) k \<longleftrightarrow> bit (nvdata ctx ! i) k"
    by (simp add: vb2_nv_regen_crc_def)
qed

lemma vb2_nv_check_regen:
  assumes "length (nvdata ctx) = VB2_NVDATA_SIZE"
    and "nvdata ctx ! VB2_NV_OFFS_HEADER AND VB2_NV_HEADER_MASK = VB2_NV_HEADER_SIGNATURE"
  shows "nv_ok (vb2_nv_regen_crc ctx)"
  using assms
  by (simp add: nv_ok_def vb2_nv_check_crc_def vb2_nv_regen_crc_def vb2_crc8_beyond Let_def)

lemma vb2_nv_check_crc_iff:
  "vb2_nv_check_crc ctx = VB2_SUCCESS \<longleftrightarrow>
   nvdata ctx ! VB2_NV_OFFS_HEADER AND VB2_NV_HEADER_MASK = VB2_NV_HEADER_SIGNATURE \<and>
   vb2_crc8 (nvdata ctx) VB2_NV_OFFS_CRC = nvdata ctx ! VB2_NV_OFFS_CRC"
  by (auto simp: vb2_nv_check_crc_def Let_def)

lemma nv_ok_header: "nv_ok ctx \<Longrightarrow> nvdata ctx ! VB2_NV_OFFS_HEADER AND VB2_NV_HEADER_MASK = VB2_NV_HEADER_SIGNATURE"
  by (simp add: nv_ok_def vb2_nv_check_crc_def Let_def split: if_splits)

lemma nv_store_header:
  "nv_store p q v ! VB2_NV_OFFS_HEADER AND VB2_NV_HEADER_MASK =
   p ! VB2_NV_OFFS_HEADER AND VB2_NV_HEADER_MASK"
proof -
  have "bit (0xc0::u8) k \<Longrightarrow> \<not> bit (nv_mask q 0) k" for k
    by (rule disjoint_bits [OF nv_mask_header])
  then show ?thesis
    by (auto simp: bit_eq_iff [where 'a = u8] bit_and_iff nv_store_mask)
qed

lemma nv_ok_set:
  assumes "nv_ok ctx"
  shows "nv_ok (vb2_nv_set ctx q v)"
proof (cases "vb2_nv_get ctx q = v")
  case False
  have "nv_ok (vb2_nv_regen_crc (ctx\<lparr>nvdata := nv_store (nvdata ctx) q v\<rparr>))"
    using assms nv_ok_header [OF assms] by (intro vb2_nv_check_regen) (simp_all add: nv_store_header nv_ok_def)
  with False show ?thesis by (simp add: vb2_nv_set_def)
qed (simp add: vb2_nv_set_def assms)

lemma vb2_nv_get_set_other:
  assumes "q \<noteq> r"
  shows "vb2_nv_get (vb2_nv_set ctx q v) r = vb2_nv_get ctx r"
proof -
  have "bit (nv_mask r i) k \<Longrightarrow> \<not> bit (nv_mask q i) k" for i k
    by (rule disjoint_bits [OF nv_mask_disjoint [OF assms]])
  then have "vb2_nv_get (ctx\<lparr>nvdata := nv_store (nvdata ctx) q v\<rparr>) r = vb2_nv_get ctx r"
    by (intro vb2_nv_get_mask) (simp add: nv_store_mask bit_imp_less_8)
  then show ?thesis by (simp add: vb2_nv_set_def)
qed

lemma field_bounds:
  "\<not> 15 < (ucast ((x::u8) AND 15) :: u32)"
  "\<not> 3 < (ucast ((x::u8) AND 3) :: u32)"
  "\<not> 255 < (ucast (x::u8) :: u32)"
  "\<not> 3 < shr (ucast ((x::u8) AND 48) :: u32) 4"
  using unat_and_le [of x 15] unat_and_le [of x 3] unat_and_le [of x 48] unat_u8_less [of x]
  by (simp_all add: word_less_nat_alt unat_shr)

lemma nv_clip_get: "nv_clip q (vb2_nv_get ctx q) = vb2_nv_get ctx q"
  by (cases q) (simp_all add: vb2_nv_get.simps GETBIT_def field_bounds)

lemma vb2_nv_get_set_same:
  assumes "length (nvdata ctx) = VB2_NVDATA_SIZE"
  shows "vb2_nv_get (vb2_nv_set ctx q v) q = nv_clip q v"
  using assms nv_clip_get [of q ctx] by (auto simp: vb2_nv_set_def vb2_nv_get_store)

interpretation nv: nv_storage nv_ok vb2_nv_get vb2_nv_set nv_clip
  by unfold_locales (simp_all add: nv_ok_set vb2_nv_get_set_same vb2_nv_get_set_other nv_clip_get nv_ok_def [THEN iffD1])

section \<open>What the callers see\<close>

text \<open>Reads and writes leave everything else of the context alone.\<close>

lemma vb2_nv_regen_crc_frame [simp]:
  "sd (vb2_nv_regen_crc ctx) = sd ctx"
  "workbuf (vb2_nv_regen_crc ctx) = workbuf ctx"
  "workbuf_size (vb2_nv_regen_crc ctx) = workbuf_size ctx"
  "workbuf_used (vb2_nv_regen_crc ctx) = workbuf_used ctx"
  "secdata (vb2_nv_regen_crc ctx) = secdata ctx"
  "secdatak (vb2_nv_regen_crc ctx) = secdatak ctx"
  "ctx_flags (vb2_nv_regen_crc ctx) = ctx_flags ctx OR VB2_CONTEXT_NVDATA_CHANGED"
  by (simp_all add: vb2_nv_regen_crc_def)

lemma vb2_nv_set_frame [simp]:
  "sd (vb2_nv_set ctx q v) = sd ctx"
  "workbuf (vb2_nv_set ctx q v) = workbuf ctx"
  "workbuf_size (vb2_nv_set ctx q v) = workbuf_size ctx"
  "workbuf_used (vb2_nv_set ctx q v) = workbuf_used ctx"
  "secdata (vb2_nv_set ctx q v) = secdata ctx"
  "secdatak (vb2_nv_set ctx q v) = secdatak ctx"
  by (simp_all add: vb2_nv_set_def)

lemma vb2_nv_set_flags [simp]:
  "m AND VB2_CONTEXT_NVDATA_CHANGED = 0 \<Longrightarrow>
   has_flag (ctx_flags (vb2_nv_set ctx q v)) m \<longleftrightarrow> has_flag (ctx_flags ctx) m"
  by (simp add: vb2_nv_set_def has_flag_def [of "VB2_CONTEXT_NVDATA_CHANGED"] and.commute)

lemma vb2_nv_get_cong: "nvdata a = nvdata b \<Longrightarrow> vb2_nv_get a q = vb2_nv_get b q"
  by (rule vb2_nv_get_mask) simp

lemma vb2_nv_get_update [simp]:
  "vb2_nv_get (ctx\<lparr>ctx_flags := f\<rparr>) q = vb2_nv_get ctx q"
  "vb2_nv_get (ctx\<lparr>sd := d\<rparr>) q = vb2_nv_get ctx q"
  "vb2_nv_get (ctx\<lparr>secdata := b\<rparr>) q = vb2_nv_get ctx q"
  "vb2_nv_get (ctx\<lparr>secdatak := b\<rparr>) q = vb2_nv_get ctx q"
  "vb2_nv_get (ctx\<lparr>workbuf_used := u\<rparr>) q = vb2_nv_get ctx q"
  by (rule vb2_nv_get_cong; simp)+

lemma length_nvdata_set [simp]: "length (nvdata (vb2_nv_set ctx q v)) = length (nvdata ctx)"
  by (simp add: vb2_nv_set_def vb2_nv_regen_crc_def)

lemma vb2_nv_get_set [simp]:
  "length (nvdata ctx) = VB2_NVDATA_SIZE \<Longrightarrow>
   vb2_nv_get (vb2_nv_set ctx q v) r = (if q = r then nv_clip q v else vb2_nv_get ctx r)"
  by (simp add: vb2_nv_get_set_same vb2_nv_get_set_other)

lemma nv_ok_cong: "nvdata a = nvdata b \<Longrightarrow> nv_ok a \<longleftrightarrow> nv_ok b"
  by (simp add: nv_ok_def vb2_nv_check_crc_def)

lemma nv_ok_length: "nv_ok ctx \<Longrightarrow> length (nvdata ctx) = VB2_NVDATA_SIZE"
  by (simp add: nv_ok_def)

lemma vb2_nv_get_upd_sd [simp]: "vb2_nv_get (upd_sd f ctx) q = vb2_nv_get ctx q"
  by (rule vb2_nv_get_mask) simp

lemma nv_ok_upd_sd [simp]: "nv_ok (upd_sd f ctx) \<longleftrightarrow> nv_ok ctx"
  by (simp add: nv_ok_def vb2_nv_check_crc_def)

text \<open>The array \<^const>\<open>vb2_nv_init\<close> falls back on, and the values a reader finds there.\<close>

definition nv_defaults :: bytes where
  "nv_defaults = (replicate VB2_NVDATA_SIZE 0)
     [VB2_NV_OFFS_HEADER := VB2_NV_HEADER_SIGNATURE OR VB2_NV_HEADER_FW_SETTINGS_RESET OR
                            VB2_NV_HEADER_KERNEL_SETTINGS_RESET]"

lemma nv_defaults_get:
  "vb2_nv_get (ctx\<lparr>nvdata := nv_defaults\<rparr>) q =
   (if q \<in> {VB2_NV_FIRMWARE_SETTINGS_RESET, VB2_NV_KERNEL_SETTINGS_RESET} then 1 else 0)"
  by (cases q) (simp_all add: vb2_nv_get.simps nv_defaults_def GETBIT_def rd32_def)

lemma vb2_nv_init_cases:
  "vb2_nv_init ctx =
   (if vb2_nv_check_crc ctx = VB2_SUCCESS
    then upd_sd (\<lambda>d. d\<lparr>sd_status := sd_status d OR VB2_SD_STATUS_NV_INIT\<rparr>) ctx
    else upd_sd (\<lambda>d. d\<lparr>sd_status := sd_status d OR VB2_SD_STATUS_NV_REINIT OR VB2_SD_STATUS_NV_INIT\<rparr>)
           (vb2_nv_regen_crc (ctx\<lparr>nvdata := nv_defaults\<rparr>)))"
  by (simp add: vb2_nv_init_def nv_defaults_def Let_def upd_sd_def or.assoc)

lemma nv_ok_init:
  assumes "length (nvdata ctx) = VB2_NVDATA_SIZE"
  shows "nv_ok (vb2_nv_init ctx)"
proof -
  have "nv_ok (vb2_nv_regen_crc (ctx\<lparr>nvdata := nv_defaults\<rparr>))"
    by (rule vb2_nv_check_regen) (simp_all add: nv_defaults_def)
  with assms show ?thesis by (simp add: vb2_nv_init_cases) (simp add: nv_ok_def)
qed

text \<open>
  C33. Initialising the storage always ends with consistent data: valid data is kept as it is, and
  anything else (bad header or bad CRC) is replaced by the defaults, in which only the two
  settings-reset markers are set, and the change is reported to the platform.
\<close>

theorem vb2_nv_init_correct:
  assumes "length (nvdata ctx) = VB2_NVDATA_SIZE"
  shows "vb2_nv_check_crc (vb2_nv_init ctx) = VB2_SUCCESS \<and>
    (if vb2_nv_check_crc ctx = VB2_SUCCESS
     then nvdata (vb2_nv_init ctx) = nvdata ctx \<and> ctx_flags (vb2_nv_init ctx) = ctx_flags ctx
     else vb2_nv_get (vb2_nv_init ctx) =
            (\<lambda>q. if q \<in> {VB2_NV_FIRMWARE_SETTINGS_RESET, VB2_NV_KERNEL_SETTINGS_RESET} then 1 else 0) \<and>
          has_flag (ctx_flags (vb2_nv_init ctx)) VB2_CONTEXT_NVDATA_CHANGED \<and>
          has_flag (sd_status (sd (vb2_nv_init ctx))) VB2_SD_STATUS_NV_REINIT)"
  using nv_ok_init [OF assms]
  by (auto simp: nv_ok_def) (simp_all add: vb2_nv_init_cases nv_defaults_get fun_eq_iff)

theorem vb2_nv_init_correct_witness:
  "vb2_nv_check_crc (vb2_nv_init zero_context) = VB2_SUCCESS \<and>
   vb2_nv_get (vb2_nv_init zero_context) VB2_NV_KERNEL_SETTINGS_RESET = 1"
proof -
  have "length (nvdata zero_context) = VB2_NVDATA_SIZE"
    and "vb2_nv_check_crc zero_context \<noteq> VB2_SUCCESS"
    by (simp_all add: zero_context_def vb2_nv_check_crc_def)
  then show ?thesis
    using vb2_nv_init_correct [of zero_context] by (simp add: fun_eq_iff)
qed

text \<open>
  C32. A run of writes to the storage, in any order and with any values, acts like independent
  cells: each write stores its value clipped to the range of its parameter, no write disturbs
  another parameter, and the data stay consistent (header and CRC) throughout.
\<close>

theorem vb2_nv_writes:
  assumes "length (nvdata ctx) = VB2_NVDATA_SIZE" and "vb2_nv_check_crc ctx = VB2_SUCCESS"
  shows "vb2_nv_check_crc (foldl (\<lambda>c (q, v). vb2_nv_set c q v) ctx ws) = VB2_SUCCESS \<and>
    vb2_nv_get (foldl (\<lambda>c (q, v). vb2_nv_set c q v) ctx ws) =
      foldl (\<lambda>f (q, v). f(q := nv_clip q v)) (vb2_nv_get ctx) ws"
proof -
  have "nv_ok ctx" using assms by (simp add: nv_ok_def)
  then show ?thesis
    using nv.ok_puts [of ctx ws] nv.get_puts [of ctx ws] by (simp add: nv.puts_def nv.cells_def nv_ok_def)
qed

theorem vb2_nv_writes_witness:
  "vb2_nv_get (vb2_nv_set (vb2_nv_set (vb2_nv_init zero_context) VB2_NV_TRY_COUNT 20) VB2_NV_FW_RESULT 3)
     VB2_NV_TRY_COUNT = 15"
proof -
  have "nv_ok (vb2_nv_init zero_context)" by (rule nv_ok_init) (simp add: zero_context_def)
  then have "length (nvdata (vb2_nv_init zero_context)) = VB2_NVDATA_SIZE"
    and "vb2_nv_check_crc (vb2_nv_init zero_context) = VB2_SUCCESS" by (simp_all add: nv_ok_def)
  from vb2_nv_writes [OF this, of "[(VB2_NV_TRY_COUNT, 20), (VB2_NV_FW_RESULT, 3)]"]
  show ?thesis by (simp add: fun_eq_iff)
qed

text \<open>
  Corrupting any single byte of consistent data, the CRC byte included, is detected.
\<close>

lemma vb2_nv_check_crc_detects:
  assumes "length (nvdata ctx) = VB2_NVDATA_SIZE" and "vb2_nv_check_crc ctx = VB2_SUCCESS"
    and "i < VB2_NVDATA_SIZE" and "v \<noteq> nvdata ctx ! i"
  shows "vb2_nv_check_crc (ctx\<lparr>nvdata := (nvdata ctx)[i := v]\<rparr>) \<noteq> VB2_SUCCESS"
proof -
  have crc: "vb2_crc8 (nvdata ctx) VB2_NV_OFFS_CRC = nvdata ctx ! VB2_NV_OFFS_CRC"
    using assms(2) by (simp add: vb2_nv_check_crc_def Let_def split: if_splits)
  have "vb2_crc8 ((nvdata ctx)[i := v]) VB2_NV_OFFS_CRC \<noteq> (nvdata ctx)[i := v] ! VB2_NV_OFFS_CRC"
  proof (cases "i = VB2_NV_OFFS_CRC")
    case True
    with assms crc show ?thesis by (simp add: vb2_crc8_beyond)
  next
    case False
    with assms crc vb2_crc8_detects [of i VB2_NV_OFFS_CRC "nvdata ctx" v] show ?thesis by auto
  qed
  then show ?thesis by (simp add: vb2_nv_check_crc_def Let_def)
qed

text \<open>
  A write that changes the value marks the data as changed so that the platform saves it;
  a write of the value already stored changes nothing at all.
\<close>

lemma vb2_nv_set_changed:
  "vb2_nv_set ctx q v =
     (if vb2_nv_get ctx q = v then ctx
      else ctx\<lparr>nvdata := nvdata (vb2_nv_set ctx q v),
               ctx_flags := ctx_flags ctx OR VB2_CONTEXT_NVDATA_CHANGED\<rparr>)"
  by (simp add: vb2_nv_set_def vb2_nv_regen_crc_def)

end
