(* ===== verification/VbNv.thy ===== *)
theory VbNv
  imports Nvstorage
begin

text \<open>
  The first-generation non-volatile storage routines, \<^verbatim>\<open>firmware/lib/vboot_nvstorage.c\<close>, with
  their own copy of the layout ("these constants must match the equivalent constants in
  2lib/2nvstorage.c").  Both generations read and write the same sixteen bytes on a device, so the
  theory ends with a simulation: a session of the old routines leaves exactly the bytes a session
  of the new ones leaves.
\<close>

section \<open>Layout\<close>

abbreviation (input) HEADER_OFFSET :: nat where "HEADER_OFFSET \<equiv> 0"
abbreviation (input) HEADER_MASK :: u8 where "HEADER_MASK \<equiv> 0xc0"
abbreviation (input) HEADER_SIGNATURE :: u8 where "HEADER_SIGNATURE \<equiv> 0x40"
abbreviation (input) HEADER_FIRMWARE_SETTINGS_RESET :: u8 where "HEADER_FIRMWARE_SETTINGS_RESET \<equiv> 0x20"
abbreviation (input) HEADER_KERNEL_SETTINGS_RESET :: u8 where "HEADER_KERNEL_SETTINGS_RESET \<equiv> 0x10"
abbreviation (input) HEADER_WIPEOUT :: u8 where "HEADER_WIPEOUT \<equiv> 0x08"
abbreviation (input) BOOT_OFFSET :: nat where "BOOT_OFFSET \<equiv> 1"
abbreviation (input) BOOT_DEBUG_RESET_MODE :: u8 where "BOOT_DEBUG_RESET_MODE \<equiv> 0x80"
abbreviation (input) BOOT_DISABLE_DEV_REQUEST :: u8 where "BOOT_DISABLE_DEV_REQUEST \<equiv> 0x40"
abbreviation (input) BOOT_OPROM_NEEDED :: u8 where "BOOT_OPROM_NEEDED \<equiv> 0x20"
abbreviation (input) BOOT_BACKUP_NVRAM :: u8 where "BOOT_BACKUP_NVRAM \<equiv> 0x10"
abbreviation (input) BOOT_TRY_B_COUNT_MASK :: u8 where "BOOT_TRY_B_COUNT_MASK \<equiv> 0x0f"
abbreviation (input) RECOVERY_OFFSET :: nat where "RECOVERY_OFFSET \<equiv> 2"
abbreviation (input) LOCALIZATION_OFFSET :: nat where "LOCALIZATION_OFFSET \<equiv> 3"
abbreviation (input) DEV_FLAGS_OFFSET :: nat where "DEV_FLAGS_OFFSET \<equiv> 4"
abbreviation (input) DEV_BOOT_USB_MASK :: u8 where "DEV_BOOT_USB_MASK \<equiv> 0x01"
abbreviation (input) DEV_BOOT_SIGNED_ONLY_MASK :: u8 where "DEV_BOOT_SIGNED_ONLY_MASK \<equiv> 0x02"
abbreviation (input) DEV_BOOT_LEGACY_MASK :: u8 where "DEV_BOOT_LEGACY_MASK \<equiv> 0x04"
abbreviation (input) DEV_BOOT_FASTBOOT_FULL_CAP_MASK :: u8 where "DEV_BOOT_FASTBOOT_FULL_CAP_MASK \<equiv> 0x08"
abbreviation (input) DEV_DEFAULT_BOOT_MASK :: u8 where "DEV_DEFAULT_BOOT_MASK \<equiv> 0x30"
abbreviation (input) DEV_DEFAULT_BOOT_SHIFT :: nat where "DEV_DEFAULT_BOOT_SHIFT \<equiv> 4"
abbreviation (input) TPM_FLAGS_OFFSET :: nat where "TPM_FLAGS_OFFSET \<equiv> 5"
abbreviation (input) TPM_CLEAR_OWNER_REQUEST :: u8 where "TPM_CLEAR_OWNER_REQUEST \<equiv> 0x01"
abbreviation (input) TPM_CLEAR_OWNER_DONE :: u8 where "TPM_CLEAR_OWNER_DONE \<equiv> 0x02"
abbreviation (input) TPM_REBOOTED :: u8 where "TPM_REBOOTED \<equiv> 0x04"
abbreviation (input) RECOVERY_SUBCODE_OFFSET :: nat where "RECOVERY_SUBCODE_OFFSET \<equiv> 6"
abbreviation (input) BOOT2_OFFSET :: nat where "BOOT2_OFFSET \<equiv> 7"
abbreviation (input) BOOT2_RESULT_MASK :: u8 where "BOOT2_RESULT_MASK \<equiv> 0x03"
abbreviation (input) BOOT2_TRIED :: u8 where "BOOT2_TRIED \<equiv> 0x04"
abbreviation (input) BOOT2_TRY_NEXT :: u8 where "BOOT2_TRY_NEXT \<equiv> 0x08"
abbreviation (input) BOOT2_PREV_RESULT_MASK :: u8 where "BOOT2_PREV_RESULT_MASK \<equiv> 0x30"
abbreviation (input) BOOT2_PREV_RESULT_SHIFT :: nat where "BOOT2_PREV_RESULT_SHIFT \<equiv> 4"
abbreviation (input) BOOT2_PREV_TRIED :: u8 where "BOOT2_PREV_TRIED \<equiv> 0x40"
abbreviation (input) MISC_OFFSET :: nat where "MISC_OFFSET \<equiv> 8"
abbreviation (input) MISC_UNLOCK_FASTBOOT :: u8 where "MISC_UNLOCK_FASTBOOT \<equiv> 0x01"
abbreviation (input) MISC_BOOT_ON_AC_DETECT :: u8 where "MISC_BOOT_ON_AC_DETECT \<equiv> 0x02"
abbreviation (input) MISC_TRY_RO_SYNC :: u8 where "MISC_TRY_RO_SYNC \<equiv> 0x04"
abbreviation (input) KERNEL_FIELD_OFFSET :: nat where "KERNEL_FIELD_OFFSET \<equiv> 11"
abbreviation (input) CRC_OFFSET :: nat where "CRC_OFFSET \<equiv> 15"

abbreviation (input) VBNV_BLOCK_SIZE :: nat where "VBNV_BLOCK_SIZE \<equiv> 16"
abbreviation (input) VBNV_RECOVERY_LEGACY :: u32 where "VBNV_RECOVERY_LEGACY \<equiv> 1"
abbreviation (input) VBNV_DEV_DEFAULT_BOOT_DISK :: u32 where "VBNV_DEV_DEFAULT_BOOT_DISK \<equiv> 0"
abbreviation (input) VBNV_FW_RESULT_UNKNOWN :: u32 where "VBNV_FW_RESULT_UNKNOWN \<equiv> 0"

text \<open>\<^verbatim>\<open>VBNV_unknown\<close> stands for the values of the enum type that no case label names.\<close>

datatype VbNvParam =
    VBNV_FIRMWARE_SETTINGS_RESET
  | VBNV_KERNEL_SETTINGS_RESET
  | VBNV_DEBUG_RESET_MODE
  | VBNV_TRY_B_COUNT
  | VBNV_FW_TRY_COUNT
  | VBNV_RECOVERY_REQUEST
  | VBNV_LOCALIZATION_INDEX
  | VBNV_KERNEL_FIELD
  | VBNV_DEV_BOOT_USB
  | VBNV_DEV_BOOT_LEGACY
  | VBNV_DEV_BOOT_SIGNED_ONLY
  | VBNV_DEV_BOOT_FASTBOOT_FULL_CAP
  | VBNV_DEV_DEFAULT_BOOT
  | VBNV_DISABLE_DEV_REQUEST
  | VBNV_OPROM_NEEDED
  | VBNV_CLEAR_TPM_OWNER_REQUEST
  | VBNV_CLEAR_TPM_OWNER_DONE
  | VBNV_TPM_REQUESTED_REBOOT
  | VBNV_RECOVERY_SUBCODE
  | VBNV_BACKUP_NVRAM_REQUEST
  | VBNV_FW_TRY_NEXT
  | VBNV_FW_TRIED
  | VBNV_FW_RESULT
  | VBNV_FW_PREV_TRIED
  | VBNV_FW_PREV_RESULT
  | VBNV_FW_REQ_WIPEOUT
  | VBNV_FASTBOOT_UNLOCK_IN_FW
  | VBNV_BOOT_ON_AC_DETECT
  | VBNV_TRY_RO_SYNC
  | VBNV_unknown

record VbNvContext =
  raw :: bytes
  regenerate_crc :: bool
  raw_changed :: bool

section \<open>The code\<close>

definition Crc8 :: "bytes \<Rightarrow> nat \<Rightarrow> u8" where
  "Crc8 data len = ucast (shr (foldl crc8_byte 0 (take len data)) 8)"

definition VbNvSetup :: "VbNvContext \<Rightarrow> VbNvContext" where
  "VbNvSetup c =
     (let c = c\<lparr>raw_changed := False, regenerate_crc := False\<rparr> in
      if HEADER_SIGNATURE \<noteq> raw c ! HEADER_OFFSET AND HEADER_MASK \<or>
         Crc8 (raw c) CRC_OFFSET \<noteq> raw c ! CRC_OFFSET
      then c\<lparr>raw := (replicate VBNV_BLOCK_SIZE 0)
                 [HEADER_OFFSET := HEADER_SIGNATURE OR HEADER_FIRMWARE_SETTINGS_RESET OR
                                   HEADER_KERNEL_SETTINGS_RESET],
             regenerate_crc := True\<rparr>
      else c)"

definition VbNvTeardown :: "VbNvContext \<Rightarrow> VbNvContext" where
  "VbNvTeardown c =
     (if regenerate_crc c
      then c\<lparr>raw := (raw c)[CRC_OFFSET := Crc8 (raw c) CRC_OFFSET],
             regenerate_crc := False, raw_changed := True\<rparr>
      else c)"

text \<open>\<^verbatim>\<open>Some v\<close> is a return of 0 with \<^verbatim>\<open>*dest = v\<close>; \<^verbatim>\<open>None\<close> is the return of 1 at \<^verbatim>\<open>default\<close>.\<close>

fun VbNvGet :: "VbNvContext \<Rightarrow> VbNvParam \<Rightarrow> u32 option" where
  "VbNvGet c VBNV_FIRMWARE_SETTINGS_RESET =
     Some (if raw c ! HEADER_OFFSET AND HEADER_FIRMWARE_SETTINGS_RESET \<noteq> 0 then 1 else 0)"
| "VbNvGet c VBNV_KERNEL_SETTINGS_RESET =
     Some (if raw c ! HEADER_OFFSET AND HEADER_KERNEL_SETTINGS_RESET \<noteq> 0 then 1 else 0)"
| "VbNvGet c VBNV_DEBUG_RESET_MODE =
     Some (if raw c ! BOOT_OFFSET AND BOOT_DEBUG_RESET_MODE \<noteq> 0 then 1 else 0)"
| "VbNvGet c VBNV_TRY_B_COUNT =
     Some (ucast (raw c ! BOOT_OFFSET AND BOOT_TRY_B_COUNT_MASK))"
| "VbNvGet c VBNV_FW_TRY_COUNT =
     Some (ucast (raw c ! BOOT_OFFSET AND BOOT_TRY_B_COUNT_MASK))"
| "VbNvGet c VBNV_RECOVERY_REQUEST =
     Some (ucast (raw c ! RECOVERY_OFFSET))"
| "VbNvGet c VBNV_RECOVERY_SUBCODE =
     Some (ucast (raw c ! RECOVERY_SUBCODE_OFFSET))"
| "VbNvGet c VBNV_LOCALIZATION_INDEX =
     Some (ucast (raw c ! LOCALIZATION_OFFSET))"
| "VbNvGet c VBNV_KERNEL_FIELD =
     Some (rd32 (raw c) KERNEL_FIELD_OFFSET)"
| "VbNvGet c VBNV_DEV_BOOT_USB =
     Some (if raw c ! DEV_FLAGS_OFFSET AND DEV_BOOT_USB_MASK \<noteq> 0 then 1 else 0)"
| "VbNvGet c VBNV_DEV_BOOT_LEGACY =
     Some (if raw c ! DEV_FLAGS_OFFSET AND DEV_BOOT_LEGACY_MASK \<noteq> 0 then 1 else 0)"
| "VbNvGet c VBNV_DEV_DEFAULT_BOOT =
     Some (shr (ucast (raw c ! DEV_FLAGS_OFFSET AND DEV_DEFAULT_BOOT_MASK)) DEV_DEFAULT_BOOT_SHIFT)"
| "VbNvGet c VBNV_DEV_BOOT_SIGNED_ONLY =
     Some (if raw c ! DEV_FLAGS_OFFSET AND DEV_BOOT_SIGNED_ONLY_MASK \<noteq> 0 then 1 else 0)"
| "VbNvGet c VBNV_DEV_BOOT_FASTBOOT_FULL_CAP =
     Some (if raw c ! DEV_FLAGS_OFFSET AND DEV_BOOT_FASTBOOT_FULL_CAP_MASK \<noteq> 0 then 1 else 0)"
| "VbNvGet c VBNV_DISABLE_DEV_REQUEST =
     Some (if raw c ! BOOT_OFFSET AND BOOT_DISABLE_DEV_REQUEST \<noteq> 0 then 1 else 0)"
| "VbNvGet c VBNV_OPROM_NEEDED =
     Some (if raw c ! BOOT_OFFSET AND BOOT_OPROM_NEEDED \<noteq> 0 then 1 else 0)"
| "VbNvGet c VBNV_CLEAR_TPM_OWNER_REQUEST =
     Some (if raw c ! TPM_FLAGS_OFFSET AND TPM_CLEAR_OWNER_REQUEST \<noteq> 0 then 1 else 0)"
| "VbNvGet c VBNV_CLEAR_TPM_OWNER_DONE =
     Some (if raw c ! TPM_FLAGS_OFFSET AND TPM_CLEAR_OWNER_DONE \<noteq> 0 then 1 else 0)"
| "VbNvGet c VBNV_TPM_REQUESTED_REBOOT =
     Some (if raw c ! TPM_FLAGS_OFFSET AND TPM_REBOOTED \<noteq> 0 then 1 else 0)"
| "VbNvGet c VBNV_BACKUP_NVRAM_REQUEST =
     Some (if raw c ! BOOT_OFFSET AND BOOT_BACKUP_NVRAM \<noteq> 0 then 1 else 0)"
| "VbNvGet c VBNV_FW_TRY_NEXT =
     Some (if raw c ! BOOT2_OFFSET AND BOOT2_TRY_NEXT \<noteq> 0 then 1 else 0)"
| "VbNvGet c VBNV_FW_TRIED =
     Some (if raw c ! BOOT2_OFFSET AND BOOT2_TRIED \<noteq> 0 then 1 else 0)"
| "VbNvGet c VBNV_FW_RESULT =
     Some (ucast (raw c ! BOOT2_OFFSET AND BOOT2_RESULT_MASK))"
| "VbNvGet c VBNV_FW_PREV_TRIED =
     Some (if raw c ! BOOT2_OFFSET AND BOOT2_PREV_TRIED \<noteq> 0 then 1 else 0)"
| "VbNvGet c VBNV_FW_PREV_RESULT =
     Some (shr (ucast (raw c ! BOOT2_OFFSET AND BOOT2_PREV_RESULT_MASK)) BOOT2_PREV_RESULT_SHIFT)"
| "VbNvGet c VBNV_FW_REQ_WIPEOUT =
     Some (if raw c ! HEADER_OFFSET AND HEADER_WIPEOUT \<noteq> 0 then 1 else 0)"
| "VbNvGet c VBNV_FASTBOOT_UNLOCK_IN_FW =
     Some (if raw c ! MISC_OFFSET AND MISC_UNLOCK_FASTBOOT \<noteq> 0 then 1 else 0)"
| "VbNvGet c VBNV_BOOT_ON_AC_DETECT =
     Some (if raw c ! MISC_OFFSET AND MISC_BOOT_ON_AC_DETECT \<noteq> 0 then 1 else 0)"
| "VbNvGet c VBNV_TRY_RO_SYNC =
     Some (if raw c ! MISC_OFFSET AND MISC_TRY_RO_SYNC \<noteq> 0 then 1 else 0)"
| "VbNvGet c VBNV_unknown = None"

text \<open>The switch of \<^verbatim>\<open>VbNvSet()\<close>.\<close>

fun VbNvStore :: "bytes \<Rightarrow> VbNvParam \<Rightarrow> u32 \<Rightarrow> bytes option" where
  "VbNvStore p VBNV_FIRMWARE_SETTINGS_RESET value =
     Some (p[HEADER_OFFSET := (if value \<noteq> 0 then p ! HEADER_OFFSET OR HEADER_FIRMWARE_SETTINGS_RESET
                          else p ! HEADER_OFFSET AND NOT HEADER_FIRMWARE_SETTINGS_RESET)])"
| "VbNvStore p VBNV_KERNEL_SETTINGS_RESET value =
     Some (p[HEADER_OFFSET := (if value \<noteq> 0 then p ! HEADER_OFFSET OR HEADER_KERNEL_SETTINGS_RESET
                          else p ! HEADER_OFFSET AND NOT HEADER_KERNEL_SETTINGS_RESET)])"
| "VbNvStore p VBNV_DEBUG_RESET_MODE value =
     Some (p[BOOT_OFFSET := (if value \<noteq> 0 then p ! BOOT_OFFSET OR BOOT_DEBUG_RESET_MODE
                          else p ! BOOT_OFFSET AND NOT BOOT_DEBUG_RESET_MODE)])"
| "VbNvStore p VBNV_TRY_B_COUNT value =
     (let value = (if value > ucast BOOT_TRY_B_COUNT_MASK then ucast BOOT_TRY_B_COUNT_MASK else value)
      in Some (p[BOOT_OFFSET := (p ! BOOT_OFFSET AND NOT BOOT_TRY_B_COUNT_MASK) OR ucast value]))"
| "VbNvStore p VBNV_FW_TRY_COUNT value =
     (let value = (if value > ucast BOOT_TRY_B_COUNT_MASK then ucast BOOT_TRY_B_COUNT_MASK else value)
      in Some (p[BOOT_OFFSET := (p ! BOOT_OFFSET AND NOT BOOT_TRY_B_COUNT_MASK) OR ucast value]))"
| "VbNvStore p VBNV_RECOVERY_REQUEST value =
     (let value = (if value > 0xff then VBNV_RECOVERY_LEGACY else value)
      in Some (p[RECOVERY_OFFSET := ucast value]))"
| "VbNvStore p VBNV_RECOVERY_SUBCODE value =
     Some (p[RECOVERY_SUBCODE_OFFSET := ucast value])"
| "VbNvStore p VBNV_LOCALIZATION_INDEX value =
     (let value = (if value > 0xff then 0 else value)
      in Some (p[LOCALIZATION_OFFSET := ucast value]))"
| "VbNvStore p VBNV_KERNEL_FIELD value =
     Some (wr32 p KERNEL_FIELD_OFFSET value)"
| "VbNvStore p VBNV_DEV_BOOT_USB value =
     Some (p[DEV_FLAGS_OFFSET := (if value \<noteq> 0 then p ! DEV_FLAGS_OFFSET OR DEV_BOOT_USB_MASK
                          else p ! DEV_FLAGS_OFFSET AND NOT DEV_BOOT_USB_MASK)])"
| "VbNvStore p VBNV_DEV_BOOT_LEGACY value =
     Some (p[DEV_FLAGS_OFFSET := (if value \<noteq> 0 then p ! DEV_FLAGS_OFFSET OR DEV_BOOT_LEGACY_MASK
                          else p ! DEV_FLAGS_OFFSET AND NOT DEV_BOOT_LEGACY_MASK)])"
| "VbNvStore p VBNV_DEV_DEFAULT_BOOT value =
     (let value = (if value > ucast (shr DEV_DEFAULT_BOOT_MASK DEV_DEFAULT_BOOT_SHIFT)
                   then VBNV_DEV_DEFAULT_BOOT_DISK else value)
      in Some (p[DEV_FLAGS_OFFSET := (p ! DEV_FLAGS_OFFSET AND NOT DEV_DEFAULT_BOOT_MASK) OR
                     shl (ucast value) DEV_DEFAULT_BOOT_SHIFT]))"
| "VbNvStore p VBNV_DEV_BOOT_SIGNED_ONLY value =
     Some (p[DEV_FLAGS_OFFSET := (if value \<noteq> 0 then p ! DEV_FLAGS_OFFSET OR DEV_BOOT_SIGNED_ONLY_MASK
                          else p ! DEV_FLAGS_OFFSET AND NOT DEV_BOOT_SIGNED_ONLY_MASK)])"
| "VbNvStore p VBNV_DEV_BOOT_FASTBOOT_FULL_CAP value =
     Some (p[DEV_FLAGS_OFFSET := (if value \<noteq> 0 then p ! DEV_FLAGS_OFFSET OR DEV_BOOT_FASTBOOT_FULL_CAP_MASK
                          else p ! DEV_FLAGS_OFFSET AND NOT DEV_BOOT_FASTBOOT_FULL_CAP_MASK)])"
| "VbNvStore p VBNV_DISABLE_DEV_REQUEST value =
     Some (p[BOOT_OFFSET := (if value \<noteq> 0 then p ! BOOT_OFFSET OR BOOT_DISABLE_DEV_REQUEST
                          else p ! BOOT_OFFSET AND NOT BOOT_DISABLE_DEV_REQUEST)])"
| "VbNvStore p VBNV_OPROM_NEEDED value =
     Some (p[BOOT_OFFSET := (if value \<noteq> 0 then p ! BOOT_OFFSET OR BOOT_OPROM_NEEDED
                          else p ! BOOT_OFFSET AND NOT BOOT_OPROM_NEEDED)])"
| "VbNvStore p VBNV_CLEAR_TPM_OWNER_REQUEST value =
     Some (p[TPM_FLAGS_OFFSET := (if value \<noteq> 0 then p ! TPM_FLAGS_OFFSET OR TPM_CLEAR_OWNER_REQUEST
                          else p ! TPM_FLAGS_OFFSET AND NOT TPM_CLEAR_OWNER_REQUEST)])"
| "VbNvStore p VBNV_CLEAR_TPM_OWNER_DONE value =
     Some (p[TPM_FLAGS_OFFSET := (if value \<noteq> 0 then p ! TPM_FLAGS_OFFSET OR TPM_CLEAR_OWNER_DONE
                          else p ! TPM_FLAGS_OFFSET AND NOT TPM_CLEAR_OWNER_DONE)])"
| "VbNvStore p VBNV_TPM_REQUESTED_REBOOT value =
     Some (p[TPM_FLAGS_OFFSET := (if value \<noteq> 0 then p ! TPM_FLAGS_OFFSET OR TPM_REBOOTED
                          else p ! TPM_FLAGS_OFFSET AND NOT TPM_REBOOTED)])"
| "VbNvStore p VBNV_BACKUP_NVRAM_REQUEST value =
     Some (p[BOOT_OFFSET := (if value \<noteq> 0 then p ! BOOT_OFFSET OR BOOT_BACKUP_NVRAM
                          else p ! BOOT_OFFSET AND NOT BOOT_BACKUP_NVRAM)])"
| "VbNvStore p VBNV_FW_TRY_NEXT value =
     Some (p[BOOT2_OFFSET := (if value \<noteq> 0 then p ! BOOT2_OFFSET OR BOOT2_TRY_NEXT
                          else p ! BOOT2_OFFSET AND NOT BOOT2_TRY_NEXT)])"
| "VbNvStore p VBNV_FW_TRIED value =
     Some (p[BOOT2_OFFSET := (if value \<noteq> 0 then p ! BOOT2_OFFSET OR BOOT2_TRIED
                          else p ! BOOT2_OFFSET AND NOT BOOT2_TRIED)])"
| "VbNvStore p VBNV_FW_RESULT value =
     (let value = (if value > ucast BOOT2_RESULT_MASK then VBNV_FW_RESULT_UNKNOWN else value)
      in Some (p[BOOT2_OFFSET := (p ! BOOT2_OFFSET AND NOT BOOT2_RESULT_MASK) OR ucast value]))"
| "VbNvStore p VBNV_FW_PREV_TRIED value =
     Some (p[BOOT2_OFFSET := (if value \<noteq> 0 then p ! BOOT2_OFFSET OR BOOT2_PREV_TRIED
                          else p ! BOOT2_OFFSET AND NOT BOOT2_PREV_TRIED)])"
| "VbNvStore p VBNV_FW_PREV_RESULT value =
     (let value = (if value > ucast BOOT2_RESULT_MASK then VBNV_FW_RESULT_UNKNOWN else value)
      in Some (p[BOOT2_OFFSET := (p ! BOOT2_OFFSET AND NOT BOOT2_PREV_RESULT_MASK) OR
                     shl (ucast value) BOOT2_PREV_RESULT_SHIFT]))"
| "VbNvStore p VBNV_FW_REQ_WIPEOUT value =
     Some (p[HEADER_OFFSET := (if value \<noteq> 0 then p ! HEADER_OFFSET OR HEADER_WIPEOUT
                          else p ! HEADER_OFFSET AND NOT HEADER_WIPEOUT)])"
| "VbNvStore p VBNV_FASTBOOT_UNLOCK_IN_FW value =
     Some (p[MISC_OFFSET := (if value \<noteq> 0 then p ! MISC_OFFSET OR MISC_UNLOCK_FASTBOOT
                          else p ! MISC_OFFSET AND NOT MISC_UNLOCK_FASTBOOT)])"
| "VbNvStore p VBNV_BOOT_ON_AC_DETECT value =
     Some (p[MISC_OFFSET := (if value \<noteq> 0 then p ! MISC_OFFSET OR MISC_BOOT_ON_AC_DETECT
                          else p ! MISC_OFFSET AND NOT MISC_BOOT_ON_AC_DETECT)])"
| "VbNvStore p VBNV_TRY_RO_SYNC value =
     Some (p[MISC_OFFSET := (if value \<noteq> 0 then p ! MISC_OFFSET OR MISC_TRY_RO_SYNC
                          else p ! MISC_OFFSET AND NOT MISC_TRY_RO_SYNC)])"
| "VbNvStore p VBNV_unknown value = None"

definition VbNvSet :: "VbNvContext \<Rightarrow> VbNvParam \<Rightarrow> u32 \<Rightarrow> int \<times> VbNvContext" where
  "VbNvSet c param value =
     (if VbNvGet c param = Some value then (0, c)
      else case VbNvStore (raw c) param value of
        None \<Rightarrow> (1, c)
      | Some r \<Rightarrow> (0, c\<lparr>raw := r, regenerate_crc := True\<rparr>))"

section \<open>Simulation by the second-generation routines\<close>

fun vb2_param :: "VbNvParam \<Rightarrow> vb2_nv_param option" where
  "vb2_param VBNV_FIRMWARE_SETTINGS_RESET = Some VB2_NV_FIRMWARE_SETTINGS_RESET"
| "vb2_param VBNV_KERNEL_SETTINGS_RESET = Some VB2_NV_KERNEL_SETTINGS_RESET"
| "vb2_param VBNV_DEBUG_RESET_MODE = Some VB2_NV_DEBUG_RESET_MODE"
| "vb2_param VBNV_TRY_B_COUNT = Some VB2_NV_TRY_COUNT"
| "vb2_param VBNV_FW_TRY_COUNT = Some VB2_NV_TRY_COUNT"
| "vb2_param VBNV_RECOVERY_REQUEST = Some VB2_NV_RECOVERY_REQUEST"
| "vb2_param VBNV_RECOVERY_SUBCODE = Some VB2_NV_RECOVERY_SUBCODE"
| "vb2_param VBNV_LOCALIZATION_INDEX = Some VB2_NV_LOCALIZATION_INDEX"
| "vb2_param VBNV_KERNEL_FIELD = Some VB2_NV_KERNEL_FIELD"
| "vb2_param VBNV_DEV_BOOT_USB = Some VB2_NV_DEV_BOOT_USB"
| "vb2_param VBNV_DEV_BOOT_LEGACY = Some VB2_NV_DEV_BOOT_LEGACY"
| "vb2_param VBNV_DEV_DEFAULT_BOOT = Some VB2_NV_DEV_DEFAULT_BOOT"
| "vb2_param VBNV_DEV_BOOT_SIGNED_ONLY = Some VB2_NV_DEV_BOOT_SIGNED_ONLY"
| "vb2_param VBNV_DEV_BOOT_FASTBOOT_FULL_CAP = Some VB2_NV_DEV_BOOT_FASTBOOT_FULL_CAP"
| "vb2_param VBNV_DISABLE_DEV_REQUEST = Some VB2_NV_DISABLE_DEV_REQUEST"
| "vb2_param VBNV_OPROM_NEEDED = Some VB2_NV_OPROM_NEEDED"
| "vb2_param VBNV_CLEAR_TPM_OWNER_REQUEST = Some VB2_NV_CLEAR_TPM_OWNER_REQUEST"
| "vb2_param VBNV_CLEAR_TPM_OWNER_DONE = Some VB2_NV_CLEAR_TPM_OWNER_DONE"
| "vb2_param VBNV_TPM_REQUESTED_REBOOT = Some VB2_NV_TPM_REQUESTED_REBOOT"
| "vb2_param VBNV_BACKUP_NVRAM_REQUEST = Some VB2_NV_BACKUP_NVRAM_REQUEST"
| "vb2_param VBNV_FW_TRY_NEXT = Some VB2_NV_TRY_NEXT"
| "vb2_param VBNV_FW_TRIED = Some VB2_NV_FW_TRIED"
| "vb2_param VBNV_FW_RESULT = Some VB2_NV_FW_RESULT"
| "vb2_param VBNV_FW_PREV_TRIED = Some VB2_NV_FW_PREV_TRIED"
| "vb2_param VBNV_FW_PREV_RESULT = Some VB2_NV_FW_PREV_RESULT"
| "vb2_param VBNV_FW_REQ_WIPEOUT = Some VB2_NV_REQ_WIPEOUT"
| "vb2_param VBNV_FASTBOOT_UNLOCK_IN_FW = Some VB2_NV_FASTBOOT_UNLOCK_IN_FW"
| "vb2_param VBNV_BOOT_ON_AC_DETECT = Some VB2_NV_BOOT_ON_AC_DETECT"
| "vb2_param VBNV_TRY_RO_SYNC = Some VB2_NV_TRY_RO_SYNC"
| "vb2_param VBNV_unknown = None"

lemma Crc8_eq: "Crc8 = vb2_crc8"
  by (simp add: fun_eq_iff Crc8_def vb2_crc8_def)

lemma VbNvGet_refines:
  "VbNvGet c q = map_option (vb2_nv_get (ctx\<lparr>nvdata := raw c\<rparr>)) (vb2_param q)"
  by (cases q) (simp_all add: vb2_nv_get.simps GETBIT_def)

lemma shl_ucast_4: "shl (ucast (v::u32) :: u8) 4 = ucast (shl v 4)"
  by (simp add: u8_bitwise bit_simps)

lemma VbNvStore_refines: "VbNvStore p q v = map_option (\<lambda>r. nv_store p r v) (vb2_param q)"
  by (cases q) (simp_all add: nv_store.simps SETBIT_def SETFIELD_def Let_def shl_ucast_4)

text \<open>
  The relation between a running session of the old routines and one of the new: the bytes agree,
  except that the old code leaves the CRC to \<^const>\<open>VbNvTeardown\<close>.
\<close>

definition nv_sim :: "VbNvContext \<Rightarrow> vb2_context \<Rightarrow> bool" where
  "nv_sim c ctx \<longleftrightarrow> nv_ok ctx \<and> length (raw c) = VBNV_BLOCK_SIZE \<and>
     (\<forall>i<CRC_OFFSET. raw c ! i = nvdata ctx ! i) \<and>
     (\<not> regenerate_crc c \<longrightarrow> raw c ! CRC_OFFSET = nvdata ctx ! CRC_OFFSET) \<and> \<not> raw_changed c \<and>
     (regenerate_crc c \<longleftrightarrow> has_flag (ctx_flags ctx) VB2_CONTEXT_NVDATA_CHANGED)"

lemma less_16_cases: "i < 16 \<longleftrightarrow> i < 15 \<or> i = (15::nat)"
  by auto

lemma take_15_eq:
  assumes "length p = 16" "length q = 16" "\<forall>i<15. p ! i = q ! i"
  shows "take 15 p = take (15::nat) q"
  using assms by (intro nth_equalityI) auto

lemma nv_sim_setup:
  assumes "length (nvdata ctx) = VB2_NVDATA_SIZE" and "raw c = nvdata ctx"
    and "\<not> has_flag (ctx_flags ctx) VB2_CONTEXT_NVDATA_CHANGED"
  shows "nv_sim (VbNvSetup c) (vb2_nv_init ctx)"
  using assms nv_ok_init [OF assms(1)]
  by (auto simp: nv_sim_def VbNvSetup_def vb2_nv_init_cases Crc8_eq Let_def nv_defaults_def vb2_nv_regen_crc_def
      vb2_nv_check_crc_iff)

lemma nv_sim_get: "nv_sim c ctx \<Longrightarrow> VbNvGet c q = map_option (vb2_nv_get ctx) (vb2_param q)"
proof -
  assume sim: "nv_sim c ctx"
  have "vb2_nv_get (ctx\<lparr>nvdata := raw c\<rparr>) r = vb2_nv_get ctx r" for r
  proof (rule vb2_nv_get_mask)
    fix i k assume "bit (nv_mask r i) k"
    then have "i < 15" by (rule nv_mask_range)
    then show "bit (nvdata (ctx\<lparr>nvdata := raw c\<rparr>) ! i) k \<longleftrightarrow> bit (nvdata ctx ! i) k" using sim by (simp add: nv_sim_def)
  qed
  then show ?thesis by (simp add: VbNvGet_refines [of c q ctx] cong: map_option_cong)
qed

lemma nv_store_local:
  assumes "length p = VB2_NVDATA_SIZE" "length q = VB2_NVDATA_SIZE" "\<forall>i<15. p ! i = q ! i" "i < 15"
  shows "nv_store p r v ! i = nv_store q r v ! i"
  using assms
  by (cases r) (simp_all add: nv_store.simps SETBIT_def SETFIELD_def nth_list_update Let_def wr32_def)

definition vb2_step :: "vb2_context \<Rightarrow> VbNvParam \<times> u32 \<Rightarrow> vb2_context" where
  "vb2_step ctx w = (case vb2_param (fst w) of None \<Rightarrow> ctx | Some r \<Rightarrow> vb2_nv_set ctx r (snd w))"

lemma nv_sim_set:
  assumes sim: "nv_sim c ctx"
  shows "nv_sim (snd (VbNvSet c q v)) (vb2_step ctx (q, v))"
proof (cases "vb2_param q")
  case None
  with sim show ?thesis by (simp add: vb2_step_def VbNvSet_def VbNvStore_refines nv_sim_get)
next
  case (Some r)
  have eq: "VbNvGet c q = Some v \<longleftrightarrow> vb2_nv_get ctx r = v"
    using Some by (simp add: nv_sim_get [OF sim])
  have len: "length (nvdata ctx) = 16" "length (raw c) = 16" and ok: "nv_ok (vb2_nv_set ctx r v)"
    using sim by (simp_all add: nv_sim_def nv_ok_def [of ctx] nv_ok_set)
  have "i < 15 \<Longrightarrow> nv_store (raw c) r v ! i = nv_store (nvdata ctx) r v ! i" for i
    using nv_store_local [OF len(2,1), of i r v] sim by (simp add: nv_sim_def)
  with Some eq sim ok len show ?thesis
    by (simp add: vb2_step_def VbNvSet_def VbNvStore_refines nv_sim_def vb2_nv_set_def
        vb2_nv_regen_crc_def split: if_splits)
qed

lemma nv_sim_teardown:
  assumes sim: "nv_sim c ctx"
  shows "raw (VbNvTeardown c) = nvdata ctx"
    and "raw_changed (VbNvTeardown c) \<longleftrightarrow> has_flag (ctx_flags ctx) VB2_CONTEXT_NVDATA_CHANGED"
proof -
  have len: "length (nvdata ctx) = 16" "length (raw c) = 16"
    and agree: "\<forall>i<15. raw c ! i = nvdata ctx ! i"
    and crc: "vb2_crc8 (nvdata ctx) 15 = nvdata ctx ! 15"
    using sim by (simp_all add: nv_sim_def nv_ok_def vb2_nv_check_crc_iff)
  have "vb2_crc8 (raw c) 15 = vb2_crc8 (nvdata ctx) 15"
    using take_15_eq [OF len(2,1) agree] by (simp add: vb2_crc8_def)
  with sim len crc agree show "raw (VbNvTeardown c) = nvdata ctx"
    by (auto simp: list_eq_iff_nth_eq VbNvTeardown_def less_16_cases Crc8_eq nv_sim_def)
  show "raw_changed (VbNvTeardown c) \<longleftrightarrow> has_flag (ctx_flags ctx) VB2_CONTEXT_NVDATA_CHANGED"
    using sim by (auto simp: VbNvTeardown_def nv_sim_def)
qed

lemma nv_sim_session:
  "nv_sim c ctx \<Longrightarrow> nv_sim (foldl (\<lambda>c (q, v). snd (VbNvSet c q v)) c ws) (foldl vb2_step ctx ws)"
  by (induction ws arbitrary: c ctx) (auto intro: nv_sim_set)

text \<open>
  C34. The two generations are interchangeable on the stored bytes: setting up the old routines on
  the bytes of a context, any run of writes (unknown parameters and the two names of the try
  count included) and the teardown leave exactly the bytes that initialising and writing the
  corresponding parameters with the new routines leaves, and report a change to the platform in
  exactly the same cases.
\<close>

theorem VbNv_session_equiv:
  assumes "length (nvdata ctx) = VB2_NVDATA_SIZE" and "raw c = nvdata ctx"
    and "\<not> has_flag (ctx_flags ctx) VB2_CONTEXT_NVDATA_CHANGED"
  shows "raw (VbNvTeardown (foldl (\<lambda>c (q, v). snd (VbNvSet c q v)) (VbNvSetup c) ws)) =
      nvdata (foldl vb2_step (vb2_nv_init ctx) ws) \<and>
    (raw_changed (VbNvTeardown (foldl (\<lambda>c (q, v). snd (VbNvSet c q v)) (VbNvSetup c) ws)) \<longleftrightarrow>
      has_flag (ctx_flags (foldl vb2_step (vb2_nv_init ctx) ws)) VB2_CONTEXT_NVDATA_CHANGED)"
  using nv_sim_teardown [OF nv_sim_session [OF nv_sim_setup [OF assms]]] by blast

theorem VbNv_session_equiv_witness:
  "raw (VbNvTeardown (snd (VbNvSet (VbNvSetup
      \<lparr>raw = nvdata zero_context, regenerate_crc = False, raw_changed = False\<rparr>) VBNV_TRY_B_COUNT 3))) =
   nvdata (vb2_nv_set (vb2_nv_init zero_context) VB2_NV_TRY_COUNT 3)"
  using VbNv_session_equiv [of zero_context
      "\<lparr>raw = nvdata zero_context, regenerate_crc = False, raw_changed = False\<rparr>"
      "[(VBNV_TRY_B_COUNT, 3)]"]
  by (simp add: zero_context_def vb2_step_def)

text \<open>
  Reading a parameter with the old routine on the bytes of a context gives what the new
  routine gives for the corresponding parameter, and fails exactly on unknown parameters.
\<close>

lemma VbNvGet_equiv:
  "VbNvGet \<lparr>raw = nvdata ctx, regenerate_crc = r, raw_changed = h\<rparr> q =
   (case vb2_param q of None \<Rightarrow> None | Some p \<Rightarrow> Some (vb2_nv_get ctx p))"
  using VbNvGet_refines [of "\<lparr>raw = nvdata ctx, regenerate_crc = r, raw_changed = h\<rparr>" q ctx]
  by (simp add: map_option_case)

end
