(* ===== verification/Secdata.thy ===== *)
theory Secdata
  imports Vb2_Context Crc8
begin

text \<open>
  Secure storage, \<^verbatim>\<open>firmware/2lib/2secdata.c\<close> and \<^verbatim>\<open>2secdatak.c\<close>: the firmware and kernel version
  spaces kept in the TPM, each a packed struct with a CRC-8 as its last field.  Both spaces meet
  one contract, stated as a locale.
\<close>

section \<open>Contract of a secure space\<close>

text \<open>
  \<^verbatim>\<open>ready\<close> is the state between a successful initialisation and power-off.  A write either fails
  and changes nothing, or succeeds, and then a read returns the value written.
\<close>

locale secure_space =
  fixes ready :: "'s \<Rightarrow> bool"
    and get :: "'s \<Rightarrow> 'p \<Rightarrow> u32 + u32"
    and put :: "'s \<Rightarrow> 'p \<Rightarrow> u32 \<Rightarrow> u32 \<times> 's"
  assumes ready_put: "ready s \<Longrightarrow> ready (snd (put s q v))"
    and put_ok: "ready s \<Longrightarrow> fst (put s q v) = 0 \<Longrightarrow> get (snd (put s q v)) q = Inr v"
    and put_error: "fst (put s q v) \<noteq> 0 \<Longrightarrow> snd (put s q v) = s"
    and put_other: "ready s \<Longrightarrow> q \<noteq> r \<Longrightarrow> get (snd (put s q v)) r = get s r"
begin

definition puts :: "'s \<Rightarrow> ('p \<times> u32) list \<Rightarrow> 's" where
  "puts s ws = foldl (\<lambda>s (q, v). snd (put s q v)) s ws"

lemma puts_Nil [simp]: "puts s [] = s"
  and puts_Cons [simp]: "puts s ((q, v) # ws) = puts (snd (put s q v)) ws"
  by (simp_all add: puts_def)

lemma ready_puts: "ready s \<Longrightarrow> ready (puts s ws)"
  by (induction ws arbitrary: s) (auto simp: ready_put)

text \<open>A parameter keeps its value, or holds one that was written to it.\<close>

lemma get_puts:
  "ready s \<Longrightarrow> get (puts s ws) q = get s q \<or> (\<exists>v. (q, v) \<in> set ws \<and> get (puts s ws) q = Inr v)"
proof (induction ws arbitrary: s)
  case (Cons w ws)
  obtain r v where w: "w = (r, v)" by fastforce
  have step: "get (snd (put s r v)) q = get s q \<or> r = q \<and> get (snd (put s r v)) q = Inr v"
    using Cons.prems put_ok [of s r v] put_error [of s r v] put_other [of s r q v] by metis
  show ?case using Cons.IH [OF ready_put [OF Cons.prems], of r v] step by (auto simp: w)
qed simp

text \<open>
  Writers that only ever raise a parameter keep it from going down, whatever else is written:
  the rollback counters rest on this.
\<close>

lemma get_puts_mono:
  assumes "ready s" and "get s q = Inr x" and "\<And>v. (q, v) \<in> set ws \<Longrightarrow> x \<le> v"
  shows "\<exists>y. get (puts s ws) q = Inr y \<and> x \<le> y"
  using get_puts [OF assms(1), of ws q] assms(2,3) by auto

end

section \<open>Firmware version space\<close>

abbreviation (input) VB2_SECDATA_VERSION :: u8 where "VB2_SECDATA_VERSION \<equiv> 2"
abbreviation (input) VB2_SECDATA_FLAG_LAST_BOOT_DEVELOPER :: u32 where
  "VB2_SECDATA_FLAG_LAST_BOOT_DEVELOPER \<equiv> 1"
abbreviation (input) VB2_SECDATA_FLAG_DEV_MODE :: u32 where "VB2_SECDATA_FLAG_DEV_MODE \<equiv> 2"

text \<open>Offsets of the fields of \<^verbatim>\<open>struct vb2_secdata\<close>.\<close>

abbreviation (input) SEC_struct_version :: nat where "SEC_struct_version \<equiv> 0"
abbreviation (input) SEC_flags :: nat where "SEC_flags \<equiv> 1"
abbreviation (input) SEC_fw_versions :: nat where "SEC_fw_versions \<equiv> 2"
abbreviation (input) SEC_crc8 :: nat where "SEC_crc8 \<equiv> 9"

text \<open>The \<^verbatim>\<open>unknown\<close> parameters stand for values of the enum types that no case label names.\<close>

datatype vb2_secdata_param = VB2_SECDATA_FLAGS | VB2_SECDATA_VERSIONS | VB2_SECDATA_unknown

definition vb2_secdata_check_crc :: "vb2_context \<Rightarrow> u32" where
  "vb2_secdata_check_crc ctx =
     (let sec = secdata ctx in
      if sec ! SEC_crc8 \<noteq> vb2_crc8 sec SEC_crc8 then VB2_ERROR_SECDATA_CRC
      else if sec ! SEC_struct_version = 0 then VB2_ERROR_SECDATA_ZERO
      else VB2_SUCCESS)"

definition vb2_secdata_regen_crc :: "vb2_context \<Rightarrow> vb2_context" where
  "vb2_secdata_regen_crc ctx =
     ctx\<lparr>secdata := (secdata ctx)[SEC_crc8 := vb2_crc8 (secdata ctx) SEC_crc8],
         ctx_flags := ctx_flags ctx OR VB2_CONTEXT_SECDATA_CHANGED\<rparr>"

definition vb2_secdata_create :: "vb2_context \<Rightarrow> u32 \<times> vb2_context" where
  "vb2_secdata_create ctx =
     (let sec = (replicate VB2_SECDATA_SIZE 0)[SEC_struct_version := VB2_SECDATA_VERSION]
      in (VB2_SUCCESS, vb2_secdata_regen_crc (ctx\<lparr>secdata := sec\<rparr>)))"

definition vb2_secdata_get :: "vb2_context \<Rightarrow> vb2_secdata_param \<Rightarrow> u32 + u32" where
  "vb2_secdata_get ctx param =
     (if \<not> has_flag (sd_status (sd ctx)) VB2_SD_STATUS_SECDATA_INIT
      then Inl VB2_ERROR_SECDATA_GET_UNINITIALIZED
      else case param of
        VB2_SECDATA_FLAGS \<Rightarrow> Inr (ucast (secdata ctx ! SEC_flags))
      | VB2_SECDATA_VERSIONS \<Rightarrow> Inr (rd32 (secdata ctx) SEC_fw_versions)
      | VB2_SECDATA_unknown \<Rightarrow> Inl VB2_ERROR_SECDATA_GET_PARAM)"

definition vb2_secdata_init :: "vb2_context \<Rightarrow> u32 \<times> vb2_context" where
  "vb2_secdata_init ctx =
     (let rv = vb2_secdata_check_crc ctx in
      if rv \<noteq> VB2_SUCCESS then (rv, ctx)
      else
        let ctx = upd_sd (\<lambda>d. d\<lparr>sd_status := sd_status d OR VB2_SD_STATUS_SECDATA_INIT\<rparr>) ctx
        in case vb2_secdata_get ctx VB2_SECDATA_VERSIONS of
             Inl rv \<Rightarrow> (rv, ctx)
           | Inr v \<Rightarrow> (VB2_SUCCESS, upd_sd (\<lambda>d. d\<lparr>sd_fw_version_secdata := v\<rparr>) ctx))"

definition vb2_secdata_set :: "vb2_context \<Rightarrow> vb2_secdata_param \<Rightarrow> u32 \<Rightarrow> u32 \<times> vb2_context" where
  "vb2_secdata_set ctx param value =
     (if \<not> has_flag (sd_status (sd ctx)) VB2_SD_STATUS_SECDATA_INIT
      then (VB2_ERROR_SECDATA_SET_UNINITIALIZED, ctx)
      else if vb2_secdata_get ctx param = Inr value then (VB2_SUCCESS, ctx)
      else case param of
        VB2_SECDATA_FLAGS \<Rightarrow>
          if value > 0xff then (VB2_ERROR_SECDATA_SET_FLAGS, ctx)
          else (VB2_SUCCESS,
                vb2_secdata_regen_crc (ctx\<lparr>secdata := (secdata ctx)[SEC_flags := ucast value]\<rparr>))
      | VB2_SECDATA_VERSIONS \<Rightarrow>
          (VB2_SUCCESS,
           vb2_secdata_regen_crc (ctx\<lparr>secdata := wr32 (secdata ctx) SEC_fw_versions value\<rparr>))
      | VB2_SECDATA_unknown \<Rightarrow> (VB2_ERROR_SECDATA_SET_PARAM, ctx))"

section \<open>Kernel version space\<close>

abbreviation (input) VB2_SECDATAK_VERSION :: u8 where "VB2_SECDATAK_VERSION \<equiv> 2"
abbreviation (input) VB2_SECDATAK_UID :: u32 where "VB2_SECDATAK_UID \<equiv> 0x4752574c"

text \<open>
  Offsets of the fields of \<^verbatim>\<open>struct vb2_secdatak\<close>, whose 13 bytes lie in an array of 14: the last
  byte of the array is neither cleared nor covered by the CRC.
\<close>

abbreviation (input) SECK_struct_version :: nat where "SECK_struct_version \<equiv> 0"
abbreviation (input) SECK_uid :: nat where "SECK_uid \<equiv> 1"
abbreviation (input) SECK_kernel_versions :: nat where "SECK_kernel_versions \<equiv> 5"
abbreviation (input) SECK_crc8 :: nat where "SECK_crc8 \<equiv> 12"
abbreviation (input) SIZEOF_SECDATAK :: nat where "SIZEOF_SECDATAK \<equiv> 13"

datatype vb2_secdatak_param = VB2_SECDATAK_VERSIONS | VB2_SECDATAK_unknown

definition vb2_secdatak_check_crc :: "vb2_context \<Rightarrow> u32" where
  "vb2_secdatak_check_crc ctx =
     (if secdatak ctx ! SECK_crc8 \<noteq> vb2_crc8 (secdatak ctx) SECK_crc8 then VB2_ERROR_SECDATAK_CRC
      else VB2_SUCCESS)"

definition vb2_secdatak_regen_crc :: "vb2_context \<Rightarrow> vb2_context" where
  "vb2_secdatak_regen_crc ctx =
     ctx\<lparr>secdatak := (secdatak ctx)[SECK_crc8 := vb2_crc8 (secdatak ctx) SECK_crc8],
         ctx_flags := ctx_flags ctx OR VB2_CONTEXT_SECDATAK_CHANGED\<rparr>"

definition vb2_secdatak_create :: "vb2_context \<Rightarrow> u32 \<times> vb2_context" where
  "vb2_secdatak_create ctx =
     (let sec = replicate SIZEOF_SECDATAK 0 @ drop SIZEOF_SECDATAK (secdatak ctx);
          sec = sec[SECK_struct_version := VB2_SECDATAK_VERSION];
          sec = wr32 sec SECK_uid VB2_SECDATAK_UID
      in (VB2_SUCCESS, vb2_secdatak_regen_crc (ctx\<lparr>secdatak := sec\<rparr>)))"

definition vb2_secdatak_init :: "vb2_context \<Rightarrow> u32 \<times> vb2_context" where
  "vb2_secdatak_init ctx =
     (let rv = vb2_secdatak_check_crc ctx in
      if rv \<noteq> VB2_SUCCESS then (rv, ctx)
      else if rd32 (secdatak ctx) SECK_uid \<noteq> VB2_SECDATAK_UID then (VB2_ERROR_SECDATAK_UID, ctx)
      else (VB2_SUCCESS,
            upd_sd (\<lambda>d. d\<lparr>sd_status := sd_status d OR VB2_SD_STATUS_SECDATAK_INIT\<rparr>) ctx))"

definition vb2_secdatak_get :: "vb2_context \<Rightarrow> vb2_secdatak_param \<Rightarrow> u32 + u32" where
  "vb2_secdatak_get ctx param =
     (if \<not> has_flag (sd_status (sd ctx)) VB2_SD_STATUS_SECDATAK_INIT
      then Inl VB2_ERROR_SECDATAK_GET_UNINITIALIZED
      else case param of
        VB2_SECDATAK_VERSIONS \<Rightarrow> Inr (rd32 (secdatak ctx) SECK_kernel_versions)
      | VB2_SECDATAK_unknown \<Rightarrow> Inl VB2_ERROR_SECDATAK_GET_PARAM)"

definition vb2_secdatak_set :: "vb2_context \<Rightarrow> vb2_secdatak_param \<Rightarrow> u32 \<Rightarrow> u32 \<times> vb2_context" where
  "vb2_secdatak_set ctx param value =
     (if \<not> has_flag (sd_status (sd ctx)) VB2_SD_STATUS_SECDATAK_INIT
      then (VB2_ERROR_SECDATAK_SET_UNINITIALIZED, ctx)
      else if vb2_secdatak_get ctx param = Inr value then (VB2_SUCCESS, ctx)
      else case param of
        VB2_SECDATAK_VERSIONS \<Rightarrow>
          (VB2_SUCCESS,
           vb2_secdatak_regen_crc (ctx\<lparr>secdatak := wr32 (secdatak ctx) SECK_kernel_versions value\<rparr>))
      | VB2_SECDATAK_unknown \<Rightarrow> (VB2_ERROR_SECDATAK_SET_PARAM, ctx))"

section \<open>The code meets the contract\<close>

definition sec_ready :: "vb2_context \<Rightarrow> bool" where
  "sec_ready ctx \<longleftrightarrow> length (secdata ctx) = VB2_SECDATA_SIZE \<and>
     vb2_secdata_check_crc ctx = VB2_SUCCESS \<and>
     has_flag (sd_status (sd ctx)) VB2_SD_STATUS_SECDATA_INIT"

definition seck_ready :: "vb2_context \<Rightarrow> bool" where
  "seck_ready ctx \<longleftrightarrow> length (secdatak ctx) = VB2_SECDATAK_SIZE \<and>
     vb2_secdatak_check_crc ctx = VB2_SUCCESS \<and> rd32 (secdatak ctx) SECK_uid = VB2_SECDATAK_UID \<and>
     has_flag (sd_status (sd ctx)) VB2_SD_STATUS_SECDATAK_INIT"

lemma vb2_secdata_check_iff:
  "vb2_secdata_check_crc ctx = VB2_SUCCESS \<longleftrightarrow>
   secdata ctx ! SEC_crc8 = vb2_crc8 (secdata ctx) SEC_crc8 \<and> secdata ctx ! SEC_struct_version \<noteq> 0"
  by (auto simp: vb2_secdata_check_crc_def Let_def)

lemma vb2_secdatak_check_iff:
  "vb2_secdatak_check_crc ctx = VB2_SUCCESS \<longleftrightarrow>
   secdatak ctx ! SECK_crc8 = vb2_crc8 (secdatak ctx) SECK_crc8"
  by (auto simp: vb2_secdatak_check_crc_def)

lemmas secdata_simps = vb2_secdata_get_def vb2_secdata_set_def vb2_secdata_regen_crc_def
  vb2_secdata_check_iff sec_ready_def
lemmas secdatak_simps = vb2_secdatak_get_def vb2_secdatak_set_def vb2_secdatak_regen_crc_def
  vb2_secdatak_check_iff seck_ready_def

interpretation sec: secure_space sec_ready vb2_secdata_get vb2_secdata_set
proof
  fix s q v
  show "sec_ready s \<Longrightarrow> sec_ready (snd (vb2_secdata_set s q v))"
    by (auto simp: secdata_simps vb2_crc8_beyond split: vb2_secdata_param.splits)
  show "sec_ready s \<Longrightarrow> fst (vb2_secdata_set s q v) = 0 \<Longrightarrow>
      vb2_secdata_get (snd (vb2_secdata_set s q v)) q = Inr v"
    by (auto simp: secdata_simps ucast_ucast_le_ff split: vb2_secdata_param.splits if_splits)
  show "fst (vb2_secdata_set s q v) \<noteq> 0 \<Longrightarrow> snd (vb2_secdata_set s q v) = s"
    by (auto simp: secdata_simps split: vb2_secdata_param.splits if_splits)
  fix r :: vb2_secdata_param
  show "sec_ready s \<Longrightarrow> q \<noteq> r \<Longrightarrow> vb2_secdata_get (snd (vb2_secdata_set s q v)) r = vb2_secdata_get s r"
    by (auto simp: secdata_simps split: vb2_secdata_param.splits if_splits)
qed

interpretation seck: secure_space seck_ready vb2_secdatak_get vb2_secdatak_set
proof
  fix s q v
  show "seck_ready s \<Longrightarrow> seck_ready (snd (vb2_secdatak_set s q v))"
    by (auto simp: secdatak_simps vb2_crc8_beyond split: vb2_secdatak_param.splits)
  show "seck_ready s \<Longrightarrow> fst (vb2_secdatak_set s q v) = 0 \<Longrightarrow>
      vb2_secdatak_get (snd (vb2_secdatak_set s q v)) q = Inr v"
    by (auto simp: secdatak_simps split: vb2_secdatak_param.splits if_splits)
  show "fst (vb2_secdatak_set s q v) \<noteq> 0 \<Longrightarrow> snd (vb2_secdatak_set s q v) = s"
    by (auto simp: secdatak_simps split: vb2_secdatak_param.splits if_splits)
  fix r :: vb2_secdatak_param
  show "seck_ready s \<Longrightarrow> q \<noteq> r \<Longrightarrow> vb2_secdatak_get (snd (vb2_secdatak_set s q v)) r = vb2_secdatak_get s r"
    by (auto simp: secdatak_simps split: vb2_secdatak_param.splits if_splits)
qed

section \<open>What the callers see\<close>

lemma vb2_secdata_set_frame [simp]:
  "sd (snd (vb2_secdata_set ctx q v)) = sd ctx"
  "nvdata (snd (vb2_secdata_set ctx q v)) = nvdata ctx"
  "secdatak (snd (vb2_secdata_set ctx q v)) = secdatak ctx"
  "workbuf (snd (vb2_secdata_set ctx q v)) = workbuf ctx"
  "workbuf_size (snd (vb2_secdata_set ctx q v)) = workbuf_size ctx"
  "workbuf_used (snd (vb2_secdata_set ctx q v)) = workbuf_used ctx"
  by (simp_all add: vb2_secdata_set_def vb2_secdata_regen_crc_def split: vb2_secdata_param.split)

lemma vb2_secdata_set_flags [simp]:
  "m AND VB2_CONTEXT_SECDATA_CHANGED = 0 \<Longrightarrow>
   has_flag (ctx_flags (snd (vb2_secdata_set ctx q v))) m \<longleftrightarrow> has_flag (ctx_flags ctx) m"
  by (simp add: vb2_secdata_set_def vb2_secdata_regen_crc_def
      has_flag_def [of VB2_CONTEXT_SECDATA_CHANGED] and.commute split: vb2_secdata_param.split)

lemma vb2_secdata_init_cases:
  "vb2_secdata_init ctx =
   (if vb2_secdata_check_crc ctx \<noteq> VB2_SUCCESS then (vb2_secdata_check_crc ctx, ctx)
    else (VB2_SUCCESS,
          upd_sd (\<lambda>d. d\<lparr>sd_status := sd_status d OR VB2_SD_STATUS_SECDATA_INIT,
                        sd_fw_version_secdata := rd32 (secdata ctx) SEC_fw_versions\<rparr>) ctx))"
  by (simp add: vb2_secdata_init_def vb2_secdata_get_def Let_def upd_sd_def)


text \<open>
  Once initialised, a write to the firmware version space fails exactly for an unknown
  parameter or for flags beyond a byte, and then changes nothing; a successful write is read back,
  leaves the other parameters alone and keeps the CRC correct.
\<close>

lemma vb2_secdata_set_correct:
  assumes "sec_ready ctx"
  shows "sec_ready (snd (vb2_secdata_set ctx q v)) \<and>
    fst (vb2_secdata_set ctx q v) =
      (case q of VB2_SECDATA_FLAGS \<Rightarrow> if v > 0xff then VB2_ERROR_SECDATA_SET_FLAGS else VB2_SUCCESS
       | VB2_SECDATA_VERSIONS \<Rightarrow> VB2_SUCCESS
       | VB2_SECDATA_unknown \<Rightarrow> VB2_ERROR_SECDATA_SET_PARAM) \<and>
    (if fst (vb2_secdata_set ctx q v) = VB2_SUCCESS
     then vb2_secdata_get (snd (vb2_secdata_set ctx q v)) = (vb2_secdata_get ctx)(q := Inr v)
     else snd (vb2_secdata_set ctx q v) = ctx)"
proof -
  have "\<not> 0xff < (ucast (x::u8) :: u32)" for x
    using unat_u8_less [of x] by (simp add: word_less_nat_alt)
  with assms have "fst (vb2_secdata_set ctx q v) =
      (case q of VB2_SECDATA_FLAGS \<Rightarrow> if v > 0xff then VB2_ERROR_SECDATA_SET_FLAGS else VB2_SUCCESS
       | VB2_SECDATA_VERSIONS \<Rightarrow> VB2_SUCCESS
       | VB2_SECDATA_unknown \<Rightarrow> VB2_ERROR_SECDATA_SET_PARAM)"
    by (auto simp: secdata_simps split: vb2_secdata_param.split)
  then show ?thesis
    using assms sec.ready_put sec.put_ok sec.put_error sec.put_other
    by (auto simp: fun_eq_iff)
qed

lemma sec_ready_created:
  "sec_ready (snd (vb2_secdata_init (snd (vb2_secdata_create ctx))))"
  by (simp add: vb2_secdata_init_cases vb2_secdata_create_def secdata_simps vb2_crc8_beyond Let_def)

text \<open>
  A fresh space is usable: after creation, initialisation succeeds, and the versions and the
  flags read as zero.
\<close>

lemma vb2_secdata_create_init:
  "fst (vb2_secdata_init (snd (vb2_secdata_create ctx))) = VB2_SUCCESS \<and>
   vb2_secdata_get (snd (vb2_secdata_init (snd (vb2_secdata_create ctx)))) VB2_SECDATA_VERSIONS = Inr 0 \<and>
   vb2_secdata_get (snd (vb2_secdata_init (snd (vb2_secdata_create ctx)))) VB2_SECDATA_FLAGS = Inr 0"
  by (simp add: vb2_secdata_init_cases vb2_secdata_create_def secdata_simps vb2_crc8_beyond Let_def
      rd32_def)

text \<open>
  Corrupting any single byte of a valid firmware version space is detected.
\<close>

lemma vb2_secdata_detects:
  assumes "length (secdata ctx) = VB2_SECDATA_SIZE" and "vb2_secdata_check_crc ctx = VB2_SUCCESS"
    and "i < VB2_SECDATA_SIZE" and "v \<noteq> secdata ctx ! i"
  shows "vb2_secdata_check_crc (ctx\<lparr>secdata := (secdata ctx)[i := v]\<rparr>) = VB2_ERROR_SECDATA_CRC"
proof -
  have "(secdata ctx)[i := v] ! SEC_crc8 \<noteq> vb2_crc8 ((secdata ctx)[i := v]) SEC_crc8"
    using assms vb2_crc8_detects [of i SEC_crc8 "secdata ctx" v]
    by (cases "i = SEC_crc8") (auto simp: vb2_secdata_check_iff vb2_crc8_beyond)
  then show ?thesis by (simp add: vb2_secdata_check_crc_def Let_def)
qed

text \<open>
  C37. The kernel version space: a created space initialises, and once initialised a write to the
  versions succeeds, is read back and keeps the CRC and the unique identifier correct, so that the
  data would be accepted again at the next boot.
\<close>

theorem vb2_secdatak_roundtrip:
  assumes "length (secdatak ctx) = VB2_SECDATAK_SIZE"
  shows "fst (vb2_secdatak_init (snd (vb2_secdatak_create ctx))) = VB2_SUCCESS \<and>
    (let s = snd (vb2_secdatak_init (snd (vb2_secdatak_create ctx)));
         s' = snd (vb2_secdatak_set s VB2_SECDATAK_VERSIONS v)
     in fst (vb2_secdatak_set s VB2_SECDATAK_VERSIONS v) = VB2_SUCCESS \<and>
        vb2_secdatak_get s' VB2_SECDATAK_VERSIONS = Inr v \<and>
        fst (vb2_secdatak_init s') = VB2_SUCCESS)"
proof -
  let ?c = "snd (vb2_secdatak_create ctx)"
  have crc: "vb2_secdatak_check_crc ?c = VB2_SUCCESS" and uid: "rd32 (secdatak ?c) SECK_uid = VB2_SECDATAK_UID"
    and len: "length (secdatak ?c) = VB2_SECDATAK_SIZE"
    using assms by (simp_all add: vb2_secdatak_create_def secdatak_simps vb2_crc8_beyond Let_def)
  let ?s = "snd (vb2_secdatak_init ?c)"
  have s: "fst (vb2_secdatak_init ?c) = VB2_SUCCESS" "seck_ready ?s"
    using crc uid len by (simp_all add: vb2_secdatak_init_def seck_ready_def) (simp add: vb2_secdatak_check_iff)
  have ok: "fst (vb2_secdatak_set ?s VB2_SECDATAK_VERSIONS v) = VB2_SUCCESS"
    using s(2) by (simp add: vb2_secdatak_set_def seck_ready_def)
  have "seck_ready (snd (vb2_secdatak_set ?s VB2_SECDATAK_VERSIONS v))" by (rule seck.ready_put [OF s(2)])
  then have "fst (vb2_secdatak_init (snd (vb2_secdatak_set ?s VB2_SECDATAK_VERSIONS v))) = VB2_SUCCESS"
    by (simp add: vb2_secdatak_init_def seck_ready_def)
  with s ok seck.put_ok [OF s(2) ok] show ?thesis by (simp add: Let_def)
qed

theorem vb2_secdatak_roundtrip_witness:
  "vb2_secdatak_get (snd (vb2_secdatak_set (snd (vb2_secdatak_init (snd (vb2_secdatak_create zero_context))))
      VB2_SECDATAK_VERSIONS 7)) VB2_SECDATAK_VERSIONS = Inr 7"
proof -
  have "length (secdatak zero_context) = VB2_SECDATAK_SIZE" by (simp add: zero_context_def)
  from vb2_secdatak_roundtrip [OF this, of 7] show ?thesis by (simp add: Let_def)
qed

end
