(* ===== verification/Workbuf.thy ===== *)
theory Workbuf
  imports Vb2_Context
begin

text \<open>
  The common helpers of \<^verbatim>\<open>firmware/2lib/2common.c\<close>: the constant-time comparison, pointer
  alignment, and the work buffer, a stack of 16-byte aligned areas that the rest of verified boot
  allocates from.  Pointers are 64-bit addresses and NULL is 0.
\<close>

section \<open>The code\<close>

abbreviation (input) NULL :: u64 where "NULL \<equiv> 0"
abbreviation (input) VB2_WORKBUF_ALIGN :: u32 where "VB2_WORKBUF_ALIGN \<equiv> 16"

text \<open>The accumulator is an \<^verbatim>\<open>int\<close> that never gets a bit above the low eight.\<close>

definition vb2_safe_memcmp :: "bytes \<Rightarrow> bytes \<Rightarrow> nat \<Rightarrow> u32" where
  "vb2_safe_memcmp s1 s2 sz =
     (if sz = 0 then 0
      else
        let result = foldl (\<lambda>result (us1, us2). result OR (us1 XOR us2)) 0 (zip (take sz s1) (take sz s2))
        in if result \<noteq> 0 then 1 else 0)"

text \<open>\<^verbatim>\<open>vb2_align()\<close> returns its error code and the updated \<^verbatim>\<open>*ptr\<close> and \<^verbatim>\<open>*size\<close>.\<close>

definition vb2_align :: "u64 \<Rightarrow> u32 \<Rightarrow> u32 \<Rightarrow> u32 \<Rightarrow> u32 \<times> u64 \<times> u32" where
  "vb2_align ptr sz align want_size =
     (let offs = ptr AND ucast (align - 1) in
      if offs \<noteq> 0 then
        let offs = ucast align - offs in
        if ucast sz < offs then (VB2_ERROR_ALIGN_BIGGER_THAN_SIZE, ptr, sz)
        else
          let ptr = ptr + offs; sz = sz - ucast offs in
          if sz < want_size then (VB2_ERROR_ALIGN_SIZE, ptr, sz) else (VB2_SUCCESS, ptr, sz)
      else if sz < want_size then (VB2_ERROR_ALIGN_SIZE, ptr, sz)
      else (VB2_SUCCESS, ptr, sz))"

record vb2_workbuf =
  wb_buf :: u64
  wb_size :: u32

definition vb2_workbuf_init :: "u64 \<Rightarrow> u32 \<Rightarrow> vb2_workbuf" where
  "vb2_workbuf_init buf sz =
     (case vb2_align buf sz VB2_WORKBUF_ALIGN 0 of
        (rv, b, s) \<Rightarrow> \<lparr>wb_buf = b, wb_size = (if rv \<noteq> VB2_SUCCESS then 0 else s)\<rparr>)"

definition wb_round_up :: "u32 \<Rightarrow> u32" where
  "wb_round_up v = (v + VB2_WORKBUF_ALIGN - 1) AND NOT (VB2_WORKBUF_ALIGN - 1)"

definition vb2_workbuf_alloc :: "vb2_workbuf \<Rightarrow> u32 \<Rightarrow> u64 \<times> vb2_workbuf" where
  "vb2_workbuf_alloc wb sz =
     (let ptr = wb_buf wb; sz = wb_round_up sz in
      if sz > wb_size wb then (NULL, wb)
      else (ptr, \<lparr>wb_buf = wb_buf wb + ucast sz, wb_size = wb_size wb - sz\<rparr>))"

definition vb2_workbuf_free :: "vb2_workbuf \<Rightarrow> u32 \<Rightarrow> vb2_workbuf" where
  "vb2_workbuf_free wb sz =
     (let sz = wb_round_up sz
      in \<lparr>wb_buf = wb_buf wb - ucast sz, wb_size = wb_size wb + sz\<rparr>)"

definition vb2_workbuf_realloc :: "vb2_workbuf \<Rightarrow> u32 \<Rightarrow> u32 \<Rightarrow> u64 \<times> vb2_workbuf" where
  "vb2_workbuf_realloc wb oldsize newsize =
     vb2_workbuf_alloc (vb2_workbuf_free wb oldsize) newsize"

definition vb2_offset_of :: "u64 \<Rightarrow> u64 \<Rightarrow> u64" where
  "vb2_offset_of base ptr = ptr - base"

section \<open>Constant-time comparison\<close>

lemma xor_eq_0_iff: "(a::'a::len word) XOR b = 0 \<longleftrightarrow> a = b"
  by (auto simp: bit_eq_iff bit_simps)

lemma foldl_or_xor_0:
  "foldl (\<lambda>r (a, b). r OR (a XOR b)) r ps = (0::u8) \<longleftrightarrow> r = 0 \<and> (\<forall>(a, b) \<in> set ps. a = b)"
proof (induction ps arbitrary: r)
  case (Cons p ps)
  obtain a b where "p = (a, b)" by fastforce
  then show ?case by (auto simp: Cons.IH or_eq_0_iff xor_eq_0_iff)
qed simp

lemma zip_eq_iff: "length xs = length ys \<Longrightarrow> (\<forall>(a, b) \<in> set (zip xs ys). a = b) \<longleftrightarrow> xs = ys"
  by (induction xs ys rule: list_induct2) auto

lemma safe_memcmp_eq:
  assumes "sz \<le> length s1" and "sz \<le> length s2"
  shows "vb2_safe_memcmp s1 s2 sz = (if take sz s1 = take sz s2 then 0 else 1)"
proof -
  have eq: "foldl (\<lambda>r (a, b). r OR (a XOR b)) 0 (zip (take sz s1) (take sz s2)) = 0 \<longleftrightarrow>
      take sz s1 = take sz s2"
    using zip_eq_iff [of "take sz s1" "take sz s2"] assms by (simp add: foldl_or_xor_0)
  show ?thesis unfolding vb2_safe_memcmp_def Let_def eq by simp
qed

text \<open>
  The comparison that looks at every byte whatever it finds returns zero exactly when the two
  areas are equal, and one otherwise.
\<close>

lemma vb2_safe_memcmp_correct:
  assumes "sz \<le> length s1" and "sz \<le> length s2"
  shows "vb2_safe_memcmp s1 s2 sz = (if take sz s1 = take sz s2 then 0 else 1)"
  using assms by (rule safe_memcmp_eq)

section \<open>The work buffer as an allocator\<close>

text \<open>
  The contract: an allocator hands out areas of its region from the bottom.  \<^verbatim>\<open>lo\<close> and \<^verbatim>\<open>hi\<close> bound
  what is still free, and an allocation that succeeds moves \<^verbatim>\<open>lo\<close> past the area it returns.
\<close>

locale stack_allocator =
  fixes ok :: "'s \<Rightarrow> bool"
    and lo hi :: "'s \<Rightarrow> nat"
    and fits :: "u32 \<Rightarrow> bool"
    and alloc :: "'s \<Rightarrow> u32 \<Rightarrow> u64 \<times> 's"
    and free :: "'s \<Rightarrow> u32 \<Rightarrow> 's"
  assumes lo_le_hi: "ok s \<Longrightarrow> lo s \<le> hi s"
    and ok_alloc: "ok s \<Longrightarrow> fits n \<Longrightarrow> ok (snd (alloc s n))"
    and hi_alloc: "ok s \<Longrightarrow> fits n \<Longrightarrow> hi (snd (alloc s n)) = hi s"
    and alloc_ptr: "ok s \<Longrightarrow> fits n \<Longrightarrow> fst (alloc s n) \<noteq> NULL \<Longrightarrow> unat (fst (alloc s n)) = lo s"
    and alloc_room: "ok s \<Longrightarrow> fits n \<Longrightarrow> fst (alloc s n) \<noteq> NULL \<Longrightarrow> lo s + unat n \<le> lo (snd (alloc s n))"
    and alloc_fail: "ok s \<Longrightarrow> fits n \<Longrightarrow> fst (alloc s n) = NULL \<Longrightarrow> snd (alloc s n) = s"
    and free_alloc: "ok s \<Longrightarrow> fits n \<Longrightarrow> fst (alloc s n) \<noteq> NULL \<Longrightarrow> free (snd (alloc s n)) n = s"
begin

text \<open>A run of allocations, collecting the areas of those that succeed.\<close>

fun allocs :: "'s \<Rightarrow> u32 list \<Rightarrow> (nat \<times> nat) list" where
  "allocs s [] = []"
| "allocs s (n # ns) =
     (if fst (alloc s n) = NULL then allocs s ns
      else (unat (fst (alloc s n)), unat n) # allocs (snd (alloc s n)) ns)"

lemma allocs_inside:
  assumes "ok s" and "\<forall>n \<in> set ns. fits n" and "(p, n) \<in> set (allocs s ns)"
  shows "lo s \<le> p \<and> p + n \<le> hi s"
  using assms
proof (induction ns arbitrary: s)
  case (Cons m ms)
  let ?s = "snd (alloc s m)"
  show ?case
  proof (cases "fst (alloc s m) = NULL")
    case False
    have s: "ok ?s" "hi ?s = hi s" "lo s + unat m \<le> lo ?s" "unat (fst (alloc s m)) = lo s"
      using Cons.prems(1,2) False by (simp_all add: ok_alloc hi_alloc alloc_room alloc_ptr)
    show ?thesis
      using Cons.IH [OF s(1)] Cons.prems s lo_le_hi [OF s(1)] False by fastforce
  qed (use Cons in auto)
qed simp

lemma allocs_disjoint:
  assumes "ok s" and "\<forall>n \<in> set ns. fits n"
  shows "sorted_wrt (\<lambda>(p, n) (q, m). p + n \<le> q) (allocs s ns)"
  using assms
proof (induction ns arbitrary: s)
  case (Cons m ms)
  let ?s = "snd (alloc s m)"
  show ?case
  proof (cases "fst (alloc s m) = NULL")
    case False
    have s: "ok ?s" "lo s + unat m \<le> lo ?s" "unat (fst (alloc s m)) = lo s"
      using Cons.prems False by (simp_all add: ok_alloc alloc_room alloc_ptr)
    have "\<forall>(q, n) \<in> set (allocs ?s ms). unat (fst (alloc s m)) + unat m \<le> q"
      using allocs_inside [OF s(1), of ms] Cons.prems(2) s(2,3) by fastforce
    then show ?thesis using Cons.IH [OF s(1)] Cons.prems(2) False by auto
  qed (use Cons in auto)
qed simp

end

text \<open>The rounding, which wraps to 0 for the fifteen largest sizes.\<close>

lemma unat_and_not_15: "unat ((x::u32) AND NOT 15) = unat x div 16 * 16"
proof -
  have "x AND NOT 15 = shl (shr x 4) 4" by (simp add: u32_bitwise bit_simps)
  moreover have "unat x div 16 * 16 < 2 ^ 32"
    using unsigned_less [where ?'a = nat, of x] by (auto intro: le_less_trans [OF div_times_less_eq_dividend])
  ultimately show ?thesis by (simp add: unat_shl unat_shr)
qed

lemma unat_wb_round_up:
  "unat (wb_round_up v) = (if unat v \<le> 0xfffffff0 then (unat v + 15) div 16 * 16 else 0)"
proof -
  have "wb_round_up v = (v + 15) AND NOT 15" by (simp add: wb_round_up_def add.commute)
  moreover have "unat (v + 15) = (if unat v \<le> 0xfffffff0 then unat v + 15 else unat v + 15 - 2 ^ 32)"
    using unsigned_less [where ?'a = nat, of v] by (simp add: unat_word_ariths mod_if)
  moreover have "unat v + 15 - 2 ^ 32 < 16" using unsigned_less [where ?'a = nat, of v] by simp
  ultimately show ?thesis by (simp add: unat_and_not_15 [simplified])
qed

definition wb_ok :: "vb2_workbuf \<Rightarrow> bool" where
  "wb_ok wb \<longleftrightarrow> wb_buf wb \<noteq> NULL \<and> 16 dvd unat (wb_buf wb) \<and>
     unat (wb_buf wb) + unat (wb_size wb) < 2 ^ 64"

definition wb_hi :: "vb2_workbuf \<Rightarrow> nat" where
  "wb_hi wb = unat (wb_buf wb) + unat (wb_size wb)"

abbreviation wb_lo :: "vb2_workbuf \<Rightarrow> nat" where
  "wb_lo wb \<equiv> unat (wb_buf wb)"

definition wb_fits :: "u32 \<Rightarrow> bool" where
  "wb_fits n \<longleftrightarrow> n \<le> 0xfffffff0"

lemma unat_ucast_u32 [simp]: "unat (ucast (x::u32) :: u64) = unat x"
  using unsigned_less [where ?'a = nat, of x] by (simp add: unsigned_ucast_eq take_bit_nat_eq_self)

lemma wb_alloc_cases:
  assumes "wb_ok wb"
  shows "vb2_workbuf_alloc wb n =
    (if unat (wb_round_up n) \<le> unat (wb_size wb)
     then (wb_buf wb, \<lparr>wb_buf = wb_buf wb + ucast (wb_round_up n), wb_size = wb_size wb - wb_round_up n\<rparr>)
     else (NULL, wb))"
  by (simp add: vb2_workbuf_alloc_def Let_def word_less_nat_alt)

lemma unat_plus_64: "unat (a::u64) + unat (b::u64) < 2 ^ 64 \<Longrightarrow> unat (a + b) = unat a + unat b"
  by (simp add: unat_word_ariths)

lemma wb_after_alloc:
  assumes "wb_ok wb" and "unat (wb_round_up n) \<le> unat (wb_size wb)"
  shows "wb_lo (snd (vb2_workbuf_alloc wb n)) = wb_lo wb + unat (wb_round_up n)"
    and "unat (wb_size (snd (vb2_workbuf_alloc wb n))) = unat (wb_size wb) - unat (wb_round_up n)"
proof -
  have "unat (wb_buf wb + ucast (wb_round_up n)) = unat (wb_buf wb) + unat (wb_round_up n)"
    using assms by (subst unat_plus_64) (simp_all add: wb_ok_def)
  then show "wb_lo (snd (vb2_workbuf_alloc wb n)) = wb_lo wb + unat (wb_round_up n)"
    using assms by (simp add: wb_alloc_cases)
  show "unat (wb_size (snd (vb2_workbuf_alloc wb n))) = unat (wb_size wb) - unat (wb_round_up n)"
    using assms by (simp add: wb_alloc_cases unat_sub word_le_nat_alt)
qed

interpretation wb: stack_allocator wb_ok wb_lo wb_hi wb_fits vb2_workbuf_alloc vb2_workbuf_free
proof
  fix s n
  assume ok: "wb_ok s"
  show "wb_lo s \<le> wb_hi s" by (simp add: wb_hi_def)
  have ptr: "fst (vb2_workbuf_alloc s n) \<noteq> NULL \<longleftrightarrow> unat (wb_round_up n) \<le> unat (wb_size s)"
    using ok by (simp add: wb_alloc_cases wb_ok_def)
  have dvd: "16 dvd unat (wb_round_up n)" by (simp add: unat_wb_round_up)
  assume fits: "wb_fits n"
  then have room: "unat n \<le> unat (wb_round_up n)"
    by (simp add: wb_fits_def unat_wb_round_up word_le_nat_alt)
  show "wb_hi (snd (vb2_workbuf_alloc s n)) = wb_hi s"
    using wb_after_alloc [OF ok, of n] wb_alloc_cases [OF ok, of n]
    by (cases "unat (wb_round_up n) \<le> unat (wb_size s)") (simp_all add: wb_hi_def)
  show "wb_ok (snd (vb2_workbuf_alloc s n))"
  proof (cases "unat (wb_round_up n) \<le> unat (wb_size s)")
    case True
    have "0 < wb_lo (snd (vb2_workbuf_alloc s n))"
      using wb_after_alloc(1) [OF ok True] ok by (simp add: wb_ok_def unat_gt_0)
    then show ?thesis
      using wb_after_alloc [OF ok True] True ok dvd by (auto simp: wb_ok_def)
  qed (use ok wb_alloc_cases [OF ok, of n] in simp)
  show "fst (vb2_workbuf_alloc s n) = NULL \<Longrightarrow> snd (vb2_workbuf_alloc s n) = s"
    using ptr wb_alloc_cases [OF ok, of n] by (simp split: if_splits)
  assume nn: "fst (vb2_workbuf_alloc s n) \<noteq> NULL"
  show "unat (fst (vb2_workbuf_alloc s n)) = wb_lo s"
    using nn ptr wb_alloc_cases [OF ok, of n] by simp
  show "wb_lo s + unat n \<le> wb_lo (snd (vb2_workbuf_alloc s n))"
    using nn ptr room wb_after_alloc(1) [OF ok, of n] by simp
  show "vb2_workbuf_free (snd (vb2_workbuf_alloc s n)) n = s"
    using nn ptr wb_alloc_cases [OF ok, of n] by (simp add: vb2_workbuf_free_def Let_def)
qed

section \<open>What the callers see\<close>

lemma unat_and_15: "unat ((x::u64) AND 15) = unat x mod 16"
proof -
  have "x AND 15 = take_bit 4 x" by (simp add: take_bit_eq_mask mask_eq_exp_minus_1)
  moreover have "unat (take_bit 4 x) = take_bit 4 (unat x)" by (rule unsigned_take_bit_eq)
  ultimately have "unat (x AND 15) = take_bit 4 (unat x)" by (simp only:)
  then show ?thesis by (simp add: take_bit_eq_mod)
qed

lemma workbuf_init_cases:
  assumes "buf \<noteq> NULL" and "unat buf + unat sz < 2 ^ 64"
  shows "if unat buf mod 16 = 0 \<or> 16 - unat buf mod 16 \<le> unat sz
    then wb_ok (vb2_workbuf_init buf sz) \<and> unat buf \<le> wb_lo (vb2_workbuf_init buf sz) \<and>
         wb_lo (vb2_workbuf_init buf sz) < unat buf + 16 \<and>
         wb_hi (vb2_workbuf_init buf sz) = unat buf + unat sz
    else wb_size (vb2_workbuf_init buf sz) = 0"
proof (cases "unat buf mod 16 = 0")
  case True
  then have "buf AND 15 = 0" by (simp add: unat_and_15 flip: unat_eq_0)
  with True assms show ?thesis
    by (simp add: vb2_workbuf_init_def vb2_align_def wb_ok_def wb_hi_def dvd_eq_mod_eq_0)
next
  case False
  define offs where "offs = (16::u64) - (buf AND 15)"
  have "buf AND 15 \<le> 16" using unat_and_15 [of buf] by (simp add: word_le_nat_alt)
  then have offs: "unat offs = 16 - unat buf mod 16" by (simp add: offs_def unat_sub unat_and_15)
  have ne: "buf AND 15 \<noteq> 0" using False by (simp add: unat_and_15 flip: unat_eq_0)
  have init: "vb2_workbuf_init buf sz =
      (if ucast sz < offs then \<lparr>wb_buf = buf, wb_size = 0\<rparr>
       else \<lparr>wb_buf = buf + offs, wb_size = sz - ucast offs\<rparr>)"
    using ne by (simp add: vb2_workbuf_init_def vb2_align_def offs_def Let_def)
  show ?thesis
  proof (cases "unat offs \<le> unat sz")
    case True
    have sum: "unat (buf + offs) = unat buf + unat offs"
      using True assms by (intro unat_plus_64) simp
    have "unat (ucast offs :: u32) = unat offs"
      using offs by (simp add: unsigned_ucast_eq take_bit_nat_eq_self)
    then have "unat (sz - ucast offs) = unat sz - unat offs"
      using True by (simp add: unat_sub word_le_nat_alt)
    moreover have "16 dvd unat buf + unat offs" using offs by presburger
    moreover have "buf + offs \<noteq> 0" using sum assms(1) by (metis add_is_0 unat_eq_0 unsigned_0)
    moreover have "16 - unat buf mod 16 \<le> unat sz" "unat offs < 16" using True False offs by simp_all
    ultimately show ?thesis
      using True assms sum by (simp add: init wb_ok_def wb_hi_def word_less_nat_alt)
  qed (use offs False in \<open>simp add: init word_less_nat_alt\<close>)
qed

text \<open>
  Setting up a work buffer at a nonzero address yields an aligned buffer that ends where the
  given area ends and loses at most fifteen bytes; an area too small to align gets size zero.
\<close>

lemma vb2_workbuf_init_correct:
  assumes "buf \<noteq> NULL" and "unat buf + unat sz < 2 ^ 64"
  shows "if unat buf mod 16 = 0 \<or> 16 - unat buf mod 16 \<le> unat sz
    then wb_ok (vb2_workbuf_init buf sz) \<and> unat buf \<le> wb_lo (vb2_workbuf_init buf sz) \<and>
         wb_lo (vb2_workbuf_init buf sz) < unat buf + 16 \<and>
         wb_hi (vb2_workbuf_init buf sz) = unat buf + unat sz
    else wb_size (vb2_workbuf_init buf sz) = 0"
  using assms by (rule workbuf_init_cases)

text \<open>
  C38. In any run of allocations of at most \<^verbatim>\<open>0xfffffff0\<close> bytes each, the areas handed out lie inside
  the free part of the buffer and never overlap.
\<close>

theorem vb2_workbuf_allocs_disjoint:
  assumes "wb_ok wb" and "\<forall>n \<in> set ns. n \<le> 0xfffffff0"
  shows "sorted_wrt (\<lambda>(p, n) (q, m). p + n \<le> q) (wb.allocs wb ns) \<and>
    (\<forall>(p, n) \<in> set (wb.allocs wb ns). wb_lo wb \<le> p \<and> p + n \<le> wb_hi wb)"
  using wb.allocs_disjoint [of wb ns] wb.allocs_inside [of wb ns] assms by (auto simp: wb_fits_def)

theorem vb2_workbuf_allocs_disjoint_witness:
  "sorted_wrt (\<lambda>(p, n) (q, m). p + n \<le> q)
     (wb.allocs \<lparr>wb_buf = 0x1000, wb_size = 0x100\<rparr> [0x20, 0x1000, 0x31])"
proof -
  have "wb_ok \<lparr>wb_buf = 0x1000, wb_size = 0x100\<rparr>" by (simp add: wb_ok_def)
  from vb2_workbuf_allocs_disjoint [OF this, of "[0x20, 0x1000, 0x31]"] show ?thesis by simp
qed

text \<open>
  Freeing the last allocation restores the buffer, and reallocating it behaves like allocating
  the new size in its place: a successful reallocation returns the old address.
\<close>

lemma vb2_workbuf_free_realloc:
  assumes "wb_ok wb" and "n \<le> 0xfffffff0" and "fst (vb2_workbuf_alloc wb n) \<noteq> NULL"
  shows "vb2_workbuf_free (snd (vb2_workbuf_alloc wb n)) n = wb \<and>
    vb2_workbuf_realloc (snd (vb2_workbuf_alloc wb n)) n m = vb2_workbuf_alloc wb m \<and>
    fst (vb2_workbuf_realloc (snd (vb2_workbuf_alloc wb n)) n m) \<in> {NULL, fst (vb2_workbuf_alloc wb n)}"
proof -
  have f: "vb2_workbuf_free (snd (vb2_workbuf_alloc wb n)) n = wb"
    using assms wb.free_alloc by (simp add: wb_fits_def)
  then show ?thesis
    using assms wb_alloc_cases [OF assms(1), of n] wb_alloc_cases [OF assms(1), of m]
    by (auto simp: vb2_workbuf_realloc_def)
qed

text \<open>
  C39. A request for one of the fifteen largest sizes is granted from any buffer and reserves
  nothing: the rounding wraps around to zero.
\<close>

theorem vb2_workbuf_alloc_wraps:
  assumes "n > 0xfffffff0"
  shows "vb2_workbuf_alloc wb n = (wb_buf wb, wb)"
proof -
  have "wb_round_up n = 0"
    using assms by (simp add: unat_wb_round_up word_less_nat_alt flip: unat_eq_0)
  then show ?thesis by (simp add: vb2_workbuf_alloc_def)
qed

theorem vb2_workbuf_alloc_wraps_witness:
  "vb2_workbuf_alloc \<lparr>wb_buf = 0x1000, wb_size = 0\<rparr> 0xfffffff1 = (0x1000, \<lparr>wb_buf = 0x1000, wb_size = 0\<rparr>)"
  using vb2_workbuf_alloc_wraps [of "0xfffffff1" "\<lparr>wb_buf = 0x1000, wb_size = 0\<rparr>"] by simp

end
