(* ===== verification/Boot_Misc.thy ===== *)
theory Boot_Misc
  imports Nvstorage Secdata Workbuf
begin

text \<open>
  The decisions of the early boot, \<^verbatim>\<open>firmware/2lib/2misc.c\<close>: the GBB header, the failure handler, the
  recovery and developer-mode checks, the TPM clear request and the choice of the firmware slot.

  The platform callbacks \<^verbatim>\<open>vb2ex_*\<close> of \<^verbatim>\<open>2api.h\<close> are a parameter of the model.  They see the
  context and return a code and data; they do not modify the context.
\<close>

section \<open>Platform callbacks\<close>

datatype vb2_resource_index = VB2_RES_GBB | VB2_RES_FW_VBLOCK | VB2_RES_KERNEL_VBLOCK

record vb2_platform =
  vb2ex_tpm_clear_owner :: "vb2_context \<Rightarrow> u32"
  vb2ex_read_resource :: "vb2_context \<Rightarrow> vb2_resource_index \<Rightarrow> u32 \<Rightarrow> u32 \<Rightarrow> u32 \<times> bytes"

text \<open>The documented behaviour of a read: on success it delivers the amount of data asked for.\<close>

definition reads_full :: "vb2_platform \<Rightarrow> bool" where
  "reads_full pl \<longleftrightarrow> (\<forall>ctx i off sz. fst (vb2ex_read_resource pl ctx i off sz) = VB2_SUCCESS \<longrightarrow>
     length (snd (vb2ex_read_resource pl ctx i off sz)) = unat sz)"

section \<open>GBB header\<close>

abbreviation (input) VB2_GBB_SIGNATURE_SIZE :: nat where "VB2_GBB_SIGNATURE_SIZE \<equiv> 4"
abbreviation (input) VB2_GBB_XOR_CHARS :: bytes where "VB2_GBB_XOR_CHARS \<equiv> [0x2a, 0x2a, 0x2a, 0x2a]"
abbreviation (input) VB2_GBB_XOR_SIGNATURE :: bytes where
  "VB2_GBB_XOR_SIGNATURE \<equiv> [0x0e, 0x6d, 0x68, 0x68]"
abbreviation (input) VB2_GBB_MAJOR_VER :: u16 where "VB2_GBB_MAJOR_VER \<equiv> 1"
abbreviation (input) VB2_GBB_MINOR_VER :: u16 where "VB2_GBB_MINOR_VER \<equiv> 2"

text \<open>Offsets of the fields of \<^verbatim>\<open>struct vb2_gbb_header\<close>.\<close>

abbreviation (input) GBB_major_version :: nat where "GBB_major_version \<equiv> 4"
abbreviation (input) GBB_minor_version :: nat where "GBB_minor_version \<equiv> 6"
abbreviation (input) GBB_header_size :: nat where "GBB_header_size \<equiv> 8"
abbreviation (input) GBB_flags :: nat where "GBB_flags \<equiv> 12"
abbreviation (input) GBB_rootkey_offset :: nat where "GBB_rootkey_offset \<equiv> 24"
abbreviation (input) GBB_rootkey_size :: nat where "GBB_rootkey_size \<equiv> 28"
abbreviation (input) GBB_recovery_key_offset :: nat where "GBB_recovery_key_offset \<equiv> 40"
abbreviation (input) GBB_recovery_key_size :: nat where "GBB_recovery_key_size \<equiv> 44"
abbreviation (input) GBB_hwid_digest :: nat where "GBB_hwid_digest \<equiv> 48"
abbreviation (input) SIZEOF_GBB_HEADER :: u32 where "SIZEOF_GBB_HEADER \<equiv> 128"

definition vb2_validate_gbb_signature :: "bytes \<Rightarrow> u32" where
  "vb2_validate_gbb_signature sig =
     (if \<exists>i<VB2_GBB_SIGNATURE_SIZE. sig ! i \<noteq> VB2_GBB_XOR_SIGNATURE ! i XOR VB2_GBB_XOR_CHARS ! i
      then VB2_ERROR_GBB_MAGIC else VB2_SUCCESS)"

definition vb2_workbuf_from_ctx :: "vb2_context \<Rightarrow> vb2_workbuf" where
  "vb2_workbuf_from_ctx ctx =
     vb2_workbuf_init (workbuf ctx + ucast (workbuf_used ctx)) (workbuf_size ctx - workbuf_used ctx)"

definition vb2_read_gbb_header :: "vb2_platform \<Rightarrow> vb2_context \<Rightarrow> u32 \<times> bytes" where
  "vb2_read_gbb_header pl ctx =
     (case vb2ex_read_resource pl ctx VB2_RES_GBB 0 SIZEOF_GBB_HEADER of
        (rv, gbb) \<Rightarrow>
          if rv \<noteq> VB2_SUCCESS then (rv, gbb)
          else if vb2_validate_gbb_signature gbb \<noteq> VB2_SUCCESS then (vb2_validate_gbb_signature gbb, gbb)
          else if rd16 gbb GBB_major_version \<noteq> VB2_GBB_MAJOR_VER then (VB2_ERROR_GBB_VERSION, gbb)
          else if rd16 gbb GBB_minor_version < VB2_GBB_MINOR_VER then (VB2_ERROR_GBB_TOO_OLD, gbb)
          else if rd32 gbb GBB_header_size < SIZEOF_GBB_HEADER then (VB2_ERROR_GBB_HEADER_SIZE, gbb)
          else (VB2_SUCCESS, gbb))"

section \<open>Failure handling\<close>

definition vb2_fail_request_recovery :: "vb2_context \<Rightarrow> u8 \<Rightarrow> u8 \<Rightarrow> vb2_context" where
  "vb2_fail_request_recovery ctx reason subcode =
     (if vb2_nv_get ctx VB2_NV_RECOVERY_REQUEST = 0 then
        let ctx = vb2_nv_set ctx VB2_NV_RECOVERY_REQUEST (ucast reason)
        in vb2_nv_set ctx VB2_NV_RECOVERY_SUBCODE (ucast subcode)
      else ctx)"

definition vb2_fail :: "vb2_context \<Rightarrow> u8 \<Rightarrow> u8 \<Rightarrow> vb2_context" where
  "vb2_fail ctx reason subcode =
     (let ctx = (if \<not> has_flag (sd_status (sd ctx)) VB2_SD_STATUS_NV_INIT then vb2_nv_init ctx else ctx) in
      if has_flag (sd_status (sd ctx)) VB2_SD_STATUS_CHOSE_SLOT then
        let ctx = vb2_nv_set ctx VB2_NV_FW_RESULT VB2_FW_RESULT_FAILURE;
            ctx = vb2_nv_set ctx VB2_NV_TRY_COUNT 0;
            ctx = vb2_nv_set ctx VB2_NV_TRY_NEXT (1 - sd_fw_slot (sd ctx))
        in if sd_last_fw_slot (sd ctx) \<noteq> 1 - sd_fw_slot (sd ctx) \<or>
              sd_last_fw_result (sd ctx) \<noteq> VB2_FW_RESULT_FAILURE
           then ctx
           else vb2_fail_request_recovery ctx reason subcode
      else vb2_fail_request_recovery ctx reason subcode)"

definition vb2_init_context :: "vb2_context \<Rightarrow> u32 \<times> vb2_context" where
  "vb2_init_context ctx =
     (if workbuf_used ctx \<noteq> 0 then (VB2_SUCCESS, ctx)
      else if workbuf_size ctx < of_nat SIZEOF_SHARED_DATA then (VB2_ERROR_INITCTX_WORKBUF_SMALL, ctx)
      else if workbuf ctx AND ucast (VB2_WORKBUF_ALIGN - 1) \<noteq> 0
      then (VB2_ERROR_INITCTX_WORKBUF_ALIGN, ctx)
      else (VB2_SUCCESS, ctx\<lparr>sd := zero_shared_data, workbuf_used := of_nat SIZEOF_SHARED_DATA\<rparr>))"

section \<open>Recovery, developer mode, TPM owner, firmware slot\<close>

definition vb2_check_recovery :: "vb2_context \<Rightarrow> vb2_context" where
  "vb2_check_recovery ctx =
     (let reason = vb2_nv_get ctx VB2_NV_RECOVERY_REQUEST;
          subcode = vb2_nv_get ctx VB2_NV_RECOVERY_SUBCODE;
          ctx = (if sd_recovery_reason (sd ctx) = 0
                 then upd_sd (\<lambda>d. d\<lparr>sd_recovery_reason := reason\<rparr>) ctx else ctx);
          ctx = vb2_nv_set ctx VB2_NV_RECOVERY_REQUEST VB2_RECOVERY_NOT_REQUESTED;
          ctx = vb2_nv_set ctx VB2_NV_RECOVERY_SUBCODE VB2_RECOVERY_NOT_REQUESTED;
          ctx = (if has_flag (ctx_flags ctx) VB2_CONTEXT_FORCE_RECOVERY_MODE then
                   upd_sd (\<lambda>d. d\<lparr>sd_recovery_reason :=
                                  (if subcode \<noteq> 0 \<and> sd_recovery_reason d = 0 then subcode
                                   else VB2_RECOVERY_RO_MANUAL),
                                sd_flags := sd_flags d OR VB2_SD_FLAG_MANUAL_RECOVERY\<rparr>) ctx
                 else ctx)
      in if sd_recovery_reason (sd ctx) \<noteq> 0 then ctx_set_flag VB2_CONTEXT_RECOVERY_MODE ctx else ctx)"

definition vb2_fw_parse_gbb :: "vb2_platform \<Rightarrow> vb2_context \<Rightarrow> u32 \<times> vb2_context" where
  "vb2_fw_parse_gbb pl ctx =
     (let wb = vb2_workbuf_from_ctx ctx in
      if fst (vb2_workbuf_alloc wb SIZEOF_GBB_HEADER) = NULL then (VB2_ERROR_GBB_WORKBUF, ctx)
      else case vb2_read_gbb_header pl ctx of
        (rv, gbb) \<Rightarrow>
          if rv \<noteq> VB2_SUCCESS then (rv, ctx)
          else (VB2_SUCCESS,
                upd_sd (\<lambda>d. d\<lparr>sd_gbb_flags := rd32 gbb GBB_flags,
                              sd_gbb_rootkey_offset := rd32 gbb GBB_rootkey_offset,
                              sd_gbb_rootkey_size := rd32 gbb GBB_rootkey_size,
                              sd_gbb_hwid_digest := take VB2_GBB_HWID_DIGEST_SIZE (drop GBB_hwid_digest gbb)\<rparr>)
                  ctx))"

text \<open>The six settings writes of \<^verbatim>\<open>vb2_check_dev_switch()\<close> in normal mode.\<close>

definition clear_dev_boot_flags :: "vb2_context \<Rightarrow> vb2_context" where
  "clear_dev_boot_flags ctx =
     foldl (\<lambda>c q. vb2_nv_set c q 0) ctx
       [VB2_NV_DEV_BOOT_USB, VB2_NV_DEV_BOOT_LEGACY, VB2_NV_DEV_BOOT_SIGNED_ONLY,
        VB2_NV_DEV_BOOT_FASTBOOT_FULL_CAP, VB2_NV_DEV_DEFAULT_BOOT, VB2_NV_FASTBOOT_UNLOCK_IN_FW]"

definition vb2_check_dev_switch :: "vb2_platform \<Rightarrow> vb2_context \<Rightarrow> u32 \<times> vb2_context" where
  "vb2_check_dev_switch pl ctx =
     (case (case vb2_secdata_get ctx VB2_SECDATA_FLAGS of
              Inr flags \<Rightarrow> Inr (True, flags)
            | Inl rv \<Rightarrow> if has_flag (ctx_flags ctx) VB2_CONTEXT_RECOVERY_MODE then Inr (False, 0) else Inl rv) of
        Inl rv \<Rightarrow> (rv, ctx)
      | Inr (use_secdata, old_flags) \<Rightarrow>
          let flags = old_flags;
              (flags, ctx) =
                (if use_secdata \<and> vb2_nv_get ctx VB2_NV_DISABLE_DEV_REQUEST \<noteq> 0
                 then (clear_flag flags VB2_SECDATA_FLAG_DEV_MODE, vb2_nv_set ctx VB2_NV_DISABLE_DEV_REQUEST 0)
                 else (flags, ctx));
              flags = (if has_flag (ctx_flags ctx) VB2_DISABLE_DEVELOPER_MODE
                       then clear_flag flags VB2_SECDATA_FLAG_DEV_MODE else flags);
              is_dev = (has_flag flags VB2_SECDATA_FLAG_DEV_MODE \<or>
                        has_flag (ctx_flags ctx) VB2_CONTEXT_FORCE_DEVELOPER_MODE \<or>
                        has_flag (sd_gbb_flags (sd ctx)) VB2_GBB_FLAG_FORCE_DEV_SWITCH_ON);
              (flags, ctx) =
                (if is_dev
                 then (flags OR VB2_SECDATA_FLAG_LAST_BOOT_DEVELOPER,
                       ctx_set_flag VB2_CONTEXT_DEVELOPER_MODE
                         (upd_sd (\<lambda>d. d\<lparr>sd_flags := sd_flags d OR VB2_SD_DEV_MODE_ENABLED\<rparr>) ctx))
                 else (clear_flag flags VB2_SECDATA_FLAG_LAST_BOOT_DEVELOPER, clear_dev_boot_flags ctx));
              ctx = (if has_flag (ctx_flags ctx) VB2_CONTEXT_FORCE_WIPEOUT_MODE
                     then vb2_nv_set ctx VB2_NV_REQ_WIPEOUT 1 else ctx)
          in if flags \<noteq> old_flags then
               let rv = vb2ex_tpm_clear_owner pl ctx in
               if use_secdata then
                 if rv \<noteq> VB2_SUCCESS
                 then (rv, vb2_fail ctx (ucast VB2_RECOVERY_TPM_CLEAR_OWNER) (ucast rv))
                 else vb2_secdata_set ctx VB2_SECDATA_FLAGS flags
               else (VB2_SUCCESS, ctx)
             else (VB2_SUCCESS, ctx))"

definition vb2_check_tpm_clear :: "vb2_platform \<Rightarrow> vb2_context \<Rightarrow> u32 \<times> vb2_context" where
  "vb2_check_tpm_clear pl ctx =
     (if vb2_nv_get ctx VB2_NV_CLEAR_TPM_OWNER_REQUEST = 0 then (VB2_SUCCESS, ctx)
      else
        let ctx = vb2_nv_set ctx VB2_NV_CLEAR_TPM_OWNER_REQUEST 0;
            rv = vb2ex_tpm_clear_owner pl ctx
        in if rv \<noteq> VB2_SUCCESS
           then (rv, vb2_fail ctx (ucast VB2_RECOVERY_TPM_CLEAR_OWNER) (ucast rv))
           else (VB2_SUCCESS, vb2_nv_set ctx VB2_NV_CLEAR_TPM_OWNER_DONE 1))"

definition vb2_select_fw_slot :: "vb2_context \<Rightarrow> u32 \<times> vb2_context" where
  "vb2_select_fw_slot ctx =
     (let ctx = upd_sd (\<lambda>d. d\<lparr>sd_last_fw_slot := vb2_nv_get ctx VB2_NV_FW_TRIED,
                              sd_last_fw_result := vb2_nv_get ctx VB2_NV_FW_RESULT\<rparr>) ctx;
          ctx = vb2_nv_set ctx VB2_NV_FW_PREV_TRIED (sd_last_fw_slot (sd ctx));
          ctx = vb2_nv_set ctx VB2_NV_FW_PREV_RESULT (sd_last_fw_result (sd ctx));
          ctx = vb2_nv_set ctx VB2_NV_FW_RESULT VB2_FW_RESULT_UNKNOWN;
          ctx = upd_sd (\<lambda>d. d\<lparr>sd_fw_slot := vb2_nv_get ctx VB2_NV_TRY_NEXT\<rparr>) ctx;
          tries = vb2_nv_get ctx VB2_NV_TRY_COUNT;
          ctx = (if sd_last_fw_result (sd ctx) = VB2_FW_RESULT_TRYING \<and>
                    sd_last_fw_slot (sd ctx) = sd_fw_slot (sd ctx) \<and> tries = 0
                 then let ctx = upd_sd (\<lambda>d. d\<lparr>sd_fw_slot := 1 - sd_fw_slot d\<rparr>) ctx
                      in vb2_nv_set ctx VB2_NV_TRY_NEXT (sd_fw_slot (sd ctx))
                 else ctx);
          ctx = (if tries > 0 then
                   let ctx = vb2_nv_set ctx VB2_NV_FW_RESULT VB2_FW_RESULT_TRYING
                   in if \<not> has_flag (ctx_flags ctx) VB2_CONTEXT_NOFAIL_BOOT
                      then vb2_nv_set ctx VB2_NV_TRY_COUNT (tries - 1) else ctx
                 else ctx);
          ctx = vb2_nv_set ctx VB2_NV_FW_TRIED (sd_fw_slot (sd ctx));
          ctx = (if sd_fw_slot (sd ctx) \<noteq> 0 then ctx_set_flag VB2_CONTEXT_FW_SLOT_B ctx else ctx);
          ctx = upd_sd (\<lambda>d. d\<lparr>sd_status := sd_status d OR VB2_SD_STATUS_CHOSE_SLOT\<rparr>) ctx
      in (VB2_SUCCESS, ctx))"

section \<open>Effect on the stored parameters: failures and slots\<close>

abbreviation nv_inited :: "vb2_context \<Rightarrow> bool" where
  "nv_inited ctx \<equiv> length (nvdata ctx) = VB2_NVDATA_SIZE \<and> has_flag (sd_status (sd ctx)) VB2_SD_STATUS_NV_INIT"

lemma u8_not_gt_255 [simp]: "\<not> 255 < (ucast (x::u8) :: u32)"
  by (rule field_bounds)

definition slots_exhausted :: "vb2_shared_data \<Rightarrow> bool" where
  "slots_exhausted d \<longleftrightarrow> has_flag (sd_status d) VB2_SD_STATUS_CHOSE_SLOT \<longrightarrow>
     sd_last_fw_slot d = 1 - sd_fw_slot d \<and> sd_last_fw_result d = VB2_FW_RESULT_FAILURE"

definition fail_recovery :: "(vb2_nv_param \<Rightarrow> u32) \<Rightarrow> u8 \<Rightarrow> u8 \<Rightarrow> vb2_nv_param \<Rightarrow> u32" where
  "fail_recovery f reason subcode =
     (if f VB2_NV_RECOVERY_REQUEST = 0
      then f(VB2_NV_RECOVERY_REQUEST := ucast reason, VB2_NV_RECOVERY_SUBCODE := ucast subcode) else f)"

lemma vb2_fail_frame [simp]:
  assumes "has_flag (sd_status (sd ctx)) VB2_SD_STATUS_NV_INIT"
  shows "sd (vb2_fail ctx r s) = sd ctx"
  "workbuf (vb2_fail ctx r s) = workbuf ctx"
  "workbuf_size (vb2_fail ctx r s) = workbuf_size ctx"
  "workbuf_used (vb2_fail ctx r s) = workbuf_used ctx"
  "secdata (vb2_fail ctx r s) = secdata ctx"
  "secdatak (vb2_fail ctx r s) = secdatak ctx"
  "length (nvdata (vb2_fail ctx r s)) = length (nvdata ctx)"
  "m AND VB2_CONTEXT_NVDATA_CHANGED = 0 \<Longrightarrow>
   has_flag (ctx_flags (vb2_fail ctx r s)) m \<longleftrightarrow> has_flag (ctx_flags ctx) m"
  using assms by (simp_all add: vb2_fail_def vb2_fail_request_recovery_def Let_def)

lemma vb2_fail_nv:
  assumes "nv_inited ctx"
  shows "vb2_nv_get (vb2_fail ctx r s) =
    (let f = (if has_flag (sd_status (sd ctx)) VB2_SD_STATUS_CHOSE_SLOT
              then (vb2_nv_get ctx)(VB2_NV_FW_RESULT := VB2_FW_RESULT_FAILURE, VB2_NV_TRY_COUNT := 0,
                      VB2_NV_TRY_NEXT := (if sd_fw_slot (sd ctx) = 1 then 0 else 1))
              else vb2_nv_get ctx)
     in if slots_exhausted (sd ctx) then fail_recovery f r s else f)"
  using assms
  by (auto simp: vb2_fail_def vb2_fail_request_recovery_def slots_exhausted_def fail_recovery_def Let_def fun_eq_iff)


text \<open>Values read from one- and two-bit parameters.\<close>

lemma nv_bit_values: "vb2_nv_get ctx VB2_NV_TRY_NEXT \<in> {0, 1}" "vb2_nv_get ctx VB2_NV_FW_TRIED \<in> {0, 1}"
  by (simp_all add: vb2_nv_get.simps GETBIT_def)

lemma nv_clip_get_simps [simp]:
  "nv_clip VB2_NV_FW_RESULT (vb2_nv_get ctx VB2_NV_FW_RESULT) = vb2_nv_get ctx VB2_NV_FW_RESULT"
  by (rule nv_clip_get)

text \<open>The slot \<^verbatim>\<open>vb2_select_fw_slot()\<close> picks, as a function of the stored parameters.\<close>

definition slot_choice :: "(vb2_nv_param \<Rightarrow> u32) \<Rightarrow> u32" where
  "slot_choice f =
     (if f VB2_NV_FW_RESULT = VB2_FW_RESULT_TRYING \<and> f VB2_NV_FW_TRIED = f VB2_NV_TRY_NEXT \<and> f VB2_NV_TRY_COUNT = 0
      then 1 - f VB2_NV_TRY_NEXT else f VB2_NV_TRY_NEXT)"

lemma slot_choice_bit: "slot_choice (vb2_nv_get ctx) \<in> {0, 1}"
  using nv_bit_values [of ctx] by (auto simp: slot_choice_def)

text \<open>
  The selection in three steps: record the last boot, choose the slot and count the try, store the
  choice.
\<close>

definition slot_record :: "vb2_context \<Rightarrow> vb2_context" where
  "slot_record ctx =
     (let ctx = upd_sd (\<lambda>d. d\<lparr>sd_last_fw_slot := vb2_nv_get ctx VB2_NV_FW_TRIED,
                              sd_last_fw_result := vb2_nv_get ctx VB2_NV_FW_RESULT\<rparr>) ctx;
          ctx = vb2_nv_set ctx VB2_NV_FW_PREV_TRIED (sd_last_fw_slot (sd ctx));
          ctx = vb2_nv_set ctx VB2_NV_FW_PREV_RESULT (sd_last_fw_result (sd ctx));
          ctx = vb2_nv_set ctx VB2_NV_FW_RESULT VB2_FW_RESULT_UNKNOWN
      in upd_sd (\<lambda>d. d\<lparr>sd_fw_slot := vb2_nv_get ctx VB2_NV_TRY_NEXT\<rparr>) ctx)"

definition slot_fallback :: "vb2_context \<Rightarrow> vb2_context" where
  "slot_fallback ctx =
    (if sd_last_fw_result (sd ctx) = VB2_FW_RESULT_TRYING \<and>
        sd_last_fw_slot (sd ctx) = sd_fw_slot (sd ctx) \<and> vb2_nv_get ctx VB2_NV_TRY_COUNT = 0
     then let ctx = upd_sd (\<lambda>d. d\<lparr>sd_fw_slot := 1 - sd_fw_slot d\<rparr>) ctx
          in vb2_nv_set ctx VB2_NV_TRY_NEXT (sd_fw_slot (sd ctx))
     else ctx)"

definition slot_count :: "vb2_context \<Rightarrow> vb2_context" where
  "slot_count ctx =
    (let tries = vb2_nv_get ctx VB2_NV_TRY_COUNT in
     if tries > 0 then
       let ctx = vb2_nv_set ctx VB2_NV_FW_RESULT VB2_FW_RESULT_TRYING
       in if \<not> has_flag (ctx_flags ctx) VB2_CONTEXT_NOFAIL_BOOT
          then vb2_nv_set ctx VB2_NV_TRY_COUNT (tries - 1) else ctx
     else ctx)"

definition slot_store :: "vb2_context \<Rightarrow> vb2_context" where
  "slot_store ctx =
     (let ctx = vb2_nv_set ctx VB2_NV_FW_TRIED (sd_fw_slot (sd ctx));
          ctx = (if sd_fw_slot (sd ctx) \<noteq> 0 then ctx_set_flag VB2_CONTEXT_FW_SLOT_B ctx else ctx)
      in upd_sd (\<lambda>d. d\<lparr>sd_status := sd_status d OR VB2_SD_STATUS_CHOSE_SLOT\<rparr>) ctx)"

lemma length_slot_steps [simp]:
  "length (nvdata (slot_record ctx)) = length (nvdata ctx)"
  "length (nvdata (slot_fallback ctx)) = length (nvdata ctx)"
  "length (nvdata (slot_count ctx)) = length (nvdata ctx)"
  "length (nvdata (slot_store ctx)) = length (nvdata ctx)"
  by (simp_all add: slot_record_def slot_fallback_def slot_count_def slot_store_def Let_def)

lemma flags_slot_steps [simp]:
  assumes "m AND VB2_CONTEXT_NVDATA_CHANGED = 0"
  shows "has_flag (ctx_flags (slot_record ctx)) m \<longleftrightarrow> has_flag (ctx_flags ctx) m"
    "has_flag (ctx_flags (slot_fallback ctx)) m \<longleftrightarrow> has_flag (ctx_flags ctx) m"
    "has_flag (ctx_flags (slot_count ctx)) m \<longleftrightarrow> has_flag (ctx_flags ctx) m"
  using assms by (simp_all add: slot_record_def slot_fallback_def slot_count_def Let_def)

lemma slot_fallback_tries:
  "length (nvdata ctx) = VB2_NVDATA_SIZE \<Longrightarrow>
   vb2_nv_get (slot_fallback ctx) VB2_NV_TRY_COUNT = vb2_nv_get ctx VB2_NV_TRY_COUNT"
  by (simp add: slot_fallback_def Let_def)

lemma select_fw_slot_steps:
  assumes "length (nvdata ctx) = VB2_NVDATA_SIZE"
  shows "vb2_select_fw_slot ctx = (VB2_SUCCESS, slot_store (slot_count (slot_fallback (slot_record ctx))))"
  unfolding slot_count_def slot_fallback_tries [OF length_slot_steps(1) [of ctx, unfolded assms]]
  unfolding vb2_select_fw_slot_def slot_record_def slot_fallback_def slot_store_def Let_def
  by (rule refl)


lemma nv_get_set_fun:
  "length (nvdata ctx) = VB2_NVDATA_SIZE \<Longrightarrow> vb2_nv_get (vb2_nv_set ctx q v) = (vb2_nv_get ctx)(q := nv_clip q v)"
  by (rule ext) simp

lemma nv_get_upd_fun: "vb2_nv_get (upd_sd f ctx) = vb2_nv_get ctx" "vb2_nv_get (ctx\<lparr>ctx_flags := m\<rparr>) = vb2_nv_get ctx"
  by (rule ext, simp)+

lemma nv_clip_bit:
  "x \<in> {0, 1} \<Longrightarrow> nv_clip VB2_NV_FW_PREV_TRIED x = x"
  "x \<in> {0, 1} \<Longrightarrow> nv_clip VB2_NV_FW_TRIED x = x"
  "x \<in> {0, 1} \<Longrightarrow> nv_clip VB2_NV_TRY_NEXT x = x"
  by auto

lemma slot_record_effect:
  assumes "length (nvdata ctx) = VB2_NVDATA_SIZE"
  shows "vb2_nv_get (slot_record ctx) = (vb2_nv_get ctx)(VB2_NV_FW_PREV_TRIED := vb2_nv_get ctx VB2_NV_FW_TRIED,
      VB2_NV_FW_PREV_RESULT := vb2_nv_get ctx VB2_NV_FW_RESULT, VB2_NV_FW_RESULT := VB2_FW_RESULT_UNKNOWN)"
    and "sd (slot_record ctx) = (sd ctx)\<lparr>sd_last_fw_slot := vb2_nv_get ctx VB2_NV_FW_TRIED,
             sd_last_fw_result := vb2_nv_get ctx VB2_NV_FW_RESULT, sd_fw_slot := vb2_nv_get ctx VB2_NV_TRY_NEXT\<rparr>"
proof -
  have "nv_clip VB2_NV_FW_PREV_RESULT (vb2_nv_get ctx VB2_NV_FW_RESULT) = vb2_nv_get ctx VB2_NV_FW_RESULT"
    using nv_clip_get [of VB2_NV_FW_RESULT ctx] by simp
  then show "vb2_nv_get (slot_record ctx) = (vb2_nv_get ctx)(VB2_NV_FW_PREV_TRIED := vb2_nv_get ctx VB2_NV_FW_TRIED,
      VB2_NV_FW_PREV_RESULT := vb2_nv_get ctx VB2_NV_FW_RESULT, VB2_NV_FW_RESULT := VB2_FW_RESULT_UNKNOWN)"
    using assms nv_clip_bit(1) [OF nv_bit_values(2) [of ctx]]
    by (simp add: slot_record_def Let_def nv_get_set_fun nv_get_upd_fun del: nv_clip.simps vb2_nv_get_set)
       (simp add: fun_upd_def)
  show "sd (slot_record ctx) = (sd ctx)\<lparr>sd_last_fw_slot := vb2_nv_get ctx VB2_NV_FW_TRIED,
             sd_last_fw_result := vb2_nv_get ctx VB2_NV_FW_RESULT, sd_fw_slot := vb2_nv_get ctx VB2_NV_TRY_NEXT\<rparr>"
    using assms by (simp add: slot_record_def Let_def)
qed

lemma one_minus_bit: "x \<in> {0, 1 :: u32} \<Longrightarrow> 1 - x \<in> {0, 1}"
  by auto

lemma slot_fallback_effect:
  assumes "length (nvdata ctx) = VB2_NVDATA_SIZE" and "sd_fw_slot (sd ctx) = vb2_nv_get ctx VB2_NV_TRY_NEXT"
  shows "vb2_nv_get (slot_fallback ctx) = (vb2_nv_get ctx)(VB2_NV_TRY_NEXT := sd_fw_slot (sd (slot_fallback ctx)))"
    and "sd (slot_fallback ctx) = (sd ctx)\<lparr>sd_fw_slot :=
      (if sd_last_fw_result (sd ctx) = VB2_FW_RESULT_TRYING \<and>
        sd_last_fw_slot (sd ctx) = sd_fw_slot (sd ctx) \<and> vb2_nv_get ctx VB2_NV_TRY_COUNT = 0
       then 1 - vb2_nv_get ctx VB2_NV_TRY_NEXT else vb2_nv_get ctx VB2_NV_TRY_NEXT)\<rparr>"
  using assms nv_clip_bit(3) [OF one_minus_bit [OF nv_bit_values(1) [of ctx]]]
  by (simp_all add: slot_fallback_def Let_def nv_get_set_fun nv_get_upd_fun del: nv_clip.simps vb2_nv_get_set)

lemma try_count_pred:
  assumes "0 < vb2_nv_get ctx VB2_NV_TRY_COUNT"
  shows "nv_clip VB2_NV_TRY_COUNT (vb2_nv_get ctx VB2_NV_TRY_COUNT - 1) = vb2_nv_get ctx VB2_NV_TRY_COUNT - 1"
proof -
  have "\<not> 15 < vb2_nv_get ctx VB2_NV_TRY_COUNT" by (simp add: vb2_nv_get.simps field_bounds)
  moreover have "unat (vb2_nv_get ctx VB2_NV_TRY_COUNT - 1) = unat (vb2_nv_get ctx VB2_NV_TRY_COUNT) - 1"
    using assms by (intro unat_minus_one) auto
  ultimately have "\<not> 15 < vb2_nv_get ctx VB2_NV_TRY_COUNT - 1" by (simp add: word_less_nat_alt)
  then show ?thesis by simp
qed

lemma slot_count_effect:
  assumes "length (nvdata ctx) = VB2_NVDATA_SIZE"
  shows "vb2_nv_get (slot_count ctx) =
     (let tries = vb2_nv_get ctx VB2_NV_TRY_COUNT in
      if tries > 0
      then (vb2_nv_get ctx)(VB2_NV_FW_RESULT := VB2_FW_RESULT_TRYING,
         VB2_NV_TRY_COUNT := (if has_flag (ctx_flags ctx) VB2_CONTEXT_NOFAIL_BOOT then tries else tries - 1))
      else vb2_nv_get ctx)"
    and "sd (slot_count ctx) = sd ctx"
  using assms try_count_pred [of ctx]
  by (auto simp: slot_count_def Let_def nv_get_set_fun fun_eq_iff simp del: vb2_nv_get_set) 

lemma slot_store_effect:
  assumes "length (nvdata ctx) = VB2_NVDATA_SIZE" and "sd_fw_slot (sd ctx) \<in> {0, 1}"
  shows "vb2_nv_get (slot_store ctx) = (vb2_nv_get ctx)(VB2_NV_FW_TRIED := sd_fw_slot (sd ctx))"
    and "sd (slot_store ctx) = (sd ctx)\<lparr>sd_status := sd_status (sd ctx) OR VB2_SD_STATUS_CHOSE_SLOT\<rparr>"
  using assms
  by (auto simp: slot_store_def Let_def nv_get_set_fun nv_get_upd_fun simp del: vb2_nv_get_set)

lemma select_fw_slot_effect:
  assumes "length (nvdata ctx) = VB2_NVDATA_SIZE"
  shows "vb2_nv_get (snd (vb2_select_fw_slot ctx)) =
    (let f = vb2_nv_get ctx; tries = f VB2_NV_TRY_COUNT in
     f(VB2_NV_FW_PREV_TRIED := f VB2_NV_FW_TRIED, VB2_NV_FW_PREV_RESULT := f VB2_NV_FW_RESULT,
       VB2_NV_FW_RESULT := (if tries > 0 then VB2_FW_RESULT_TRYING else VB2_FW_RESULT_UNKNOWN),
       VB2_NV_TRY_COUNT := (if tries > 0 \<and> \<not> has_flag (ctx_flags ctx) VB2_CONTEXT_NOFAIL_BOOT
                            then tries - 1 else tries),
       VB2_NV_TRY_NEXT := slot_choice f, VB2_NV_FW_TRIED := slot_choice f))" (is ?nv)
    and "sd (snd (vb2_select_fw_slot ctx)) =
    (sd ctx)\<lparr>sd_last_fw_slot := vb2_nv_get ctx VB2_NV_FW_TRIED,
             sd_last_fw_result := vb2_nv_get ctx VB2_NV_FW_RESULT,
             sd_fw_slot := slot_choice (vb2_nv_get ctx),
             sd_status := sd_status (sd ctx) OR VB2_SD_STATUS_CHOSE_SLOT\<rparr>" (is ?sd)
proof -
  note r = slot_record_effect [OF assms]
  have s1: "sd_fw_slot (sd (slot_record ctx)) = vb2_nv_get (slot_record ctx) VB2_NV_TRY_NEXT"
    by (simp add: r)
  have len: "length (nvdata (slot_record ctx)) = VB2_NVDATA_SIZE" using assms by simp
  note f = slot_fallback_effect [OF len s1]
  have slot: "sd_fw_slot (sd (slot_fallback (slot_record ctx))) = slot_choice (vb2_nv_get ctx)"
    unfolding f(2) by (simp add: r slot_choice_def)
  have c: "sd (slot_count (slot_fallback (slot_record ctx))) = sd (slot_fallback (slot_record ctx))"
    "vb2_nv_get (slot_count (slot_fallback (slot_record ctx))) = 
      (let tries = vb2_nv_get ctx VB2_NV_TRY_COUNT in
      if tries > 0
      then (vb2_nv_get (slot_fallback (slot_record ctx)))(VB2_NV_FW_RESULT := VB2_FW_RESULT_TRYING,
         VB2_NV_TRY_COUNT := (if has_flag (ctx_flags ctx) VB2_CONTEXT_NOFAIL_BOOT then tries else tries - 1))
      else vb2_nv_get (slot_fallback (slot_record ctx)))"
    using assms slot_count_effect [of "slot_fallback (slot_record ctx)"] by (simp_all add: f(1) r Let_def)
  show ?sd
    using assms slot slot_choice_bit [of ctx]
    by (simp add: select_fw_slot_steps slot_store_effect c) (simp add: f(2) r slot_choice_def)
  show ?nv
    using assms slot slot_choice_bit [of ctx]
    by (simp add: select_fw_slot_steps slot_store_effect c Let_def f(1) r fun_eq_iff)
qed

section \<open>Effect of the recovery and developer-mode checks\<close>

definition recovery_reason_of :: "vb2_context \<Rightarrow> u32" where
  "recovery_reason_of ctx =
     (let reason = (if sd_recovery_reason (sd ctx) = 0 then vb2_nv_get ctx VB2_NV_RECOVERY_REQUEST
                    else sd_recovery_reason (sd ctx));
          subcode = vb2_nv_get ctx VB2_NV_RECOVERY_SUBCODE
      in if has_flag (ctx_flags ctx) VB2_CONTEXT_FORCE_RECOVERY_MODE
         then if subcode \<noteq> 0 \<and> reason = 0 then subcode else VB2_RECOVERY_RO_MANUAL
         else reason)"

lemma check_recovery_effect:
  assumes "length (nvdata ctx) = VB2_NVDATA_SIZE"
  shows "vb2_nv_get (vb2_check_recovery ctx) =
      (vb2_nv_get ctx)(VB2_NV_RECOVERY_REQUEST := 0, VB2_NV_RECOVERY_SUBCODE := 0)"
    and "sd_recovery_reason (sd (vb2_check_recovery ctx)) = recovery_reason_of ctx"
    and "has_flag (ctx_flags (vb2_check_recovery ctx)) VB2_CONTEXT_RECOVERY_MODE \<longleftrightarrow>
      has_flag (ctx_flags ctx) VB2_CONTEXT_RECOVERY_MODE \<or> recovery_reason_of ctx \<noteq> 0"
    and "length (nvdata (vb2_check_recovery ctx)) = VB2_NVDATA_SIZE"
  using assms
  by (simp_all add: vb2_check_recovery_def recovery_reason_of_def Let_def nv_get_set_fun nv_get_upd_fun
      del: vb2_nv_get_set)

lemma check_recovery_frame [simp]:
  "sd_status (sd (vb2_check_recovery ctx)) = sd_status (sd ctx)"
  "sd_gbb_flags (sd (vb2_check_recovery ctx)) = sd_gbb_flags (sd ctx)"
  "sd_fw_version_secdata (sd (vb2_check_recovery ctx)) = sd_fw_version_secdata (sd ctx)"
  "secdata (vb2_check_recovery ctx) = secdata ctx"
  "secdatak (vb2_check_recovery ctx) = secdatak ctx"
  "workbuf (vb2_check_recovery ctx) = workbuf ctx"
  "workbuf_size (vb2_check_recovery ctx) = workbuf_size ctx"
  "workbuf_used (vb2_check_recovery ctx) = workbuf_used ctx"
  by (simp_all add: vb2_check_recovery_def Let_def)

lemma has_flag_commute: "has_flag a b \<longleftrightarrow> has_flag b a"
  by (simp add: has_flag_def and.commute)

lemma check_recovery_flags [simp]:
  assumes "m AND VB2_CONTEXT_NVDATA_CHANGED = 0" and "\<not> has_flag m VB2_CONTEXT_RECOVERY_MODE"
  shows "has_flag (ctx_flags (vb2_check_recovery ctx)) m \<longleftrightarrow> has_flag (ctx_flags ctx) m"
  using assms by (simp add: vb2_check_recovery_def Let_def has_flag_commute [of 4])

text \<open>\<^verbatim>\<open>vb2_check_dev_switch()\<close> up to the TPM clear, in terms of the flags it starts from.\<close>

definition dev_kept :: "vb2_context \<Rightarrow> bool \<Rightarrow> u32 \<Rightarrow> u32" where
  "dev_kept ctx use flags =
     (if use \<and> vb2_nv_get ctx VB2_NV_DISABLE_DEV_REQUEST \<noteq> 0 \<or>
         has_flag (ctx_flags ctx) VB2_DISABLE_DEVELOPER_MODE
      then clear_flag flags VB2_SECDATA_FLAG_DEV_MODE else flags)"

definition dev_wanted :: "vb2_context \<Rightarrow> bool \<Rightarrow> u32 \<Rightarrow> bool" where
  "dev_wanted ctx use flags \<longleftrightarrow>
     has_flag (dev_kept ctx use flags) VB2_SECDATA_FLAG_DEV_MODE \<or>
     has_flag (ctx_flags ctx) VB2_CONTEXT_FORCE_DEVELOPER_MODE \<or>
     has_flag (sd_gbb_flags (sd ctx)) VB2_GBB_FLAG_FORCE_DEV_SWITCH_ON"

definition dev_flags :: "vb2_context \<Rightarrow> bool \<Rightarrow> u32 \<Rightarrow> u32" where
  "dev_flags ctx use flags =
     (if dev_wanted ctx use flags then dev_kept ctx use flags OR VB2_SECDATA_FLAG_LAST_BOOT_DEVELOPER
      else clear_flag (dev_kept ctx use flags) VB2_SECDATA_FLAG_LAST_BOOT_DEVELOPER)"

definition dev_ctx :: "vb2_context \<Rightarrow> bool \<Rightarrow> u32 \<Rightarrow> vb2_context" where
  "dev_ctx ctx use flags =
     (let c = (if use \<and> vb2_nv_get ctx VB2_NV_DISABLE_DEV_REQUEST \<noteq> 0
               then vb2_nv_set ctx VB2_NV_DISABLE_DEV_REQUEST 0 else ctx);
          c = (if dev_wanted ctx use flags
               then ctx_set_flag VB2_CONTEXT_DEVELOPER_MODE
                      (upd_sd (\<lambda>d. d\<lparr>sd_flags := sd_flags d OR VB2_SD_DEV_MODE_ENABLED\<rparr>) c)
               else clear_dev_boot_flags c)
      in if has_flag (ctx_flags ctx) VB2_CONTEXT_FORCE_WIPEOUT_MODE
         then vb2_nv_set c VB2_NV_REQ_WIPEOUT 1 else c)"

lemma clear_flag_twice [simp]: "clear_flag (clear_flag w m) m = clear_flag w m"
  by (simp add: clear_flag_def and.assoc)

lemma clear_dev_boot_flags_frame [simp]:
  "sd (clear_dev_boot_flags ctx) = sd ctx"
  "secdata (clear_dev_boot_flags ctx) = secdata ctx"
  "secdatak (clear_dev_boot_flags ctx) = secdatak ctx"
  "workbuf (clear_dev_boot_flags ctx) = workbuf ctx"
  "workbuf_size (clear_dev_boot_flags ctx) = workbuf_size ctx"
  "workbuf_used (clear_dev_boot_flags ctx) = workbuf_used ctx"
  "length (nvdata (clear_dev_boot_flags ctx)) = length (nvdata ctx)"
  "m AND VB2_CONTEXT_NVDATA_CHANGED = 0 \<Longrightarrow>
   has_flag (ctx_flags (clear_dev_boot_flags ctx)) m \<longleftrightarrow> has_flag (ctx_flags ctx) m"
  by (simp_all add: clear_dev_boot_flags_def)

lemma dev_switch_tail:
  "vb2_check_dev_switch pl ctx =
   (case (case vb2_secdata_get ctx VB2_SECDATA_FLAGS of
            Inr flags \<Rightarrow> Inr (True, flags)
          | Inl rv \<Rightarrow> if has_flag (ctx_flags ctx) VB2_CONTEXT_RECOVERY_MODE then Inr (False, 0) else Inl rv) of
      Inl rv \<Rightarrow> (rv, ctx)
    | Inr (use, old) \<Rightarrow>
        (let c = dev_ctx ctx use old; rv = vb2ex_tpm_clear_owner pl c in
         if dev_flags ctx use old = old \<or> \<not> use then (VB2_SUCCESS, c)
         else if rv \<noteq> VB2_SUCCESS then (rv, vb2_fail c (ucast VB2_RECOVERY_TPM_CLEAR_OWNER) (ucast rv))
         else vb2_secdata_set c VB2_SECDATA_FLAGS (dev_flags ctx use old)))"
  unfolding vb2_check_dev_switch_def
  by (intro arg_cong2 [where f = "case_sum (\<lambda>rv. (rv, ctx))"] refl ext)
    (auto simp: dev_ctx_def dev_flags_def dev_wanted_def dev_kept_def Let_def split: prod.split)

lemma dev_ctx_frame [simp]:
  "sd_status (sd (dev_ctx ctx use fl)) = sd_status (sd ctx)"
  "sd_recovery_reason (sd (dev_ctx ctx use fl)) = sd_recovery_reason (sd ctx)"
  "secdata (dev_ctx ctx use fl) = secdata ctx"
  "secdatak (dev_ctx ctx use fl) = secdatak ctx"
  "workbuf (dev_ctx ctx use fl) = workbuf ctx"
  "workbuf_size (dev_ctx ctx use fl) = workbuf_size ctx"
  "workbuf_used (dev_ctx ctx use fl) = workbuf_used ctx"
  "length (nvdata (dev_ctx ctx use fl)) = length (nvdata ctx)"
  by (simp_all add: dev_ctx_def Let_def)

lemma dev_ctx_developer:
  "has_flag (ctx_flags (dev_ctx ctx use fl)) VB2_CONTEXT_DEVELOPER_MODE \<longleftrightarrow>
   has_flag (ctx_flags ctx) VB2_CONTEXT_DEVELOPER_MODE \<or> dev_wanted ctx use fl"
  by (simp add: dev_ctx_def Let_def)

lemma dev_ctx_flags [simp]:
  assumes "m AND VB2_CONTEXT_NVDATA_CHANGED = 0" and "\<not> has_flag m VB2_CONTEXT_DEVELOPER_MODE"
  shows "has_flag (ctx_flags (dev_ctx ctx use fl)) m \<longleftrightarrow> has_flag (ctx_flags ctx) m"
  using assms by (simp add: dev_ctx_def Let_def has_flag_commute [of 8])

definition dev_boot_params :: "vb2_nv_param set" where
  "dev_boot_params = {VB2_NV_DEV_BOOT_USB, VB2_NV_DEV_BOOT_LEGACY, VB2_NV_DEV_BOOT_SIGNED_ONLY,
     VB2_NV_DEV_BOOT_FASTBOOT_FULL_CAP, VB2_NV_DEV_DEFAULT_BOOT, VB2_NV_FASTBOOT_UNLOCK_IN_FW}"

lemma clear_dev_boot_flags_nv:
  "length (nvdata ctx) = VB2_NVDATA_SIZE \<Longrightarrow>
   vb2_nv_get (clear_dev_boot_flags ctx) = (\<lambda>q. if q \<in> dev_boot_params then 0 else vb2_nv_get ctx q)"
  by (simp add: clear_dev_boot_flags_def nv_get_set_fun dev_boot_params_def fun_eq_iff del: vb2_nv_get_set)

lemma dev_ctx_nv:
  assumes "length (nvdata ctx) = VB2_NVDATA_SIZE"
  shows "vb2_nv_get (dev_ctx ctx use fl) =
    (\<lambda>q. if \<not> dev_wanted ctx use fl \<and> q \<in> dev_boot_params then 0
         else if use \<and> q = VB2_NV_DISABLE_DEV_REQUEST then 0
         else if has_flag (ctx_flags ctx) VB2_CONTEXT_FORCE_WIPEOUT_MODE \<and> q = VB2_NV_REQ_WIPEOUT then 1
         else vb2_nv_get ctx q)"
  using assms
  by (auto simp: dev_ctx_def Let_def nv_get_set_fun nv_get_upd_fun clear_dev_boot_flags_nv fun_eq_iff
      dev_boot_params_def simp del: vb2_nv_get_set)

section \<open>What the callers see\<close>

lemma zero_nv_init:
  "length (nvdata (vb2_nv_init zero_context)) = VB2_NVDATA_SIZE"
  "vb2_nv_get (vb2_nv_init zero_context) VB2_NV_RECOVERY_REQUEST = 0"
  "ctx_flags (vb2_nv_init zero_context) = VB2_CONTEXT_NVDATA_CHANGED"
  "sd_status (sd (vb2_nv_init zero_context)) = VB2_SD_STATUS_NV_REINIT OR VB2_SD_STATUS_NV_INIT"
proof -
  have "vb2_nv_check_crc zero_context \<noteq> VB2_SUCCESS"
    by (simp add: zero_context_def vb2_nv_check_crc_def)
  then show "length (nvdata (vb2_nv_init zero_context)) = VB2_NVDATA_SIZE"
    "vb2_nv_get (vb2_nv_init zero_context) VB2_NV_RECOVERY_REQUEST = 0"
    "ctx_flags (vb2_nv_init zero_context) = VB2_CONTEXT_NVDATA_CHANGED"
    "sd_status (sd (vb2_nv_init zero_context)) = VB2_SD_STATUS_NV_REINIT OR VB2_SD_STATUS_NV_INIT"
    using nv_ok_length [OF nv_ok_init, of zero_context]
    by (simp_all add: vb2_nv_init_cases nv_defaults_get)
qed

text \<open>
  C30. Handling a failure: once a slot has been chosen, the slot is marked as failed, its tries are
  used up and the other slot is tried next; recovery is requested only if no slot had been chosen
  or if the other slot failed in the boot before, and an earlier recovery request is never
  overwritten.  Nothing else in the non-volatile data changes.
\<close>

theorem vb2_fail_correct:
  assumes "length (nvdata ctx) = VB2_NVDATA_SIZE" and "has_flag (sd_status (sd ctx)) VB2_SD_STATUS_NV_INIT"
  shows "vb2_nv_get (vb2_fail ctx reason subcode) q =
    (let chose = has_flag (sd_status (sd ctx)) VB2_SD_STATUS_CHOSE_SLOT;
         request = (vb2_nv_get ctx VB2_NV_RECOVERY_REQUEST = 0 \<and>
           (if chose then sd_last_fw_slot (sd ctx) = 1 - sd_fw_slot (sd ctx) \<and>
                          sd_last_fw_result (sd ctx) = VB2_FW_RESULT_FAILURE else True))
     in if chose \<and> q = VB2_NV_FW_RESULT then VB2_FW_RESULT_FAILURE
        else if chose \<and> q = VB2_NV_TRY_COUNT then 0
        else if chose \<and> q = VB2_NV_TRY_NEXT then (if sd_fw_slot (sd ctx) = 1 then 0 else 1)
        else if request \<and> q = VB2_NV_RECOVERY_REQUEST then ucast reason
        else if request \<and> q = VB2_NV_RECOVERY_SUBCODE then ucast subcode
        else vb2_nv_get ctx q)"
  using assms by (simp add: vb2_fail_nv slots_exhausted_def fail_recovery_def Let_def)

theorem vb2_fail_correct_witness:
  "vb2_nv_get (vb2_fail (vb2_nv_init zero_context) 0x2b 5) VB2_NV_RECOVERY_REQUEST = 0x2b"
  using vb2_fail_correct [of "vb2_nv_init zero_context" "0x2b" 5 VB2_NV_RECOVERY_REQUEST]
  by (simp add: zero_nv_init)



text \<open>
  C31. The recovery check turns on recovery mode exactly when there is a reason: one found earlier
  in this boot, one requested by the previous boot, or a manual request, which takes the saved
  subcode as its reason if there is no other.  The stored request is consumed, so recovery mode is
  not sticky.
\<close>

theorem vb2_check_recovery_correct:
  assumes "length (nvdata ctx) = VB2_NVDATA_SIZE"
    and "\<not> has_flag (ctx_flags ctx) VB2_CONTEXT_RECOVERY_MODE"
  shows "(let reason = (if sd_recovery_reason (sd ctx) = 0 then vb2_nv_get ctx VB2_NV_RECOVERY_REQUEST
                        else sd_recovery_reason (sd ctx));
              subcode = vb2_nv_get ctx VB2_NV_RECOVERY_SUBCODE;
              manual = has_flag (ctx_flags ctx) VB2_CONTEXT_FORCE_RECOVERY_MODE;
              c = vb2_check_recovery ctx
     in (has_flag (ctx_flags c) VB2_CONTEXT_RECOVERY_MODE \<longleftrightarrow> reason \<noteq> 0 \<or> manual) \<and>
        sd_recovery_reason (sd c) =
          (if \<not> manual then reason
           else if subcode \<noteq> 0 \<and> reason = 0 then subcode else VB2_RECOVERY_RO_MANUAL) \<and>
        vb2_nv_get c = (vb2_nv_get ctx)(VB2_NV_RECOVERY_REQUEST := 0, VB2_NV_RECOVERY_SUBCODE := 0))"
  using assms by (auto simp: check_recovery_effect recovery_reason_of_def Let_def)

theorem vb2_check_recovery_correct_witness:
  "has_flag (ctx_flags (vb2_check_recovery
     (zero_context\<lparr>ctx_flags := VB2_CONTEXT_FORCE_RECOVERY_MODE\<rparr>))) VB2_CONTEXT_RECOVERY_MODE"
  using vb2_check_recovery_correct [of "zero_context\<lparr>ctx_flags := VB2_CONTEXT_FORCE_RECOVERY_MODE\<rparr>"]
  by (simp add: zero_context_def Let_def)

text \<open>
  C29. The developer switch: with readable secure data, developer mode is turned on exactly when the
  virtual switch is on and nobody asked to disable it, or the hardware switch or the GBB forces it.
  In normal mode every developer boot setting is cleared.
\<close>

theorem vb2_check_dev_switch_correct:
  assumes "length (nvdata ctx) = VB2_NVDATA_SIZE" and "has_flag (sd_status (sd ctx)) VB2_SD_STATUS_NV_INIT"
    and "\<not> has_flag (ctx_flags ctx) VB2_CONTEXT_DEVELOPER_MODE"
    and "vb2_secdata_get ctx VB2_SECDATA_FLAGS = Inr flags"
  shows "(let disabled = (vb2_nv_get ctx VB2_NV_DISABLE_DEV_REQUEST \<noteq> 0 \<or>
                          has_flag (ctx_flags ctx) VB2_DISABLE_DEVELOPER_MODE);
              dev = (has_flag flags VB2_SECDATA_FLAG_DEV_MODE \<and> \<not> disabled \<or>
                     has_flag (ctx_flags ctx) VB2_CONTEXT_FORCE_DEVELOPER_MODE \<or>
                     has_flag (sd_gbb_flags (sd ctx)) VB2_GBB_FLAG_FORCE_DEV_SWITCH_ON);
              c = snd (vb2_check_dev_switch pl ctx)
     in (has_flag (ctx_flags c) VB2_CONTEXT_DEVELOPER_MODE \<longleftrightarrow> dev) \<and>
        vb2_nv_get c VB2_NV_DISABLE_DEV_REQUEST = 0 \<and>
        (if dev then True
         else vb2_nv_get c VB2_NV_DEV_BOOT_USB = 0 \<and> vb2_nv_get c VB2_NV_DEV_BOOT_LEGACY = 0 \<and>
              vb2_nv_get c VB2_NV_DEV_BOOT_SIGNED_ONLY = 0 \<and> vb2_nv_get c VB2_NV_DEV_DEFAULT_BOOT = 0 \<and>
              vb2_nv_get c VB2_NV_DEV_BOOT_FASTBOOT_FULL_CAP = 0 \<and>
              vb2_nv_get c VB2_NV_FASTBOOT_UNLOCK_IN_FW = 0))"
proof -
  have wanted: "dev_wanted ctx True flags \<longleftrightarrow>
      has_flag flags VB2_SECDATA_FLAG_DEV_MODE \<and>
      \<not> (vb2_nv_get ctx VB2_NV_DISABLE_DEV_REQUEST \<noteq> 0 \<or> has_flag (ctx_flags ctx) VB2_DISABLE_DEVELOPER_MODE) \<or>
      has_flag (ctx_flags ctx) VB2_CONTEXT_FORCE_DEVELOPER_MODE \<or>
      has_flag (sd_gbb_flags (sd ctx)) VB2_GBB_FLAG_FORCE_DEV_SWITCH_ON"
    by (auto simp: dev_wanted_def dev_kept_def)
  have nv: "vb2_nv_get (snd (vb2_check_dev_switch pl ctx)) q = vb2_nv_get (dev_ctx ctx True flags) q"
    if "q \<notin> {VB2_NV_RECOVERY_REQUEST, VB2_NV_RECOVERY_SUBCODE, VB2_NV_FW_RESULT, VB2_NV_TRY_COUNT, VB2_NV_TRY_NEXT}" for q
    using assms that
    by (auto simp: dev_switch_tail Let_def vb2_fail_nv fail_recovery_def intro: vb2_nv_get_cong)
  have fl: "has_flag (ctx_flags (snd (vb2_check_dev_switch pl ctx))) VB2_CONTEXT_DEVELOPER_MODE \<longleftrightarrow>
      dev_wanted ctx True flags"
    using assms by (simp add: dev_switch_tail Let_def dev_ctx_developer)
  show ?thesis
    unfolding Let_def wanted [symmetric] fl using assms
    by (simp add: nv dev_ctx_nv dev_boot_params_def)
qed

text \<open>
  A change of mode is never recorded in the secure data unless the platform reported that it
  cleared the TPM owner, so the previous mode's secrets are gone before the new mode is remembered.
  If the clear fails, the error is returned and the secure data stay as they were.
\<close>

lemma vb2_check_dev_switch_clears_owner:
  assumes "has_flag (sd_status (sd ctx)) VB2_SD_STATUS_NV_INIT"
    and "secdata (snd (vb2_check_dev_switch pl ctx)) \<noteq> secdata ctx"
  shows "\<exists>c flags. vb2ex_tpm_clear_owner pl c = VB2_SUCCESS \<and> secdata c = secdata ctx \<and>
    vb2_check_dev_switch pl ctx = vb2_secdata_set c VB2_SECDATA_FLAGS flags"
proof (cases "vb2_secdata_get ctx VB2_SECDATA_FLAGS")
  case (Inr old)
  then show ?thesis
    using assms
    by (intro exI [of _ "dev_ctx ctx True old"] exI [of _ "dev_flags ctx True old"])
      (auto simp: dev_switch_tail Let_def split: if_splits)
qed (use assms in \<open>auto simp: dev_switch_tail Let_def split: if_splits\<close>)

text \<open>A platform for the examples: no resources, and a TPM that can always be cleared.\<close>

definition demo_platform :: vb2_platform where
  "demo_platform = \<lparr>vb2ex_tpm_clear_owner = (\<lambda>_. VB2_SUCCESS),
     vb2ex_read_resource = (\<lambda>_ _ _ _. (VB2_ERROR_EX_READ_RESOURCE_UNIMPLEMENTED, []))\<rparr>"

definition demo_ctx :: "u32 \<Rightarrow> vb2_context" where
  "demo_ctx fl = (snd (vb2_secdata_init (snd (vb2_secdata_create (vb2_nv_init zero_context)))))\<lparr>ctx_flags := fl\<rparr>"

lemma demo_ctx_simps:
  "length (nvdata (demo_ctx fl)) = VB2_NVDATA_SIZE"
  "has_flag (sd_status (sd (demo_ctx fl))) VB2_SD_STATUS_NV_INIT"
  "ctx_flags (demo_ctx fl) = fl"
  "vb2_secdata_get (demo_ctx fl) VB2_SECDATA_FLAGS = Inr 0"
  "length (secdata (demo_ctx fl)) = VB2_SECDATA_SIZE"
  "secdata (demo_ctx fl) ! SEC_flags = 0"
  by (simp_all add: demo_ctx_def vb2_secdata_init_cases vb2_secdata_create_def secdata_simps zero_nv_init
      vb2_crc8_beyond Let_def)

theorem vb2_check_dev_switch_correct_witness:
  "has_flag (ctx_flags (snd (vb2_check_dev_switch demo_platform (demo_ctx VB2_CONTEXT_FORCE_DEVELOPER_MODE))))
     VB2_CONTEXT_DEVELOPER_MODE"
  using vb2_check_dev_switch_correct [of "demo_ctx VB2_CONTEXT_FORCE_DEVELOPER_MODE" 0 demo_platform]
  by (simp add: demo_ctx_simps Let_def)

end
