(* ===== verification/Boot_Api.thy ===== *)
theory Boot_Api
  imports Boot_Misc
begin

text \<open>
  The entry points of the firmware boot, \<^verbatim>\<open>firmware/2lib/2api.c\<close> (hash extension apart, which is with
  the digests) and \<^verbatim>\<open>2tpm_bootmode.c\<close>, and what a device does over several boots: the properties at
  the end follow the stored data from one power-on to the next.
\<close>

section \<open>The code\<close>

definition vb2api_secdata_check :: "vb2_context \<Rightarrow> u32" where
  "vb2api_secdata_check ctx = vb2_secdata_check_crc ctx"

definition vb2api_secdata_create :: "vb2_context \<Rightarrow> u32 \<times> vb2_context" where
  "vb2api_secdata_create ctx = vb2_secdata_create ctx"

definition vb2api_fail :: "vb2_context \<Rightarrow> u8 \<Rightarrow> u8 \<Rightarrow> vb2_context" where
  "vb2api_fail ctx reason subcode =
     (let ctx = snd (vb2_init_context ctx) in vb2_fail ctx reason subcode)"

definition vb2api_fw_phase1 :: "vb2_platform \<Rightarrow> vb2_context \<Rightarrow> u32 \<times> vb2_context" where
  "vb2api_fw_phase1 pl ctx =
     (let ctx = snd (vb2_init_context ctx);
          ctx = vb2_nv_init ctx;
          (reboot, ctx) =
            (if \<not> has_flag (ctx_flags ctx) VB2_CONTEXT_SECDATA_WANTS_REBOOT
             then (False, vb2_nv_set ctx VB2_NV_TPM_REQUESTED_REBOOT 0)
             else if vb2_nv_get ctx VB2_NV_TPM_REQUESTED_REBOOT \<noteq> 0
             then (False, vb2_fail ctx (ucast VB2_RECOVERY_RO_TPM_REBOOT) 0)
             else (True, vb2_nv_set ctx VB2_NV_TPM_REQUESTED_REBOOT 1))
      in if reboot then (VB2_ERROR_API_PHASE1_SECDATA_REBOOT, ctx)
         else
           let (rv, ctx) = vb2_secdata_init ctx;
               ctx = (if rv \<noteq> VB2_SUCCESS then vb2_fail ctx (ucast VB2_RECOVERY_SECDATA_INIT) (ucast rv) else ctx);
               (rv, ctx) = vb2_fw_parse_gbb pl ctx;
               ctx = (if rv \<noteq> VB2_SUCCESS then vb2_fail ctx (ucast VB2_RECOVERY_GBB_HEADER) (ucast rv) else ctx);
               ctx = vb2_check_recovery ctx;
               (rv, ctx) = vb2_check_dev_switch pl ctx
           in if rv \<noteq> VB2_SUCCESS \<and> \<not> has_flag (ctx_flags ctx) VB2_CONTEXT_RECOVERY_MODE
              then (rv, vb2_fail ctx (ucast VB2_RECOVERY_DEV_SWITCH) (ucast rv))
              else if has_flag (ctx_flags ctx) VB2_CONTEXT_RECOVERY_MODE
              then (VB2_ERROR_API_PHASE1_RECOVERY, ctx_set_flag VB2_CONTEXT_CLEAR_RAM ctx)
              else (VB2_SUCCESS, ctx))"

definition vb2api_fw_phase2 :: "vb2_platform \<Rightarrow> vb2_context \<Rightarrow> u32 \<times> vb2_context" where
  "vb2api_fw_phase2 pl ctx =
     (if has_flag (ctx_flags ctx) VB2_CONTEXT_S3_RESUME then
        let ctx = upd_sd (\<lambda>d. d\<lparr>sd_fw_slot := vb2_nv_get ctx VB2_NV_FW_TRIED\<rparr>) ctx
        in (VB2_SUCCESS, if sd_fw_slot (sd ctx) \<noteq> 0 then ctx_set_flag VB2_CONTEXT_FW_SLOT_B ctx else ctx)
      else
        let ctx = (if has_flag (ctx_flags ctx) VB2_CONTEXT_DEVELOPER_MODE
                   then ctx_set_flag VB2_CONTEXT_CLEAR_RAM ctx else ctx);
            (rv, ctx) = vb2_check_tpm_clear pl ctx
        in if rv \<noteq> VB2_SUCCESS then (rv, vb2_fail ctx (ucast VB2_RECOVERY_TPM_CLEAR_OWNER) (ucast rv))
           else
             let (rv, ctx) = vb2_select_fw_slot ctx
             in if rv \<noteq> VB2_SUCCESS then (rv, vb2_fail ctx (ucast VB2_RECOVERY_FW_SLOT) (ucast rv))
                else (VB2_SUCCESS, ctx))"

section \<open>PCR digests\<close>

abbreviation (input) VB2_SHA1_DIGEST_SIZE :: nat where "VB2_SHA1_DIGEST_SIZE \<equiv> 20"

definition kBootStateSHA1Digests :: "bytes list" where
  "kBootStateSHA1Digests =
     [[0x25, 0x47, 0xcc, 0x73, 0x6e, 0x95, 0x1f, 0xa4, 0x91, 0x98, 0x53, 0xc4,
       0x3a, 0xe8, 0x90, 0x86, 0x1a, 0x3b, 0x32, 0x64],
      [0xc4, 0x2a, 0xc1, 0xc4, 0x6f, 0x1d, 0x4e, 0x21, 0x1c, 0x73, 0x5c, 0xc7,
       0xdf, 0xad, 0x4f, 0xf8, 0x39, 0x11, 0x10, 0xe9],
      [0x62, 0x57, 0x18, 0x91, 0x21, 0x5b, 0x4e, 0xfc, 0x1c, 0xea, 0xb7, 0x44,
       0xce, 0x59, 0xdd, 0x0b, 0x66, 0xea, 0x6f, 0x73],
      [0x47, 0xec, 0x8d, 0x98, 0x36, 0x64, 0x33, 0xdc, 0x00, 0x2e, 0x77, 0x21,
       0xc9, 0xe3, 0x7d, 0x50, 0x67, 0x54, 0x79, 0x37]]"

definition vb2_get_boot_state_digest :: "vb2_context \<Rightarrow> bytes" where
  "vb2_get_boot_state_digest ctx =
     (let index = (if has_flag (ctx_flags ctx) VB2_CONTEXT_RECOVERY_MODE then 2 else 0) +
                  (if has_flag (ctx_flags ctx) VB2_CONTEXT_DEVELOPER_MODE then 1 else (0::nat))
      in kBootStateSHA1Digests ! index)"

datatype vb2_pcr_digest = BOOT_MODE_PCR | HWID_DIGEST_PCR | PCR_unknown

text \<open>The result is the error code, or the bytes copied to \<^verbatim>\<open>dest\<close>, whose number goes to \<^verbatim>\<open>*dest_size\<close>.\<close>

definition vb2api_get_pcr_digest :: "vb2_context \<Rightarrow> vb2_pcr_digest \<Rightarrow> u32 \<Rightarrow> u32 + bytes" where
  "vb2api_get_pcr_digest ctx which_digest dest_size =
     (case (case which_digest of
              BOOT_MODE_PCR \<Rightarrow> Some (vb2_get_boot_state_digest ctx, VB2_SHA1_DIGEST_SIZE)
            | HWID_DIGEST_PCR \<Rightarrow> Some (sd_gbb_hwid_digest (sd ctx), VB2_GBB_HWID_DIGEST_SIZE)
            | PCR_unknown \<Rightarrow> None) of
        None \<Rightarrow> Inl VB2_ERROR_API_PCR_DIGEST
      | Some (digest, digest_size) \<Rightarrow>
          if dest_size < of_nat digest_size then Inl VB2_ERROR_API_PCR_DIGEST_BUF
          else Inr (take digest_size digest))"

section \<open>What the phases leave alone\<close>

text \<open>Between \<^verbatim>\<open>vb2_nv_init()\<close> and the choice of a slot.\<close>

lemma nv_ok_simps [simp]:
  "nv_ok (c\<lparr>ctx_flags := f\<rparr>) \<longleftrightarrow> nv_ok c"
  "nv_ok (c\<lparr>sd := d\<rparr>) \<longleftrightarrow> nv_ok c"
  "nv_ok (c\<lparr>workbuf_used := u\<rparr>) \<longleftrightarrow> nv_ok c"
  "nv_ok (snd (vb2_secdata_set c q v)) \<longleftrightarrow> nv_ok c"
  by (rule nv_ok_cong, simp)+

lemma nv_ok_fail: "nv_ok c \<Longrightarrow> nv_ok (vb2_fail c r s)"
  by (simp add: vb2_fail_def vb2_fail_request_recovery_def Let_def nv_ok_set nv_ok_init nv_ok_length)

lemma nv_ok_check_recovery: "nv_ok c \<Longrightarrow> nv_ok (vb2_check_recovery c)"
  by (simp add: vb2_check_recovery_def Let_def nv_ok_set)

lemma nv_ok_dev_ctx: "nv_ok c \<Longrightarrow> nv_ok (dev_ctx c use fl)"
  by (simp add: dev_ctx_def clear_dev_boot_flags_def Let_def nv_ok_set)

lemmas nv_ok_steps [simp] = nv_ok_set nv_ok_fail nv_ok_check_recovery nv_ok_dev_ctx nv_ok_length

definition early :: "vb2_context \<Rightarrow> bool" where
  "early ctx \<longleftrightarrow> nv_ok ctx \<and>
     has_flag (sd_status (sd ctx)) VB2_SD_STATUS_NV_INIT \<and>
     \<not> has_flag (sd_status (sd ctx)) VB2_SD_STATUS_CHOSE_SLOT"

definition slot_params :: "vb2_nv_param set" where
  "slot_params = {VB2_NV_TRY_NEXT, VB2_NV_TRY_COUNT, VB2_NV_FW_TRIED, VB2_NV_FW_RESULT}"

text \<open>A step of the early boot: the slot parameters and the caller's flags \<^verbatim>\<open>m\<close> are kept.\<close>

definition early_step :: "vb2_context \<Rightarrow> vb2_context \<Rightarrow> bool" where
  "early_step c c' \<longleftrightarrow> early c' \<and> workbuf_used c' = workbuf_used c \<and>
     workbuf c' = workbuf c \<and> workbuf_size c' = workbuf_size c \<and>
     (\<forall>q \<in> slot_params. vb2_nv_get c' q = vb2_nv_get c q) \<and>
     (has_flag (ctx_flags c') VB2_CONTEXT_NOFAIL_BOOT \<longleftrightarrow> has_flag (ctx_flags c) VB2_CONTEXT_NOFAIL_BOOT) \<and>
     (has_flag (ctx_flags c') VB2_CONTEXT_S3_RESUME \<longleftrightarrow> has_flag (ctx_flags c) VB2_CONTEXT_S3_RESUME)"

lemma early_step_trans [trans]: "early_step a b \<Longrightarrow> early_step b c \<Longrightarrow> early_step a c"
  by (simp add: early_step_def)

lemma early_step_early: "early_step a b \<Longrightarrow> early b"
  by (simp add: early_step_def)

lemma early_step_refl: "early c \<Longrightarrow> early_step c c"
  by (simp add: early_step_def)

lemma early_step_set: "early c \<Longrightarrow> q \<notin> slot_params \<Longrightarrow> early_step c (vb2_nv_set c q v)"
  by (auto simp: early_step_def early_def)

lemma vb2_fail_early_nv:
  assumes "early c"
  shows "vb2_nv_get (vb2_fail c r s) =
    (if vb2_nv_get c VB2_NV_RECOVERY_REQUEST = 0
     then (vb2_nv_get c)(VB2_NV_RECOVERY_REQUEST := ucast r, VB2_NV_RECOVERY_SUBCODE := ucast s)
     else vb2_nv_get c)"
  using assms by (simp add: vb2_fail_nv early_def slots_exhausted_def fail_recovery_def)

lemma early_step_fail: "early c \<Longrightarrow> early_step c (vb2_fail c r s)"
  using vb2_fail_early_nv [of c r s] by (simp add: early_step_def early_def slot_params_def)

lemma early_step_secdata_init: "early c \<Longrightarrow> early_step c (snd (vb2_secdata_init c))"
  by (simp add: vb2_secdata_init_cases early_step_def early_def)

lemma early_step_parse_gbb: "early c \<Longrightarrow> early_step c (snd (vb2_fw_parse_gbb pl c))"
  by (simp add: vb2_fw_parse_gbb_def early_step_def early_def Let_def split: prod.split)

lemma early_step_check_recovery: "early c \<Longrightarrow> early_step c (vb2_check_recovery c)"
  by (simp add: early_step_def early_def check_recovery_effect slot_params_def)

lemma early_step_dev_ctx: "early c \<Longrightarrow> early_step c (dev_ctx c use fl)"
  by (simp add: early_step_def early_def dev_ctx_nv slot_params_def dev_boot_params_def)

lemma early_step_secdata_set: "early c \<Longrightarrow> early_step c (snd (vb2_secdata_set c q v))"
  by (auto simp: early_step_def early_def intro: vb2_nv_get_cong)

lemma early_step_dev_switch:
  assumes "early c"
  shows "early_step c (snd (vb2_check_dev_switch pl c))"
proof -
  have d: "early_step c (dev_ctx c use fl)" for use fl by (rule early_step_dev_ctx [OF assms])
  show ?thesis
    using d [THEN early_step_trans, OF early_step_fail [OF early_step_early [OF d]]]
      d [THEN early_step_trans, OF early_step_secdata_set [OF early_step_early [OF d]]]
      d early_step_refl [OF assms]
    by (auto simp: dev_switch_tail Let_def split: sum.split)
qed

lemma early_step_flag:
  "early c \<Longrightarrow> early_step c (c\<lparr>ctx_flags := ctx_flags c OR VB2_CONTEXT_CLEAR_RAM\<rparr>)"
  by (simp add: early_step_def early_def)

lemma early_step_tpm_clear:
  assumes "early c"
  shows "early_step c (snd (vb2_check_tpm_clear pl c))"
proof -
  have s: "early_step c (vb2_nv_set c VB2_NV_CLEAR_TPM_OWNER_REQUEST 0)"
    using assms by (rule early_step_set) (simp add: slot_params_def)
  note e = early_step_early [OF s]
  have "early_step c (vb2_nv_set (vb2_nv_set c VB2_NV_CLEAR_TPM_OWNER_REQUEST 0) VB2_NV_CLEAR_TPM_OWNER_DONE 1)"
    by (rule early_step_trans [OF s early_step_set [OF e]]) (simp add: slot_params_def)
  moreover have "early_step c (vb2_fail (vb2_nv_set c VB2_NV_CLEAR_TPM_OWNER_REQUEST 0) a b)" for a b
    by (rule early_step_trans [OF s early_step_fail [OF e]])
  ultimately show ?thesis
    using early_step_refl [OF assms] by (simp add: vb2_check_tpm_clear_def Let_def)
qed

section \<open>Phase 1 in steps\<close>

definition ph1_reboot :: "vb2_context \<Rightarrow> bool \<times> vb2_context" where
  "ph1_reboot ctx =
     (if \<not> has_flag (ctx_flags ctx) VB2_CONTEXT_SECDATA_WANTS_REBOOT
      then (False, vb2_nv_set ctx VB2_NV_TPM_REQUESTED_REBOOT 0)
      else if vb2_nv_get ctx VB2_NV_TPM_REQUESTED_REBOOT \<noteq> 0
      then (False, vb2_fail ctx (ucast VB2_RECOVERY_RO_TPM_REBOOT) 0)
      else (True, vb2_nv_set ctx VB2_NV_TPM_REQUESTED_REBOOT 1))"

definition ph1_secdata :: "vb2_context \<Rightarrow> vb2_context" where
  "ph1_secdata ctx =
     (if fst (vb2_secdata_init ctx) \<noteq> VB2_SUCCESS
      then vb2_fail (snd (vb2_secdata_init ctx)) (ucast VB2_RECOVERY_SECDATA_INIT) (ucast (fst (vb2_secdata_init ctx)))
      else snd (vb2_secdata_init ctx))"

definition ph1_gbb :: "vb2_platform \<Rightarrow> vb2_context \<Rightarrow> vb2_context" where
  "ph1_gbb pl ctx =
     (if fst (vb2_fw_parse_gbb pl ctx) \<noteq> VB2_SUCCESS
      then vb2_fail (snd (vb2_fw_parse_gbb pl ctx)) (ucast VB2_RECOVERY_GBB_HEADER) (ucast (fst (vb2_fw_parse_gbb pl ctx)))
      else snd (vb2_fw_parse_gbb pl ctx))"

definition ph1_end :: "u32 \<times> vb2_context \<Rightarrow> u32 \<times> vb2_context" where
  "ph1_end = (\<lambda>(rv, ctx).
     if rv \<noteq> VB2_SUCCESS \<and> \<not> has_flag (ctx_flags ctx) VB2_CONTEXT_RECOVERY_MODE
     then (rv, vb2_fail ctx (ucast VB2_RECOVERY_DEV_SWITCH) (ucast rv))
     else if has_flag (ctx_flags ctx) VB2_CONTEXT_RECOVERY_MODE
     then (VB2_ERROR_API_PHASE1_RECOVERY, ctx_set_flag VB2_CONTEXT_CLEAR_RAM ctx)
     else (VB2_SUCCESS, ctx))"

lemma phase1_steps:
  "vb2api_fw_phase1 pl ctx =
   (let (reboot, c) = ph1_reboot (vb2_nv_init (snd (vb2_init_context ctx)))
    in if reboot then (VB2_ERROR_API_PHASE1_SECDATA_REBOOT, c)
       else ph1_end (vb2_check_dev_switch pl (vb2_check_recovery (ph1_gbb pl (ph1_secdata c)))))"
  unfolding vb2api_fw_phase1_def ph1_reboot_def ph1_secdata_def ph1_gbb_def ph1_end_def Let_def case_prod_beta
  by (rule refl)

text \<open>The context as the platform hands it over at power-on, and after the first two calls.\<close>

definition fresh :: "vb2_context \<Rightarrow> bool" where
  "fresh ctx \<longleftrightarrow> workbuf_used ctx = 0 \<and> workbuf_size ctx \<ge> of_nat SIZEOF_SHARED_DATA \<and>
     workbuf ctx AND 15 = 0 \<and> length (nvdata ctx) = VB2_NVDATA_SIZE \<and>
     \<not> has_flag (ctx_flags ctx) VB2_CONTEXT_RECOVERY_MODE"

lemma init_fresh:
  "fresh ctx \<Longrightarrow> vb2_init_context ctx =
   (VB2_SUCCESS, ctx\<lparr>sd := zero_shared_data, workbuf_used := of_nat SIZEOF_SHARED_DATA\<rparr>)"
  by (simp add: vb2_init_context_def fresh_def not_less)

abbreviation boot0 :: "vb2_context \<Rightarrow> vb2_context" where
  "boot0 ctx \<equiv> vb2_nv_init (snd (vb2_init_context ctx))"

lemma check_crc_cong: "nvdata a = nvdata b \<Longrightarrow> vb2_nv_check_crc a = vb2_nv_check_crc b"
  by (simp add: vb2_nv_check_crc_def)

lemma boot0_early:
  assumes "fresh ctx"
  shows "early (boot0 ctx)"
    and "has_flag (ctx_flags (boot0 ctx)) VB2_CONTEXT_RECOVERY_MODE = False"
    and "m AND VB2_CONTEXT_NVDATA_CHANGED = 0 \<Longrightarrow>
       has_flag (ctx_flags (boot0 ctx)) m \<longleftrightarrow> has_flag (ctx_flags ctx) m"
    and "vb2_nv_check_crc ctx = VB2_SUCCESS \<Longrightarrow> vb2_nv_get (boot0 ctx) = vb2_nv_get ctx"
    and "workbuf_used (boot0 ctx) = of_nat SIZEOF_SHARED_DATA"
  using assms nv_ok_init [of "snd (vb2_init_context ctx)"]
    check_crc_cong [of "ctx\<lparr>sd := zero_shared_data, workbuf_used := of_nat SIZEOF_SHARED_DATA\<rparr>" ctx]
  by (simp_all add: early_def init_fresh vb2_nv_init_cases fresh_def has_flag_commute [of 1] has_flag_def [of m 1] fun_eq_iff)

lemma boot0_frame:
  assumes "fresh ctx"
  shows "workbuf (boot0 ctx) = workbuf ctx" "workbuf_size (boot0 ctx) = workbuf_size ctx"
    "secdata (boot0 ctx) = secdata ctx"
  by (simp_all add: init_fresh [OF assms] vb2_nv_init_cases)

lemma early_step_ph1_reboot: "early c \<Longrightarrow> early_step c (snd (ph1_reboot c))"
  using early_step_set [of c VB2_NV_TPM_REQUESTED_REBOOT] early_step_fail [of c]
  by (simp add: ph1_reboot_def slot_params_def)

lemma early_step_ph1_secdata: "early c \<Longrightarrow> early_step c (ph1_secdata c)"
  using early_step_secdata_init [of c] early_step_trans early_step_fail early_step_early
  by (simp add: ph1_secdata_def)

lemma early_step_ph1_gbb: "early c \<Longrightarrow> early_step c (ph1_gbb pl c)"
  using early_step_parse_gbb [of c pl] early_step_trans early_step_fail early_step_early
  by (simp add: ph1_gbb_def)

lemma early_step_ph1_end: "early (snd r) \<Longrightarrow> early_step (snd r) (snd (ph1_end r))"
  using early_step_fail [of "snd r"] early_step_flag [of "snd r"] early_step_refl [of "snd r"]
  by (simp add: ph1_end_def case_prod_beta)

lemma early_step_ph1_checks:
  assumes "early c"
  shows "early_step c (snd (vb2_check_dev_switch pl (vb2_check_recovery (ph1_gbb pl (ph1_secdata c)))))"
proof -
  note a = early_step_ph1_secdata [OF assms]
  note b = early_step_trans [OF a early_step_ph1_gbb [OF early_step_early [OF a], of pl]]
  note c = early_step_trans [OF b early_step_check_recovery [OF early_step_early [OF b]]]
  show ?thesis by (rule early_step_trans [OF c early_step_dev_switch [OF early_step_early [OF c]]])
qed

lemma early_step_phase1:
  assumes "fresh ctx"
  shows "early_step (boot0 ctx) (snd (vb2api_fw_phase1 pl ctx))"
proof -
  note a = early_step_ph1_reboot [OF boot0_early(1) [OF assms]]
  note b = early_step_trans [OF a early_step_ph1_checks [OF early_step_early [OF a], of pl]]
  note c = early_step_trans [OF b early_step_ph1_end [OF early_step_early [OF b]]]
  show ?thesis using a c by (simp add: phase1_steps Let_def case_prod_beta)
qed


lemma secdata_init_nv: "vb2_nv_get (snd (vb2_secdata_init c)) = vb2_nv_get c"
  by (simp add: vb2_secdata_init_cases fun_eq_iff)

lemma parse_gbb_nv: "vb2_nv_get (snd (vb2_fw_parse_gbb pl c)) = vb2_nv_get c"
  by (simp add: vb2_fw_parse_gbb_def Let_def fun_eq_iff split: prod.split)

lemma ph1_secdata_request:
  assumes "early c"
  shows "vb2_nv_get (ph1_secdata c) VB2_NV_RECOVERY_REQUEST =
    (if vb2_nv_get c VB2_NV_RECOVERY_REQUEST = 0 \<and> fst (vb2_secdata_init c) \<noteq> VB2_SUCCESS
     then VB2_RECOVERY_SECDATA_INIT else vb2_nv_get c VB2_NV_RECOVERY_REQUEST)"
  using vb2_fail_early_nv [OF early_step_early [OF early_step_secdata_init [OF assms]]]
  by (simp add: ph1_secdata_def secdata_init_nv)

lemma ph1_gbb_request:
  assumes "early c"
  shows "vb2_nv_get (ph1_gbb pl c) VB2_NV_RECOVERY_REQUEST =
    (if vb2_nv_get c VB2_NV_RECOVERY_REQUEST = 0 \<and> fst (vb2_fw_parse_gbb pl c) \<noteq> VB2_SUCCESS
     then VB2_RECOVERY_GBB_HEADER else vb2_nv_get c VB2_NV_RECOVERY_REQUEST)"
  using vb2_fail_early_nv [OF early_step_early [OF early_step_parse_gbb [OF assms, of pl]]]
  by (simp add: ph1_gbb_def parse_gbb_nv)

lemma dev_switch_recovery_mode:
  assumes "early c"
  shows "has_flag (ctx_flags (snd (vb2_check_dev_switch pl c))) VB2_CONTEXT_RECOVERY_MODE \<longleftrightarrow>
    has_flag (ctx_flags c) VB2_CONTEXT_RECOVERY_MODE"
  using assms by (auto simp: dev_switch_tail Let_def early_def split: sum.split)

lemma secdata_init_flags [simp]: "ctx_flags (snd (vb2_secdata_init c)) = ctx_flags c"
  by (simp add: vb2_secdata_init_cases)

lemma parse_gbb_flags [simp]: "ctx_flags (snd (vb2_fw_parse_gbb pl c)) = ctx_flags c"
  by (simp add: vb2_fw_parse_gbb_def Let_def split: prod.split)

lemma secdata_init_nv_inited [simp]:
  "has_flag (sd_status (sd c)) VB2_SD_STATUS_NV_INIT \<Longrightarrow>
   has_flag (sd_status (sd (snd (vb2_secdata_init c)))) VB2_SD_STATUS_NV_INIT"
  "has_flag (sd_status (sd c)) VB2_SD_STATUS_NV_INIT \<Longrightarrow>
   has_flag (sd_status (sd (snd (vb2_fw_parse_gbb pl c)))) VB2_SD_STATUS_NV_INIT"
  by (simp_all add: vb2_secdata_init_cases vb2_fw_parse_gbb_def Let_def split: prod.split)

lemma ph1_flags:
  assumes "early c" and "m AND VB2_CONTEXT_NVDATA_CHANGED = 0"
  shows "has_flag (ctx_flags (ph1_secdata c)) m \<longleftrightarrow> has_flag (ctx_flags c) m"
    and "has_flag (ctx_flags (ph1_gbb pl c)) m \<longleftrightarrow> has_flag (ctx_flags c) m"
    and "has_flag (ctx_flags (snd (ph1_reboot c))) m \<longleftrightarrow> has_flag (ctx_flags c) m"
  using assms by (simp_all add: ph1_secdata_def ph1_gbb_def ph1_reboot_def early_def)

lemma fail_recovery_reason [simp]:
  "has_flag (sd_status (sd c)) VB2_SD_STATUS_NV_INIT \<Longrightarrow>
   sd_recovery_reason (sd (ph1_secdata c)) = sd_recovery_reason (sd c)"
  "has_flag (sd_status (sd c)) VB2_SD_STATUS_NV_INIT \<Longrightarrow>
   sd_recovery_reason (sd (ph1_gbb pl c)) = sd_recovery_reason (sd c)"
  by (simp_all add: ph1_secdata_def ph1_gbb_def vb2_secdata_init_cases vb2_fw_parse_gbb_def Let_def
      split: prod.split)

text \<open>
  When phase 1 turns on recovery mode: a stored request, a manual request, secure data or a GBB that
  do not check out.  \<^verbatim>\<open>c\<close> is the context after the reboot check.
\<close>

lemma ph1_recovery_iff:
  assumes e: "early c" and s: "sd_recovery_reason (sd c) = 0"
    and r: "\<not> has_flag (ctx_flags c) VB2_CONTEXT_RECOVERY_MODE"
  shows "has_flag (ctx_flags (vb2_check_recovery (ph1_gbb pl (ph1_secdata c)))) VB2_CONTEXT_RECOVERY_MODE \<longleftrightarrow>
    vb2_nv_get c VB2_NV_RECOVERY_REQUEST \<noteq> 0 \<or> has_flag (ctx_flags c) VB2_CONTEXT_FORCE_RECOVERY_MODE \<or>
    fst (vb2_secdata_init c) \<noteq> VB2_SUCCESS \<or> fst (vb2_fw_parse_gbb pl (ph1_secdata c)) \<noteq> VB2_SUCCESS"
proof -
  have e1: "early (ph1_secdata c)" and e2: "early (ph1_gbb pl (ph1_secdata c))"
    using early_step_early [OF early_step_ph1_secdata [OF e]]
      early_step_early [OF early_step_ph1_gbb] by blast+
  let ?c = "ph1_gbb pl (ph1_secdata c)"
  have "recovery_reason_of ?c \<noteq> 0 \<longleftrightarrow>
      vb2_nv_get ?c VB2_NV_RECOVERY_REQUEST \<noteq> 0 \<or> has_flag (ctx_flags c) VB2_CONTEXT_FORCE_RECOVERY_MODE"
    using e e1 s by (auto simp: recovery_reason_of_def Let_def early_def ph1_flags [OF e1] ph1_flags [OF e])
  then show ?thesis
    using e2 r by (auto simp: check_recovery_effect early_def [of ?c] ph1_flags [OF e1] ph1_flags [OF e]
        ph1_gbb_request [OF e1] ph1_secdata_request [OF e])
qed


lemma fst_ph1_end:
  "fst (ph1_end r) = (if has_flag (ctx_flags (snd r)) VB2_CONTEXT_RECOVERY_MODE
                      then VB2_ERROR_API_PHASE1_RECOVERY else fst r)"
  by (simp add: ph1_end_def case_prod_beta)

lemma boot0_reason: "fresh ctx \<Longrightarrow> sd_recovery_reason (sd (snd (ph1_reboot (boot0 ctx)))) = 0"
  using boot0_early(1) [of ctx]
  by (simp add: ph1_reboot_def early_def) (simp add: init_fresh vb2_nv_init_cases zero_shared_data_def)

lemma phase1_result:
  assumes "fresh ctx"
  shows "(let c = snd (ph1_reboot (boot0 ctx));
              wants = has_flag (ctx_flags ctx) VB2_CONTEXT_SECDATA_WANTS_REBOOT;
              again = (vb2_nv_get (boot0 ctx) VB2_NV_TPM_REQUESTED_REBOOT \<noteq> 0);
              rec = (vb2_nv_get (boot0 ctx) VB2_NV_RECOVERY_REQUEST \<noteq> 0 \<or> wants \<or>
                     has_flag (ctx_flags ctx) VB2_CONTEXT_FORCE_RECOVERY_MODE \<or>
                     vb2_secdata_check_crc ctx \<noteq> VB2_SUCCESS \<or>
                     fst (vb2_fw_parse_gbb pl (ph1_secdata c)) \<noteq> VB2_SUCCESS)
    in fst (vb2api_fw_phase1 pl ctx) =
      (if wants \<and> \<not> again then VB2_ERROR_API_PHASE1_SECDATA_REBOOT
       else if rec then VB2_ERROR_API_PHASE1_RECOVERY
       else fst (vb2_check_dev_switch pl (vb2_check_recovery (ph1_gbb pl (ph1_secdata c))))))"
proof -
  let ?b = "boot0 ctx" and ?c = "snd (ph1_reboot (boot0 ctx))"
  let ?d = "vb2_check_recovery (ph1_gbb pl (ph1_secdata ?c))"
  have b: "early ?b" by (rule boot0_early(1) [OF assms])
  have c: "early ?c" by (rule early_step_early [OF early_step_ph1_reboot [OF b]])
  have d: "early ?d"
    by (intro early_step_early [OF early_step_check_recovery] early_step_early [OF early_step_ph1_gbb]
        early_step_early [OF early_step_ph1_secdata] c)
  have flags: "has_flag (ctx_flags ?c) m \<longleftrightarrow> has_flag (ctx_flags ctx) m"
    if "m AND VB2_CONTEXT_NVDATA_CHANGED = 0" for m
    using that by (simp add: ph1_flags [OF b] boot0_early(3) [OF assms])
  have noreq: "\<not> has_flag (ctx_flags ?c) VB2_CONTEXT_RECOVERY_MODE"
    using assms flags [of VB2_CONTEXT_RECOVERY_MODE] by (simp add: fresh_def)
  have req: "vb2_nv_get ?c VB2_NV_RECOVERY_REQUEST \<noteq> 0 \<longleftrightarrow>
      vb2_nv_get ?b VB2_NV_RECOVERY_REQUEST \<noteq> 0 \<or>
      has_flag (ctx_flags ctx) VB2_CONTEXT_SECDATA_WANTS_REBOOT \<and> vb2_nv_get ?b VB2_NV_TPM_REQUESTED_REBOOT \<noteq> 0"
    using b vb2_fail_early_nv [OF b]
    by (auto simp: ph1_reboot_def boot0_early(3) [OF assms] early_def)
  have reboot: "fst (ph1_reboot ?b) \<longleftrightarrow> has_flag (ctx_flags ctx) VB2_CONTEXT_SECDATA_WANTS_REBOOT \<and>
      vb2_nv_get ?b VB2_NV_TPM_REQUESTED_REBOOT = 0"
    by (simp add: ph1_reboot_def boot0_early(3) [OF assms])
  have "secdata ?c = secdata ctx"
    using b by (simp add: ph1_reboot_def early_def) (simp add: init_fresh [OF assms] vb2_nv_init_cases)
  then have sec: "fst (vb2_secdata_init ?c) = vb2_secdata_check_crc ctx"
    by (simp add: vb2_secdata_init_cases vb2_secdata_check_crc_def)
  have "fst (vb2api_fw_phase1 pl ctx) =
      (if fst (ph1_reboot ?b) then VB2_ERROR_API_PHASE1_SECDATA_REBOOT
       else if has_flag (ctx_flags ?d) VB2_CONTEXT_RECOVERY_MODE then VB2_ERROR_API_PHASE1_RECOVERY
       else fst (vb2_check_dev_switch pl ?d))"
    by (simp add: phase1_steps Let_def case_prod_beta fst_ph1_end dev_switch_recovery_mode [OF d])
  then show ?thesis
    unfolding Let_def ph1_recovery_iff [OF c boot0_reason [OF assms] noreq] reboot req sec
    using flags [of VB2_CONTEXT_FORCE_RECOVERY_MODE] by auto
qed


text \<open>
  C27. Phase 1 of the firmware boot sends the machine to recovery mode exactly when it must: on a
  recovery request stored by an earlier boot, on a manual request, after a second TPM-requested
  reboot in a row, when the secure data are bad or when the GBB header is bad.  In every other case
  it reports what the developer switch check reports.  Only a first TPM-requested reboot ends the
  phase before these checks.
\<close>

theorem vb2api_fw_phase1_recovery:
  assumes "fresh ctx"
  shows "(let c = snd (ph1_reboot (boot0 ctx));
              wants = has_flag (ctx_flags ctx) VB2_CONTEXT_SECDATA_WANTS_REBOOT;
              again = (vb2_nv_get (boot0 ctx) VB2_NV_TPM_REQUESTED_REBOOT \<noteq> 0);
              rec = (vb2_nv_get (boot0 ctx) VB2_NV_RECOVERY_REQUEST \<noteq> 0 \<or> wants \<or>
                     has_flag (ctx_flags ctx) VB2_CONTEXT_FORCE_RECOVERY_MODE \<or>
                     vb2_secdata_check_crc ctx \<noteq> VB2_SUCCESS \<or>
                     fst (vb2_fw_parse_gbb pl (ph1_secdata c)) \<noteq> VB2_SUCCESS)
    in fst (vb2api_fw_phase1 pl ctx) =
      (if wants \<and> \<not> again then VB2_ERROR_API_PHASE1_SECDATA_REBOOT
       else if rec then VB2_ERROR_API_PHASE1_RECOVERY
       else fst (vb2_check_dev_switch pl (vb2_check_recovery (ph1_gbb pl (ph1_secdata c))))))"
  by (rule phase1_result [OF assms])

lemma phase1_recovery_rule:
  assumes "fresh ctx" and "vb2_nv_get (boot0 ctx) VB2_NV_RECOVERY_REQUEST \<noteq> 0"
    and "\<not> has_flag (ctx_flags ctx) VB2_CONTEXT_SECDATA_WANTS_REBOOT"
  shows "fst (vb2api_fw_phase1 pl ctx) = VB2_ERROR_API_PHASE1_RECOVERY"
  using phase1_result [OF assms(1), of pl] assms(2,3) by (simp add: Let_def)

section \<open>Over several boots\<close>

text \<open>
  A power-on hands the stored data of the last boot to a fresh context.  A boot that passes the two
  phases and then either reports a failure with \<^verbatim>\<open>vb2api_fail()\<close> (with its reason) or hangs, to be
  restarted without a word.
\<close>

definition power_on :: "u32 \<Rightarrow> vb2_context \<Rightarrow> vb2_context" where
  "power_on fl ctx = ctx\<lparr>ctx_flags := fl, workbuf_used := 0\<rparr>"

inductive boot :: "vb2_platform \<Rightarrow> u32 \<Rightarrow> vb2_context \<Rightarrow> (u8 \<times> u8) option \<Rightarrow> vb2_context \<Rightarrow> bool"
  for pl fl where
  hangs: "vb2api_fw_phase1 pl (power_on fl c) = (VB2_SUCCESS, c1) \<Longrightarrow>
    vb2api_fw_phase2 pl c1 = (VB2_SUCCESS, c2) \<Longrightarrow> boot pl fl c None c2"
| fails: "vb2api_fw_phase1 pl (power_on fl c) = (VB2_SUCCESS, c1) \<Longrightarrow>
    vb2api_fw_phase2 pl c1 = (VB2_SUCCESS, c2) \<Longrightarrow> boot pl fl c (Some (r, s)) (vb2api_fail c2 r s)"

inductive_cases boot_hangsE: "boot pl fl c None c'"
inductive_cases boot_failsE: "boot pl fl c (Some (r, s)) c'"

text \<open>The flags of an ordinary boot, and stored data a power-on can start from.\<close>

definition plain_flags :: "u32 \<Rightarrow> bool" where
  "plain_flags fl \<longleftrightarrow> \<not> has_flag fl VB2_CONTEXT_RECOVERY_MODE \<and> \<not> has_flag fl VB2_CONTEXT_NOFAIL_BOOT \<and>
     \<not> has_flag fl VB2_CONTEXT_S3_RESUME"

definition stored_ok :: "vb2_context \<Rightarrow> bool" where
  "stored_ok ctx \<longleftrightarrow> nv_ok ctx \<and> workbuf_size ctx \<ge> of_nat SIZEOF_SHARED_DATA \<and> workbuf ctx AND 15 = 0"

lemma power_on_simps [simp]:
  "ctx_flags (power_on fl c) = fl" "nvdata (power_on fl c) = nvdata c" "workbuf (power_on fl c) = workbuf c"
  "workbuf_size (power_on fl c) = workbuf_size c" "secdata (power_on fl c) = secdata c"
  "workbuf_used (power_on fl c) = 0"
  by (simp_all add: power_on_def)

lemma fresh_power_on: "stored_ok c \<Longrightarrow> \<not> has_flag fl VB2_CONTEXT_RECOVERY_MODE \<Longrightarrow> fresh (power_on fl c)"
  by (simp add: fresh_def stored_ok_def nv_ok_length)

lemma phase2_select:
  assumes "early c" and "\<not> has_flag (ctx_flags c) VB2_CONTEXT_S3_RESUME"
    and "vb2api_fw_phase2 pl c = (VB2_SUCCESS, c2)"
  shows "\<exists>c'. early_step c c' \<and> c2 = snd (vb2_select_fw_slot c')"
proof -
  let ?d = "if has_flag (ctx_flags c) VB2_CONTEXT_DEVELOPER_MODE then ctx_set_flag VB2_CONTEXT_CLEAR_RAM c else c"
  have d: "early_step c ?d" using early_step_flag [OF assms(1)] early_step_refl [OF assms(1)] by simp
  note t = early_step_trans [OF d early_step_tpm_clear [OF early_step_early [OF d], of pl]]
  have "c2 = snd (vb2_select_fw_slot (snd (vb2_check_tpm_clear pl ?d)))"
    using assms(2,3) unfolding vb2api_fw_phase2_def Let_def case_prod_beta by (auto split: if_splits)
  with t show ?thesis by blast
qed

text \<open>A boot that gets through both phases selects a slot from the stored slot parameters.\<close>

lemma boot_selects:
  assumes "stored_ok c" and "plain_flags fl"
    and "vb2api_fw_phase1 pl (power_on fl c) = (VB2_SUCCESS, c1)"
    and "vb2api_fw_phase2 pl c1 = (VB2_SUCCESS, c2)"
  shows "\<exists>c'. early_step (boot0 (power_on fl c)) c' \<and> c2 = snd (vb2_select_fw_slot c') \<and>
    (\<forall>q \<in> slot_params. vb2_nv_get c' q = vb2_nv_get c q) \<and>
    \<not> has_flag (ctx_flags c') VB2_CONTEXT_NOFAIL_BOOT"
proof -
  have f: "fresh (power_on fl c)" using assms(1,2) fresh_power_on plain_flags_def by blast
  have s1: "early_step (boot0 (power_on fl c)) c1" using early_step_phase1 [OF f, of pl] assms(3) by simp
  have nores: "\<not> has_flag (ctx_flags c1) VB2_CONTEXT_S3_RESUME"
    using s1 assms(2) boot0_early(3) [OF f] by (simp add: early_step_def plain_flags_def)
  obtain c' where c': "early_step c1 c'" "c2 = snd (vb2_select_fw_slot c')"
    using phase2_select [OF early_step_early [OF s1] nores assms(4)] by blast
  have "vb2_nv_check_crc (power_on fl c) = VB2_SUCCESS"
    using assms(1) by (simp add: stored_ok_def nv_ok_def check_crc_cong [of "power_on fl c" c])
  then have nv: "vb2_nv_get (boot0 (power_on fl c)) q = vb2_nv_get c q" for q
    using boot0_early(4) [OF f] vb2_nv_get_cong [of "power_on fl c" c q] by simp
  note s = early_step_trans [OF s1 c'(1)]
  have "\<forall>q \<in> slot_params. vb2_nv_get c' q = vb2_nv_get c q"
    and "\<not> has_flag (ctx_flags c') VB2_CONTEXT_NOFAIL_BOOT"
    using s assms(2) boot0_early(3) [OF f] by (simp_all add: early_step_def nv plain_flags_def)
  with s c'(2) show ?thesis by blast
qed

lemma nv_ok_select: "nv_ok c \<Longrightarrow> nv_ok (snd (vb2_select_fw_slot c))"
  by (simp add: select_fw_slot_steps nv_ok_length slot_record_def slot_fallback_def slot_count_def
      slot_store_def Let_def)

lemma select_frame:
  assumes "nv_ok c"
  shows "workbuf (snd (vb2_select_fw_slot c)) = workbuf c"
    "workbuf_size (snd (vb2_select_fw_slot c)) = workbuf_size c"
    "workbuf_used (snd (vb2_select_fw_slot c)) = workbuf_used c"
  using assms
  by (simp_all add: select_fw_slot_steps nv_ok_length slot_record_def slot_fallback_def slot_count_def
      slot_store_def Let_def)

text \<open>The state after a boot that hangs, and after one that fails.\<close>

lemma boot_hangs_effect:
  assumes "stored_ok c" and "plain_flags fl" and "boot pl fl c None c'"
  shows "stored_ok c'" and "sd_fw_slot (sd c') = slot_choice (vb2_nv_get c)"
    and "vb2_nv_get c' VB2_NV_TRY_NEXT = slot_choice (vb2_nv_get c)"
    and "vb2_nv_get c' VB2_NV_FW_TRIED = slot_choice (vb2_nv_get c)"
    and "vb2_nv_get c' VB2_NV_FW_RESULT =
      (if vb2_nv_get c VB2_NV_TRY_COUNT > 0 then VB2_FW_RESULT_TRYING else VB2_FW_RESULT_UNKNOWN)"
    and "vb2_nv_get c' VB2_NV_TRY_COUNT =
      (if vb2_nv_get c VB2_NV_TRY_COUNT > 0 then vb2_nv_get c VB2_NV_TRY_COUNT - 1 else 0)"
    and "has_flag (sd_status (sd c')) VB2_SD_STATUS_CHOSE_SLOT" "has_flag (sd_status (sd c')) VB2_SD_STATUS_NV_INIT"
    and "sd_last_fw_slot (sd c') = vb2_nv_get c VB2_NV_FW_TRIED"
    and "sd_last_fw_result (sd c') = vb2_nv_get c VB2_NV_FW_RESULT" and "workbuf_used c' \<noteq> 0"
proof -
  obtain c1 where c1: "vb2api_fw_phase1 pl (power_on fl c) = (VB2_SUCCESS, c1)"
    "vb2api_fw_phase2 pl c1 = (VB2_SUCCESS, c')"
    using assms(3) by (auto elim: boot_hangsE)
  obtain d where d: "early_step (boot0 (power_on fl c)) d" "c' = snd (vb2_select_fw_slot d)"
    "\<forall>q \<in> slot_params. vb2_nv_get d q = vb2_nv_get c q" "\<not> has_flag (ctx_flags d) VB2_CONTEXT_NOFAIL_BOOT"
    using boot_selects [OF assms(1,2) c1] by blast
  have f: "fresh (power_on fl c)" using assms(1,2) fresh_power_on plain_flags_def by blast
  have e: "early d" by (rule early_step_early [OF d(1)])
  have len: "length (nvdata d) = VB2_NVDATA_SIZE" using e by (simp add: early_def)
  have nv: "vb2_nv_get d VB2_NV_TRY_NEXT = vb2_nv_get c VB2_NV_TRY_NEXT"
    "vb2_nv_get d VB2_NV_TRY_COUNT = vb2_nv_get c VB2_NV_TRY_COUNT"
    "vb2_nv_get d VB2_NV_FW_TRIED = vb2_nv_get c VB2_NV_FW_TRIED"
    "vb2_nv_get d VB2_NV_FW_RESULT = vb2_nv_get c VB2_NV_FW_RESULT"
    using d(3) by (simp_all add: slot_params_def)
  have slot: "slot_choice (vb2_nv_get d) = slot_choice (vb2_nv_get c)" by (simp add: slot_choice_def nv)
  have wb: "workbuf d = workbuf c" "workbuf_size d = workbuf_size c" "workbuf_used d \<noteq> 0"
    using d(1) boot0_early(5) [OF f] f
    by (simp_all add: early_step_def init_fresh vb2_nv_init_cases)
  show "stored_ok c'"
    using e wb assms(1) by (simp add: stored_ok_def d(2) early_def nv_ok_select select_frame)
  show "workbuf_used c' \<noteq> 0" using e wb by (simp add: d(2) select_frame early_def)
  show "sd_fw_slot (sd c') = slot_choice (vb2_nv_get c)"
    "vb2_nv_get c' VB2_NV_TRY_NEXT = slot_choice (vb2_nv_get c)"
    "vb2_nv_get c' VB2_NV_FW_TRIED = slot_choice (vb2_nv_get c)"
    "vb2_nv_get c' VB2_NV_FW_RESULT =
      (if vb2_nv_get c VB2_NV_TRY_COUNT > 0 then VB2_FW_RESULT_TRYING else VB2_FW_RESULT_UNKNOWN)"
    "vb2_nv_get c' VB2_NV_TRY_COUNT =
      (if vb2_nv_get c VB2_NV_TRY_COUNT > 0 then vb2_nv_get c VB2_NV_TRY_COUNT - 1 else 0)"
    "sd_last_fw_slot (sd c') = vb2_nv_get c VB2_NV_FW_TRIED"
    "sd_last_fw_result (sd c') = vb2_nv_get c VB2_NV_FW_RESULT"
    "has_flag (sd_status (sd c')) VB2_SD_STATUS_CHOSE_SLOT" "has_flag (sd_status (sd c')) VB2_SD_STATUS_NV_INIT"
    using d(4) e word_neq_0_conv [of "vb2_nv_get c VB2_NV_TRY_COUNT"]
    by (auto simp: d(2) select_fw_slot_effect [OF len] nv slot Let_def early_def)
qed

lemma boot_fails_hangs:
  assumes "boot pl fl c (Some (r, s)) c'"
  shows "\<exists>d. boot pl fl c None d \<and> c' = vb2api_fail d r s"
  using assms by (auto elim!: boot_failsE intro: boot.hangs)

lemma boot_fails_effect:
  assumes "stored_ok c" and "plain_flags fl" and "boot pl fl c (Some (r, s)) c'"
  shows "stored_ok c'" and "vb2_nv_get c' VB2_NV_TRY_NEXT = 1 - slot_choice (vb2_nv_get c)"
    and "vb2_nv_get c' VB2_NV_FW_TRIED = slot_choice (vb2_nv_get c)"
    and "vb2_nv_get c' VB2_NV_FW_RESULT = VB2_FW_RESULT_FAILURE"
    and "vb2_nv_get c' VB2_NV_TRY_COUNT = 0"
    and "vb2_nv_get c VB2_NV_FW_TRIED = 1 - slot_choice (vb2_nv_get c) \<Longrightarrow>
         vb2_nv_get c VB2_NV_FW_RESULT = VB2_FW_RESULT_FAILURE \<Longrightarrow> r \<noteq> 0 \<Longrightarrow>
         vb2_nv_get c' VB2_NV_RECOVERY_REQUEST \<noteq> 0"
proof -
  obtain d where d: "boot pl fl c None d" "c' = vb2api_fail d r s"
    using boot_fails_hangs [OF assms(3)] by blast
  note h = boot_hangs_effect [OF assms(1,2) d(1)]
  have c': "c' = vb2_fail d r s" using h(11) by (simp add: d(2) vb2api_fail_def vb2_init_context_def)
  have len: "nv_inited d" using h(1,8) by (simp add: stored_ok_def)
  have rz: "r \<noteq> 0 \<Longrightarrow> ucast r \<noteq> (0::u32)" by (metis ucast_0 unat_eq_0 unat_ucast_u8 unsigned_0)
  show "stored_ok c'" using h(1,8) by (simp add: stored_ok_def c')
  show "vb2_nv_get c' VB2_NV_TRY_NEXT = 1 - slot_choice (vb2_nv_get c)"
    "vb2_nv_get c' VB2_NV_FW_TRIED = slot_choice (vb2_nv_get c)"
    "vb2_nv_get c' VB2_NV_FW_RESULT = VB2_FW_RESULT_FAILURE" "vb2_nv_get c' VB2_NV_TRY_COUNT = 0"
    using slot_choice_bit [of c] by (auto simp: c' vb2_fail_nv [OF len] h fail_recovery_def Let_def)
  show "vb2_nv_get c VB2_NV_FW_TRIED = 1 - slot_choice (vb2_nv_get c) \<Longrightarrow>
         vb2_nv_get c VB2_NV_FW_RESULT = VB2_FW_RESULT_FAILURE \<Longrightarrow> r \<noteq> 0 \<Longrightarrow>
         vb2_nv_get c' VB2_NV_RECOVERY_REQUEST \<noteq> 0"
    using rz by (auto simp: c' vb2_fail_nv [OF len] h slots_exhausted_def fail_recovery_def Let_def)
qed

text \<open>
  C25. Two boots in a row that report a failure after choosing their slot try both slots and leave a
  recovery request: at the next power-on phase 1 goes to recovery mode instead of trying again.
\<close>

theorem two_failures_recover:
  assumes "stored_ok c" and "plain_flags fl1" and "plain_flags fl2" and "plain_flags fl3"
    and "boot pl fl1 c (Some (r1, s1)) c1" and "boot pl fl2 c1 (Some (r2, s2)) c2" and "r2 \<noteq> 0"
    and "\<not> has_flag fl3 VB2_CONTEXT_SECDATA_WANTS_REBOOT"
  shows "vb2_nv_get c2 VB2_NV_FW_TRIED = 1 - vb2_nv_get c1 VB2_NV_FW_TRIED \<and>
    fst (vb2api_fw_phase1 pl (power_on fl3 c2)) = VB2_ERROR_API_PHASE1_RECOVERY"
proof -
  note a = boot_fails_effect [OF assms(1,2,5)]
  note b = boot_fails_effect [OF a(1) assms(3,6)]
  have slot: "slot_choice (vb2_nv_get c1) = 1 - slot_choice (vb2_nv_get c)"
    by (simp add: slot_choice_def [of "vb2_nv_get c1"] a)
  have req: "vb2_nv_get c2 VB2_NV_RECOVERY_REQUEST \<noteq> 0"
    by (rule b(6)) (simp_all add: a slot assms(7))
  have f: "fresh (power_on fl3 c2)" using b(1) assms(4) fresh_power_on plain_flags_def by blast
  have "vb2_nv_check_crc (power_on fl3 c2) = VB2_SUCCESS"
    using b(1) by (simp add: stored_ok_def nv_ok_def check_crc_cong [of "power_on fl3 c2" c2])
  then have "vb2_nv_get (boot0 (power_on fl3 c2)) VB2_NV_RECOVERY_REQUEST \<noteq> 0"
    using boot0_early(4) [OF f] vb2_nv_get_cong [of "power_on fl3 c2" c2 VB2_NV_RECOVERY_REQUEST] req by simp
  then have "fst (vb2api_fw_phase1 pl (power_on fl3 c2)) = VB2_ERROR_API_PHASE1_RECOVERY"
    using phase1_recovery_rule [OF f] assms(8) by simp
  then show ?thesis by (simp add: b a slot)
qed

inductive hangs_n :: "vb2_platform \<Rightarrow> u32 \<Rightarrow> nat \<Rightarrow> vb2_context \<Rightarrow> vb2_context \<Rightarrow> bool" for pl fl where
  none: "hangs_n pl fl 0 c c"
| more: "boot pl fl c None c1 \<Longrightarrow> hangs_n pl fl n c1 c2 \<Longrightarrow> hangs_n pl fl (Suc n) c c2"

lemma hangs_n_trial:
  assumes "hangs_n pl fl n c c'" and "stored_ok c" and "plain_flags fl"
    and "unat (vb2_nv_get c VB2_NV_TRY_COUNT) = n" and "0 < n"
  shows "stored_ok c' \<and> vb2_nv_get c' VB2_NV_TRY_COUNT = 0 \<and>
    vb2_nv_get c' VB2_NV_FW_RESULT = VB2_FW_RESULT_TRYING \<and>
    vb2_nv_get c' VB2_NV_TRY_NEXT = vb2_nv_get c VB2_NV_TRY_NEXT \<and>
    vb2_nv_get c' VB2_NV_FW_TRIED = vb2_nv_get c VB2_NV_TRY_NEXT \<and>
    sd_fw_slot (sd c') = vb2_nv_get c VB2_NV_TRY_NEXT"
  using assms
proof (induction rule: hangs_n.induct)
  case (more c c1 n c2)
  note h = boot_hangs_effect [OF more.prems(1,2) more.hyps(1)]
  have pos: "0 < vb2_nv_get c VB2_NV_TRY_COUNT" using more.prems(3) by (simp add: word_less_nat_alt)
  have slot: "slot_choice (vb2_nv_get c) = vb2_nv_get c VB2_NV_TRY_NEXT" using pos by (auto simp: slot_choice_def)
  have cnt: "unat (vb2_nv_get c1 VB2_NV_TRY_COUNT) = n"
    using pos more.prems(3) by (simp add: h unat_minus_one)
  show ?case
  proof (cases "n = 0")
    case True
    then have "c2 = c1" using more.hyps(2) by (auto elim: hangs_n.cases)
    then show ?thesis using h pos slot cnt True by (simp add: unat_eq_0)
  next
    case False
    then show ?thesis using more.IH [OF h(1) more.prems(2) cnt] h slot by simp
  qed
qed simp


section \<open>A device that boots\<close>

text \<open>
  A concrete platform, with a GBB header and a TPM that can be cleared, on which the boot goes
  through: it shows that the hypotheses above can be met.
\<close>

definition demo_gbb :: bytes where
  "demo_gbb = [0x24, 0x47, 0x42, 0x42, 1, 0, 2, 0, 128, 0, 0, 0] @ replicate 116 0"

definition demo_device :: vb2_platform where
  "demo_device = \<lparr>vb2ex_tpm_clear_owner = (\<lambda>_. VB2_SUCCESS),
     vb2ex_read_resource = (\<lambda>_ _ off sz. (VB2_SUCCESS, take (unat sz) (drop (unat off) demo_gbb)))\<rparr>"

definition demo_stored :: "vb2_context \<Rightarrow> bool" where
  "demo_stored c \<longleftrightarrow> stored_ok c \<and> workbuf c = 0x1000 \<and> workbuf_size c = 12288 \<and>
     length (secdata c) = VB2_SECDATA_SIZE \<and> vb2_secdata_check_crc c = VB2_SUCCESS \<and>
     secdata c ! SEC_flags = 0 \<and> vb2_nv_get c VB2_NV_RECOVERY_REQUEST = 0"

lemma demo_read_gbb: "vb2_read_gbb_header demo_device c = (VB2_SUCCESS, demo_gbb)"
proof -
  have "take 128 demo_gbb = demo_gbb" by (simp add: demo_gbb_def)
  moreover have "vb2_validate_gbb_signature demo_gbb = VB2_SUCCESS"
    by (simp add: vb2_validate_gbb_signature_def demo_gbb_def eval_nat_numeral All_less_Suc Ex_less_Suc)
  moreover have "rd16 demo_gbb 4 = 1" "rd16 demo_gbb 6 = 2" "rd32 demo_gbb 8 = 128"
    by (simp_all add: demo_gbb_def rd16_def rd32_def nth_append)
  ultimately show ?thesis by (simp add: vb2_read_gbb_header_def demo_device_def)
qed

lemma demo_parse_gbb:
  assumes "workbuf c = 0x1000" and "workbuf_size c = 12288" and "workbuf_used c = 128"
  shows "\<exists>d. vb2_fw_parse_gbb demo_device c = (VB2_SUCCESS, upd_sd d c) \<and>
    (\<forall>x. sd_gbb_flags (d x) = 0 \<and> sd_status (d x) = sd_status x)"
proof -
  have "fst (vb2_workbuf_alloc (vb2_workbuf_from_ctx c) SIZEOF_GBB_HEADER) \<noteq> NULL"
    using assms
    by (simp add: vb2_workbuf_from_ctx_def vb2_workbuf_init_def vb2_align_def vb2_workbuf_alloc_def wb_round_up_def)
  moreover have "rd32 demo_gbb GBB_flags = 0" by (simp add: demo_gbb_def rd32_def nth_append)
  ultimately show ?thesis
    by (auto simp: vb2_fw_parse_gbb_def demo_read_gbb Let_def intro!: exI)
qed

lemma demo_phase1:
  assumes c: "demo_stored c"
  shows "\<exists>c1. vb2api_fw_phase1 demo_device (power_on 0 c) = (VB2_SUCCESS, c1) \<and> early c1 \<and>
    secdata c1 = secdata c \<and> vb2_nv_get c1 VB2_NV_RECOVERY_REQUEST = 0"
proof -
  let ?p = "power_on 0 c" and ?b = "snd (ph1_reboot (boot0 (power_on 0 c)))"
  have f: "fresh ?p" using c by (intro fresh_power_on) (simp_all add: demo_stored_def)
  note b = boot0_early [OF f]
  have e: "early ?b" by (rule early_step_early [OF early_step_ph1_reboot [OF b(1)]])
  have rb: "ph1_reboot (boot0 ?p) = (False, vb2_nv_set (boot0 ?p) VB2_NV_TPM_REQUESTED_REBOOT 0)"
    by (simp add: ph1_reboot_def b(3))
  have crc: "vb2_nv_check_crc ?p = VB2_SUCCESS"
    using c by (simp add: demo_stored_def stored_ok_def nv_ok_def check_crc_cong [of ?p c])
  have wb: "workbuf ?b = 0x1000" "workbuf_size ?b = 12288" "workbuf_used ?b = 128" "secdata ?b = secdata c"
    using c unfolding rb snd_conv by (simp_all add: boot0_frame [OF f] b(5) demo_stored_def)
  have req: "vb2_nv_get ?b VB2_NV_RECOVERY_REQUEST = 0"
    using b(1) c vb2_nv_get_cong [of ?p c] by (simp add: rb early_def b(4) [OF crc] demo_stored_def)
  have sec: "vb2_secdata_check_crc ?b = VB2_SUCCESS"
    using c wb(4) by (simp add: demo_stored_def vb2_secdata_check_iff)
  let ?s = "ph1_secdata ?b"
  have s: "?s = upd_sd (\<lambda>d. d\<lparr>sd_status := sd_status d OR VB2_SD_STATUS_SECDATA_INIT,
      sd_fw_version_secdata := rd32 (secdata ?b) SEC_fw_versions\<rparr>) ?b"
    using sec by (simp add: ph1_secdata_def vb2_secdata_init_cases)
  obtain d where d: "vb2_fw_parse_gbb demo_device ?s = (VB2_SUCCESS, upd_sd d ?s)"
    "\<And>x. sd_gbb_flags (d x) = 0 \<and> sd_status (d x) = sd_status x"
    using demo_parse_gbb [of ?s] wb s by auto
  let ?g = "upd_sd d ?s"
  have g: "ph1_gbb demo_device ?s = ?g" by (simp add: ph1_gbb_def d)
  have eg: "early ?g"
    using early_step_early [OF early_step_ph1_gbb [OF early_step_early [OF early_step_ph1_secdata [OF e]], of demo_device]]
    by (simp add: g)
  let ?r = "vb2_check_recovery ?g"
  have er: "early ?r" by (rule early_step_early [OF early_step_check_recovery [OF eg]])
  have fl: "\<not> has_flag (ctx_flags ?b) m" if "m AND VB2_CONTEXT_NVDATA_CHANGED = 0" for m
    using that by (simp add: ph1_flags [OF b(1)] b(3))
  have norec: "\<not> has_flag (ctx_flags ?r) VB2_CONTEXT_RECOVERY_MODE"
    using ph1_recovery_iff [OF e boot0_reason [OF f], of demo_device] fl req sec d
    by (simp add: g vb2_secdata_init_cases)
  have flags: "vb2_secdata_get ?r VB2_SECDATA_FLAGS = Inr 0"
    using c wb(4) d(2) by (simp add: vb2_secdata_get_def s demo_stored_def)
  have want: "\<not> dev_wanted ?r True 0" and kept: "dev_flags ?r True 0 = 0"
    using fl d(2) by (simp_all add: dev_flags_def dev_wanted_def dev_kept_def s)
  have dev: "vb2_check_dev_switch demo_device ?r = (VB2_SUCCESS, dev_ctx ?r True 0)"
    by (simp add: dev_switch_tail flags kept Let_def)
  have "vb2api_fw_phase1 demo_device ?p = (VB2_SUCCESS, dev_ctx ?r True 0)"
    using norec by (simp add: phase1_steps rb g [unfolded rb snd_conv] dev [unfolded rb snd_conv] ph1_end_def Let_def)
  moreover have "early (dev_ctx ?r True 0)" by (rule early_step_early [OF early_step_dev_ctx [OF er]])
  moreover have "secdata (dev_ctx ?r True 0) = secdata c" using wb(4) by (simp add: s)
  moreover have "vb2_nv_get (dev_ctx ?r True 0) VB2_NV_RECOVERY_REQUEST = 0"
    using er eg by (simp add: dev_ctx_nv early_def check_recovery_effect dev_boot_params_def)
  ultimately show ?thesis by blast
qed

lemma demo_phase2:
  assumes "early c" and "\<not> has_flag (ctx_flags c) VB2_CONTEXT_S3_RESUME"
  shows "\<exists>c2. vb2api_fw_phase2 demo_device c = (VB2_SUCCESS, c2) \<and> secdata c2 = secdata c \<and>
    vb2_nv_get c2 VB2_NV_RECOVERY_REQUEST = vb2_nv_get c VB2_NV_RECOVERY_REQUEST"
proof -
  let ?d = "if has_flag (ctx_flags c) VB2_CONTEXT_DEVELOPER_MODE then ctx_set_flag VB2_CONTEXT_CLEAR_RAM c else c"
  let ?t = "snd (vb2_check_tpm_clear demo_device ?d)"
  have d: "early ?d" using early_step_early [OF early_step_flag [OF assms(1)]] assms(1) by simp
  have tok: "fst (vb2_check_tpm_clear demo_device ?d) = VB2_SUCCESS"
    by (simp add: vb2_check_tpm_clear_def demo_device_def)
  have t: "early ?t" by (rule early_step_early [OF early_step_tpm_clear [OF d]])
  have "secdata ?t = secdata c" "vb2_nv_get ?t VB2_NV_RECOVERY_REQUEST = vb2_nv_get c VB2_NV_RECOVERY_REQUEST"
    using assms(1) by (simp_all add: vb2_check_tpm_clear_def demo_device_def early_def)
  moreover have "secdata (snd (vb2_select_fw_slot ?t)) = secdata ?t" "fst (vb2_select_fw_slot ?t) = VB2_SUCCESS"
    using t by (simp_all add: select_fw_slot_steps early_def slot_record_def slot_fallback_def slot_count_def
        slot_store_def Let_def)
  moreover have "vb2_nv_get (snd (vb2_select_fw_slot ?t)) VB2_NV_RECOVERY_REQUEST = vb2_nv_get ?t VB2_NV_RECOVERY_REQUEST"
    using t by (simp add: select_fw_slot_effect early_def Let_def)
  moreover have "vb2api_fw_phase2 demo_device c = (fst (vb2_select_fw_slot ?t), snd (vb2_select_fw_slot ?t))"
    using assms(2) tok \<open>fst (vb2_select_fw_slot ?t) = VB2_SUCCESS\<close>
    unfolding vb2api_fw_phase2_def Let_def case_prod_beta by simp
  ultimately show ?thesis by auto
qed

lemma plain_flags_0 [simp]: "plain_flags 0"
  by (simp add: plain_flags_def)

lemma demo_hangs:
  assumes "demo_stored c"
  shows "\<exists>c2. boot demo_device 0 c None c2 \<and> demo_stored c2"
proof -
  have f: "fresh (power_on 0 c)" and st: "stored_ok c"
    using assms fresh_power_on [of c 0] by (simp_all add: demo_stored_def)
  obtain c1 where c1: "vb2api_fw_phase1 demo_device (power_on 0 c) = (VB2_SUCCESS, c1)" "early c1"
    "secdata c1 = secdata c" "vb2_nv_get c1 VB2_NV_RECOVERY_REQUEST = 0"
    using demo_phase1 [OF assms] by blast
  have s1: "early_step (boot0 (power_on 0 c)) c1" using early_step_phase1 [OF f, of demo_device] c1(1) by simp
  then have "\<not> has_flag (ctx_flags c1) VB2_CONTEXT_S3_RESUME"
    by (simp add: early_step_def boot0_early(3) [OF f])
  then obtain c2 where c2: "vb2api_fw_phase2 demo_device c1 = (VB2_SUCCESS, c2)" "secdata c2 = secdata c1"
    "vb2_nv_get c2 VB2_NV_RECOVERY_REQUEST = 0"
    using demo_phase2 [OF c1(2)] c1(4) by auto
  have b: "boot demo_device 0 c None c2" by (rule boot.hangs [OF c1(1) c2(1)])
  obtain d where d: "early_step (boot0 (power_on 0 c)) d" "c2 = snd (vb2_select_fw_slot d)"
    using boot_selects [OF st plain_flags_0 c1(1) c2(1)] by blast
  have "workbuf c2 = workbuf c" "workbuf_size c2 = workbuf_size c"
    using d early_step_early [OF d(1)]
    by (simp_all add: select_frame early_def) (simp_all add: early_step_def boot0_frame [OF f])
  then have "demo_stored c2"
    using boot_hangs_effect(1) [OF st plain_flags_0 b] assms c1(3) c2(2,3)
    by (simp add: demo_stored_def vb2_secdata_check_crc_def)
  with b show ?thesis by blast
qed

definition demo_start :: vb2_context where
  "demo_start = vb2_nv_set (snd (vb2_secdata_create (vb2_nv_init zero_context))) VB2_NV_TRY_COUNT 1"

lemma demo_start: "demo_stored demo_start" "vb2_nv_get demo_start VB2_NV_FW_RESULT = 0"
  "vb2_nv_get demo_start VB2_NV_TRY_COUNT = 1" "vb2_nv_get demo_start VB2_NV_TRY_NEXT = 0"
proof -
  have ok: "nv_ok (vb2_nv_init zero_context)" by (rule nv_ok_init) simp
  have bad: "vb2_nv_check_crc zero_context \<noteq> VB2_SUCCESS" by (simp add: vb2_nv_check_crc_def)
  have g: "vb2_nv_get (vb2_nv_init zero_context) q = (if q \<in> {VB2_NV_FIRMWARE_SETTINGS_RESET, VB2_NV_KERNEL_SETTINGS_RESET} then 1 else 0)" for q
    using bad by (simp add: vb2_nv_init_cases nv_defaults_get)
  have wb: "workbuf (vb2_nv_init zero_context) = 0x1000" "workbuf_size (vb2_nv_init zero_context) = 12288"
    using bad by (simp_all add: vb2_nv_init_cases)
  let ?c = "snd (vb2_secdata_create (vb2_nv_init zero_context))"
  have c: "nv_ok ?c" "workbuf ?c = 0x1000" "workbuf_size ?c = 12288" "\<And>q. vb2_nv_get ?c q = vb2_nv_get (vb2_nv_init zero_context) q"
    using nv_ok_cong [of ?c "vb2_nv_init zero_context"] vb2_nv_get_cong [of ?c "vb2_nv_init zero_context"] ok wb
    by (simp_all add: vb2_secdata_create_def vb2_secdata_regen_crc_def Let_def)
  have "length (secdata ?c) = VB2_SECDATA_SIZE" "vb2_secdata_check_crc ?c = VB2_SUCCESS" "secdata ?c ! SEC_flags = 0"
    by (simp_all add: vb2_secdata_create_def vb2_secdata_regen_crc_def vb2_secdata_check_iff vb2_crc8_beyond Let_def)
  then show "demo_stored demo_start" "vb2_nv_get demo_start VB2_NV_FW_RESULT = 0"
    "vb2_nv_get demo_start VB2_NV_TRY_COUNT = 1" "vb2_nv_get demo_start VB2_NV_TRY_NEXT = 0"
    using c by (simp_all add: demo_start_def demo_stored_def stored_ok_def g vb2_secdata_check_crc_def)
qed

lemma demo_fails:
  assumes "demo_stored c" and "vb2_nv_get c VB2_NV_FW_RESULT \<noteq> VB2_FW_RESULT_FAILURE"
  shows "\<exists>c2. boot demo_device 0 c (Some (0x1b, 0)) c2 \<and> demo_stored c2"
proof -
  obtain d where d: "boot demo_device 0 c None d" "demo_stored d" using demo_hangs [OF assms(1)] by blast
  have st: "stored_ok c" using assms(1) by (simp add: demo_stored_def)
  note h = boot_hangs_effect [OF st plain_flags_0 d(1)]
  have b: "boot demo_device 0 c (Some (0x1b, 0)) (vb2api_fail d 0x1b 0)"
    using d(1) boot.fails by (metis boot_hangsE)
  have f: "vb2api_fail d 0x1b 0 = vb2_fail d 0x1b 0" using h(11) by (simp add: vb2api_fail_def vb2_init_context_def)
  have len: "nv_inited d" using h(1,8) by (simp add: stored_ok_def)
  have "vb2_nv_get (vb2_fail d 0x1b 0) VB2_NV_RECOVERY_REQUEST = 0"
    using assms(2) d(2) h(7,10) by (simp add: vb2_fail_nv [OF len] slots_exhausted_def Let_def demo_stored_def)
  then have "demo_stored (vb2_fail d 0x1b 0)"
    using d(2) h(8) by (simp add: demo_stored_def stored_ok_def vb2_secdata_check_crc_def)
  with b f show ?thesis by auto
qed

lemma demo_fails_any:
  assumes "demo_stored c"
  shows "\<exists>c2. boot demo_device 0 c (Some (0x1b, 0)) c2"
  using demo_hangs [OF assms] boot.fails by (metis boot_hangsE)

theorem vb2api_fw_phase1_recovery_witness:
  "fst (vb2api_fw_phase1 demo_device (power_on VB2_CONTEXT_FORCE_RECOVERY_MODE demo_start)) =
   VB2_ERROR_API_PHASE1_RECOVERY"
proof -
  have "fresh (power_on VB2_CONTEXT_FORCE_RECOVERY_MODE demo_start)"
    using demo_start(1) by (intro fresh_power_on) (simp_all add: demo_stored_def)
  from vb2api_fw_phase1_recovery [OF this, of demo_device] show ?thesis by (simp add: Let_def)
qed

theorem two_failures_recover_witness:
  "\<exists>c1 c2. boot demo_device 0 demo_start (Some (0x1b, 0)) c1 \<and> boot demo_device 0 c1 (Some (0x1b, 0)) c2 \<and>
    fst (vb2api_fw_phase1 demo_device (power_on 0 c2)) = VB2_ERROR_API_PHASE1_RECOVERY"
proof -
  obtain c1 where c1: "boot demo_device 0 demo_start (Some (0x1b, 0)) c1" "demo_stored c1"
    using demo_fails [OF demo_start(1)] demo_start(2) by auto
  obtain c2 where c2: "boot demo_device 0 c1 (Some (0x1b, 0)) c2" using demo_fails_any [OF c1(2)] by blast
  have "stored_ok demo_start" using demo_start(1) by (simp add: demo_stored_def)
  from two_failures_recover [OF this plain_flags_0 plain_flags_0 plain_flags_0 c1(1) c2] c1(1) c2
  show ?thesis by auto
qed


end
