(* ===== verification/Block_Hash.thy ===== *)
theory Block_Hash
  imports Vb2_Prelude
begin

text \<open>
  The construction the three hash functions share: a message is cut into blocks, each of which is
  fed to a compression function, and what does not fill a block waits in a buffer.  The locale
  fixes the block size and the compression function; the hash theories instantiate it with the
  compression functions of the code.
\<close>

locale block_hash =
  fixes blk :: nat
    and compress :: "'h \<Rightarrow> bytes \<Rightarrow> 'h"
    and h0 :: 'h
  assumes blk_pos: "0 < blk"
begin

function absorb :: "'h \<Rightarrow> bytes \<Rightarrow> 'h" where
  "absorb h msg = (if length msg < blk then h else absorb (compress h (take blk msg)) (drop blk msg))"
  by auto
termination
  by (relation "measure (\<lambda>(h, msg). length msg)") (use blk_pos in auto)

declare absorb.simps [simp del]

lemma absorb_short: "length msg < blk \<Longrightarrow> absorb h msg = h"
  by (simp add: absorb.simps)

lemma absorb_block: "length b = blk \<Longrightarrow> absorb h (b @ msg) = absorb (compress h b) msg"
  by (subst absorb.simps) simp

lemma absorb_inv:
  assumes "\<And>h b. P h \<Longrightarrow> P (compress h b)" and "P h"
  shows "P (absorb h msg)"
  using assms(2)
proof (induction h msg rule: absorb.induct)
  case (1 h msg)
  then show ?case using assms(1) by (subst absorb.simps) simp
qed

lemma absorb_append:
  assumes "blk dvd length m"
  shows "absorb h (m @ msg) = absorb (absorb h m) msg"
proof -
  obtain k where "length m = blk * k" using assms by (auto simp: dvd_def)
  then show ?thesis
  proof (induction k arbitrary: h m)
    case 0
    then show ?case using blk_pos by (simp add: absorb_short)
  next
    case (Suc k)
    then have len: "length (take blk m) = blk" "length (drop blk m) = blk * k" by simp_all
    have "absorb h (m @ msg) = absorb h (take blk m @ (drop blk m @ msg))" by (simp flip: append_assoc)
    also have "\<dots> = absorb (compress h (take blk m)) (drop blk m @ msg)" by (rule absorb_block [OF len(1)])
    also have "\<dots> = absorb (absorb (compress h (take blk m)) (drop blk m)) msg" by (rule Suc.IH [OF len(2)])
    also have "absorb (compress h (take blk m)) (drop blk m) = absorb h m"
      using absorb_block [OF len(1), of h "drop blk m"] by simp
    finally show ?case .
  qed
qed

text \<open>What is waiting in the buffer, and a state that has taken in a message.\<close>

definition waiting :: "bytes \<Rightarrow> bytes" where
  "waiting msg = drop (length msg - length msg mod blk) msg"

definition holds :: "'h \<Rightarrow> bytes \<Rightarrow> nat \<Rightarrow> bytes \<Rightarrow> bool" where
  "holds h buf n msg \<longleftrightarrow> h = absorb h0 msg \<and> n = length msg mod blk \<and> take n buf = waiting msg \<and> blk \<le> length buf"

lemma length_waiting: "length (waiting msg) = length msg mod blk"
  by (simp add: waiting_def)

lemma split_waiting: "take (length msg - length msg mod blk) msg @ waiting msg = msg"
  by (simp add: waiting_def)

lemma dvd_consumed: "blk dvd length (take (length msg - length msg mod blk) msg)"
proof -
  have "length (take (length msg - length msg mod blk) msg) = length msg - length msg mod blk" by simp
  then show ?thesis by (simp only: minus_mod_eq_mult_div dvd_triv_left)
qed

lemma absorb_split: "absorb h (msg @ d) = absorb (absorb h msg) (waiting msg @ d)"
proof -
  let ?m = "take (length msg - length msg mod blk) msg"
  note dvd = dvd_consumed [of msg]
  have "absorb h msg = absorb (absorb h ?m) (waiting msg)"
    using absorb_append [OF dvd, of h "waiting msg"] by (simp add: split_waiting)
  also have "\<dots> = absorb h ?m" using blk_pos by (simp add: absorb_short length_waiting)
  finally have "absorb h msg = absorb h ?m" .
  moreover have "absorb h (?m @ (waiting msg @ d)) = absorb (absorb h ?m) (waiting msg @ d)"
    by (rule absorb_append [OF dvd])
  ultimately show ?thesis by (simp add: split_waiting flip: append_assoc)
qed

lemma waiting_skip:
  assumes "blk dvd length m"
  shows "waiting (m @ x) = waiting x"
proof -
  obtain k where "length m = blk * k" using assms by (auto simp: dvd_def)
  then have r: "length (m @ x) mod blk = length x mod blk" by simp
  have "length x mod blk \<le> length x" by (rule mod_less_eq_dividend)
  then have d: "length (m @ x) - length x mod blk = length m + (length x - length x mod blk)" by simp
  have "drop (length m + j) (m @ x) = drop j x" for j by simp
  then show ?thesis unfolding waiting_def r d .
qed

lemma waiting_append: "waiting (msg @ d) = waiting (waiting msg @ d)"
  using waiting_skip [OF dvd_consumed, of msg "waiting msg @ d"]
  by (simp only: append_assoc [symmetric] split_waiting)

lemma holds_start: "blk \<le> length buf \<Longrightarrow> holds h0 buf 0 []"
  using blk_pos by (simp add: holds_def waiting_def absorb_short)

lemma waiting_short: "length msg < blk \<Longrightarrow> waiting msg = msg"
  by (simp add: waiting_def)

lemma holds_small:
  assumes "holds h buf n msg" and "n + length d < blk"
  shows "holds h (take n buf @ d @ drop (n + length d) buf) (n + length d) (msg @ d)"
proof -
  have n: "n = length msg mod blk" "take n buf = waiting msg" "h = absorb h0 msg" "blk \<le> length buf"
    using assms(1) unfolding holds_def by blast+
  have len: "length (waiting msg @ d) = n + length d" unfolding length_append length_waiting n(1) ..
  have w: "waiting (msg @ d) = waiting msg @ d"
    unfolding waiting_append [of msg] by (rule waiting_short) (use assms(2) len in simp)
  have m: "length (msg @ d) mod blk = n + length d"
    using arg_cong [OF w, of length] unfolding length_waiting len .
  have a: "absorb h0 (msg @ d) = h"
    unfolding absorb_split [of h0 msg d] n(3) by (rule absorb_short) (use assms(2) len in simp)
  have "take (n + length d) (take n buf @ d @ drop (n + length d) buf) = waiting msg @ d"
    unfolding n(2) len [symmetric] append_assoc [symmetric] by simp
  moreover have "blk \<le> length (take n buf @ d @ drop (n + length d) buf)"
    using n(4) assms(2) by simp
  ultimately show ?thesis unfolding holds_def w m a by (intro conjI refl)
qed

lemma holds_big:
  assumes "holds h buf n msg" and "blk \<le> n + length d" and "blk \<le> length buf'"
  defines "s \<equiv> drop (blk - n) d"
  shows "holds (absorb (compress h (take n buf @ take (blk - n) d)) (take (length s div blk * blk) s))
    (drop (length s div blk * blk) s @ drop (length s mod blk) buf') (length s mod blk) (msg @ d)"
proof -
  have n: "n = length msg mod blk" "take n buf = waiting msg" "h = absorb h0 msg"
    using assms(1) unfolding holds_def by blast+
  let ?b = "waiting msg @ take (blk - n) d" and ?k = "length s div blk * blk"
  have "n < blk" unfolding n(1) by (rule mod_less_divisor [OF blk_pos])
  then have b: "length ?b = blk" using assms(2) unfolding length_append length_waiting n(1) [symmetric] by simp
  have "d = take (blk - n) d @ s" by (simp add: s_def)
  then have split: "waiting msg @ d = ?b @ take ?k s @ drop ?k s"
    by (simp only: append_assoc append_take_drop_id)
  have k: "length (take ?k s) = ?k" using div_times_less_eq_dividend [of "length s" blk] by simp
  have lb: "length (?b @ take ?k s) = blk + ?k" unfolding length_append [of ?b] b k ..
  have last: "length (drop ?k s) = length s mod blk" by (simp add: minus_div_mult_eq_mod)
  have "absorb h0 (msg @ d) = absorb h (?b @ (take ?k s @ drop ?k s))"
    unfolding absorb_split [of h0 msg d] n(3) [symmetric] split by (simp only: append_assoc)
  also have "\<dots> = absorb (compress h ?b) (take ?k s @ drop ?k s)" by (rule absorb_block [OF b])
  also have "\<dots> = absorb (absorb (compress h ?b) (take ?k s)) (drop ?k s)"
    by (rule absorb_append) (simp only: k dvd_triv_right)
  also have "\<dots> = absorb (compress h ?b) (take ?k s)" using last blk_pos by (intro absorb_short) simp
  finally have a: "absorb h0 (msg @ d) = absorb (compress h ?b) (take ?k s)" .
  have len: "length (waiting msg @ d) = blk + ?k + length s mod blk"
    using b k last unfolding split length_append by linarith
  have m: "length (msg @ d) mod blk = length s mod blk"
  proof -
    have "length (msg @ d) mod blk = length (waiting msg @ d) mod blk"
      by (simp add: length_waiting mod_add_left_eq)
    also have "\<dots> = (length s mod blk + blk * Suc (length s div blk)) mod blk"
      unfolding len by (simp add: mult.commute add.commute)
    also have "\<dots> = length s mod blk" by (simp only: mod_mult_self2 mod_mod_trivial)
    finally show ?thesis .
  qed
  have "waiting (msg @ d) = drop (length (waiting msg @ d) - length (msg @ d) mod blk) (waiting msg @ d)"
    by (simp add: waiting_append [of msg] waiting_def [of "waiting msg @ d"] length_waiting mod_add_left_eq)
  also have "\<dots> = drop (blk + ?k) (waiting msg @ d)" unfolding len m by (simp only: add_diff_cancel_right')
  also have "\<dots> = drop (length (?b @ take ?k s)) ((?b @ take ?k s) @ drop ?k s)"
    unfolding split lb by (simp only: append_assoc)
  also have "\<dots> = drop ?k s" by (simp only: drop_append append_Nil diff_self_eq_0 drop_0) simp
  finally have w: "waiting (msg @ d) = drop ?k s" .
  have "take (length s mod blk) (drop ?k s @ drop (length s mod blk) buf') = waiting (msg @ d)"
    unfolding w last [symmetric] by simp
  moreover have "blk \<le> length (drop ?k s @ drop (length s mod blk) buf')"
    using assms(3) unfolding length_append last by simp
  ultimately show ?thesis unfolding holds_def a m n(2) by (intro conjI refl)
qed

text \<open>A byte at a time, with a buffer of one block.\<close>

lemma holds_byte:
  assumes "holds h buf n msg" and "length buf = blk"
  shows "Suc n < blk \<Longrightarrow> holds h (buf[n := b]) (Suc n) (msg @ [b])"
    and "Suc n = blk \<Longrightarrow> holds (compress h (buf[n := b])) (buf[n := b]) 0 (msg @ [b])"
proof -
  assume "Suc n < blk"
  then show "holds h (buf[n := b]) (Suc n) (msg @ [b])"
    using holds_small [OF assms(1), of "[b]"] assms(2) by (simp add: upd_conv_take_nth_drop)
next
  assume n: "Suc n = blk"
  then have u: "buf[n := b] = take n buf @ [b]" using assms(2) by (simp add: upd_conv_take_nth_drop)
  have "blk \<le> n + length [b]" "blk \<le> length (buf[n := b])" "blk - n = 1" using n assms(2) by simp_all
  with holds_big [OF assms(1), of "[b]" "buf[n := b]"]
  show "holds (compress h (buf[n := b])) (buf[n := b]) 0 (msg @ [b])"
    using blk_pos by (simp add: absorb_short u [symmetric])
qed

text \<open>A loop over the blocks of a buffer, and the last blocks of a padded message.\<close>

lemma blocks_absorb:
  assumes "k * blk \<le> length m"
  shows "foldl (\<lambda>h i. compress h (take blk (drop (i * blk) m))) h [0..<k] = absorb h (take (k * blk) m)"
  using assms
proof (induction k)
  case 0
  then show ?case using blk_pos by (simp add: absorb_short)
next
  case (Suc k)
  let ?b = "take blk (drop (k * blk) m)"
  have b: "length ?b = blk" and k: "length (take (k * blk) m) = k * blk" using Suc.prems by simp_all
  have "take (Suc k * blk) m = take (k * blk) m @ ?b @ []"
    by (simp only: mult_Suc add.commute [of blk] take_add append_Nil2)
  then have "absorb h (take (Suc k * blk) m) = absorb (absorb h (take (k * blk) m)) (?b @ [])"
    using k by (simp only: absorb_append dvd_triv_right)
  also have "\<dots> = compress (absorb h (take (k * blk) m)) ?b"
    using b blk_pos by (simp only: absorb_block absorb_short list.size)
  finally show ?case using Suc by simp
qed

lemma holds_padded:
  assumes "holds h buf n msg" and "k * blk \<le> length m" and "take (k * blk) m = take n buf @ pad"
  shows "foldl (\<lambda>h i. compress h (take blk (drop (i * blk) m))) h [0..<k] = absorb h0 (msg @ pad)"
proof -
  have "h = absorb h0 msg" "take n buf = waiting msg" using assms(1) unfolding holds_def by blast+
  then show ?thesis using blocks_absorb [of k m h] assms(2,3) by (simp add: absorb_split [of h0 msg pad])
qed

end

end
