(* ===== verification/Hash_Stream.thy ===== *)
theory Hash_Stream
  imports Block_Hash
begin

text \<open>
  The streaming discipline SHA-256 and SHA-512 share: \<^verbatim>\<open>total_size\<close> counts the bytes of the blocks
  already compressed, \<^verbatim>\<open>size\<close> the bytes waiting in the block buffer, and finalization pads in the
  buffer.  Sizes are 32-bit numbers and wrap.  The locale fixes the block size, the number of bytes
  of the length field and the compression function; the two theories of hash functions instantiate
  it and show that their routines are the ones below.
\<close>

section \<open>Big-endian numbers and padding\<close>

definition UNPACK32 :: "u32 \<Rightarrow> bytes" where
  "UNPACK32 x = [ucast (shr x 24), ucast (shr x 16), ucast (shr x 8), ucast x]"

lemma length_UNPACK32 [simp]: "length (UNPACK32 x) = 4"
  by (simp add: UNPACK32_def)

text \<open>The number \<^verbatim>\<open>x\<close> in \<^verbatim>\<open>n\<close> bytes, most significant byte first.\<close>

definition be_bytes :: "nat \<Rightarrow> nat \<Rightarrow> bytes" where
  "be_bytes n x = map (\<lambda>i. of_nat (x div 256 ^ (n - 1 - i))) [0..<n]"

text \<open>
  FIPS 180-4, section 5.1: a one bit, zeros, and the number of bits in \<^verbatim>\<open>tail\<close> bytes, so that the
  padded message is a whole number of blocks.
\<close>

definition hash_padding :: "nat \<Rightarrow> nat \<Rightarrow> nat \<Rightarrow> bytes" where
  "hash_padding blk tail len =
     0x80 # replicate ((2 * blk - 1 - tail - len mod blk) mod blk) 0 @ be_bytes tail (8 * len)"

lemma ucast_shr_of_nat:
  assumes "n \<le> 24"
  shows "(ucast (shr (of_nat x :: u32) n) :: u8) = of_nat (x div 2 ^ n)"
proof -
  have "take_bit 8 (drop_bit n (take_bit 32 x)) = take_bit 8 (drop_bit n x)"
    by (rule bit_eqI) (use assms in \<open>auto simp: bit_simps\<close>)
  then show ?thesis
    by (simp add: word_unat_eq_iff unsigned_ucast_eq unat_shr unat_of_nat take_bit_eq_mod drop_bit_eq_div)
qed

lemma be_bytes_4: "be_bytes 4 x = UNPACK32 (of_nat x)"
  using ucast_shr_of_nat [of 0 x]
  by (simp add: be_bytes_def UNPACK32_def ucast_shr_of_nat upt_conv_Cons)

lemma be_bytes_zero:
  assumes "x < 256 ^ n"
  shows "be_bytes (k + n) x = replicate k 0 @ be_bytes n x"
proof -
  have "map (\<lambda>i. of_nat (x div 256 ^ (k + n - 1 - i))) [0..<k] = replicate k (0::u8)"
  proof (intro replicate_eqI)
    fix y assume "y \<in> set (map (\<lambda>i. of_nat (x div 256 ^ (k + n - 1 - i)) :: u8) [0..<k])"
    then obtain i where i: "i < k" "y = of_nat (x div 256 ^ (k + n - 1 - i))" by auto
    have "x < 256 ^ (k + n - 1 - i)"
      using assms i(1) by (rule_tac less_le_trans [of _ "256 ^ n"]) (simp_all add: power_increasing)
    then show "y = 0" using i by simp
  qed simp
  moreover have "map (\<lambda>i. of_nat (x div 256 ^ (k + n - 1 - i))) [k..<k + n] = be_bytes n x"
    unfolding be_bytes_def by (rule nth_equalityI) simp_all
  ultimately show ?thesis by (simp add: be_bytes_def upt_add_eq_append [of 0 k])
qed

section \<open>The streaming routines\<close>

type_synonym 'h hash_stream_state = "'h \<times> u32 \<times> u32 \<times> bytes"

locale hash_stream = block_hash blk compress h0
  for blk :: nat and compress :: "'h \<Rightarrow> bytes \<Rightarrow> 'h" and h0 :: 'h +
  fixes tail :: nat
  assumes blk_bound: "blk \<le> 2 ^ 16"
    and tail: "4 \<le> tail" "tail + 1 < blk"
    and compress_take: "compress h (take blk b) = compress h b"
begin

definition transform :: "'h \<Rightarrow> bytes \<Rightarrow> u32 \<Rightarrow> 'h" where
  "transform h message block_nb = foldl (\<lambda>h i. compress h (drop (i * blk) message)) h [0..<unat block_nb]"

definition update :: "'h hash_stream_state \<Rightarrow> bytes \<Rightarrow> u32 \<Rightarrow> 'h hash_stream_state" where
  "update st data sz = (case st of (h, tot, fill, block) \<Rightarrow>
     let tmp_size = of_nat blk - fill;
         rem_size = (if sz < tmp_size then sz else tmp_size);
         block = copy_at block (unat fill) (take (unat rem_size) data)
     in if fill + sz < of_nat blk then (h, tot, fill + sz, block)
        else
          let new_size = sz - rem_size;
              block_nb = new_size div of_nat blk;
              shifted_data = drop (unat rem_size) data;
              h = transform h block 1;
              h = transform h shifted_data block_nb;
              rem_size = new_size mod of_nat blk;
              block = copy_at block 0 (take (unat rem_size) (drop (unat (block_nb * of_nat blk)) shifted_data))
          in (h, tot + (block_nb + 1) * of_nat blk, rem_size, block))"

definition final_block :: "'h hash_stream_state \<Rightarrow> bytes \<times> u32" where
  "final_block st = (case st of (h, tot, fill, block) \<Rightarrow>
     let block_nb = 1 + (if of_nat blk - of_nat (tail + 1) < fill mod of_nat blk then 1 else 0);
         pm_size = block_nb * of_nat blk;
         block = copy_at block (unat fill) (replicate (unat (pm_size - fill)) 0);
         block = block[unat fill := 0x80]
     in (copy_at block (unat pm_size - 4) (UNPACK32 (shl (tot + fill) 3)), block_nb))"

definition stream_holds :: "'h hash_stream_state \<Rightarrow> bytes \<Rightarrow> bool" where
  "stream_holds st msg \<longleftrightarrow> (case st of (h, tot, fill, block) \<Rightarrow>
     holds h block (unat fill) msg \<and> length block = 2 * blk \<and> tot + fill = of_nat (length msg))"

lemma stream_start: "length block = 2 * blk \<Longrightarrow> stream_holds (h0, 0, 0, block) []"
  by (simp add: stream_holds_def holds_start)

lemma unat_blk: "unat (of_nat blk :: u32) = blk"
  using blk_bound by (simp add: unat_of_nat)

lemma transform_absorb: "unat nb * blk \<le> length m \<Longrightarrow> transform h m nb = absorb h (take (unat nb * blk) m)"
  unfolding transform_def by (subst compress_take [symmetric]) (rule blocks_absorb)

lemma update_small:
  assumes "stream_holds (h, tot, fill, block) msg" and "length data = unat sz" and "unat fill + unat sz < blk"
  shows "stream_holds (update (h, tot, fill, block) data sz) (msg @ data)"
proof -
  have n: "unat (of_nat blk - fill) = blk - unat fill"
    using assms(3) by (subst unat_sub) (auto simp: word_le_nat_alt unat_blk)
  have s: "unat (fill + sz) = unat fill + unat sz"
    using assms(3) blk_bound by (simp add: unat_word_ariths)
  have eq: "update (h, tot, fill, block) data sz = (h, tot, fill + sz, copy_at block (unat fill) data)"
  proof -
    have "sz < of_nat blk - fill" "fill + sz < of_nat blk"
      using assms(3) unfolding word_less_nat_alt n s unat_blk by linarith+
    then show ?thesis using assms(2) by (simp add: update_def Let_def)
  qed
  show ?thesis
  proof -
    have st: "holds h block (unat fill) msg" "length block = 2 * blk" "tot + fill = of_nat (length msg)"
      using assms(1) by (simp_all add: stream_holds_def)
    have "holds h (copy_at block (unat fill) data) (unat (fill + sz)) (msg @ data)"
      using holds_small [OF st(1)] assms(2,3) unfolding copy_at_def s by metis
    moreover have "tot + (fill + sz) = of_nat (length (msg @ data))"
      using assms(2) unfolding add.assoc [symmetric] st(3) by simp
    moreover have "length (copy_at block (unat fill) data) = 2 * blk"
      using st(2) assms(2,3) by simp
    ultimately show ?thesis using eq by (simp add: stream_holds_def)
  qed
qed

lemma update_big_eq:
  assumes "length data = unat sz" and "unat fill < blk" and "length block = 2 * blk"
    and "blk \<le> unat fill + unat sz" and "unat sz + blk \<le> 2 ^ 32"
  defines "s \<equiv> drop (blk - unat fill) data"
  shows "update (h, tot, fill, block) data sz =
    (absorb (compress h (take (unat fill) block @ take (blk - unat fill) data)) (take (length s div blk * blk) s),
     tot + ((sz - (of_nat blk - fill)) div of_nat blk + 1) * of_nat blk,
     (sz - (of_nat blk - fill)) mod of_nat blk,
     copy_at (copy_at block (unat fill) (take (blk - unat fill) data)) 0 (drop (length s div blk * blk) s))"
    and "unat ((sz - (of_nat blk - fill)) mod of_nat blk) = length s mod blk"
proof -
  let ?new = "sz - (of_nat blk - fill)" and ?B = "of_nat blk :: u32"
  have r: "unat (?B - fill) = blk - unat fill"
    using assms(2) by (subst unat_sub) (auto simp: word_le_nat_alt unat_blk)
  have new: "unat ?new = length s"
    using r assms(1,2,4) by (subst unat_sub) (auto simp: word_le_nat_alt s_def)
  have rem: "(if sz < ?B - fill then sz else ?B - fill) = ?B - fill"
    using assms(4) r by (auto simp: word_less_nat_alt)
  have nowrap: "\<not> fill + sz < ?B"
    using assms(2,4,5) by (simp add: word_less_nat_alt unat_word_ariths unat_blk)
  have nb: "unat (?new div ?B) = length s div blk" by (simp add: unat_div new unat_blk)
  show nr: "unat (?new mod ?B) = length s mod blk" by (simp add: unat_mod new unat_blk)
  have fits: "unat (?new div ?B) * blk \<le> length s"
    unfolding nb by (rule div_times_less_eq_dividend)
  have sh: "unat (?new div ?B * ?B) = length s div blk * blk"
  proof -
    have "unat (?new div ?B) * unat ?B < 2 ^ LENGTH(32)"
      using fits unsigned_less [where ?'a = nat, of ?new] unfolding unat_blk new by simp
    then have "unat (?new div ?B * ?B) = unat (?new div ?B) * unat ?B" unfolding unat_mult_lem .
    then show ?thesis unfolding nb unat_blk .
  qed
  let ?b = "copy_at block (unat fill) (take (blk - unat fill) data)"
  have w: "transform h ?b 1 = compress h (take (unat fill) block @ take (blk - unat fill) data)"
  proof -
    have "transform h ?b 1 = compress h (take blk ?b)" by (simp add: transform_def compress_take)
    also have "take blk ?b = take (unat fill) block @ take (blk - unat fill) data"
      using assms(1-4) by (simp add: copy_at_def)
    finally show ?thesis .
  qed
  show "update (h, tot, fill, block) data sz =
    (absorb (compress h (take (unat fill) block @ take (blk - unat fill) data)) (take (length s div blk * blk) s),
     tot + (?new div ?B + 1) * ?B, ?new mod ?B,
     copy_at ?b 0 (drop (length s div blk * blk) s))"
    unfolding update_def Let_def prod.case rem r s_def [symmetric] w nr sh transform_absorb [OF fits]
      take_drop_blocks unfolding nb using nowrap by simp
qed

lemma update_big:
  assumes "stream_holds (h, tot, fill, block) msg" and "length data = unat sz"
    and "blk \<le> unat fill + unat sz" and "unat sz + blk \<le> 2 ^ 32"
  shows "stream_holds (update (h, tot, fill, block) data sz) (msg @ data)"
proof -
  let ?new = "sz - (of_nat blk - fill)" and ?B = "of_nat blk :: u32"
  let ?s = "drop (blk - unat fill) data" and ?b = "copy_at block (unat fill) (take (blk - unat fill) data)"
  have hs: "holds h block (unat fill) msg" and len: "length block = 2 * blk"
    and tot: "tot + fill = of_nat (length msg)"
    using assms(1) by (simp_all add: stream_holds_def)
  have n: "unat fill < blk" using hs blk_pos by (simp add: holds_def)
  have b: "length ?b = 2 * blk" using n len assms(2,3) by simp
  note upd = update_big_eq [OF assms(2) n len assms(3,4)]
  have "holds (absorb (compress h (take (unat fill) block @ take (blk - unat fill) data)) (take (length ?s div blk * blk) ?s))
      (copy_at ?b 0 (drop (length ?s div blk * blk) ?s)) (length ?s mod blk) (msg @ data)"
    unfolding copy_at_blocks by (rule holds_big [OF hs]) (use assms(2,3) b in simp_all)
  moreover have "tot + (?new div ?B + 1) * ?B + ?new mod ?B = of_nat (length (msg @ data))"
  proof -
    have "(?new div ?B + 1) * ?B + ?new mod ?B = ?new div ?B * ?B + ?new mod ?B + ?B"
      by (simp add: algebra_simps)
    also have "\<dots> = fill + sz" unfolding div_mult_mod_eq by simp
    finally have "tot + (?new div ?B + 1) * ?B + ?new mod ?B = tot + fill + sz" by (simp only: add.assoc)
    then show ?thesis using assms(2) unfolding tot by simp
  qed
  moreover have "length (copy_at ?b 0 (drop (length ?s div blk * blk) ?s)) = 2 * blk"
    unfolding b [symmetric] using mod_less_divisor [OF blk_pos, of "length ?s"] b
    by (intro length_copy_at_blocks) linarith
  ultimately show ?thesis unfolding stream_holds_def upd prod.case by blast
qed

lemma update_holds:
  assumes "stream_holds st msg" and "length data = unat sz" and "unat sz + blk \<le> 2 ^ 32"
  shows "stream_holds (update st data sz) (msg @ data)"
proof (cases st)
  case (fields h tot fill block)
  then show ?thesis using assms update_small update_big by (metis not_le)
qed

lemma padding_split:
  assumes "len < 2 ^ 29"
  shows "hash_padding blk tail len =
    0x80 # replicate ((if blk - (tail + 1) < len mod blk then 2 * blk else blk) - len mod blk - 1 - 4) 0 @
      UNPACK32 (shl (of_nat len) 3)"
proof -
  let ?n = "len mod blk"
  have l: "?n < blk" using blk_pos by simp
  have "(2 * blk - 1 - tail - ?n) mod blk + (tail - 4) =
      (if blk - (tail + 1) < ?n then 2 * blk else blk) - ?n - 1 - 4"
  proof (cases "blk - (tail + 1) < ?n")
    case True
    then have "2 * blk - 1 - tail - ?n < blk" using tail by linarith
    then have "(2 * blk - 1 - tail - ?n) mod blk = 2 * blk - 1 - tail - ?n" by (rule mod_less)
    moreover have "2 * blk - 1 - tail - n + (tail - 4) = 2 * blk - n - 1 - 4" if "n < blk" for n
      using that tail by linarith
    ultimately show ?thesis using True l by presburger
  next
    case False
    then have "2 * blk - 1 - tail - ?n = (blk - (tail + 1) - ?n) + blk" using tail by linarith
    moreover have "blk - (tail + 1) - ?n < blk" using tail by linarith
    ultimately have "(2 * blk - 1 - tail - ?n) mod blk = blk - (tail + 1) - ?n"
      by (simp only: mod_add_self2 mod_less)
    moreover have "blk - (tail + 1) - n + (tail - 4) = blk - n - 1 - 4" if "n \<le> blk - (tail + 1)" for n
      using that tail by linarith
    ultimately show ?thesis unfolding if_not_P [OF False] using leI [OF False] by (simp only:)
  qed
  moreover have "shl (of_nat len) 3 = (of_nat (8 * len) :: u32)" by (simp add: shl_eq_mult)
  moreover have "be_bytes tail (8 * len) = replicate (tail - 4) 0 @ be_bytes 4 (8 * len)"
    using assms tail be_bytes_zero [of "8 * len" 4 "tail - 4"] by simp
  ultimately show ?thesis
    by (simp add: hash_padding_def be_bytes_4 flip: replicate_add append_assoc)
qed

lemma final_block_padded:
  assumes "stream_holds (h, tot, fill, block) msg" and "length msg < 2 ^ 29"
    and "final_block (h, tot, fill, block) = (b, nb)"
  shows "take (unat nb * blk) b = take (unat fill) block @ hash_padding blk tail (length msg)"
    and "unat nb * blk \<le> length b"
proof -
  let ?B = "of_nat blk :: u32" and ?n = "unat fill"
  let ?pm = "if blk - (tail + 1) < ?n then 2 * blk else blk"
  have hs: "holds h block ?n msg" and len: "length block = 2 * blk" and tot: "tot + fill = of_nat (length msg)"
    using assms(1) by (simp_all add: stream_holds_def)
  have n: "?n = length msg mod blk" "?n < blk" using hs blk_pos by (simp_all add: holds_def)
  have m: "fill mod ?B = fill" using n(2) by (simp add: word_unat_eq_iff unat_mod unat_blk)
  have "unat (?B - of_nat (tail + 1)) = blk - (tail + 1)"
  proof -
    have "unat (of_nat k :: u32) = k" if "k < 2 ^ 32" for k using that by (simp add: unat_of_nat)
    from this [of "tail + 1"] have "unat (of_nat (tail + 1) :: u32) = tail + 1"
      using tail blk_bound less_trans [of "tail + 1" "2 ^ 17" "2 ^ 32"] by fastforce
    then show ?thesis using tail by (subst unat_sub) (simp_all add: word_le_nat_alt unat_blk)
  qed
  then have nb_def: "nb = 1 + (if blk - (tail + 1) < ?n then 1 else 0)"
    and b_def: "b = copy_at ((copy_at block ?n (replicate (unat (nb * ?B - fill)) 0))[?n := 0x80])
      (unat (nb * ?B) - 4) (UNPACK32 (shl (of_nat (length msg)) 3))"
    using assms(3) unfolding final_block_def Let_def prod.case m tot word_less_nat_alt by auto
  have nb: "unat nb * blk = ?pm" "unat (nb * ?B) = ?pm" "?n < ?pm"
    using n(2) blk_bound unfolding nb_def by (auto simp: unat_word_ariths unat_blk)
  have z: "unat (nb * ?B - fill) = ?pm - ?n"
    using nb by (subst unat_sub) (simp_all add: word_le_nat_alt)
  have "4 \<le> ?pm - ?n - 1" "?pm \<le> 2 * blk" using n(2) tail by auto
  then show "take (unat nb * blk) b = take ?n block @ hash_padding blk tail (length msg)"
    using padded_block [of ?n ?pm block "UNPACK32 (shl (of_nat (length msg)) 3)" "0x80"] nb(3)
    unfolding b_def nb z padding_split [OF assms(2)] n(1) [symmetric] len length_UNPACK32 by blast
  show "unat nb * blk \<le> length b"
    using n(2) len tail unfolding b_def nb z by auto
qed

lemma final_holds:
  assumes "stream_holds (h, tot, fill, block) msg" and "length msg < 2 ^ 29"
    and "final_block (h, tot, fill, block) = (b, nb)"
  shows "transform h b nb = absorb h0 (msg @ hash_padding blk tail (length msg))"
proof -
  have "holds h block (unat fill) msg" using assms(1) by (simp add: stream_holds_def)
  from holds_padded [OF this final_block_padded(2,1) [OF assms]] show ?thesis
    unfolding transform_def compress_take .
qed

text \<open>A message handed over in any number of pieces.\<close>

lemma updates_holds:
  assumes "stream_holds st msg" and "length (concat ds) + blk \<le> 2 ^ 32"
  shows "stream_holds (foldl (\<lambda>st d. update st d (of_nat (length d))) st ds) (msg @ concat ds)"
  using assms
proof (induction ds arbitrary: st msg)
  case Nil
  then show ?case by simp
next
  case (Cons d ds)
  have "length d < 2 ^ 32" using Cons.prems(2) blk_pos by simp
  then have "unat (of_nat (length d) :: u32) = length d" by (simp add: unat_of_nat)
  then have "stream_holds (update st d (of_nat (length d))) (msg @ d)"
    using Cons.prems by (intro update_holds) simp_all
  from Cons.IH [OF this] Cons.prems(2) show ?case by simp
qed

end

end
