(* ===== verification/Sha1.thy ===== *)
theory Sha1
  imports Hash_Stream
begin

text \<open>
  SHA-1, \<^verbatim>\<open>firmware/2lib/2sha1.c\<close>: the version that does not depend on the byte order of the machine
  (firmware does not define \<^verbatim>\<open>HAVE_ENDIAN_H\<close>).  It feeds the buffer a byte at a time and pads by
  updating with the padding.
\<close>

section \<open>The compression function\<close>

definition rol :: "nat \<Rightarrow> u32 \<Rightarrow> u32" where
  "rol bits v = shl v bits OR shr v (32 - bits)"

definition sha1_word :: "bytes \<Rightarrow> nat \<Rightarrow> u32" where
  "sha1_word p t = shl (ucast (p ! (4 * t))) 24 OR shl (ucast (p ! (4 * t + 1))) 16 OR
     shl (ucast (p ! (4 * t + 2))) 8 OR ucast (p ! (4 * t + 3))"

definition sha1_schedule :: "bytes \<Rightarrow> u32 list" where
  "sha1_schedule p =
     foldl (\<lambda>W t. W @ [rol 1 (W ! (t - 3) XOR W ! (t - 8) XOR W ! (t - 14) XOR W ! (t - 16))])
       (map (sha1_word p) [0..<16]) [16..<80]"

definition sha1_round :: "u32 list \<Rightarrow> u32 \<times> u32 \<times> u32 \<times> u32 \<times> u32 \<Rightarrow> nat \<Rightarrow> u32 \<times> u32 \<times> u32 \<times> u32 \<times> u32" where
  "sha1_round W st t = (case st of (A, B, C, D, E) \<Rightarrow>
     let tmp = rol 5 A + E + W ! t;
         tmp = (if t < 20 then tmp + ((D XOR (B AND (C XOR D))) + 0x5A827999)
                else if t < 40 then tmp + ((B XOR C XOR D) + 0x6ED9EBA1)
                else if t < 60 then tmp + (((B AND C) OR (D AND (B OR C))) + 0x8F1BBCDC)
                else tmp + ((B XOR C XOR D) + 0xCA62C1D6))
     in (tmp, A, rol 30 B, C, D))"

definition sha1_compress :: "u32 list \<Rightarrow> bytes \<Rightarrow> u32 list" where
  "sha1_compress state buf =
     (case foldl (sha1_round (sha1_schedule buf)) (state ! 0, state ! 1, state ! 2, state ! 3, state ! 4) [0..<80]
      of (A, B, C, D, E) \<Rightarrow> [state ! 0 + A, state ! 1 + B, state ! 2 + C, state ! 3 + D, state ! 4 + E])"

section \<open>Streaming interface\<close>

record vb2_sha1_context =
  sha1_count :: u32
  sha1_state :: "u32 list"
  sha1_buf :: bytes

definition sha1_transform :: "vb2_sha1_context \<Rightarrow> vb2_sha1_context" where
  "sha1_transform ctx = ctx\<lparr>sha1_state := sha1_compress (sha1_state ctx) (sha1_buf ctx)\<rparr>"

text \<open>\<^verbatim>\<open>while (size--)\<close> over the bytes still to be copied.\<close>

fun sha1_feed :: "vb2_sha1_context \<Rightarrow> nat \<Rightarrow> bytes \<Rightarrow> vb2_sha1_context" where
  "sha1_feed ctx i [] = ctx"
| "sha1_feed ctx i (x # p) =
     (let ctx = ctx\<lparr>sha1_buf := (sha1_buf ctx)[i := x]\<rparr>; i = i + 1
      in if i = length (sha1_buf ctx) then sha1_feed (sha1_transform ctx) 0 p else sha1_feed ctx i p)"

definition vb2_sha1_update :: "vb2_sha1_context \<Rightarrow> bytes \<Rightarrow> u32 \<Rightarrow> vb2_sha1_context" where
  "vb2_sha1_update ctx data sz =
     sha1_feed (ctx\<lparr>sha1_count := sha1_count ctx + sz\<rparr>) (unat (sha1_count ctx mod 64)) (take (unat sz) data)"

lemma sha1_feed_count [simp]: "sha1_count (sha1_feed ctx i p) = sha1_count ctx"
  by (induction ctx i p rule: sha1_feed.induct) (simp_all add: Let_def sha1_transform_def)

lemma vb2_sha1_update_count [simp]: "sha1_count (vb2_sha1_update ctx data sz) = sha1_count ctx + sz"
  by (simp add: vb2_sha1_update_def)

text \<open>The loop that pads with zeros until eight bytes are left in the block.\<close>

lemma unat_Suc_mod_64: "unat (x + 1 :: u32) mod 64 = (unat x + 1) mod 64"
proof -
  have "unat (x + 1) = (unat x + 1) mod 2 ^ 32" by (simp add: unat_word_ariths)
  then show ?thesis by (simp only:) (rule mod_mod_cancel, simp)
qed

lemma mod_64_eq: "x mod 64 = 64 - 8 \<longleftrightarrow> unat (x :: u32) mod 64 = 56"
  by (simp add: word_unat_eq_iff unat_mod)

lemma zeros_Suc:
  assumes "x mod 64 \<noteq> 56"
  shows "(120 - x mod (64 :: nat)) mod 64 = Suc ((120 - (x + 1) mod 64) mod 64)"
proof -
  have "x mod 64 < 64" by simp
  then show ?thesis using assms
    by (cases "x mod 64 = 63"; cases "x mod 64 < 56") (auto simp: mod_Suc le_mod_geq)
qed

function sha1_pad :: "vb2_sha1_context \<Rightarrow> vb2_sha1_context" where
  "sha1_pad ctx = (if sha1_count ctx mod 64 \<noteq> 64 - 8 then sha1_pad (vb2_sha1_update ctx [0] 1) else ctx)"
  by auto
termination
  by (relation "measure (\<lambda>ctx. (120 - unat (sha1_count ctx) mod 64) mod 64)")
    (simp_all only: wf_measure in_measure vb2_sha1_update_count unat_Suc_mod_64 mod_64_eq zeros_Suc lessI simp_thms)

declare sha1_pad.simps [simp del]

definition vb2_sha1_finalize :: "vb2_sha1_context \<Rightarrow> vb2_sha1_context \<times> bytes" where
  "vb2_sha1_finalize ctx =
     (let cnt = shl (sha1_count ctx) 3;
          ctx = vb2_sha1_update ctx [0x80] 1;
          ctx = sha1_pad ctx;
          ctx = foldl (\<lambda>ctx i. vb2_sha1_update ctx [ucast (shr (ucast cnt :: u64) ((7 - i) * 8))] 1) ctx [0..<8]
      in (ctx, concat (map (\<lambda>tmp. [ucast (shr tmp 24), ucast (shr tmp 16), ucast (shr tmp 8), ucast (shr tmp 0)])
                (take 5 (sha1_state ctx)))))"

definition vb2_sha1_init :: "vb2_sha1_context \<Rightarrow> vb2_sha1_context" where
  "vb2_sha1_init ctx =
     ctx\<lparr>sha1_state := [0x67452301, 0xefcdab89, 0x98badcfe, 0x10325476, 0xc3d2e1f0], sha1_count := 0\<rparr>"

section \<open>The streaming interface computes the hash of the message\<close>

abbreviation (input) sha1_h0 :: "u32 list" where
  "sha1_h0 \<equiv> [0x67452301, 0xefcdab89, 0x98badcfe, 0x10325476, 0xc3d2e1f0]"

interpretation s1: block_hash 64 sha1_compress sha1_h0
  by unfold_locales simp

definition SHA1 :: "bytes \<Rightarrow> bytes" where
  "SHA1 msg = concat (map UNPACK32 (s1.absorb sha1_h0 (msg @ hash_padding 64 8 (length msg))))"

definition sha1_holds :: "vb2_sha1_context \<Rightarrow> bytes \<Rightarrow> bool" where
  "sha1_holds ctx msg \<longleftrightarrow>
     s1.holds (sha1_state ctx) (sha1_buf ctx) (length msg mod 64) msg \<and>
     length (sha1_buf ctx) = 64 \<and> sha1_count ctx = of_nat (length msg)"

lemma vb2_sha1_init_holds: "length (sha1_buf ctx) = 64 \<Longrightarrow> sha1_holds (vb2_sha1_init ctx) []"
  by (simp add: sha1_holds_def vb2_sha1_init_def s1.holds_start)

lemma sha1_feed_holds:
  assumes "s1.holds (sha1_state ctx) (sha1_buf ctx) i msg" and "length (sha1_buf ctx) = 64"
  shows "s1.holds (sha1_state (sha1_feed ctx i p)) (sha1_buf (sha1_feed ctx i p)) (length (msg @ p) mod 64) (msg @ p) \<and>
    length (sha1_buf (sha1_feed ctx i p)) = 64"
  using assms
proof (induction ctx i p arbitrary: msg rule: sha1_feed.induct)
  case (1 ctx i)
  then show ?case by (auto simp: s1.holds_def)
next
  case (2 ctx i x p)
  have i: "i < 64" using 2(3) by (simp add: s1.holds_def)
  show ?case
  proof (cases "Suc i = 64")
    case True
    have "s1.holds (sha1_compress (sha1_state ctx) ((sha1_buf ctx)[i := x])) ((sha1_buf ctx)[i := x]) 0 (msg @ [x])"
      using s1.holds_byte(2) [OF 2(3,4) True] .
    then show ?thesis using 2(1) [of _ _ "msg @ [x]"] 2(4) True by (simp add: Let_def sha1_transform_def)
  next
    case False
    then have "s1.holds (sha1_state ctx) ((sha1_buf ctx)[i := x]) (Suc i) (msg @ [x])"
      using s1.holds_byte(1) [OF 2(3,4)] i by simp
    then show ?thesis using 2(2) [of _ _ "msg @ [x]"] 2(4) False by (simp add: Let_def)
  qed
qed

lemma vb2_sha1_update_holds:
  assumes "sha1_holds ctx msg" and "length data = unat sz"
  shows "sha1_holds (vb2_sha1_update ctx data sz) (msg @ data)"
proof -
  have "unat (sha1_count ctx mod 64) = length msg mod 64"
    using assms(1) mod_mod_cancel [of 64 "2 ^ 32" "length msg"]
    by (simp add: sha1_holds_def unat_mod unat_of_nat)
  then show ?thesis
    using assms sha1_feed_holds [of "ctx\<lparr>sha1_count := sha1_count ctx + sz\<rparr>" "length msg mod 64" msg data]
    by (simp add: sha1_holds_def vb2_sha1_update_def)
qed

lemma sha1_pad_holds:
  assumes "sha1_holds ctx msg"
  shows "sha1_holds (sha1_pad ctx) (msg @ replicate ((120 - length msg mod 64) mod 64) 0)"
  using assms
proof (induction ctx arbitrary: msg rule: sha1_pad.induct)
  case (1 ctx)
  have m: "unat (sha1_count ctx) mod 64 = length msg mod 64"
    using 1(2) mod_mod_cancel [of 64 "2 ^ 32" "length msg"] by (simp add: sha1_holds_def unat_of_nat)
  show ?case
  proof (cases "length msg mod 64 = 56")
    case True
    then have "sha1_count ctx mod 64 = 64 - 8" using m by (simp only: mod_64_eq)
    then show ?thesis using 1(2) True by (subst sha1_pad.simps) simp
  next
    case False
    then have c: "sha1_count ctx mod 64 \<noteq> 64 - 8" using m by (simp only: mod_64_eq) simp
    have "sha1_holds (vb2_sha1_update ctx [0] 1) (msg @ [0])" by (rule vb2_sha1_update_holds [OF 1(2)]) simp
    from 1(1) [OF c this] show ?thesis
      using c by (subst sha1_pad.simps) (simp add: zeros_Suc [OF False])
  qed
qed

lemma sha1_length_byte:
  assumes "len < 2 ^ 29" and "i < 8"
  shows "(ucast (shr (ucast (shl (of_nat len :: u32) 3) :: u64) ((7 - i) * 8)) :: u8) = be_bytes 8 (8 * len) ! i"
proof -
  have u: "unat (shl (of_nat len :: u32) 3) = 8 * len"
    using assms(1) by (simp add: shl_eq_mult unat_word_ariths unat_of_nat)
  have "256 ^ (7 - i) = (2 :: nat) ^ ((7 - i) * 8)" by (simp add: power_mult mult.commute [of _ 8])
  then show ?thesis
    using assms by (simp add: be_bytes_def word_unat_eq_iff unsigned_ucast_eq unat_shr u unat_of_nat take_bit_eq_mod)
qed

lemma sha1_bytes_holds:
  assumes "sha1_holds ctx msg"
  shows "sha1_holds (foldl (\<lambda>ctx i. vb2_sha1_update ctx [f i] 1) ctx is) (msg @ map f is)"
  using assms
proof (induction "is" arbitrary: ctx msg)
  case (Cons i "is")
  then have "sha1_holds (vb2_sha1_update ctx [f i] 1) (msg @ [f i])" by (intro vb2_sha1_update_holds) simp_all
  from Cons.IH [OF this] show ?case by simp
qed simp

lemma hash_padding_sha1:
  "hash_padding 64 8 len = [0x80] @ replicate ((120 - (len + 1) mod 64) mod 64) 0 @ be_bytes 8 (8 * len)"
proof -
  have "len mod 64 < 64" by simp
  then have "119 - len mod 64 = 120 - (len + 1) mod 64 \<or> len mod 64 = 63" by (auto simp: mod_Suc)
  then have "(119 - len mod 64) mod 64 = (120 - (len + 1) mod 64) mod 64" by (auto simp: mod_Suc)
  then show ?thesis by (simp add: hash_padding_def)
qed

lemma length_sha1_absorb: "length h = 5 \<Longrightarrow> length (s1.absorb h msg) = 5"
  by (rule s1.absorb_inv [where P = "\<lambda>h. length h = 5"]) (simp_all add: sha1_compress_def split: prod.split)

lemma vb2_sha1_finalize_holds:
  assumes "sha1_holds ctx msg" and "length msg < 2 ^ 29"
  shows "snd (vb2_sha1_finalize ctx) = SHA1 msg"
proof -
  let ?len = "length msg" and ?cnt = "shl (sha1_count ctx) 3"
  let ?f = "\<lambda>i. ucast (shr (ucast ?cnt :: u64) ((7 - i) * 8)) :: u8"
  let ?c = "sha1_pad (vb2_sha1_update ctx [0x80] 1)"
  let ?z = "replicate ((120 - (?len + 1) mod 64) mod 64) 0 :: bytes"
  have "sha1_count ctx = of_nat ?len" using assms(1) by (simp add: sha1_holds_def)
  then have len8: "map ?f [0..<8] = be_bytes 8 (8 * ?len)"
    using sha1_length_byte [OF assms(2)] by (intro nth_equalityI) (simp_all add: be_bytes_def)
  have "sha1_holds (vb2_sha1_update ctx [0x80] 1) (msg @ [0x80])"
    by (rule vb2_sha1_update_holds [OF assms(1)]) simp
  from sha1_bytes_holds [OF sha1_pad_holds [OF this], of ?f "[0..<8]"]
  have "sha1_holds (foldl (\<lambda>ctx i. vb2_sha1_update ctx [?f i] 1) ?c [0..<8]) (msg @ hash_padding 64 8 ?len)"
    unfolding len8 hash_padding_sha1 by simp
  then have "sha1_state (foldl (\<lambda>ctx i. vb2_sha1_update ctx [?f i] 1) ?c [0..<8]) =
      s1.absorb sha1_h0 (msg @ hash_padding 64 8 ?len)"
    by (simp add: sha1_holds_def s1.holds_def)
  then show ?thesis
    unfolding vb2_sha1_finalize_def Let_def SHA1_def
    by (simp add: length_sha1_absorb UNPACK32_def [abs_def])
qed

definition sha1_updates :: "vb2_sha1_context \<Rightarrow> bytes list \<Rightarrow> vb2_sha1_context" where
  "sha1_updates = foldl (\<lambda>ctx d. vb2_sha1_update ctx d (of_nat (length d)))"

lemma sha1_updates_holds:
  assumes "sha1_holds ctx msg" and "length (concat ds) < 2 ^ 32"
  shows "sha1_holds (sha1_updates ctx ds) (msg @ concat ds)"
  using assms
proof (induction ds arbitrary: ctx msg)
  case (Cons d ds)
  then have "sha1_holds (vb2_sha1_update ctx d (of_nat (length d))) (msg @ d)"
    by (intro vb2_sha1_update_holds) (simp_all add: unat_of_nat)
  from Cons.IH [OF this] Cons.prems(2) show ?case by (simp add: sha1_updates_def)
qed (simp add: sha1_updates_def)

text \<open>
  C16. SHA-1: however a message of less than 2^29 bytes is cut into updates, init, update and finalize
  produce the hash of the whole message, padded as the standard prescribes; the padding loop ends.\<close>

theorem vb2_sha1_correct:
  assumes "length (sha1_buf ctx) = 64" and "length (concat ds) < 2 ^ 29"
  shows "snd (vb2_sha1_finalize (sha1_updates (vb2_sha1_init ctx) ds)) = SHA1 (concat ds)"
  using assms sha1_updates_holds [OF vb2_sha1_init_holds [OF assms(1)], of ds]
  by (simp add: vb2_sha1_finalize_holds)

definition blank_sha1 :: vb2_sha1_context where
  "blank_sha1 = \<lparr>sha1_count = 0, sha1_state = replicate 5 0, sha1_buf = replicate 64 0\<rparr>"

theorem vb2_sha1_correct_witness:
  "length (sha1_buf blank_sha1) = 64 \<and> length (concat [[0x61, 0x62], [0x63 :: u8]]) < 2 ^ 29 \<and>
   snd (vb2_sha1_finalize (sha1_updates (vb2_sha1_init blank_sha1) [[0x61, 0x62], [0x63]])) =
     SHA1 [0x61, 0x62, 0x63]"
  using vb2_sha1_correct [of blank_sha1 "[[0x61, 0x62], [0x63]]"] by (simp add: blank_sha1_def)

end
