(* ===== verification/Sha256.thy ===== *)
theory Sha256
  imports Hash_Stream
begin

text \<open>
  SHA-256, \<^verbatim>\<open>firmware/2lib/2sha256.c\<close>.  The file has two versions of the compression loop; firmware is
  built with \<^verbatim>\<open>UNROLL_LOOPS\<close>.  Both are modelled and proved equal, and the streaming interface
  (init, update, finalize) is proved to compute the hash of the whole message, padded as FIPS 180
  prescribes, however the message is cut into updates.
\<close>

section \<open>Macros\<close>

definition ROTR :: "'a::len word \<Rightarrow> nat \<Rightarrow> 'a word" where
  "ROTR x n = shr x n OR shl x (LENGTH('a) - n)"

definition CH :: "'a::len word \<Rightarrow> 'a word \<Rightarrow> 'a word \<Rightarrow> 'a word" where
  "CH x y z = (x AND y) XOR (NOT x AND z)"

definition MAJ :: "'a::len word \<Rightarrow> 'a word \<Rightarrow> 'a word \<Rightarrow> 'a word" where
  "MAJ x y z = (x AND y) XOR (x AND z) XOR (y AND z)"

definition SHA256_F1 :: "u32 \<Rightarrow> u32" where "SHA256_F1 x = ROTR x 2 XOR ROTR x 13 XOR ROTR x 22"
definition SHA256_F2 :: "u32 \<Rightarrow> u32" where "SHA256_F2 x = ROTR x 6 XOR ROTR x 11 XOR ROTR x 25"
definition SHA256_F3 :: "u32 \<Rightarrow> u32" where "SHA256_F3 x = ROTR x 7 XOR ROTR x 18 XOR shr x 3"
definition SHA256_F4 :: "u32 \<Rightarrow> u32" where "SHA256_F4 x = ROTR x 17 XOR ROTR x 19 XOR shr x 10"

definition PACK32 :: "bytes \<Rightarrow> nat \<Rightarrow> u32" where
  "PACK32 str i = ucast (str ! (i + 3)) OR shl (ucast (str ! (i + 2))) 8 OR
     shl (ucast (str ! (i + 1))) 16 OR shl (ucast (str ! i)) 24"

text \<open>\<^verbatim>\<open>w[i]\<close> is always the next entry of the schedule.\<close>

definition SHA256_SCR :: "u32 list \<Rightarrow> nat \<Rightarrow> u32 list" where
  "SHA256_SCR w i = w @ [SHA256_F4 (w ! (i - 2)) + w ! (i - 7) + SHA256_F3 (w ! (i - 15)) + w ! (i - 16)]"

definition sha256_h0 :: "u32 list" where
  "sha256_h0 =
     [0x6a09e667, 0xbb67ae85, 0x3c6ef372, 0xa54ff53a, 0x510e527f, 0x9b05688c,
      0x1f83d9ab, 0x5be0cd19]"

definition sha256_k :: "u32 list" where
  "sha256_k = concat
     [[0x428a2f98, 0x71374491, 0xb5c0fbcf, 0xe9b5dba5],
      [0x3956c25b, 0x59f111f1, 0x923f82a4, 0xab1c5ed5],
      [0xd807aa98, 0x12835b01, 0x243185be, 0x550c7dc3],
      [0x72be5d74, 0x80deb1fe, 0x9bdc06a7, 0xc19bf174],
      [0xe49b69c1, 0xefbe4786, 0x0fc19dc6, 0x240ca1cc],
      [0x2de92c6f, 0x4a7484aa, 0x5cb0a9dc, 0x76f988da],
      [0x983e5152, 0xa831c66d, 0xb00327c8, 0xbf597fc7],
      [0xc6e00bf3, 0xd5a79147, 0x06ca6351, 0x14292967],
      [0x27b70a85, 0x2e1b2138, 0x4d2c6dfc, 0x53380d13],
      [0x650a7354, 0x766a0abb, 0x81c2c92e, 0x92722c85],
      [0xa2bfe8a1, 0xa81a664b, 0xc24b8b70, 0xc76c51a3],
      [0xd192e819, 0xd6990624, 0xf40e3585, 0x106aa070],
      [0x19a4c116, 0x1e376c08, 0x2748774c, 0x34b0bcb5],
      [0x391c0cb3, 0x4ed8aa4a, 0x5b9cca4f, 0x682e6ff3],
      [0x748f82ee, 0x78a5636f, 0x84c87814, 0x8cc70208],
      [0x90befffa, 0xa4506ceb, 0xbef9a3f7, 0xc67178f2]]"

definition SHA256_EXP ::
  "u32 list \<Rightarrow> u32 list \<Rightarrow> nat \<Rightarrow> nat \<Rightarrow> nat \<Rightarrow> nat \<Rightarrow> nat \<Rightarrow> nat \<Rightarrow> nat \<Rightarrow> nat \<Rightarrow> nat \<Rightarrow> u32 list" where
  "SHA256_EXP w wv a b c d e f g h j =
     (let t1 = wv ! h + SHA256_F2 (wv ! e) + CH (wv ! e) (wv ! f) (wv ! g) + sha256_k ! j + w ! j;
          t2 = SHA256_F1 (wv ! a) + MAJ (wv ! a) (wv ! b) (wv ! c);
          wv = wv[d := wv ! d + t1]
      in wv[h := t1 + t2])"

section \<open>The compression function\<close>

definition sha256_schedule :: "bytes \<Rightarrow> u32 list" where
  "sha256_schedule sub_block =
     foldl SHA256_SCR (map (\<lambda>j. PACK32 sub_block (shl_nat j 2)) [0..<16]) [16..<64]"

text \<open>One pass of the loop over \<^verbatim>\<open>j\<close> without \<^verbatim>\<open>UNROLL_LOOPS\<close>, and the loop.\<close>

definition sha256_round :: "u32 list \<Rightarrow> u32 list \<Rightarrow> nat \<Rightarrow> u32 list" where
  "sha256_round w wv j =
     (let t1 = wv ! 7 + SHA256_F2 (wv ! 4) + CH (wv ! 4) (wv ! 5) (wv ! 6) + sha256_k ! j + w ! j;
          t2 = SHA256_F1 (wv ! 0) + MAJ (wv ! 0) (wv ! 1) (wv ! 2)
      in [t1 + t2, wv ! 0, wv ! 1, wv ! 2, wv ! 3 + t1, wv ! 4, wv ! 5, wv ! 6])"

definition sha256_compress_rolled :: "u32 list \<Rightarrow> bytes \<Rightarrow> u32 list" where
  "sha256_compress_rolled h sub_block =
     map2 (+) h (foldl (sha256_round (sha256_schedule sub_block)) h [0..<64])"

text \<open>The same with \<^verbatim>\<open>UNROLL_LOOPS\<close>: eight applications of the macro, eight times.\<close>

definition sha256_exp8 :: "u32 list \<Rightarrow> u32 list \<Rightarrow> nat \<Rightarrow> u32 list" where
  "sha256_exp8 w wv j =
     (let wv = SHA256_EXP w wv 0 1 2 3 4 5 6 7 j;
          wv = SHA256_EXP w wv 7 0 1 2 3 4 5 6 (j + 1);
          wv = SHA256_EXP w wv 6 7 0 1 2 3 4 5 (j + 2);
          wv = SHA256_EXP w wv 5 6 7 0 1 2 3 4 (j + 3);
          wv = SHA256_EXP w wv 4 5 6 7 0 1 2 3 (j + 4);
          wv = SHA256_EXP w wv 3 4 5 6 7 0 1 2 (j + 5);
          wv = SHA256_EXP w wv 2 3 4 5 6 7 0 1 (j + 6);
          wv = SHA256_EXP w wv 1 2 3 4 5 6 7 0 (j + 7)
      in wv)"

definition sha256_compress :: "u32 list \<Rightarrow> bytes \<Rightarrow> u32 list" where
  "sha256_compress h sub_block =
     map2 (+) h (foldl (sha256_exp8 (sha256_schedule sub_block)) h [0, 8, 16, 24, 32, 40, 48, 56])"

section \<open>Streaming interface\<close>

abbreviation (input) VB2_SHA256_BLOCK_SIZE :: u32 where "VB2_SHA256_BLOCK_SIZE \<equiv> 64"

record vb2_sha256_context =
  sha256_h :: "u32 list"
  sha256_total_size :: u32
  sha256_size :: u32
  sha256_block :: bytes

definition vb2_sha256_init :: "vb2_sha256_context \<Rightarrow> vb2_sha256_context" where
  "vb2_sha256_init ctx = ctx\<lparr>sha256_h := sha256_h0, sha256_size := 0, sha256_total_size := 0\<rparr>"

definition vb2_sha256_transform :: "vb2_sha256_context \<Rightarrow> bytes \<Rightarrow> u32 \<Rightarrow> vb2_sha256_context" where
  "vb2_sha256_transform ctx message block_nb =
     ctx\<lparr>sha256_h := foldl (\<lambda>h i. sha256_compress h (drop (shl_nat i 6) message)) (sha256_h ctx) [0..<unat block_nb]\<rparr>"

definition vb2_sha256_update :: "vb2_sha256_context \<Rightarrow> bytes \<Rightarrow> u32 \<Rightarrow> vb2_sha256_context" where
  "vb2_sha256_update ctx data sz =
     (let tmp_size = VB2_SHA256_BLOCK_SIZE - sha256_size ctx;
          rem_size = (if sz < tmp_size then sz else tmp_size);
          ctx = ctx\<lparr>sha256_block := copy_at (sha256_block ctx) (unat (sha256_size ctx)) (take (unat rem_size) data)\<rparr>
      in if sha256_size ctx + sz < VB2_SHA256_BLOCK_SIZE
         then ctx\<lparr>sha256_size := sha256_size ctx + sz\<rparr>
         else
           let new_size = sz - rem_size;
               block_nb = new_size div VB2_SHA256_BLOCK_SIZE;
               shifted_data = drop (unat rem_size) data;
               ctx = vb2_sha256_transform ctx (sha256_block ctx) 1;
               ctx = vb2_sha256_transform ctx shifted_data block_nb;
               rem_size = new_size mod VB2_SHA256_BLOCK_SIZE;
               ctx = ctx\<lparr>sha256_block :=
                 copy_at (sha256_block ctx) 0 (take (unat rem_size) (drop (unat (shl block_nb 6)) shifted_data))\<rparr>
           in ctx\<lparr>sha256_size := rem_size,
                  sha256_total_size := sha256_total_size ctx + shl (block_nb + 1) 6\<rparr>)"

definition vb2_sha256_finalize :: "vb2_sha256_context \<Rightarrow> vb2_sha256_context \<times> bytes" where
  "vb2_sha256_finalize ctx =
     (let block_nb = 1 + (if VB2_SHA256_BLOCK_SIZE - 9 < sha256_size ctx mod VB2_SHA256_BLOCK_SIZE then 1 else 0);
          size_b = shl (sha256_total_size ctx + sha256_size ctx) 3;
          pm_size = shl block_nb 6;
          block = copy_at (sha256_block ctx) (unat (sha256_size ctx)) (replicate (unat (pm_size - sha256_size ctx)) 0);
          block = block[unat (sha256_size ctx) := 0x80];
          block = copy_at block (unat pm_size - 4) (UNPACK32 size_b);
          ctx = vb2_sha256_transform (ctx\<lparr>sha256_block := block\<rparr>) block block_nb
      in (ctx, concat (map UNPACK32 (sha256_h ctx))))"

section \<open>The two compression loops agree\<close>

text \<open>
  After \<^verbatim>\<open>k\<close> unrolled rounds the array holds what the rolled loop has, rotated by \<^verbatim>\<open>k\<close> places.
\<close>

definition rotated :: "nat \<Rightarrow> 'a list \<Rightarrow> 'a list" where
  "rotated k wv = map (\<lambda>i. wv ! ((i + 8 - k) mod 8)) [0..<8]"

lemma length_8: "length wv = 8 \<Longrightarrow> \<exists>a b c d e f g h. wv = [a, b, c, d, e, f, g, h]"
  by (auto simp: length_Suc_conv eval_nat_numeral)

lemma rotated_round:
  assumes "length wv = 8"
  shows "sha256_round w (rotated 0 wv) j = rotated 1 (SHA256_EXP w wv 0 1 2 3 4 5 6 7 j)"
    and "sha256_round w (rotated 1 wv) j = rotated 2 (SHA256_EXP w wv 7 0 1 2 3 4 5 6 j)"
    and "sha256_round w (rotated 2 wv) j = rotated 3 (SHA256_EXP w wv 6 7 0 1 2 3 4 5 j)"
    and "sha256_round w (rotated 3 wv) j = rotated 4 (SHA256_EXP w wv 5 6 7 0 1 2 3 4 j)"
    and "sha256_round w (rotated 4 wv) j = rotated 5 (SHA256_EXP w wv 4 5 6 7 0 1 2 3 j)"
    and "sha256_round w (rotated 5 wv) j = rotated 6 (SHA256_EXP w wv 3 4 5 6 7 0 1 2 j)"
    and "sha256_round w (rotated 6 wv) j = rotated 7 (SHA256_EXP w wv 2 3 4 5 6 7 0 1 j)"
    and "sha256_round w (rotated 7 wv) j = rotated 0 (SHA256_EXP w wv 1 2 3 4 5 6 7 0 j)"
  using length_8 [OF assms]
  by (auto simp: sha256_round_def SHA256_EXP_def rotated_def Let_def upt_conv_Cons)

lemma length_SHA256_EXP [simp]: "length (SHA256_EXP w wv a b c d e f g h j) = length wv"
  by (simp add: SHA256_EXP_def Let_def)

lemma rotated_0: "length wv = 8 \<Longrightarrow> rotated 0 wv = wv"
  by (auto dest!: length_8 simp: rotated_def upt_conv_Cons)

lemma sha256_exp8_rounds:
  assumes "length wv = 8"
  shows "sha256_exp8 w wv j = foldl (sha256_round w) wv [j..<j + 8]"
proof -
  have "[j..<j + 8] = [j, j + 1, j + 2, j + 3, j + 4, j + 5, j + 6, j + 7]"
    by (simp add: upt_conv_Cons)
  then have "foldl (sha256_round w) (rotated 0 wv) [j..<j + 8] = rotated 0 (sha256_exp8 w wv j)"
    using assms by (simp add: rotated_round sha256_exp8_def Let_def del: One_nat_def)
  moreover have "length (sha256_exp8 w wv j) = 8" using assms by (simp add: sha256_exp8_def Let_def)
  ultimately show ?thesis using assms by (simp add: rotated_0)
qed


lemma length_sha256_round [simp]: "length (sha256_round w wv j) = 8"
  by (simp add: sha256_round_def Let_def)

lemma length_sha256_rounds [simp]: "length wv = 8 \<Longrightarrow> length (foldl (sha256_round w) wv js) = 8"
  by (induction js arbitrary: wv) simp_all

lemma length_sha256_exp8 [simp]: "length (sha256_exp8 w wv j) = length wv"
  by (simp add: sha256_exp8_def Let_def)

lemma sha256_compress_length: "length h = 8 \<Longrightarrow> length (sha256_compress h b) = 8"
  by (simp add: sha256_compress_def)

text \<open>
  C40. The unrolled compression loop the firmware is built with computes what the rolled loop of the
  same file computes.\<close>

theorem sha256_unrolled_equiv:
  assumes "length h = 8"
  shows "sha256_compress h sub_block = sha256_compress_rolled h sub_block"
proof -
  let ?w = "sha256_schedule sub_block"
  have ix: "[0..<64] = [0..<0 + 8] @ [8..<8 + 8] @ [16..<16 + 8] @ [24..<24 + 8] @ [32..<32 + 8] @
      [40..<40 + 8] @ [48..<48 + 8] @ [56..<56 + 8]"
    by code_simp
  show ?thesis
    unfolding sha256_compress_def sha256_compress_rolled_def ix
    using assms by (simp only: foldl_append foldl.simps sha256_exp8_rounds length_sha256_rounds)
qed

theorem sha256_unrolled_equiv_witness:
  "length sha256_h0 = 8 \<and> sha256_compress sha256_h0 (replicate 64 0) = sha256_compress_rolled sha256_h0 (replicate 64 0)"
  using sha256_unrolled_equiv [of sha256_h0 "replicate 64 0"] by (simp add: sha256_h0_def)

section \<open>The streaming interface computes the hash of the message\<close>

text \<open>A compression reads one block.\<close>

lemma sha256_schedule_take: "sha256_schedule (take 64 b) = sha256_schedule b"
proof -
  have "map (\<lambda>j. PACK32 (take 64 b) (shl_nat j 2)) [0..<16] = map (\<lambda>j. PACK32 b (shl_nat j 2)) [0..<16]"
    by (rule map_cong) (auto simp: PACK32_def)
  then show ?thesis by (simp only: sha256_schedule_def)
qed

lemma sha256_compress_take: "sha256_compress h (take 64 b) = sha256_compress h b"
  by (simp add: sha256_compress_def sha256_schedule_take)

interpretation s256: hash_stream 64 sha256_compress sha256_h0 8
  by unfold_locales (simp_all add: sha256_compress_take)

definition SHA256 :: "bytes \<Rightarrow> bytes" where
  "SHA256 msg = concat (map UNPACK32 (s256.absorb sha256_h0 (msg @ hash_padding 64 8 (length msg))))"

text \<open>The routines of the file are the generic ones on the fields of the context.\<close>

definition sha256_state :: "vb2_sha256_context \<Rightarrow> u32 list hash_stream_state" where
  "sha256_state ctx = (sha256_h ctx, sha256_total_size ctx, sha256_size ctx, sha256_block ctx)"

lemma vb2_sha256_init_state: "sha256_state (vb2_sha256_init ctx) = (sha256_h0, 0, 0, sha256_block ctx)"
  by (simp add: sha256_state_def vb2_sha256_init_def)

lemma vb2_sha256_transform_state:
  "vb2_sha256_transform ctx m nb = ctx\<lparr>sha256_h := s256.transform (sha256_h ctx) m nb\<rparr>"
  by (simp add: vb2_sha256_transform_def s256.transform_def)

lemma vb2_sha256_update_state: "sha256_state (vb2_sha256_update ctx data sz) = s256.update (sha256_state ctx) data sz"
  by (simp add: sha256_state_def vb2_sha256_update_def s256.update_def vb2_sha256_transform_state shl_eq_mult Let_def)

lemma vb2_sha256_finalize_state:
  "snd (vb2_sha256_finalize ctx) =
     (case s256.final_block (sha256_state ctx) of (b, nb) \<Rightarrow>
        concat (map UNPACK32 (s256.transform (sha256_h ctx) b nb)))"
  by (simp add: sha256_state_def vb2_sha256_finalize_def s256.final_block_def vb2_sha256_transform_state shl_eq_mult Let_def)

definition sha256_holds :: "vb2_sha256_context \<Rightarrow> bytes \<Rightarrow> bool" where
  "sha256_holds ctx msg \<longleftrightarrow> s256.stream_holds (sha256_state ctx) msg"

lemma vb2_sha256_init_holds: "length (sha256_block ctx) = 128 \<Longrightarrow> sha256_holds (vb2_sha256_init ctx) []"
  by (simp add: sha256_holds_def vb2_sha256_init_state s256.stream_start)

lemma vb2_sha256_update_holds:
  "sha256_holds ctx msg \<Longrightarrow> length data = unat sz \<Longrightarrow> unat sz + 64 \<le> 2 ^ 32 \<Longrightarrow>
    sha256_holds (vb2_sha256_update ctx data sz) (msg @ data)"
  unfolding sha256_holds_def vb2_sha256_update_state by (rule s256.update_holds)

lemma vb2_sha256_finalize_holds:
  assumes "sha256_holds ctx msg" and "length msg < 2 ^ 29"
  shows "snd (vb2_sha256_finalize ctx) = SHA256 msg"
  using assms s256.final_holds
  by (auto simp: vb2_sha256_finalize_state sha256_holds_def sha256_state_def SHA256_def split: prod.split)

definition sha256_updates :: "vb2_sha256_context \<Rightarrow> bytes list \<Rightarrow> vb2_sha256_context" where
  "sha256_updates = foldl (\<lambda>ctx d. vb2_sha256_update ctx d (of_nat (length d)))"

lemma sha256_updates_state:
  "sha256_state (sha256_updates ctx ds) = foldl (\<lambda>st d. s256.update st d (of_nat (length d))) (sha256_state ctx) ds"
  by (induction ds arbitrary: ctx) (simp_all add: sha256_updates_def vb2_sha256_update_state)

lemma sha256_updates_holds:
  "sha256_holds ctx msg \<Longrightarrow> length (concat ds) + 64 \<le> 2 ^ 32 \<Longrightarrow> sha256_holds (sha256_updates ctx ds) (msg @ concat ds)"
  unfolding sha256_holds_def sha256_updates_state by (rule s256.updates_holds)

text \<open>
  C12. SHA-256: however a message of less than 2^29 bytes is cut into updates, init, update and finalize
  produce the hash of the whole message, padded as the standard prescribes.\<close>

theorem vb2_sha256_correct:
  assumes "length (sha256_block ctx) = 128" and "length (concat ds) < 2 ^ 29"
  shows "snd (vb2_sha256_finalize (sha256_updates (vb2_sha256_init ctx) ds)) = SHA256 (concat ds)"
  using assms sha256_updates_holds [OF vb2_sha256_init_holds [OF assms(1)], of ds]
  by (simp add: vb2_sha256_finalize_holds)

definition blank_sha256 :: vb2_sha256_context where
  "blank_sha256 = \<lparr>sha256_h = replicate 8 0, sha256_total_size = 0, sha256_size = 0, sha256_block = replicate 128 0\<rparr>"

theorem vb2_sha256_correct_witness:
  "length (sha256_block blank_sha256) = 128 \<and> length (concat [[0x61, 0x62], [0x63 :: u8]]) < 2 ^ 29 \<and>
   snd (vb2_sha256_finalize (sha256_updates (vb2_sha256_init blank_sha256) [[0x61, 0x62], [0x63]])) =
     SHA256 [0x61, 0x62, 0x63]"
  using vb2_sha256_correct [of blank_sha256 "[[0x61, 0x62], [0x63]]"] by (simp add: blank_sha256_def)

end
