(* ===== verification/Sha512.thy ===== *)
theory Sha512
  imports Sha256
begin

text \<open>
  SHA-512, \<^verbatim>\<open>firmware/2lib/2sha512.c\<close>.  Firmware is built without \<^verbatim>\<open>UNROLL_LOOPS_SHA512\<close>, so the rolled
  loop is the one in use; the unrolled one is modelled too and proved equal to it.
\<close>

section \<open>Macros and tables\<close>

definition SHA512_F1 :: "u64 \<Rightarrow> u64" where "SHA512_F1 x = ROTR x 28 XOR ROTR x 34 XOR ROTR x 39"
definition SHA512_F2 :: "u64 \<Rightarrow> u64" where "SHA512_F2 x = ROTR x 14 XOR ROTR x 18 XOR ROTR x 41"
definition SHA512_F3 :: "u64 \<Rightarrow> u64" where "SHA512_F3 x = ROTR x 1 XOR ROTR x 8 XOR shr x 7"
definition SHA512_F4 :: "u64 \<Rightarrow> u64" where "SHA512_F4 x = ROTR x 19 XOR ROTR x 61 XOR shr x 6"

definition UNPACK64 :: "u64 \<Rightarrow> bytes" where
  "UNPACK64 x = [ucast (shr x 56), ucast (shr x 48), ucast (shr x 40), ucast (shr x 32),
     ucast (shr x 24), ucast (shr x 16), ucast (shr x 8), ucast x]"

definition PACK64 :: "bytes \<Rightarrow> nat \<Rightarrow> u64" where
  "PACK64 str i = ucast (str ! (i + 7)) OR shl (ucast (str ! (i + 6))) 8 OR
     shl (ucast (str ! (i + 5))) 16 OR shl (ucast (str ! (i + 4))) 24 OR
     shl (ucast (str ! (i + 3))) 32 OR shl (ucast (str ! (i + 2))) 40 OR
     shl (ucast (str ! (i + 1))) 48 OR shl (ucast (str ! i)) 56"

definition SHA512_SCR :: "u64 list \<Rightarrow> nat \<Rightarrow> u64 list" where
  "SHA512_SCR w i = w @ [SHA512_F4 (w ! (i - 2)) + w ! (i - 7) + SHA512_F3 (w ! (i - 15)) + w ! (i - 16)]"

definition sha512_h0 :: "u64 list" where
  "sha512_h0 = concat
     [[0x6a09e667f3bcc908, 0xbb67ae8584caa73b],
      [0x3c6ef372fe94f82b, 0xa54ff53a5f1d36f1],
      [0x510e527fade682d1, 0x9b05688c2b3e6c1f],
      [0x1f83d9abfb41bd6b, 0x5be0cd19137e2179]]"

definition sha512_k :: "u64 list" where
  "sha512_k = concat
     [[0x428a2f98d728ae22, 0x7137449123ef65cd],
      [0xb5c0fbcfec4d3b2f, 0xe9b5dba58189dbbc],
      [0x3956c25bf348b538, 0x59f111f1b605d019],
      [0x923f82a4af194f9b, 0xab1c5ed5da6d8118],
      [0xd807aa98a3030242, 0x12835b0145706fbe],
      [0x243185be4ee4b28c, 0x550c7dc3d5ffb4e2],
      [0x72be5d74f27b896f, 0x80deb1fe3b1696b1],
      [0x9bdc06a725c71235, 0xc19bf174cf692694],
      [0xe49b69c19ef14ad2, 0xefbe4786384f25e3],
      [0x0fc19dc68b8cd5b5, 0x240ca1cc77ac9c65],
      [0x2de92c6f592b0275, 0x4a7484aa6ea6e483],
      [0x5cb0a9dcbd41fbd4, 0x76f988da831153b5],
      [0x983e5152ee66dfab, 0xa831c66d2db43210],
      [0xb00327c898fb213f, 0xbf597fc7beef0ee4],
      [0xc6e00bf33da88fc2, 0xd5a79147930aa725],
      [0x06ca6351e003826f, 0x142929670a0e6e70],
      [0x27b70a8546d22ffc, 0x2e1b21385c26c926],
      [0x4d2c6dfc5ac42aed, 0x53380d139d95b3df],
      [0x650a73548baf63de, 0x766a0abb3c77b2a8],
      [0x81c2c92e47edaee6, 0x92722c851482353b],
      [0xa2bfe8a14cf10364, 0xa81a664bbc423001],
      [0xc24b8b70d0f89791, 0xc76c51a30654be30],
      [0xd192e819d6ef5218, 0xd69906245565a910],
      [0xf40e35855771202a, 0x106aa07032bbd1b8],
      [0x19a4c116b8d2d0c8, 0x1e376c085141ab53],
      [0x2748774cdf8eeb99, 0x34b0bcb5e19b48a8],
      [0x391c0cb3c5c95a63, 0x4ed8aa4ae3418acb],
      [0x5b9cca4f7763e373, 0x682e6ff3d6b2b8a3],
      [0x748f82ee5defb2fc, 0x78a5636f43172f60],
      [0x84c87814a1f0ab72, 0x8cc702081a6439ec],
      [0x90befffa23631e28, 0xa4506cebde82bde9],
      [0xbef9a3f7b2c67915, 0xc67178f2e372532b],
      [0xca273eceea26619c, 0xd186b8c721c0c207],
      [0xeada7dd6cde0eb1e, 0xf57d4f7fee6ed178],
      [0x06f067aa72176fba, 0x0a637dc5a2c898a6],
      [0x113f9804bef90dae, 0x1b710b35131c471b],
      [0x28db77f523047d84, 0x32caab7b40c72493],
      [0x3c9ebe0a15c9bebc, 0x431d67c49c100d4c],
      [0x4cc5d4becb3e42b6, 0x597f299cfc657e2a],
      [0x5fcb6fab3ad6faec, 0x6c44198c4a475817]]"

definition SHA512_EXP ::
  "u64 list \<Rightarrow> u64 list \<Rightarrow> nat \<Rightarrow> nat \<Rightarrow> nat \<Rightarrow> nat \<Rightarrow> nat \<Rightarrow> nat \<Rightarrow> nat \<Rightarrow> nat \<Rightarrow> nat \<Rightarrow> u64 list" where
  "SHA512_EXP w wv a b c d e f g h j =
     (let t1 = wv ! h + SHA512_F2 (wv ! e) + CH (wv ! e) (wv ! f) (wv ! g) + sha512_k ! j + w ! j;
          t2 = SHA512_F1 (wv ! a) + MAJ (wv ! a) (wv ! b) (wv ! c);
          wv = wv[d := wv ! d + t1]
      in wv[h := t1 + t2])"

section \<open>The compression function\<close>

definition sha512_schedule :: "bytes \<Rightarrow> u64 list" where
  "sha512_schedule sub_block =
     foldl SHA512_SCR (map (\<lambda>j. PACK64 sub_block (shl_nat j 3)) [0..<16]) [16..<80]"

definition sha512_round :: "u64 list \<Rightarrow> u64 list \<Rightarrow> nat \<Rightarrow> u64 list" where
  "sha512_round w wv j =
     (let t1 = wv ! 7 + SHA512_F2 (wv ! 4) + CH (wv ! 4) (wv ! 5) (wv ! 6) + sha512_k ! j + w ! j;
          t2 = SHA512_F1 (wv ! 0) + MAJ (wv ! 0) (wv ! 1) (wv ! 2)
      in [t1 + t2, wv ! 0, wv ! 1, wv ! 2, wv ! 3 + t1, wv ! 4, wv ! 5, wv ! 6])"

definition sha512_compress :: "u64 list \<Rightarrow> bytes \<Rightarrow> u64 list" where
  "sha512_compress h sub_block =
     map2 (+) h (foldl (sha512_round (sha512_schedule sub_block)) h [0..<80])"

text \<open>The \<^verbatim>\<open>do\<close> loop of the unrolled version, \<^verbatim>\<open>while (j < 80)\<close>.\<close>

definition sha512_exp8 :: "u64 list \<Rightarrow> u64 list \<Rightarrow> nat \<Rightarrow> u64 list" where
  "sha512_exp8 w wv j =
     (let wv = SHA512_EXP w wv 0 1 2 3 4 5 6 7 j;
          wv = SHA512_EXP w wv 7 0 1 2 3 4 5 6 (j + 1);
          wv = SHA512_EXP w wv 6 7 0 1 2 3 4 5 (j + 2);
          wv = SHA512_EXP w wv 5 6 7 0 1 2 3 4 (j + 3);
          wv = SHA512_EXP w wv 4 5 6 7 0 1 2 3 (j + 4);
          wv = SHA512_EXP w wv 3 4 5 6 7 0 1 2 (j + 5);
          wv = SHA512_EXP w wv 2 3 4 5 6 7 0 1 (j + 6);
          wv = SHA512_EXP w wv 1 2 3 4 5 6 7 0 (j + 7)
      in wv)"

function sha512_do :: "u64 list \<Rightarrow> u64 list \<Rightarrow> nat \<Rightarrow> u64 list" where
  "sha512_do w wv j =
     (let wv = sha512_exp8 w wv j; j = j + 8 in if j < 80 then sha512_do w wv j else wv)"
  by auto
termination
  by (relation "measure (\<lambda>(w, wv, j). 80 - j)") auto

declare sha512_do.simps [simp del]

definition sha512_compress_unrolled :: "u64 list \<Rightarrow> bytes \<Rightarrow> u64 list" where
  "sha512_compress_unrolled h sub_block = map2 (+) h (sha512_do (sha512_schedule sub_block) h 0)"

section \<open>Streaming interface\<close>

abbreviation (input) VB2_SHA512_BLOCK_SIZE :: u32 where "VB2_SHA512_BLOCK_SIZE \<equiv> 128"

record vb2_sha512_context =
  sha512_h :: "u64 list"
  sha512_total_size :: u32
  sha512_size :: u32
  sha512_block :: bytes

definition vb2_sha512_init :: "vb2_sha512_context \<Rightarrow> vb2_sha512_context" where
  "vb2_sha512_init ctx = ctx\<lparr>sha512_h := sha512_h0, sha512_size := 0, sha512_total_size := 0\<rparr>"

definition vb2_sha512_transform :: "vb2_sha512_context \<Rightarrow> bytes \<Rightarrow> u32 \<Rightarrow> vb2_sha512_context" where
  "vb2_sha512_transform ctx message block_nb =
     ctx\<lparr>sha512_h := foldl (\<lambda>h i. sha512_compress h (drop (shl_nat i 7) message)) (sha512_h ctx) [0..<unat block_nb]\<rparr>"

definition vb2_sha512_update :: "vb2_sha512_context \<Rightarrow> bytes \<Rightarrow> u32 \<Rightarrow> vb2_sha512_context" where
  "vb2_sha512_update ctx data sz =
     (let tmp_size = VB2_SHA512_BLOCK_SIZE - sha512_size ctx;
          rem_size = (if sz < tmp_size then sz else tmp_size);
          ctx = ctx\<lparr>sha512_block := copy_at (sha512_block ctx) (unat (sha512_size ctx)) (take (unat rem_size) data)\<rparr>
      in if sha512_size ctx + sz < VB2_SHA512_BLOCK_SIZE
         then ctx\<lparr>sha512_size := sha512_size ctx + sz\<rparr>
         else
           let new_size = sz - rem_size;
               block_nb = new_size div VB2_SHA512_BLOCK_SIZE;
               shifted_data = drop (unat rem_size) data;
               ctx = vb2_sha512_transform ctx (sha512_block ctx) 1;
               ctx = vb2_sha512_transform ctx shifted_data block_nb;
               rem_size = new_size mod VB2_SHA512_BLOCK_SIZE;
               ctx = ctx\<lparr>sha512_block :=
                 copy_at (sha512_block ctx) 0 (take (unat rem_size) (drop (unat (shl block_nb 7)) shifted_data))\<rparr>
           in ctx\<lparr>sha512_size := rem_size,
                  sha512_total_size := sha512_total_size ctx + shl (block_nb + 1) 7\<rparr>)"

definition vb2_sha512_finalize :: "vb2_sha512_context \<Rightarrow> vb2_sha512_context \<times> bytes" where
  "vb2_sha512_finalize ctx =
     (let block_nb = 1 + (if VB2_SHA512_BLOCK_SIZE - 17 < sha512_size ctx mod VB2_SHA512_BLOCK_SIZE then 1 else 0);
          size_b = shl (sha512_total_size ctx + sha512_size ctx) 3;
          pm_size = shl block_nb 7;
          block = copy_at (sha512_block ctx) (unat (sha512_size ctx)) (replicate (unat (pm_size - sha512_size ctx)) 0);
          block = block[unat (sha512_size ctx) := 0x80];
          block = copy_at block (unat pm_size - 4) (UNPACK32 size_b);
          ctx = vb2_sha512_transform (ctx\<lparr>sha512_block := block\<rparr>) block block_nb
      in (ctx, concat (map UNPACK64 (sha512_h ctx))))"

section \<open>The two compression loops agree\<close>

lemma rotated_round512:
  assumes "length wv = 8"
  shows "sha512_round w (rotated 0 wv) j = rotated 1 (SHA512_EXP w wv 0 1 2 3 4 5 6 7 j)"
    and "sha512_round w (rotated 1 wv) j = rotated 2 (SHA512_EXP w wv 7 0 1 2 3 4 5 6 j)"
    and "sha512_round w (rotated 2 wv) j = rotated 3 (SHA512_EXP w wv 6 7 0 1 2 3 4 5 j)"
    and "sha512_round w (rotated 3 wv) j = rotated 4 (SHA512_EXP w wv 5 6 7 0 1 2 3 4 j)"
    and "sha512_round w (rotated 4 wv) j = rotated 5 (SHA512_EXP w wv 4 5 6 7 0 1 2 3 j)"
    and "sha512_round w (rotated 5 wv) j = rotated 6 (SHA512_EXP w wv 3 4 5 6 7 0 1 2 j)"
    and "sha512_round w (rotated 6 wv) j = rotated 7 (SHA512_EXP w wv 2 3 4 5 6 7 0 1 j)"
    and "sha512_round w (rotated 7 wv) j = rotated 0 (SHA512_EXP w wv 1 2 3 4 5 6 7 0 j)"
  using length_8 [OF assms]
  by (auto simp: sha512_round_def SHA512_EXP_def rotated_def Let_def upt_conv_Cons)

lemma length_SHA512_EXP [simp]: "length (SHA512_EXP w wv a b c d e f g h j) = length wv"
  by (simp add: SHA512_EXP_def Let_def)

lemma length_sha512_exp8 [simp]: "length (sha512_exp8 w wv j) = length wv"
  by (simp add: sha512_exp8_def Let_def)

lemma sha512_exp8_rounds:
  assumes "length wv = 8"
  shows "sha512_exp8 w wv j = foldl (sha512_round w) wv [j..<j + 8]"
proof -
  have "[j..<j + 8] = [j, j + 1, j + 2, j + 3, j + 4, j + 5, j + 6, j + 7]"
    by (simp add: upt_conv_Cons)
  then have "foldl (sha512_round w) (rotated 0 wv) [j..<j + 8] = rotated 0 (sha512_exp8 w wv j)"
    using assms by (simp add: rotated_round512 sha512_exp8_def Let_def del: One_nat_def)
  then show ?thesis using assms by (simp add: rotated_0)
qed

lemma length_sha512_rounds: "length wv = 8 \<Longrightarrow> length (foldl (sha512_round w) wv js) = 8"
  by (induction js arbitrary: wv) (simp_all add: sha512_round_def Let_def)

lemma sha512_compress_length: "length h = 8 \<Longrightarrow> length (sha512_compress h b) = 8"
  by (simp add: sha512_compress_def length_sha512_rounds del: upt_rec_numeral)

lemma sha512_do_rounds:
  assumes "length wv = 8" and "8 dvd j" and "j < 80"
  shows "sha512_do w wv j = foldl (sha512_round w) wv [j..<80]"
  using assms
proof (induction w wv j rule: sha512_do.induct)
  case (1 w wv j)
  obtain k where k: "j = 8 * k" using 1(3) by (auto simp: dvd_def)
  then have "k < 10" using 1(4) by simp
  then have "k \<le> 9" by simp
  then have le: "j + 8 \<le> 80" using k by simp
  have up: "[j..<80] = [j..<j + 8] @ [j + 8..<80]"
    using le upt_add_eq_append [of j "j + 8" "72 - j"] by simp
  show ?case
  proof (cases "j + 8 < 80")
    case True
    have "sha512_do w wv j = sha512_do w (sha512_exp8 w wv j) (j + 8)"
      using True by (subst sha512_do.simps) (simp add: Let_def)
    also have "\<dots> = foldl (sha512_round w) (sha512_exp8 w wv j) [j + 8..<80]"
      using 1(1) [OF refl refl True] 1(2,3) True by simp
    finally show ?thesis using 1(2) by (simp add: up sha512_exp8_rounds)
  next
    case False
    then have "[j + 8..<80] = []" using le by simp
    then show ?thesis using 1(2) False by (simp add: sha512_do.simps [of w wv j] Let_def up sha512_exp8_rounds)
  qed
qed

text \<open>
  The unrolled SHA-512 loop computes what the rolled loop the firmware is built with computes, and
  its \<^verbatim>\<open>do\<close> loop ends.\<close>

lemma sha512_unrolled_equiv:
  assumes "length h = 8"
  shows "sha512_compress_unrolled h sub_block = sha512_compress h sub_block"
  using assms by (simp add: sha512_compress_unrolled_def sha512_compress_def sha512_do_rounds)

section \<open>The streaming interface computes the hash of the message\<close>

lemma sha512_schedule_take: "sha512_schedule (take 128 b) = sha512_schedule b"
proof -
  have "map (\<lambda>j. PACK64 (take 128 b) (shl_nat j 3)) [0..<16] = map (\<lambda>j. PACK64 b (shl_nat j 3)) [0..<16]"
    by (rule map_cong) (auto simp: PACK64_def)
  then show ?thesis by (simp only: sha512_schedule_def)
qed

interpretation s512: hash_stream 128 sha512_compress sha512_h0 16
  by unfold_locales (simp_all add: sha512_compress_def sha512_schedule_take)

definition SHA512 :: "bytes \<Rightarrow> bytes" where
  "SHA512 msg = concat (map UNPACK64 (s512.absorb sha512_h0 (msg @ hash_padding 128 16 (length msg))))"

definition sha512_state :: "vb2_sha512_context \<Rightarrow> u64 list hash_stream_state" where
  "sha512_state ctx = (sha512_h ctx, sha512_total_size ctx, sha512_size ctx, sha512_block ctx)"

lemma vb2_sha512_init_state: "sha512_state (vb2_sha512_init ctx) = (sha512_h0, 0, 0, sha512_block ctx)"
  by (simp add: sha512_state_def vb2_sha512_init_def)

lemma vb2_sha512_transform_state:
  "vb2_sha512_transform ctx m nb = ctx\<lparr>sha512_h := s512.transform (sha512_h ctx) m nb\<rparr>"
  by (simp add: vb2_sha512_transform_def s512.transform_def)

lemma vb2_sha512_update_state: "sha512_state (vb2_sha512_update ctx data sz) = s512.update (sha512_state ctx) data sz"
  by (simp add: sha512_state_def vb2_sha512_update_def s512.update_def vb2_sha512_transform_state shl_eq_mult Let_def)

lemma vb2_sha512_finalize_state:
  "snd (vb2_sha512_finalize ctx) =
     (case s512.final_block (sha512_state ctx) of (b, nb) \<Rightarrow>
        concat (map UNPACK64 (s512.transform (sha512_h ctx) b nb)))"
  by (simp add: sha512_state_def vb2_sha512_finalize_def s512.final_block_def vb2_sha512_transform_state shl_eq_mult Let_def)

definition sha512_holds :: "vb2_sha512_context \<Rightarrow> bytes \<Rightarrow> bool" where
  "sha512_holds ctx msg \<longleftrightarrow> s512.stream_holds (sha512_state ctx) msg"

lemma vb2_sha512_init_holds: "length (sha512_block ctx) = 256 \<Longrightarrow> sha512_holds (vb2_sha512_init ctx) []"
  by (simp add: sha512_holds_def vb2_sha512_init_state s512.stream_start)

lemma vb2_sha512_update_holds:
  "sha512_holds ctx msg \<Longrightarrow> length data = unat sz \<Longrightarrow> unat sz + 128 \<le> 2 ^ 32 \<Longrightarrow>
    sha512_holds (vb2_sha512_update ctx data sz) (msg @ data)"
  unfolding sha512_holds_def vb2_sha512_update_state by (rule s512.update_holds)

lemma vb2_sha512_finalize_holds:
  assumes "sha512_holds ctx msg" and "length msg < 2 ^ 29"
  shows "snd (vb2_sha512_finalize ctx) = SHA512 msg"
  using assms s512.final_holds
  by (auto simp: vb2_sha512_finalize_state sha512_holds_def sha512_state_def SHA512_def split: prod.split)

definition sha512_updates :: "vb2_sha512_context \<Rightarrow> bytes list \<Rightarrow> vb2_sha512_context" where
  "sha512_updates = foldl (\<lambda>ctx d. vb2_sha512_update ctx d (of_nat (length d)))"

lemma sha512_updates_state:
  "sha512_state (sha512_updates ctx ds) = foldl (\<lambda>st d. s512.update st d (of_nat (length d))) (sha512_state ctx) ds"
  by (induction ds arbitrary: ctx) (simp_all add: sha512_updates_def vb2_sha512_update_state)

lemma sha512_updates_holds:
  "sha512_holds ctx msg \<Longrightarrow> length (concat ds) + 128 \<le> 2 ^ 32 \<Longrightarrow> sha512_holds (sha512_updates ctx ds) (msg @ concat ds)"
  unfolding sha512_holds_def sha512_updates_state by (rule s512.updates_holds)

text \<open>
  C15. SHA-512: however a message of less than 2^29 bytes is cut into updates, init, update and finalize
  produce the hash of the whole message, padded as the standard prescribes.\<close>

theorem vb2_sha512_correct:
  assumes "length (sha512_block ctx) = 256" and "length (concat ds) < 2 ^ 29"
  shows "snd (vb2_sha512_finalize (sha512_updates (vb2_sha512_init ctx) ds)) = SHA512 (concat ds)"
  using assms sha512_updates_holds [OF vb2_sha512_init_holds [OF assms(1)], of ds]
  by (simp add: vb2_sha512_finalize_holds)

definition blank_sha512 :: vb2_sha512_context where
  "blank_sha512 = \<lparr>sha512_h = replicate 8 0, sha512_total_size = 0, sha512_size = 0, sha512_block = replicate 256 0\<rparr>"

theorem vb2_sha512_correct_witness:
  "length (sha512_block blank_sha512) = 256 \<and> length (concat [[0x61, 0x62], [0x63 :: u8]]) < 2 ^ 29 \<and>
   snd (vb2_sha512_finalize (sha512_updates (vb2_sha512_init blank_sha512) [[0x61, 0x62], [0x63]])) =
     SHA512 [0x61, 0x62, 0x63]"
  using vb2_sha512_correct [of blank_sha512 "[[0x61, 0x62], [0x63]]"] by (simp add: blank_sha512_def)

end
