(* ===== verification/Sha_Utility.thy ===== *)
theory Sha_Utility
  imports Sha1 Sha512 Vb2_Context
begin

text \<open>
  The digest interface over the three hash functions, \<^verbatim>\<open>firmware/2lib/2sha_utility.c\<close>, with all three
  supported.  The union of the digest context is a record with one field for each member: the code
  only uses the member that \<^verbatim>\<open>hash_alg\<close> names.
\<close>

section \<open>Algorithms\<close>

datatype vb2_hash_algorithm = VB2_HASH_INVALID | VB2_HASH_SHA1 | VB2_HASH_SHA256 | VB2_HASH_SHA512

definition crypto_to_hash :: "vb2_hash_algorithm list" where
  "crypto_to_hash =
     [VB2_HASH_SHA1, VB2_HASH_SHA256, VB2_HASH_SHA512,
      VB2_HASH_SHA1, VB2_HASH_SHA256, VB2_HASH_SHA512,
      VB2_HASH_SHA1, VB2_HASH_SHA256, VB2_HASH_SHA512,
      VB2_HASH_SHA1, VB2_HASH_SHA256, VB2_HASH_SHA512]"

definition vb2_crypto_to_hash :: "u32 \<Rightarrow> vb2_hash_algorithm" where
  "vb2_crypto_to_hash algorithm =
     (if unat algorithm < length crypto_to_hash then crypto_to_hash ! unat algorithm else VB2_HASH_INVALID)"

fun vb2_digest_size :: "vb2_hash_algorithm \<Rightarrow> u32" where
  "vb2_digest_size VB2_HASH_SHA1 = 20"
| "vb2_digest_size VB2_HASH_SHA256 = 32"
| "vb2_digest_size VB2_HASH_SHA512 = 64"
| "vb2_digest_size VB2_HASH_INVALID = 0"

section \<open>The digest context\<close>

record vb2_digest_context =
  dc_sha1 :: vb2_sha1_context
  dc_sha256 :: vb2_sha256_context
  dc_sha512 :: vb2_sha512_context
  dc_hash_alg :: vb2_hash_algorithm
  dc_using_hwcrypto :: bool

definition vb2_digest_init :: "vb2_digest_context \<Rightarrow> vb2_hash_algorithm \<Rightarrow> u32 \<times> vb2_digest_context" where
  "vb2_digest_init dc alg =
     (let dc = dc\<lparr>dc_hash_alg := alg, dc_using_hwcrypto := False\<rparr>
      in case dc_hash_alg dc of
           VB2_HASH_SHA1 \<Rightarrow> (VB2_SUCCESS, dc\<lparr>dc_sha1 := vb2_sha1_init (dc_sha1 dc)\<rparr>)
         | VB2_HASH_SHA256 \<Rightarrow> (VB2_SUCCESS, dc\<lparr>dc_sha256 := vb2_sha256_init (dc_sha256 dc)\<rparr>)
         | VB2_HASH_SHA512 \<Rightarrow> (VB2_SUCCESS, dc\<lparr>dc_sha512 := vb2_sha512_init (dc_sha512 dc)\<rparr>)
         | VB2_HASH_INVALID \<Rightarrow> (VB2_ERROR_SHA_INIT_ALGORITHM, dc))"

definition vb2_digest_extend :: "vb2_digest_context \<Rightarrow> bytes \<Rightarrow> u32 \<Rightarrow> u32 \<times> vb2_digest_context" where
  "vb2_digest_extend dc buf sz =
     (case dc_hash_alg dc of
        VB2_HASH_SHA1 \<Rightarrow> (VB2_SUCCESS, dc\<lparr>dc_sha1 := vb2_sha1_update (dc_sha1 dc) buf sz\<rparr>)
      | VB2_HASH_SHA256 \<Rightarrow> (VB2_SUCCESS, dc\<lparr>dc_sha256 := vb2_sha256_update (dc_sha256 dc) buf sz\<rparr>)
      | VB2_HASH_SHA512 \<Rightarrow> (VB2_SUCCESS, dc\<lparr>dc_sha512 := vb2_sha512_update (dc_sha512 dc) buf sz\<rparr>)
      | VB2_HASH_INVALID \<Rightarrow> (VB2_ERROR_SHA_EXTEND_ALGORITHM, dc))"

text \<open>The result carries the buffer the digest is written to.\<close>

definition vb2_digest_finalize ::
  "vb2_digest_context \<Rightarrow> bytes \<Rightarrow> u32 \<Rightarrow> u32 \<times> vb2_digest_context \<times> bytes" where
  "vb2_digest_finalize dc digest digest_size =
     (if digest_size < vb2_digest_size (dc_hash_alg dc) then (VB2_ERROR_SHA_FINALIZE_DIGEST_SIZE, dc, digest)
      else case dc_hash_alg dc of
        VB2_HASH_SHA1 \<Rightarrow>
          (let (c, d) = vb2_sha1_finalize (dc_sha1 dc) in (VB2_SUCCESS, dc\<lparr>dc_sha1 := c\<rparr>, copy_at digest 0 d))
      | VB2_HASH_SHA256 \<Rightarrow>
          (let (c, d) = vb2_sha256_finalize (dc_sha256 dc) in (VB2_SUCCESS, dc\<lparr>dc_sha256 := c\<rparr>, copy_at digest 0 d))
      | VB2_HASH_SHA512 \<Rightarrow>
          (let (c, d) = vb2_sha512_finalize (dc_sha512 dc) in (VB2_SUCCESS, dc\<lparr>dc_sha512 := c\<rparr>, copy_at digest 0 d))
      | VB2_HASH_INVALID \<Rightarrow> (VB2_ERROR_SHA_FINALIZE_ALGORITHM, dc, digest))"

text \<open>\<^verbatim>\<open>dc\<close> stands for the uninitialized context on the stack.\<close>

definition vb2_digest_buffer ::
  "vb2_digest_context \<Rightarrow> bytes \<Rightarrow> u32 \<Rightarrow> vb2_hash_algorithm \<Rightarrow> bytes \<Rightarrow> u32 \<Rightarrow> u32 \<times> bytes" where
  "vb2_digest_buffer dc buf sz alg digest digest_size =
     (let (rv, dc) = vb2_digest_init dc alg
      in if rv \<noteq> 0 then (rv, digest)
         else let (rv, dc) = vb2_digest_extend dc buf sz
           in if rv \<noteq> 0 then (rv, digest)
              else let (rv, dc, digest) = vb2_digest_finalize dc digest digest_size in (rv, digest))"

section \<open>What the interface computes\<close>

fun vb2_hash :: "vb2_hash_algorithm \<Rightarrow> bytes \<Rightarrow> bytes" where
  "vb2_hash VB2_HASH_SHA1 msg = SHA1 msg"
| "vb2_hash VB2_HASH_SHA256 msg = SHA256 msg"
| "vb2_hash VB2_HASH_SHA512 msg = SHA512 msg"
| "vb2_hash VB2_HASH_INVALID msg = []"

text \<open>The context has its buffers, and has taken in a message.\<close>

definition dc_ok :: "vb2_digest_context \<Rightarrow> bool" where
  "dc_ok dc \<longleftrightarrow> length (sha1_buf (dc_sha1 dc)) = 64 \<and> length (sha256_block (dc_sha256 dc)) = 128 \<and>
     length (sha512_block (dc_sha512 dc)) = 256"

definition dc_holds :: "vb2_digest_context \<Rightarrow> bytes \<Rightarrow> bool" where
  "dc_holds dc msg \<longleftrightarrow> (case dc_hash_alg dc of
       VB2_HASH_SHA1 \<Rightarrow> sha1_holds (dc_sha1 dc) msg
     | VB2_HASH_SHA256 \<Rightarrow> sha256_holds (dc_sha256 dc) msg
     | VB2_HASH_SHA512 \<Rightarrow> sha512_holds (dc_sha512 dc) msg
     | VB2_HASH_INVALID \<Rightarrow> False)"

lemma vb2_digest_init_holds:
  assumes "dc_ok dc" and "alg \<noteq> VB2_HASH_INVALID"
  shows "fst (vb2_digest_init dc alg) = VB2_SUCCESS \<and> dc_hash_alg (snd (vb2_digest_init dc alg)) = alg \<and>
    \<not> dc_using_hwcrypto (snd (vb2_digest_init dc alg)) \<and> dc_holds (snd (vb2_digest_init dc alg)) []"
  using assms vb2_sha1_init_holds vb2_sha256_init_holds vb2_sha512_init_holds
  by (cases alg) (simp_all add: vb2_digest_init_def dc_holds_def dc_ok_def)

lemma vb2_digest_extend_holds:
  assumes "dc_holds dc msg" and "length data = unat sz" and "unat sz + 128 \<le> 2 ^ 32"
  shows "fst (vb2_digest_extend dc data sz) = VB2_SUCCESS \<and>
    dc_hash_alg (snd (vb2_digest_extend dc data sz)) = dc_hash_alg dc \<and>
    dc_using_hwcrypto (snd (vb2_digest_extend dc data sz)) = dc_using_hwcrypto dc \<and>
    dc_holds (snd (vb2_digest_extend dc data sz)) (msg @ data)"
  using assms vb2_sha1_update_holds [of _ msg data sz] vb2_sha256_update_holds [of _ msg data sz]
    vb2_sha512_update_holds [of _ msg data sz]
  by (cases "dc_hash_alg dc") (simp_all add: vb2_digest_extend_def dc_holds_def)

lemma vb2_digest_finalize_holds:
  assumes "dc_holds dc msg" and "length msg < 2 ^ 29"
  shows "digest_size < vb2_digest_size (dc_hash_alg dc) \<Longrightarrow>
      vb2_digest_finalize dc digest digest_size = (VB2_ERROR_SHA_FINALIZE_DIGEST_SIZE, dc, digest)"
    and "vb2_digest_size (dc_hash_alg dc) \<le> digest_size \<Longrightarrow>
      \<exists>dc'. vb2_digest_finalize dc digest digest_size =
        (VB2_SUCCESS, dc', copy_at digest 0 (vb2_hash (dc_hash_alg dc) msg)) \<and> dc_hash_alg dc' = dc_hash_alg dc"
  using assms vb2_sha1_finalize_holds [of _ msg] vb2_sha256_finalize_holds [of _ msg] vb2_sha512_finalize_holds [of _ msg]
  by (cases "dc_hash_alg dc"; auto simp: vb2_digest_finalize_def dc_holds_def case_prod_beta not_less)+

text \<open>
  C17. vb2_digest_buffer() fills the caller's buffer with the hash of the data for each supported
  algorithm, refuses a buffer that is too small without touching it, and refuses an invalid algorithm.\<close>

theorem vb2_digest_buffer_correct:
  assumes "dc_ok dc" and "length buf = unat sz" and "unat sz < 2 ^ 29"
  shows "vb2_digest_buffer dc buf sz alg digest digest_size =
    (if alg = VB2_HASH_INVALID then (VB2_ERROR_SHA_INIT_ALGORITHM, digest)
     else if digest_size < vb2_digest_size alg then (VB2_ERROR_SHA_FINALIZE_DIGEST_SIZE, digest)
     else (VB2_SUCCESS, copy_at digest 0 (vb2_hash alg buf)))"
proof (cases "alg = VB2_HASH_INVALID")
  case True
  then show ?thesis by (simp add: vb2_digest_buffer_def vb2_digest_init_def)
next
  case False
  obtain r1 d1 where i: "vb2_digest_init dc alg = (r1, d1)" by fastforce
  obtain r2 d2 where e: "vb2_digest_extend d1 buf sz = (r2, d2)" by fastforce
  have 1: "r1 = VB2_SUCCESS" "dc_hash_alg d1 = alg" "dc_holds d1 []"
    using vb2_digest_init_holds [OF assms(1) False] i by simp_all
  then have 2: "r2 = VB2_SUCCESS" "dc_hash_alg d2 = alg" "dc_holds d2 buf"
    using vb2_digest_extend_holds [OF 1(3) assms(2)] assms(3) e by simp_all
  then show ?thesis
    using vb2_digest_finalize_holds [OF 2(3), of digest_size digest] assms(2,3) False 1(1) i e
    by (cases "digest_size < vb2_digest_size alg") (auto simp: vb2_digest_buffer_def not_less)
qed

definition blank_dc :: vb2_digest_context where
  "blank_dc = \<lparr>dc_sha1 = blank_sha1, dc_sha256 = blank_sha256, dc_sha512 = blank_sha512,
     dc_hash_alg = VB2_HASH_INVALID, dc_using_hwcrypto = False\<rparr>"

lemma blank_dc_ok [simp]: "dc_ok blank_dc"
  by (simp add: dc_ok_def blank_dc_def blank_sha1_def blank_sha256_def blank_sha512_def)

theorem vb2_digest_buffer_correct_witness:
  "dc_ok blank_dc \<and> length [0x61 :: u8] = unat (1 :: u32) \<and> unat (1 :: u32) < 2 ^ 29 \<and>
   vb2_digest_buffer blank_dc [0x61] 1 VB2_HASH_SHA256 (replicate 32 0) 32 =
     (VB2_SUCCESS, copy_at (replicate 32 0) 0 (SHA256 [0x61])) \<and>
   vb2_digest_buffer blank_dc [0x61] 1 VB2_HASH_SHA512 (replicate 32 0) 32 =
     (VB2_ERROR_SHA_FINALIZE_DIGEST_SIZE, replicate 32 0)"
  using vb2_digest_buffer_correct [of blank_dc "[0x61]" 1 VB2_HASH_SHA256 "replicate 32 0" 32]
    vb2_digest_buffer_correct [of blank_dc "[0x61]" 1 VB2_HASH_SHA512 "replicate 32 0" 32]
  by simp

text \<open>The length of a digest is what vb2_digest_size() says.\<close>

lemma length_concat_map: "(\<And>x. length (f x) = n) \<Longrightarrow> length (concat (map f xs)) = length xs * n"
  by (induction xs) simp_all

lemma length_SHA1: "length (SHA1 msg) = 20"
  by (simp add: SHA1_def length_concat_map [where n = 4] length_sha1_absorb)

lemma length_SHA256: "length (SHA256 msg) = 32"
proof -
  have "length (sha256_compress h b) = 8" if "length h = 8" for h b
    using sha256_compress_length [OF that] .
  then have "length (s256.absorb sha256_h0 m) = 8" for m
    by (rule s256.absorb_inv [where P = "\<lambda>h. length h = 8"]) (simp_all add: sha256_h0_def)
  then show ?thesis by (simp add: SHA256_def length_concat_map [where n = 4])
qed

lemma length_SHA512: "length (SHA512 msg) = 64"
proof -
  have "length (s512.absorb sha512_h0 m) = 8" for m
    by (rule s512.absorb_inv [where P = "\<lambda>h. length h = 8"])
      (simp_all add: sha512_compress_length sha512_h0_def)
  then show ?thesis by (simp add: SHA512_def length_concat_map [where n = 8] UNPACK64_def)
qed

lemma length_vb2_hash: "length (vb2_hash alg msg) = unat (vb2_digest_size alg)"
  by (cases alg) (simp_all add: length_SHA1 length_SHA256 length_SHA512)

end
