(* ===== verification/Rsa.thy ===== *)
theory Rsa
  imports Sha_Utility Workbuf
begin

text \<open>
  RSA signature verification with exponent 65537, \<^verbatim>\<open>firmware/2lib/2rsa.c\<close>: Montgomery multiplication on
  little-endian arrays of 32-bit words, the PKCS 1.5 padding check and vb2_rsa_verify_digest().
  The arrays of a key are lists of words; \<^verbatim>\<open>int64_t\<close> is a 64-bit word shifted arithmetically.
\<close>

section \<open>Keys and algorithms\<close>

datatype vb2_signature_algorithm =
    VB2_SIG_INVALID | VB2_SIG_NONE | VB2_SIG_RSA1024 | VB2_SIG_RSA2048 | VB2_SIG_RSA4096 | VB2_SIG_RSA8192

record vb2_public_key =
  pk_arrsize :: u32
  pk_n0inv :: u32
  pk_n :: "u32 list"
  pk_rr :: "u32 list"
  pk_sig_alg :: vb2_signature_algorithm
  pk_hash_alg :: vb2_hash_algorithm

section \<open>Arithmetic on arrays\<close>

definition sar :: "u64 \<Rightarrow> nat \<Rightarrow> u64" where
  "sar x k = signed_drop_bit k x"

fun subM_loop :: "u64 \<Rightarrow> u32 list \<Rightarrow> u32 list \<Rightarrow> u32 list" where
  "subM_loop A (a # as) (m # ms) =
     (let A = A + (ucast a - ucast m) in ucast A # subM_loop (sar A 32) as ms)"
| "subM_loop A as ms = []"

definition subM :: "vb2_public_key \<Rightarrow> u32 list \<Rightarrow> u32 list" where
  "subM key a = subM_loop 0 (take (unat (pk_arrsize key)) a) (pk_n key) @ drop (unat (pk_arrsize key)) a"

text \<open>From the most significant word down.\<close>

fun mont_ge_loop :: "(u32 \<times> u32) list \<Rightarrow> bool" where
  "mont_ge_loop [] = True"
| "mont_ge_loop ((a, m) # r) = (if a < m then False else if a > m then True else mont_ge_loop r)"

definition vb2_mont_ge :: "vb2_public_key \<Rightarrow> u32 list \<Rightarrow> bool" where
  "vb2_mont_ge key a = mont_ge_loop (rev (zip (take (unat (pk_arrsize key)) a) (pk_n key)))"

text \<open>The loop of montMulAdd() from \<^verbatim>\<open>i = 1\<close>; it returns the words stored and the last \<^verbatim>\<open>A\<close> and \<^verbatim>\<open>B\<close>.\<close>

fun montMulAdd_loop ::
  "u32 \<Rightarrow> u32 \<Rightarrow> u64 \<Rightarrow> u64 \<Rightarrow> u32 list \<Rightarrow> u32 list \<Rightarrow> u32 list \<Rightarrow> u32 list \<times> u64 \<times> u64" where
  "montMulAdd_loop a d0 A B (b # bs) (c # cs) (m # ms) =
     (let A = shr A 32 + ucast a * ucast b + ucast c;
          B = shr B 32 + ucast d0 * ucast m + ucast (ucast A :: u32);
          (r, A', B') = montMulAdd_loop a d0 A B bs cs ms
      in (ucast B # r, A', B'))"
| "montMulAdd_loop a d0 A B bs cs ms = ([], A, B)"

definition montMulAdd :: "vb2_public_key \<Rightarrow> u32 list \<Rightarrow> u32 \<Rightarrow> u32 list \<Rightarrow> u32 list" where
  "montMulAdd key c a b =
     (let k = unat (pk_arrsize key);
          A = ucast a * ucast (b ! 0) + ucast (c ! 0) :: u64;
          d0 = ucast A * pk_n0inv key;
          B = ucast d0 * ucast (pk_n key ! 0) + ucast (ucast A :: u32) :: u64;
          (r, A, B) = montMulAdd_loop a d0 A B (drop 1 (take k b)) (drop 1 (take k c)) (drop 1 (take k (pk_n key)));
          A = shr A 32 + shr B 32;
          c = r @ [ucast A]
      in if shr A 32 \<noteq> 0 then subM key c else c)"

definition montMul :: "vb2_public_key \<Rightarrow> u32 list \<Rightarrow> u32 list \<Rightarrow> u32 list" where
  "montMul key a b =
     foldl (\<lambda>c i. montMulAdd key c (a ! i) b) (replicate (unat (pk_arrsize key)) 0) [0..<unat (pk_arrsize key)]"

definition words_of_be :: "nat \<Rightarrow> bytes \<Rightarrow> u32 list" where
  "words_of_be k inout = map (\<lambda>i.
     shl (ucast (inout ! ((k - 1 - i) * 4 + 0))) 24 OR shl (ucast (inout ! ((k - 1 - i) * 4 + 1))) 16 OR
     shl (ucast (inout ! ((k - 1 - i) * 4 + 2))) 8 OR shl (ucast (inout ! ((k - 1 - i) * 4 + 3))) 0) [0..<k]"

definition be_of_words :: "u32 list \<Rightarrow> bytes" where
  "be_of_words ws = concat (map (\<lambda>tmp. [ucast (shr tmp 24), ucast (shr tmp 16), ucast (shr tmp 8), ucast (shr tmp 0)]) (rev ws))"

text \<open>\<^verbatim>\<open>for (i = 0; i < 16; i += 2)\<close> runs eight times.\<close>

definition modpowF4 :: "vb2_public_key \<Rightarrow> bytes \<Rightarrow> bytes" where
  "modpowF4 key inout =
     (let k = unat (pk_arrsize key);
          a = words_of_be k inout;
          aR = montMul key a (pk_rr key);
          aR = foldl (\<lambda>aR i. let aaR = montMul key aR aR in montMul key aaR aaR) aR [0, 2, 4, 6, 8, 10, 12, 14 :: nat];
          aaa = montMul key aR a;
          aaa = (if vb2_mont_ge key aaa then subM key aaa else aaa)
      in be_of_words aaa @ drop (4 * k) inout)"

section \<open>Sizes and padding\<close>

definition crypto_to_sig :: "vb2_signature_algorithm list" where
  "crypto_to_sig =
     [VB2_SIG_RSA1024, VB2_SIG_RSA1024, VB2_SIG_RSA1024, VB2_SIG_RSA2048, VB2_SIG_RSA2048, VB2_SIG_RSA2048,
      VB2_SIG_RSA4096, VB2_SIG_RSA4096, VB2_SIG_RSA4096, VB2_SIG_RSA8192, VB2_SIG_RSA8192, VB2_SIG_RSA8192]"

definition vb2_crypto_to_signature :: "u32 \<Rightarrow> vb2_signature_algorithm" where
  "vb2_crypto_to_signature algorithm =
     (if unat algorithm < length crypto_to_sig then crypto_to_sig ! unat algorithm else VB2_SIG_INVALID)"

fun vb2_rsa_sig_size :: "vb2_signature_algorithm \<Rightarrow> u32" where
  "vb2_rsa_sig_size VB2_SIG_RSA1024 = 1024 div 8"
| "vb2_rsa_sig_size VB2_SIG_RSA2048 = 2048 div 8"
| "vb2_rsa_sig_size VB2_SIG_RSA4096 = 4096 div 8"
| "vb2_rsa_sig_size VB2_SIG_RSA8192 = 8192 div 8"
| "vb2_rsa_sig_size _ = 0"

definition vb2_packed_key_size :: "vb2_signature_algorithm \<Rightarrow> u32" where
  "vb2_packed_key_size alg =
     (let sig_size = vb2_rsa_sig_size alg in if sig_size = 0 then 0 else 2 * sig_size + 2 * 4)"

definition sha1_tail :: bytes where
  "sha1_tail = concat
     [[0x00, 0x30, 0x21, 0x30, 0x09, 0x06, 0x05, 0x2b],
      [0x0e, 0x03, 0x02, 0x1a, 0x05, 0x00, 0x04, 0x14]]"

definition sha256_tail :: bytes where
  "sha256_tail = concat
     [[0x00, 0x30, 0x31, 0x30, 0x0d, 0x06, 0x09, 0x60],
      [0x86, 0x48, 0x01, 0x65, 0x03, 0x04, 0x02, 0x01],
      [0x05, 0x00, 0x04, 0x20]]"

definition sha512_tail :: bytes where
  "sha512_tail = concat
     [[0x00, 0x30, 0x51, 0x30, 0x0d, 0x06, 0x09, 0x60],
      [0x86, 0x48, 0x01, 0x65, 0x03, 0x04, 0x02, 0x03],
      [0x05, 0x00, 0x04, 0x40]]"

definition padding_tail :: "vb2_hash_algorithm \<Rightarrow> bytes option" where
  "padding_tail alg = (case alg of
       VB2_HASH_SHA1 \<Rightarrow> Some sha1_tail
     | VB2_HASH_SHA256 \<Rightarrow> Some sha256_tail
     | VB2_HASH_SHA512 \<Rightarrow> Some sha512_tail
     | VB2_HASH_INVALID \<Rightarrow> None)"

definition vb2_check_padding :: "bytes \<Rightarrow> vb2_public_key \<Rightarrow> u32" where
  "vb2_check_padding sig key =
     (let sig_size = vb2_rsa_sig_size (pk_sig_alg key);
          hash_size = vb2_digest_size (pk_hash_alg key);
          pad_size = sig_size - hash_size
      in if sig_size = 0 \<or> hash_size = 0 \<or> hash_size > sig_size then VB2_ERROR_RSA_PADDING_SIZE
         else case padding_tail (pk_hash_alg key) of
           None \<Rightarrow> VB2_ERROR_RSA_PADDING_ALGORITHM
         | Some tail \<Rightarrow>
             let tail_size = of_nat (length tail);
                 result = 0 :: u32;
                 result = result OR ucast (sig ! 0 XOR 0x00);
                 result = result OR ucast (sig ! 1 XOR 0x01);
                 m = unat (pad_size - tail_size - 2);
                 result = foldl (\<lambda>result i. result OR ucast (sig ! (2 + i) XOR 0xff)) result [0..<m];
                 result = result OR vb2_safe_memcmp (drop (2 + m) sig) tail (unat tail_size)
             in if result \<noteq> 0 then VB2_ERROR_RSA_PADDING else VB2_SUCCESS)"

text \<open>
  vb2_rsa_verify_digest() with pointers that are not null; it leaves the result of the exponentiation
  in the signature.
\<close>

definition vb2_rsa_verify_digest :: "vb2_public_key \<Rightarrow> bytes \<Rightarrow> bytes \<Rightarrow> vb2_workbuf \<Rightarrow> u32 \<times> bytes" where
  "vb2_rsa_verify_digest key sig digest wb =
     (let sig_size = vb2_rsa_sig_size (pk_sig_alg key)
      in if sig_size = 0 then (VB2_ERROR_RSA_VERIFY_ALGORITHM, sig)
         else let key_bytes = pk_arrsize key * 4
           in if key_bytes \<noteq> sig_size then (VB2_ERROR_RSA_VERIFY_SIG_LEN, sig)
              else let (workbuf32, wblocal) = vb2_workbuf_alloc wb (3 * key_bytes)
                in if workbuf32 = 0 then (VB2_ERROR_RSA_VERIFY_WORKBUF, sig)
                   else
                     let sig = modpowF4 key sig;
                         rv = vb2_check_padding sig key
                     in if rv = VB2_ERROR_RSA_PADDING_SIZE then (rv, sig)
                        else
                          let pad_size = sig_size - vb2_digest_size (pk_hash_alg key)
                          in if vb2_safe_memcmp (drop (unat pad_size) sig) digest (unat (key_bytes - pad_size)) \<noteq> 0 \<and> rv = 0
                             then (VB2_ERROR_RSA_VERIFY_DIGEST, sig) else (rv, sig))"

end
