(* ===== verification/Rsa_Correct.thy ===== *)
theory Rsa_Correct
  imports Rsa
begin

text \<open>
  Correctness of RSA verification (\<^verbatim>\<open>firmware/2lib/2rsa.c\<close>).  An array of words stands for a number; the
  array routines are subtraction, comparison and Montgomery multiplication of numbers, from which
  modpowF4() is exponentiation by 65537 and vb2_rsa_verify_digest() the PKCS 1.5 verification equation.
\<close>

section \<open>The number an array stands for\<close>

abbreviation (input) W :: nat where "W \<equiv> 2 ^ 32"

fun val :: "u32 list \<Rightarrow> nat" where
  "val [] = 0"
| "val (x # xs) = unat x + W * val xs"

lemma unat_u32_less: "unat (x :: u32) < W"
  using unsigned_less [where ?'a = nat, of x] by simp

lemma uint_u32: "0 \<le> uint (x :: u32)" "uint x \<le> 2 ^ 32 - 1"
  using unsigned_less [where ?'a = int, of x] by simp_all

lemma val_append: "val (xs @ ys) = val xs + W ^ length xs * val ys"
  by (induction xs) (simp_all add: algebra_simps)

lemma val_less: "val xs < W ^ length xs"
proof (induction xs)
  case (Cons x xs)
  then have "val xs + 1 \<le> W ^ length xs" by simp
  then have "W * (val xs + 1) \<le> W * W ^ length xs" by (rule mult_le_mono2)
  then show ?case using unat_u32_less [of x] by simp
qed simp

lemma val_replicate_0 [simp]: "val (replicate k 0) = 0"
  by (induction k) simp_all

lemma val_inj: "length xs = length ys \<Longrightarrow> val xs = val ys \<longleftrightarrow> xs = ys"
proof (induction xs ys rule: list_induct2)
  case (Cons x xs y ys)
  have "unat x + W * val xs = unat y + W * val ys \<longleftrightarrow> unat x = unat y \<and> val xs = val ys"
  proof
    assume eq: "unat x + W * val xs = unat y + W * val ys"
    have "(unat x + W * val xs) mod W = (unat y + W * val ys) mod W" using eq by simp
    then have "unat x = unat y" using unat_u32_less [of x] unat_u32_less [of y] by simp
    then show "unat x = unat y \<and> val xs = val ys" using eq by simp
  qed simp
  then show ?case using Cons by (simp add: word_unat_eq_iff)
qed simp

section \<open>Subtraction and comparison\<close>

lemma sint_word_of_int_64: "- (2 ^ 63) \<le> s \<Longrightarrow> s < 2 ^ 63 \<Longrightarrow> sint (word_of_int s :: u64) = s"
  by (simp add: int_word_sint)

lemma sar_word_of_int:
  assumes "- (2 ^ 63) \<le> s" "s < 2 ^ 63"
  shows "sar (word_of_int s) 32 = word_of_int (s div 2 ^ 32)"
proof (rule signed_word_eqI)
  have "sint (sar (word_of_int s) 32) = s div 2 ^ 32"
    using assms by (simp add: sar_def sint_signed_drop_bit_eq drop_bit_eq_div sint_word_of_int_64)
  also have "\<dots> = sint (word_of_int (s div 2 ^ 32) :: u64)"
    using assms by (subst sint_word_of_int_64) auto
  finally show "sint (sar (word_of_int s) 32) = sint (word_of_int (s div 2 ^ 32) :: u64)" .
qed

lemma mod_mult_split:
  assumes "0 \<le> r" "r < B" "0 \<le> m"
  shows "(r + B * x) mod (B * m) = r + B * (x mod m :: int)"
proof -
  have "(r + B * x) div B = x" "(r + B * x) mod B = r" using assms by simp_all
  then show ?thesis using zmod_zmult2_eq [OF assms(3), of "r + B * x" B] by simp
qed

lemma subM_loop_val:
  assumes "length as = length ms" and "z = 0 \<or> z = - 1"
  shows "int (val (subM_loop (word_of_int z) as ms)) = (int (val as) - int (val ms) + z) mod 2 ^ (32 * length as) \<and>
    length (subM_loop (word_of_int z) as ms) = length as"
  using assms
proof (induction as ms arbitrary: z rule: list_induct2)
  case Nil
  then show ?case by auto
next
  case (Cons a as m ms)
  define s where "s = z + (uint a - uint m)"
  have "z \<le> 0" "- 1 \<le> z" using Cons.prems by auto
  then have s: "- (2 ^ 32) \<le> s" "s < 2 ^ 32"
    using uint_u32 [of a] uint_u32 [of m] unfolding s_def by linarith+
  have A: "word_of_int z + (ucast a - ucast m) = (word_of_int s :: u64)"
    unfolding s_def ucast_eq by (simp only: of_int_add of_int_diff)
  have low: "uint (ucast (word_of_int s :: u64) :: u32) = s mod 2 ^ 32"
    by (simp add: unsigned_ucast_eq unsigned_of_int take_bit_eq_mod mod_mod_cancel)
  have high: "sar (word_of_int s) 32 = word_of_int (s div 2 ^ 32)"
    using s by (intro sar_word_of_int) auto
  have z': "s div 2 ^ 32 = 0 \<or> s div 2 ^ 32 = - 1" using s by auto
  let ?x = "int (val as) - int (val ms) + s div 2 ^ 32"
  note IH = Cons.IH [OF z']
  have "int (val (subM_loop (word_of_int z) (a # as) (m # ms))) = s mod 2 ^ 32 + 2 ^ 32 * (?x mod 2 ^ (32 * length as))"
    using IH by (simp add: A low high Let_def)
  also have "\<dots> = (s mod 2 ^ 32 + 2 ^ 32 * ?x) mod (2 ^ 32 * 2 ^ (32 * length as))"
    by (rule mod_mult_split [symmetric]) simp_all
  also have "s mod 2 ^ 32 + 2 ^ 32 * ?x = s + 2 ^ 32 * (int (val as) - int (val ms))"
    using mod_div_mult_eq [of s "2 ^ 32"] by (simp add: algebra_simps)
  also have "\<dots> = int (val (a # as)) - int (val (m # ms)) + z" by (simp add: s_def algebra_simps)
  finally show ?case using IH by (simp add: A high Let_def power_add)
qed

lemma mont_ge_loop_append:
  "mont_ge_loop (ps @ [(a, m)]) = (if \<forall>(x, y) \<in> set ps. x = y then m \<le> a else mont_ge_loop ps)"
  by (induction ps rule: mont_ge_loop.induct) auto

lemma mont_ge_loop_val:
  assumes "length as = length ms"
  shows "mont_ge_loop (rev (zip as ms)) \<longleftrightarrow> val ms \<le> val as"
  using assms
proof (induction as ms rule: list_induct2)
  case (Cons a as m ms)
  have "val (m # ms) \<le> val (a # as) \<longleftrightarrow> (if as = ms then m \<le> a else val ms \<le> val as)"
  proof (cases "as = ms")
    case True
    then show ?thesis by (simp add: word_le_nat_alt)
  next
    case False
    then have "val as \<noteq> val ms" using Cons.hyps by (simp add: val_inj)
    then consider "val ms + 1 \<le> val as" | "val as + 1 \<le> val ms" by linarith
    then show ?thesis
    proof cases
      case 1
      then have "W * (val ms + 1) \<le> W * val as" by (rule mult_le_mono2)
      then show ?thesis using 1 False unat_u32_less [of m] by simp
    next
      case 2
      then have "W * (val as + 1) \<le> W * val ms" by (rule mult_le_mono2)
      then show ?thesis using 2 False unat_u32_less [of a] by simp
    qed
  qed
  then show ?case using Cons zip_eq_iff [of as ms] by (simp add: mont_ge_loop_append)
qed simp

section \<open>Montgomery multiplication\<close>

lemma split64: "unat (X :: u64) = unat (ucast X :: u32) + W * unat (shr X 32)"
  by (simp add: unsigned_ucast_eq unat_shr take_bit_eq_mod)

lemma shr32_less: "unat (shr (X :: u64) 32) < W"
  using unsigned_less [where ?'a = nat, of X] by (simp add: unat_shr less_mult_imp_div_less)

text \<open>A multiply-add of 32-bit numbers fits in 64 bits.\<close>

lemma unat_mul_add:
  fixes a b c :: u32 and X :: u64
  assumes "unat X < W"
  shows "unat (X + ucast a * ucast b + ucast c) = unat X + unat a * unat b + unat c"
proof -
  have m: "unat a * unat b \<le> (W - 1) * (W - 1)"
    using unat_u32_less [of a] unat_u32_less [of b] by (intro mult_le_mono) simp_all
  then have p: "unat (ucast a * ucast b :: u64) = unat a * unat b"
    by (simp add: unat_word_ariths)
  have "unat X + unat a * unat b + unat c < 2 ^ 64" using m assms unat_u32_less [of c] by simp
  then show ?thesis by (simp add: unat_word_ariths p)
qed

lemma montMulAdd_loop_val:
  assumes "length bs = length cs" and "length cs = length ms"
    and "montMulAdd_loop a d0 A B bs cs ms = (r, A', B')"
  shows "length r = length bs \<and>
    val r + W ^ length bs * (unat (shr A' 32) + unat (shr B' 32)) =
      unat (shr A 32) + unat (shr B 32) + unat a * val bs + val cs + unat d0 * val ms"
  using assms
proof (induction bs cs ms arbitrary: A B r rule: list_induct3)
  case Nil
  then show ?case by auto
next
  case (Cons b bs c cs m ms)
  define A1 where "A1 = shr A 32 + ucast a * ucast b + ucast c"
  define B1 where "B1 = shr B 32 + ucast d0 * ucast m + ucast (ucast A1 :: u32)"
  obtain r' where r': "montMulAdd_loop a d0 A1 B1 bs cs ms = (r', A', B')" "r = ucast B1 # r'"
    using Cons.prems by (auto simp: Let_def A1_def B1_def split: prod.splits)
  have "unat A1 = unat (shr A 32) + unat a * unat b + unat c"
    unfolding A1_def by (rule unat_mul_add [OF shr32_less])
  moreover have "unat B1 = unat (shr B 32) + unat d0 * unat m + unat (ucast A1 :: u32)"
    unfolding B1_def by (rule unat_mul_add [OF shr32_less])
  ultimately have step: "unat (ucast B1 :: u32) + W * (unat (shr A1 32) + unat (shr B1 32)) =
      unat (shr A 32) + unat (shr B 32) + unat a * unat b + unat c + unat d0 * unat m"
    using split64 [of A1] split64 [of B1] by (simp add: algebra_simps)
  show ?case using Cons.IH [OF r'(1)] step r'(2) by (simp add: algebra_simps)
qed

text \<open>
  What the pre-processed key is documented to be (\<^verbatim>\<open>2rsa.h\<close>): arrays of \<^verbatim>\<open>arrsize\<close> words, a modulus with
  its top bit set, \<^verbatim>\<open>n0inv\<close> = -1 / n[0] mod 2^32 and \<^verbatim>\<open>rr\<close> = R^2 mod n.
\<close>

definition rsa_key_ok :: "vb2_public_key \<Rightarrow> bool" where
  "rsa_key_ok key \<longleftrightarrow> (let k = unat (pk_arrsize key) in
     0 < k \<and> length (pk_n key) = k \<and> length (pk_rr key) = k \<and>
     pk_n0inv key * (pk_n key ! 0) = - 1 \<and> W ^ k \<le> 2 * val (pk_n key) \<and>
     val (pk_rr key) mod val (pk_n key) = (W ^ k * W ^ k) mod val (pk_n key))"

abbreviation words :: "vb2_public_key \<Rightarrow> nat" where "words key \<equiv> unat (pk_arrsize key)"
abbreviation modulus :: "vb2_public_key \<Rightarrow> nat" where "modulus key \<equiv> val (pk_n key)"

lemma subM_val:
  assumes "length (pk_n key) = words key" and "length c = words key"
  shows "int (val (subM key c)) = (int (val c) - int (modulus key)) mod int (W ^ words key) \<and>
    length (subM key c) = words key"
  using subM_loop_val [of c "pk_n key" 0] assms by (simp add: subM_def power_mult)

lemma vb2_mont_ge_val:
  assumes "length (pk_n key) = words key" and "length c = words key"
  shows "vb2_mont_ge key c \<longleftrightarrow> modulus key \<le> val c"
  using mont_ge_loop_val [of c "pk_n key"] assms by (simp add: vb2_mont_ge_def)

lemma low_cleared:
  fixes d0 n0 l :: u32
  assumes "i * n0 = - 1" and "d0 = l * i"
  shows "unat (ucast (ucast d0 * ucast n0 + ucast l :: u64) :: u32) = 0"
proof -
  have "of_nat (unat d0 * unat n0 + unat l) = (0 :: u32)"
  proof -
    have "of_nat (unat d0 * unat n0 + unat l) = l * (i * n0) + l" by (simp add: assms(2) mult.assoc)
    then show ?thesis by (simp add: assms(1))
  qed
  then have "2 ^ 32 dvd unat d0 * unat n0 + unat l" unfolding word_of_nat_eq_0_iff by simp
  then show ?thesis using unat_mul_add [of 0 d0 n0 l] by (simp add: unsigned_ucast_eq take_bit_eq_mod)
qed

lemma montMulAdd_sum:
  assumes ok: "rsa_key_ok key" and "length c = words key" and "length b = words key"
  obtains d0 r and A B :: u64 where "length r = words key - 1"
    and "montMulAdd key c a b =
      (let A = shr A 32 + shr B 32; c = r @ [ucast A] in if shr A 32 \<noteq> 0 then subM key c else c)"
    and "W * (val r + W ^ (words key - 1) * (unat (shr A 32) + unat (shr B 32))) =
      val c + unat a * val b + unat (d0 :: u32) * modulus key"
proof -
  let ?m = "pk_n key"
  obtain b0 bs c0 cs m0 ms where split: "b = b0 # bs" "c = c0 # cs" "?m = m0 # ms"
    and len: "length bs = words key - 1" "length cs = words key - 1" "length ms = words key - 1"
    using assms by (cases b; cases c; cases ?m) (auto simp: rsa_key_ok_def Let_def)
  have k: "words key = Suc (words key - 1)" using ok by (simp add: rsa_key_ok_def Let_def)
  define A0 where "A0 = ucast a * ucast b0 + (ucast c0 :: u64)"
  define d0 where "d0 = ucast A0 * pk_n0inv key"
  define B0 where "B0 = ucast d0 * ucast m0 + (ucast (ucast A0 :: u32) :: u64)"
  obtain r A B where loop: "montMulAdd_loop a d0 A0 B0 bs cs ms = (r, A, B)" by (metis prod_cases3)
  have "unat A0 = unat a * unat b0 + unat c0" "unat B0 = unat d0 * unat m0 + unat (ucast A0 :: u32)"
    using unat_mul_add [of 0 a b0 c0] unat_mul_add [of 0 d0 m0 "ucast A0"] by (simp_all add: A0_def B0_def)
  moreover have "unat (ucast B0 :: u32) = 0"
    unfolding B0_def by (rule low_cleared [of "pk_n0inv key"]) (use ok split in \<open>simp_all add: rsa_key_ok_def Let_def d0_def\<close>)
  ultimately have first: "W * (unat (shr A0 32) + unat (shr B0 32)) = unat a * unat b0 + unat c0 + unat d0 * unat m0"
    using split64 [of A0] split64 [of B0] by (simp add: algebra_simps)
  have l: "length r = words key - 1"
    "val r + W ^ (words key - 1) * (unat (shr A 32) + unat (shr B 32)) =
      unat (shr A0 32) + unat (shr B0 32) + unat a * val bs + val cs + unat d0 * val ms"
    using montMulAdd_loop_val [OF _ _ loop] len by simp_all
  have tk: "take (words key) b = b" "take (words key) c = c" "take (words key) ?m = ?m"
    using assms by (simp_all add: rsa_key_ok_def Let_def)
  have eq: "montMulAdd key c a b =
      (let A = shr A 32 + shr B 32; c = r @ [ucast A] in if shr A 32 \<noteq> 0 then subM key c else c)"
    unfolding montMulAdd_def Let_def tk unfolding split
    using loop by (simp add: A0_def [symmetric] d0_def [symmetric] B0_def [symmetric])
  have "W * (val r + W ^ (words key - 1) * (unat (shr A 32) + unat (shr B 32))) =
      val c + unat a * val b + unat d0 * modulus key"
    unfolding l(2) using first by (simp add: split algebra_simps)
  from that [OF l(1) eq this] show thesis .
qed

lemma montMulAdd_val:
  assumes ok: "rsa_key_ok key" and c: "length c = words key" and b: "length b = words key"
  shows "length (montMulAdd key c a b) = words key \<and>
    W * val (montMulAdd key c a b) mod modulus key = (val c + unat a * val b) mod modulus key"
proof -
  let ?N = "modulus key" and ?R = "W ^ words key"
  obtain d0 r and A B :: u64 where r: "length r = words key - 1"
    and eq: "montMulAdd key c a b =
      (let A = shr A 32 + shr B 32; c = r @ [ucast A] in if shr A 32 \<noteq> 0 then subM key c else c)"
    and sum: "W * (val r + W ^ (words key - 1) * (unat (shr A 32) + unat (shr B 32))) =
      val c + unat a * val b + unat (d0 :: u32) * ?N"
    by (rule montMulAdd_sum [OF assms])
  have k: "words key = Suc (words key - 1)" and n: "length (pk_n key) = words key"
    using ok by (simp_all add: rsa_key_ok_def Let_def)
  define H where "H = shr A 32 + shr B 32"
  define T where "T = val r + W ^ (words key - 1) * unat H"
  define c' where "c' = r @ [ucast H]"
  have H: "unat H = unat (shr A 32) + unat (shr B 32)"
    using shr32_less [of A] shr32_less [of B] by (simp add: H_def unat_word_ariths)
  have c': "length c' = words key" using r k by (simp add: c'_def)
  have T: "T = val c' + ?R * unat (shr H 32)"
    using split64 [of H] r arg_cong [OF k, of "\<lambda>k. W ^ k"] by (simp add: T_def c'_def val_append algebra_simps)
  have WT: "W * T = val c + unat a * val b + unat d0 * ?N" using sum by (simp add: T_def H)
  then have mod: "W * T mod ?N = (val c + unat a * val b) mod ?N" by simp
  have res: "montMulAdd key c a b = (if shr H 32 \<noteq> 0 then subM key c' else c')"
    by (simp add: eq H_def c'_def Let_def)
  show ?thesis
  proof (cases "shr H 32 = 0")
    case True
    then have "val c' = T" unfolding T by simp
    moreover have "montMulAdd key c a b = c'" unfolding res using True by simp
    ultimately show ?thesis using c' mod by (simp only: simp_thms)
  next
    case False
    then have "1 \<le> unat (shr H 32)" by (metis One_nat_def Suc_leI neq0_conv unat_eq_0)
    then have "?R * 1 \<le> ?R * unat (shr H 32)" by (rule mult_le_mono2)
    then have "?R \<le> T" unfolding T by linarith
    moreover have "?N < ?R" using val_less [of "pk_n key"] n by simp
    moreover have "T < ?R + ?N"
    proof -
      have "val c + unat a * val b + unat d0 * ?N \<le> (?R - 1) + (W - 1) * (?R - 1) + (W - 1) * ?N"
        using val_less [of c] val_less [of b] unat_u32_less [of a] unat_u32_less [of d0] c b
        by (intro add_le_mono mult_le_mono) (simp_all add: less_eq_Suc_le)
      also have "\<dots> \<le> W * (?R - 1) + W * ?N" by (simp add: algebra_simps)
      finally have "W * T \<le> W * (?R - 1 + ?N)" using WT by (simp add: algebra_simps)
      then have "T \<le> ?R - 1 + ?N" by simp
      moreover have "0 < ?R" by simp
      ultimately show ?thesis by linarith
    qed
    ultimately have bounds: "0 \<le> int T - int ?N" "int T - int ?N < int ?R" by linarith+
    have "int (val (subM key c')) = (int (val c') - int ?N) mod int ?R"
      using subM_val [OF n c'] by simp
    also have "int (val c') = int T - int ?R * int (unat (shr H 32))" by (simp add: T)
    also have "(int T - int ?R * int (unat (shr H 32)) - int ?N) mod int ?R = (int T - int ?N) mod int ?R"
      by (simp add: mod_eq_dvd_iff)
    also have "\<dots> = int T - int ?N" using bounds by simp
    finally have v: "val (subM key c') = T - ?N" and le: "?N \<le> T" using bounds by linarith+
    have "W * val (subM key c') + W * ?N = W * T"
      unfolding v distrib_left [symmetric] le_add_diff_inverse2 [OF le] by (rule refl)
    then have "W * val (subM key c') mod ?N = W * T mod ?N" by (metis mod_mult_self1)
    then have "W * val (subM key c') mod ?N = (val c + unat a * val b) mod ?N" unfolding mod .
    moreover have "montMulAdd key c a b = subM key c'" unfolding res using False by (simp only: simp_thms if_True)
    ultimately show ?thesis using subM_val [OF n c'] by (simp only: simp_thms)
  qed
qed

lemma mod_mult_cong_right: "x mod m = y mod m \<Longrightarrow> p * x mod m = p * y mod (m :: nat)"
  by (metis mod_mult_right_eq)

lemma montMul_val:
  assumes ok: "rsa_key_ok key" and a: "length a = words key" and b: "length b = words key"
  shows "length (montMul key a b) = words key \<and>
    W ^ words key * val (montMul key a b) mod modulus key = val a * val b mod modulus key"
proof -
  let ?N = "modulus key"
  define step where "step = (\<lambda>c i. montMulAdd key c (a ! i) b)"
  have "length (foldl step (replicate (words key) 0) [0..<i]) = words key \<and>
      W ^ i * val (foldl step (replicate (words key) 0) [0..<i]) mod ?N = val (take i a) * val b mod ?N"
    if "i \<le> words key" for i
    using that
  proof (induction i)
    case (Suc i)
    let ?c = "foldl step (replicate (words key) 0) [0..<i]"
    have IH: "length ?c = words key" "W ^ i * val ?c mod ?N = val (take i a) * val b mod ?N"
      using Suc.IH Suc_leD [OF Suc.prems] by blast+
    have m: "length (step ?c i) = words key" "W * val (step ?c i) mod ?N = (val ?c + unat (a ! i) * val b) mod ?N"
      using montMulAdd_val [OF ok IH(1) b, of "a ! i"] unfolding step_def by blast+
    have "W ^ Suc i * val (step ?c i) mod ?N = W ^ i * (W * val (step ?c i)) mod ?N"
      by (simp only: power_Suc2 mult.assoc)
    also have "\<dots> = W ^ i * (val ?c + unat (a ! i) * val b) mod ?N" by (rule mod_mult_cong_right [OF m(2)])
    also have "\<dots> = (W ^ i * val ?c + W ^ i * unat (a ! i) * val b) mod ?N"
      by (simp only: distrib_left mult.assoc)
    also have "\<dots> = (val (take i a) * val b + W ^ i * unat (a ! i) * val b) mod ?N"
      by (rule mod_add_cong [OF IH(2) refl])
    also have "val (take i a) * val b + W ^ i * unat (a ! i) * val b = val (take (Suc i) a) * val b"
    proof -
      have "take (Suc i) a = take i a @ [a ! i]" using Suc.prems a by (simp add: take_Suc_conv_app_nth)
      moreover have "length (take i a) = i" using Suc.prems a by simp
      ultimately have "val (take (Suc i) a) = val (take i a) + W ^ i * unat (a ! i)"
        by (simp only: val_append val.simps mult_0_right add_0_right)
      then show ?thesis by (simp only: distrib_right)
    qed
    finally have "W ^ Suc i * val (step ?c i) mod ?N = val (take (Suc i) a) * val b mod ?N" .
    moreover have "foldl step (replicate (words key) 0) [0..<Suc i] = step ?c i" by simp
    ultimately show ?case using m(1) by (simp only: simp_thms)
  qed simp
  from this [OF order_refl] show ?thesis unfolding montMul_def step_def [symmetric] using a by simp
qed

section \<open>Exponentiation\<close>

definition be_nat :: "bytes \<Rightarrow> nat" where
  "be_nat bs = foldl (\<lambda>v x. v * 256 + unat x) 0 bs"

lemma be_nat_append: "be_nat (xs @ ys) = be_nat xs * 256 ^ length ys + be_nat ys"
proof -
  have "foldl (\<lambda>v x. v * 256 + unat x) v ys = v * 256 ^ length ys + foldl (\<lambda>v x. v * 256 + unat x) 0 ys" for v
  proof (induction ys arbitrary: v)
    case (Cons y ys)
    show ?case unfolding foldl.simps Cons [of "v * 256 + unat y"] Cons [of "0 * 256 + unat y"]
      by (simp add: algebra_simps)
  qed simp
  from this [of "foldl (\<lambda>v x. v * 256 + unat x) 0 xs"] show ?thesis unfolding be_nat_def foldl_append .
qed

lemma four_digits:
  assumes "(x :: nat) < 2 ^ 32"
  shows "x div 2 ^ 24 mod 256 * 2 ^ 24 + x div 2 ^ 16 mod 256 * 2 ^ 16 + x div 2 ^ 8 mod 256 * 2 ^ 8 + x mod 256 = x"
proof -
  have q: "x div 2 ^ 8 = x div 256" "x div 2 ^ 16 = x div 256 div 256" "x div 2 ^ 24 = x div 256 div 256 div 256"
    by (simp_all flip: div_mult2_eq)
  have top: "x div 256 div 256 div 256 mod 256 = x div 256 div 256 div 256"
    using assms by (simp add: less_mult_imp_div_less flip: div_mult2_eq)
  have sum: "q3 * 2 ^ 24 + r2 * 2 ^ 16 + r1 * 2 ^ 8 + r0 = y"
    if "256 * q1 + r0 = y" "256 * q2 + r1 = q1" "256 * q3 + r2 = q2" for q1 q2 q3 r0 r1 r2 y :: nat
    unfolding that(1) [symmetric] that(2) [symmetric] that(3) [symmetric] by simp
  show ?thesis unfolding q top by (rule sum) (rule mult_div_mod_eq)+
qed

lemma be_nat_UNPACK32: "be_nat (UNPACK32 w) = unat w"
proof -
  have "be_nat (UNPACK32 w) = unat w div 2 ^ 24 mod 256 * 2 ^ 24 + unat w div 2 ^ 16 mod 256 * 2 ^ 16 +
      unat w div 2 ^ 8 mod 256 * 2 ^ 8 + unat w mod 256"
    by (simp add: be_nat_def UNPACK32_def unsigned_ucast_eq unat_shr take_bit_eq_mod algebra_simps)
  then show ?thesis by (simp only: four_digits [OF unat_u32_less])
qed

lemma be_nat_inj: "length xs = length ys \<Longrightarrow> be_nat xs = be_nat ys \<longleftrightarrow> xs = ys"
proof (induction xs arbitrary: ys rule: rev_induct)
  case (snoc x xs)
  then obtain y ys' where ys: "ys = ys' @ [y]" by (cases ys rule: rev_cases) auto
  have e: "be_nat (zs @ [z]) = be_nat zs * 256 + unat z" for zs z by (simp add: be_nat_def)
  have "be_nat xs * 256 + unat x = be_nat ys' * 256 + unat y \<longleftrightarrow> be_nat xs = be_nat ys' \<and> unat x = unat y"
  proof
    assume eq: "be_nat xs * 256 + unat x = be_nat ys' * 256 + unat y"
    have "(be_nat xs * 256 + unat x) mod 256 = (be_nat ys' * 256 + unat y) mod 256" unfolding eq ..
    then have "unat x = unat y" using unat_u8_less [of x] unat_u8_less [of y] by simp
    then show "be_nat xs = be_nat ys' \<and> unat x = unat y" using eq by simp
  qed simp
  then show ?case using snoc ys by (simp add: e word_unat_eq_iff)
qed simp

lemma UNPACK32_bytes:
  "UNPACK32 (shl (ucast b0) 24 OR shl (ucast b1) 16 OR shl (ucast b2) 8 OR shl (ucast b3) 0) = [b0, b1, b2, b3]"
  unfolding UNPACK32_def list.inject u8_bitwise by (intro conjI refl) (simp_all add: bit_simps)

lemma words_of_be_Suc:
  "words_of_be (Suc k) bs =
    (shl (ucast (bs ! (k * 4 + 0))) 24 OR shl (ucast (bs ! (k * 4 + 1))) 16 OR
     shl (ucast (bs ! (k * 4 + 2))) 8 OR shl (ucast (bs ! (k * 4 + 3))) 0) # words_of_be k bs"
  unfolding words_of_be_def by (simp add: map_upt_Suc del: upt_Suc)

lemma length_words_of_be [simp]: "length (words_of_be k bs) = k"
  by (simp add: words_of_be_def)

lemma val_words_of_be: "4 * k \<le> length bs \<Longrightarrow> val (words_of_be k bs) = be_nat (take (4 * k) bs)"
proof (induction k)
  case 0
  then show ?case by (simp add: words_of_be_def be_nat_def)
next
  case (Suc k)
  let ?q = "[bs ! (k * 4 + 0), bs ! (k * 4 + 1), bs ! (k * 4 + 2), bs ! (k * 4 + 3)]"
  have "take (4 * Suc k) bs = take (4 * k) bs @ ?q"
    using Suc.prems by (simp add: eval_nat_numeral take_Suc_conv_app_nth mult.commute)
  then have "be_nat (take (4 * Suc k) bs) = be_nat (take (4 * k) bs) * W + be_nat ?q"
    by (simp only: be_nat_append) simp
  then show ?case
    using Suc be_nat_UNPACK32 [of "hd (words_of_be (Suc k) bs)"]
    by (simp add: words_of_be_Suc UNPACK32_bytes [simplified])
qed

lemma be_of_words:
  "length (be_of_words ws) = 4 * length ws \<and> be_nat (be_of_words ws) = val ws"
proof (induction ws)
  case (Cons w ws)
  have "be_of_words (w # ws) = be_of_words ws @ UNPACK32 w" by (simp add: be_of_words_def UNPACK32_def)
  then show ?case using Cons by (simp add: be_nat_append be_nat_UNPACK32)
qed (simp add: be_of_words_def be_nat_def)

lemma mod_cancel:
  assumes "coprime p m" and "p * x mod m = p * y mod (m :: nat)"
  shows "x mod m = y mod m"
proof -
  have "int (p * x) mod int m = int (p * y) mod int m" using assms(2) by (simp only: zmod_int [symmetric])
  then have "int m dvd int p * (int x - int y)" by (simp add: mod_eq_dvd_iff right_diff_distrib)
  moreover have "coprime (int m) (int p)" using assms(1) by (simp add: coprime_commute)
  ultimately have "int m dvd int x - int y" by (simp add: coprime_dvd_mult_right_iff)
  then have "int x mod int m = int y mod int m" by (simp add: mod_eq_dvd_iff)
  then show ?thesis by (simp only: zmod_int [symmetric] of_nat_eq_iff)
qed

lemma rsa_coprime:
  assumes "rsa_key_ok key"
  shows "coprime (W ^ words key) (modulus key)"
proof -
  obtain m0 ms where m: "pk_n key = m0 # ms" and i: "pk_n0inv key * m0 = - 1"
    using assms by (cases "pk_n key") (auto simp: rsa_key_ok_def Let_def)
  have "odd m0"
  proof
    assume "even m0"
    then have "even (pk_n0inv key * m0)" by simp
    then show False unfolding i by simp
  qed
  then have "odd (unat m0)" by (simp add: bit_unsigned_iff flip: bit_0)
  then have "odd (modulus key)" by (simp add: m)
  then have "coprime 2 (modulus key)" by simp
  then show ?thesis by (simp only: coprime_power_left_iff simp_thms)
qed

text \<open>An array holds \<^verbatim>\<open>p\<close> in Montgomery form.\<close>

definition mont :: "vb2_public_key \<Rightarrow> u32 list \<Rightarrow> nat \<Rightarrow> bool" where
  "mont key u p \<longleftrightarrow> length u = words key \<and> val u mod modulus key = p * W ^ words key mod modulus key"

lemma mont_square:
  assumes ok: "rsa_key_ok key" and u: "mont key u p"
  shows "mont key (montMul key u u) (p * p)"
proof -
  let ?N = "modulus key" and ?R = "W ^ words key"
  have "length u = words key" using u by (simp add: mont_def)
  note m = montMul_val [OF ok this this]
  have "?R * val (montMul key u u) mod ?N = val u * val u mod ?N" using m by blast
  also have "\<dots> = (p * ?R) * (p * ?R) mod ?N" using u unfolding mont_def by (metis mod_mult_eq)
  also have "(p * ?R) * (p * ?R) = ?R * (p * p * ?R)" by (simp only: ac_simps)
  finally have "val (montMul key u u) mod ?N = p * p * ?R mod ?N" by (rule mod_cancel [OF rsa_coprime [OF ok]])
  with m show ?thesis unfolding mont_def by blast
qed

lemma mont_powers:
  assumes ok: "rsa_key_ok key" and u: "mont key u p"
  shows "mont key (foldl (\<lambda>aR (i :: nat). let aaR = montMul key aR aR in montMul key aaR aaR) u is) (p ^ 4 ^ length is)"
  using u
proof (induction "is" arbitrary: u p)
  case (Cons i "is")
  have "mont key (montMul key (montMul key u u) (montMul key u u)) (p * p * (p * p))"
    by (intro mont_square [OF ok]) (rule Cons.prems)
  from Cons.IH [OF this] show ?case
    by (simp add: Let_def power_mult power4_eq_xxxx mult.assoc)
qed simp

lemma reduced:
  assumes ok: "rsa_key_ok key" and len: "length u = words key"
  defines "r \<equiv> if vb2_mont_ge key u then subM key u else u"
  shows "val r = val u mod modulus key \<and> length r = words key"
proof -
  let ?N = "modulus key" and ?R = "W ^ words key"
  have n: "length (pk_n key) = words key" and R: "?R \<le> 2 * ?N" using ok by (simp_all add: rsa_key_ok_def Let_def)
  have u: "val u < ?R" using val_less [of u] len by simp
  show ?thesis
  proof (cases "?N \<le> val u")
    case True
    have "int (val (subM key u)) = (int (val u) - int ?N) mod int ?R" "length (subM key u) = words key"
      using subM_val [OF n len] by blast+
    moreover have "(int (val u) - int ?N) mod int ?R = int (val u) - int ?N"
      using True u by (intro mod_pos_pos_trivial) linarith+
    moreover have "val u mod ?N = val u - ?N"
      using True u R by (simp add: le_mod_geq)
    moreover have "r = subM key u" using True vb2_mont_ge_val [OF n len] by (simp add: r_def)
    ultimately show ?thesis using True by (simp add: of_nat_diff [symmetric] del: of_nat_diff)
  next
    case False
    then show ?thesis using vb2_mont_ge_val [OF n len] len by (simp add: r_def)
  qed
qed

lemma modpowF4_val:
  assumes ok: "rsa_key_ok key" and len: "4 * words key \<le> length inout"
  shows "be_nat (take (4 * words key) (modpowF4 key inout)) =
      be_nat (take (4 * words key) inout) ^ 65537 mod modulus key \<and>
    length (modpowF4 key inout) = length inout"
proof -
  let ?k = "words key"
  let ?N = "modulus key" and ?R = "W ^ ?k"
  let ?a = "words_of_be ?k inout"
  have n: "length (pk_n key) = ?k" "length (pk_rr key) = ?k" and R: "?R \<le> 2 * ?N"
    and rr: "val (pk_rr key) mod ?N = ?R * ?R mod ?N"
    using ok by (simp_all add: rsa_key_ok_def Let_def)
  let ?aR0 = "montMul key ?a (pk_rr key)"
  have m0: "length ?aR0 = ?k" "?R * val ?aR0 mod ?N = val ?a * val (pk_rr key) mod ?N"
    using montMul_val [OF ok length_words_of_be n(2)] by blast+
  have "?R * val ?aR0 mod ?N = val ?a * (?R * ?R) mod ?N" unfolding m0(2) by (rule mod_mult_cong_right [OF rr])
  also have "val ?a * (?R * ?R) = ?R * (val ?a * ?R)" by (simp only: ac_simps)
  finally have "mont key ?aR0 (val ?a)"
    unfolding mont_def using m0(1) mod_cancel [OF rsa_coprime [OF ok]] by blast
  note pw = mont_powers [OF ok this, of "[0, 2, 4, 6, 8, 10, 12, 14]"]
  have e: "4 ^ length [0, 2, 4, 6, 8, 10, 12, 14 :: nat] = (65536 :: nat)" by simp
  obtain aR where aR: "aR = foldl (\<lambda>aR (i :: nat). let aaR = montMul key aR aR in montMul key aaR aaR) ?aR0 [0, 2, 4, 6, 8, 10, 12, 14]"
    and maR: "mont key aR (val ?a ^ 65536)" using pw unfolding e by blast
  let ?aaa = "montMul key aR ?a"
  have laR: "length aR = ?k" and vaR: "val aR mod ?N = val ?a ^ 65536 * ?R mod ?N" using maR unfolding mont_def by blast+
  have m1: "length ?aaa = ?k" "?R * val ?aaa mod ?N = val aR * val ?a mod ?N"
    using montMul_val [OF ok laR length_words_of_be] by blast+
  have "?R * val ?aaa mod ?N = val ?a ^ 65536 * ?R * val ?a mod ?N"
    unfolding m1(2) by (rule mod_mult_cong [OF vaR refl])
  also have "val ?a ^ 65536 * ?R * val ?a = ?R * (val ?a ^ 65537)"
  proof -
    have "(65537 :: nat) = Suc 65536" by simp
    then show ?thesis by (simp only: power_Suc2 ac_simps)
  qed
  finally have pow: "val ?aaa mod ?N = val ?a ^ 65537 mod ?N" by (rule mod_cancel [OF rsa_coprime [OF ok]])
  let ?r = "if vb2_mont_ge key ?aaa then subM key ?aaa else ?aaa"
  have r: "val ?r = val ?aaa mod ?N" "length ?r = ?k"
    using reduced [OF ok m1(1)] by blast+
  have out: "modpowF4 key inout = be_of_words ?r @ drop (4 * ?k) inout"
    unfolding modpowF4_def aR Let_def ..
  have lo: "length (be_of_words ?r) = 4 * ?k" and bn: "be_nat (be_of_words ?r) = val ?r"
    using be_of_words [of ?r] unfolding r(2) by blast+
  have "take (4 * ?k) (modpowF4 key inout) = be_of_words ?r" "length (modpowF4 key inout) = length inout"
    unfolding out using lo len by simp_all
  then show ?thesis unfolding val_words_of_be [OF len, symmetric] using bn r(1) pow by (simp only: simp_thms)
qed

lemma modpowF4_full:
  assumes "rsa_key_ok key" and "length inout = 4 * words key"
  shows "be_nat (modpowF4 key inout) = be_nat inout ^ 65537 mod modulus key"
    and "length (modpowF4 key inout) = length inout"
proof -
  have v: "be_nat (take (4 * words key) (modpowF4 key inout)) =
      be_nat (take (4 * words key) inout) ^ 65537 mod modulus key"
    and l: "length (modpowF4 key inout) = length inout"
    using modpowF4_val [OF assms(1), of inout] assms(2) by auto
  have "take (4 * words key) (modpowF4 key inout) = modpowF4 key inout" "take (4 * words key) inout = inout"
    using l assms(2) by simp_all
  then show "be_nat (modpowF4 key inout) = be_nat inout ^ 65537 mod modulus key" using v by (simp only:)
  show "length (modpowF4 key inout) = length inout" by (rule l)
qed

section \<open>Padding\<close>

text \<open>The encoded message of PKCS 1.5 in \<^verbatim>\<open>sz\<close> bytes; the tail starts with the zero byte that ends the padding.\<close>

definition pkcs1_pad :: "nat \<Rightarrow> vb2_hash_algorithm \<Rightarrow> bytes" where
  "pkcs1_pad sz alg = (case padding_tail alg of
       None \<Rightarrow> []
     | Some tail \<Rightarrow> [0x00, 0x01] @ replicate (sz - unat (vb2_digest_size alg) - length tail - 2) 0xff @ tail)"

lemma ucast_xor_0: "ucast (x XOR y :: u8) = (0 :: u32) \<longleftrightarrow> x = y"
proof -
  have "ucast (x XOR y :: u8) = (0 :: u32) \<longleftrightarrow> x XOR y = 0" by (simp add: word_unat_eq_iff)
  then show ?thesis by (simp add: xor_eq_0_iff)
qed

lemma foldl_or_eq_0:
  "foldl (\<lambda>r i. r OR f i) (r :: u32) is = 0 \<longleftrightarrow> r = 0 \<and> (\<forall>i \<in> set is. f i = 0)"
  by (induction "is" arbitrary: r) (auto simp: or_eq_0_iff)

lemma padding_words:
  assumes "vb2_rsa_sig_size alg \<noteq> 0" and "padding_tail h = Some tail"
  shows "unat (vb2_rsa_sig_size alg - vb2_digest_size h - of_nat (length tail) - 2) =
      unat (vb2_rsa_sig_size alg) - unat (vb2_digest_size h) - length tail - 2"
    and "unat (vb2_digest_size h) + length tail + 2 \<le> unat (vb2_rsa_sig_size alg)"
    and "unat (of_nat (length tail) :: u32) = length tail"
    and "0 < vb2_digest_size h" and "vb2_digest_size h \<le> vb2_rsa_sig_size alg"
  using assms by (cases alg; cases h; auto simp: padding_tail_def sha1_tail_def sha256_tail_def sha512_tail_def)+

lemma vb2_check_padding_eq:
  assumes "vb2_rsa_sig_size (pk_sig_alg key) \<noteq> 0" and "pk_hash_alg key \<noteq> VB2_HASH_INVALID"
    and "unat (vb2_rsa_sig_size (pk_sig_alg key)) \<le> length sig"
  defines "sz \<equiv> unat (vb2_rsa_sig_size (pk_sig_alg key))"
  shows "vb2_check_padding sig key =
    (if take (sz - unat (vb2_digest_size (pk_hash_alg key))) sig = pkcs1_pad sz (pk_hash_alg key)
     then VB2_SUCCESS else VB2_ERROR_RSA_PADDING)"
proof -
  let ?h = "pk_hash_alg key" and ?alg = "pk_sig_alg key"
  obtain tail where tail: "padding_tail ?h = Some tail"
    using assms(2) by (cases ?h) (auto simp: padding_tail_def)
  note w = padding_words [OF assms(1) tail]
  define m where "m = sz - unat (vb2_digest_size ?h) - length tail - 2"
  have fit: "m + 2 + length tail \<le> length sig" and pad: "sz - unat (vb2_digest_size ?h) = Suc (Suc (m + length tail))"
    using w(2) assms(3) unfolding m_def sz_def by linarith+
  obtain x y s where s: "sig = x # y # s" using fit by (cases sig; cases "tl sig") auto
  have ff: "(\<forall>i \<in> set [0..<m]. sig ! (2 + i) = 0xff) \<longleftrightarrow> take m s = replicate m 0xff"
    using fit by (auto simp: s ucast_xor_0 list_eq_iff_nth_eq)
  have mc: "vb2_safe_memcmp (drop (2 + m) sig) tail (unat (of_nat (length tail) :: u32)) = 0 \<longleftrightarrow>
      take (length tail) (drop m s) = tail"
    using fit by (simp add: w(3) safe_memcmp_eq s)
  have "take (sz - unat (vb2_digest_size ?h)) sig = x # y # take m s @ take (length tail) (drop m s)"
    unfolding pad s by (simp add: take_add)
  moreover have "pkcs1_pad sz ?h = 0 # 1 # replicate m 0xff @ tail"
    by (simp add: pkcs1_pad_def tail m_def)
  moreover have "length (take m s) = m" using fit s by simp
  ultimately have eq: "take (sz - unat (vb2_digest_size ?h)) sig = pkcs1_pad sz ?h \<longleftrightarrow>
      x = 0 \<and> y = 1 \<and> take m s = replicate m 0xff \<and> take (length tail) (drop m s) = tail"
    by (simp add: append_eq_append_conv)
  have "\<not> (vb2_rsa_sig_size ?alg = 0 \<or> vb2_digest_size ?h = 0 \<or> vb2_digest_size ?h > vb2_rsa_sig_size ?alg)"
    using w(4,5) assms(1) by auto
  moreover have "unat (vb2_rsa_sig_size ?alg - vb2_digest_size ?h - of_nat (length tail) - 2) = m"
    unfolding m_def sz_def by (rule w(1))
  moreover have "sig ! 0 = x" "sig ! 1 = y" by (simp_all add: s)
  ultimately show ?thesis
    unfolding vb2_check_padding_def Let_def tail option.case eq
    by (simp only: if_False or_eq_0_iff foldl_or_eq_0 ff mc ucast_xor_0 simp_thms if_distrib [of Not] not_not
        if_not_P conj_assoc) auto
qed

section \<open>Verification\<close>

definition pkcs1_encode :: "nat \<Rightarrow> vb2_hash_algorithm \<Rightarrow> bytes \<Rightarrow> bytes" where
  "pkcs1_encode sz alg digest = pkcs1_pad sz alg @ digest"

text \<open>The signature equation: raised to the public exponent, the signature is the encoded digest.\<close>

definition rsa_signs :: "vb2_public_key \<Rightarrow> bytes \<Rightarrow> bytes \<Rightarrow> bool" where
  "rsa_signs key sig digest \<longleftrightarrow>
     be_nat sig ^ 65537 mod modulus key = be_nat (pkcs1_encode (length sig) (pk_hash_alg key) digest)"

text \<open>A key whose arrays have the size its algorithm asks for.\<close>

definition rsa_key_sized :: "vb2_public_key \<Rightarrow> bool" where
  "rsa_key_sized key \<longleftrightarrow> rsa_key_ok key \<and> pk_hash_alg key \<noteq> VB2_HASH_INVALID \<and>
     4 * words key = unat (vb2_rsa_sig_size (pk_sig_alg key))"

lemma sig_size_bound: "unat (vb2_rsa_sig_size alg) \<le> 1024"
  by (cases alg) simp_all

lemma rsa_key_sized_bytes:
  assumes "rsa_key_sized key"
  shows "pk_arrsize key * 4 = vb2_rsa_sig_size (pk_sig_alg key)" and "vb2_rsa_sig_size (pk_sig_alg key) \<noteq> 0"
proof -
  have u: "4 * words key = unat (vb2_rsa_sig_size (pk_sig_alg key))" "0 < words key"
    using assms by (simp_all add: rsa_key_sized_def rsa_key_ok_def Let_def)
  have "unat (pk_arrsize key * 4) = unat (vb2_rsa_sig_size (pk_sig_alg key))"
    using u(1) sig_size_bound [of "pk_sig_alg key"] by (simp add: unat_word_ariths)
  then show "pk_arrsize key * 4 = vb2_rsa_sig_size (pk_sig_alg key)" by (rule word_unat_eq_iff [THEN iffD2])
  show "vb2_rsa_sig_size (pk_sig_alg key) \<noteq> 0" using u by auto
qed

lemma length_pkcs1_pad:
  assumes "vb2_rsa_sig_size alg \<noteq> 0" and "h \<noteq> VB2_HASH_INVALID"
  shows "length (pkcs1_pad (unat (vb2_rsa_sig_size alg)) h) + unat (vb2_digest_size h) = unat (vb2_rsa_sig_size alg)"
proof -
  obtain tail where tail: "padding_tail h = Some tail" using assms(2) by (cases h) (auto simp: padding_tail_def)
  show ?thesis using padding_words(2) [OF assms(1) tail] by (simp add: pkcs1_pad_def tail)
qed

lemma rsa_verify_digest_eq:
  assumes "rsa_key_sized key" and "length sig = 4 * words key"
    and "length digest = unat (vb2_digest_size (pk_hash_alg key))"
    and "fst (vb2_workbuf_alloc wb (3 * vb2_rsa_sig_size (pk_sig_alg key))) \<noteq> 0"
  shows "fst (vb2_rsa_verify_digest key sig digest wb) = VB2_SUCCESS \<longleftrightarrow> rsa_signs key sig digest"
    and "snd (vb2_rsa_verify_digest key sig digest wb) = modpowF4 key sig"
proof -
  let ?sz = "vb2_rsa_sig_size (pk_sig_alg key)" and ?h = "pk_hash_alg key"
  let ?em = "modpowF4 key sig" and ?pad = "unat ?sz - unat (vb2_digest_size ?h)"
  have h: "?h \<noteq> VB2_HASH_INVALID" and u: "4 * words key = unat ?sz" and ok: "rsa_key_ok key"
    using assms(1) by (simp_all add: rsa_key_sized_def)
  note b = rsa_key_sized_bytes [OF assms(1)]
  note lp = length_pkcs1_pad [OF b(2) h]
  have em: "length ?em = unat ?sz" "be_nat ?em = be_nat sig ^ 65537 mod modulus key"
    using modpowF4_full [OF ok assms(2)] assms(2) u by (simp_all only:)
  have pw: "unat (?sz - vb2_digest_size ?h) = ?pad" "unat (?sz - (?sz - vb2_digest_size ?h)) = unat (vb2_digest_size ?h)"
    using lp by (subst unat_sub; simp add: word_le_nat_alt)+
  have cmp: "vb2_safe_memcmp (drop ?pad ?em) digest (unat (vb2_digest_size ?h)) \<noteq> 0 \<longleftrightarrow> drop ?pad ?em \<noteq> digest"
    using assms(3) em(1) lp by (simp add: safe_memcmp_eq)
  have split: "?em = pkcs1_encode (unat ?sz) ?h digest \<longleftrightarrow>
      take ?pad ?em = pkcs1_pad (unat ?sz) ?h \<and> drop ?pad ?em = digest"
    unfolding pkcs1_encode_def using lp by (metis append_eq_conv_conj append_take_drop_id diff_add_inverse2)
  have signs: "rsa_signs key sig digest \<longleftrightarrow> ?em = pkcs1_encode (unat ?sz) ?h digest"
    unfolding rsa_signs_def em(2) [symmetric] assms(2) u
    by (rule be_nat_inj) (simp add: em(1) pkcs1_encode_def assms(3) lp)
  have run: "vb2_rsa_verify_digest key sig digest wb =
      (if take ?pad ?em = pkcs1_pad (unat ?sz) ?h
       then (if drop ?pad ?em \<noteq> digest then VB2_ERROR_RSA_VERIFY_DIGEST else VB2_SUCCESS, ?em)
       else (VB2_ERROR_RSA_PADDING, ?em))"
    unfolding vb2_rsa_verify_digest_def Let_def b(1) case_prod_beta
    using b(2) assms(4) em(1) h by (simp add: vb2_check_padding_eq pw cmp)
  show "fst (vb2_rsa_verify_digest key sig digest wb) = VB2_SUCCESS \<longleftrightarrow> rsa_signs key sig digest"
    unfolding run signs split by simp
  show "snd (vb2_rsa_verify_digest key sig digest wb) = modpowF4 key sig" unfolding run by simp
qed

text \<open>The sizes of the arrays, which do not depend on what is in the key.\<close>

lemma length_montMulAdd_loop:
  "length bs = length cs \<Longrightarrow> length cs = length ms \<Longrightarrow> length (fst (montMulAdd_loop a d0 A B bs cs ms)) = length bs"
  by (induction a d0 A B bs cs ms rule: montMulAdd_loop.induct) (auto simp: Let_def split: prod.split)

lemma length_montMul:
  assumes "length (pk_n key) = words key" and "length b = words key" and "0 < words key"
  shows "length (montMul key a b) = words key"
proof -
  have step: "length (montMulAdd key c x b) = words key" if "length c = words key" for c x
    using length_montMulAdd_loop [of "drop 1 b" "drop 1 c" "drop 1 (pk_n key)"] assms that
    by (auto simp: montMulAdd_def Let_def subM_val case_prod_beta)
  have "length (foldl (\<lambda>c i. montMulAdd key c (a ! i) b) c is) = words key" if "length c = words key" for c "is"
    using that by (induction "is" arbitrary: c) (simp_all add: step)
  then show ?thesis by (simp add: montMul_def)
qed

lemma length_modpowF4:
  assumes "length (pk_n key) = words key" and "length (pk_rr key) = words key" and "0 < words key"
    and "4 * words key \<le> length inout"
  shows "length (modpowF4 key inout) = length inout"
proof -
  note l = length_montMul [OF assms(1) _ assms(3)]
  define aR where "aR = foldl (\<lambda>aR (i :: nat). montMul key (montMul key aR aR) (montMul key aR aR))
    (montMul key (words_of_be (words key) inout) (pk_rr key)) [0, 2, 4, 6, 8, 10, 12, 14]"
  define aaa where "aaa = montMul key aR (words_of_be (words key) inout)"
  have "length aaa = words key" unfolding aaa_def by (rule l) simp
  then show ?thesis
    unfolding modpowF4_def Let_def aR_def [symmetric] aaa_def [symmetric]
    using assms(4) by (simp add: subM_val [OF assms(1)] be_of_words)
qed

lemma length_rsa_verify_digest:
  assumes "length (pk_n key) = words key" and "length (pk_rr key) = words key" and "0 < words key"
    and "4 * words key \<le> length sig"
  shows "length (snd (vb2_rsa_verify_digest key sig digest wb)) = length sig"
  using length_modpowF4 [OF assms] by (simp add: vb2_rsa_verify_digest_def Let_def case_prod_beta)

text \<open>
  C14. modpowF4(): for a key as the pre-processing documents it, the result is the number in the
  buffer raised to 65537, modulo the key, and the buffer keeps its size.\<close>

theorem modpowF4_correct:
  assumes "rsa_key_ok key" and "length inout = 4 * words key"
  shows "be_nat (modpowF4 key inout) = be_nat inout ^ 65537 mod val (pk_n key) \<and>
    length (modpowF4 key inout) = length inout"
  using modpowF4_full [OF assms] by blast

text \<open>
  C13. vb2_rsa_verify_digest() accepts a signature exactly when, raised to 65537 modulo the key, it is
  the PKCS 1.5 encoding of the digest.\<close>

theorem vb2_rsa_verify_digest_correct:
  assumes "rsa_key_sized key" and "length sig = 4 * words key"
    and "length digest = unat (vb2_digest_size (pk_hash_alg key))"
    and "fst (vb2_workbuf_alloc wb (3 * vb2_rsa_sig_size (pk_sig_alg key))) \<noteq> 0"
  shows "fst (vb2_rsa_verify_digest key sig digest wb) = VB2_SUCCESS \<longleftrightarrow>
    be_nat sig ^ 65537 mod val (pk_n key) =
      be_nat (pkcs1_pad (length sig) (pk_hash_alg key) @ digest)"
  using rsa_verify_digest_eq(1) [OF assms] by (simp add: rsa_signs_def pkcs1_encode_def)

text \<open>The modulus 2^1024 - 1, for which \<^verbatim>\<open>n0inv\<close> and \<^verbatim>\<open>rr\<close> are 1.\<close>

definition demo_key :: vb2_public_key where
  "demo_key = \<lparr>pk_arrsize = 32, pk_n0inv = 1, pk_n = replicate 32 0xffffffff, pk_rr = 1 # replicate 31 0,
     pk_sig_alg = VB2_SIG_RSA1024, pk_hash_alg = VB2_HASH_SHA1\<rparr>"

lemma val_replicate_ones: "val (replicate k 0xffffffff) = W ^ k - 1"
proof (induction k)
  case (Suc k)
  have "unat (0xffffffff :: u32) = W - 1" by (simp add: take_bit_eq_mod)
  moreover obtain y where "W ^ k = Suc y" using gr0_implies_Suc [of "W ^ k"] by auto
  ultimately show ?case using Suc by (simp only: replicate_Suc val.simps power_Suc) simp
qed simp

lemma square_mod_pred: "Suc m * Suc m mod m = 1 mod m"
proof -
  have "Suc m * Suc m = 1 + (m + 2) * m" by simp
  then show ?thesis by (simp only: mod_mult_self1)
qed

lemma demo_key_sized: "rsa_key_sized demo_key"
proof -
  have f: "words demo_key = 32" "pk_n demo_key = replicate 32 0xffffffff" "pk_rr demo_key = 1 # replicate 31 0"
    "pk_n0inv demo_key = 1" "pk_sig_alg demo_key = VB2_SIG_RSA1024" "pk_hash_alg demo_key = VB2_HASH_SHA1"
    by (simp_all add: demo_key_def)
  define R where "R = W ^ 32"
  have v: "val (pk_n demo_key) = R - 1" "val (pk_rr demo_key) = 1"
    unfolding f val_replicate_ones val.simps val_replicate_0 R_def by simp_all
  have "2 \<le> R" by (simp add: R_def)
  moreover from this have "R * R mod (R - 1) = 1 mod (R - 1)"
    using square_mod_pred [of "R - 1"] by simp
  ultimately have "rsa_key_ok demo_key"
    unfolding rsa_key_ok_def Let_def v f(1) R_def [symmetric] by (simp add: f)
  then show ?thesis by (simp add: rsa_key_sized_def f)
qed

definition demo_wb :: vb2_workbuf where
  "demo_wb = \<lparr>wb_buf = 0x1000, wb_size = 0x4000\<rparr>"

theorem modpowF4_correct_witness:
  "rsa_key_ok demo_key \<and> length (replicate 128 0 :: bytes) = 4 * words demo_key \<and>
   be_nat (modpowF4 demo_key (replicate 128 0)) = be_nat (replicate 128 0) ^ 65537 mod val (pk_n demo_key)"
  using modpowF4_correct [of demo_key "replicate 128 0"] demo_key_sized
  by (simp add: rsa_key_sized_def) (simp add: demo_key_def)

theorem vb2_rsa_verify_digest_correct_witness:
  "rsa_key_sized demo_key \<and>
   fst (vb2_rsa_verify_digest demo_key (replicate 128 0) (replicate 20 0) demo_wb) \<noteq> VB2_SUCCESS"
proof -
  have "be_nat (replicate k 0) = 0" for k by (induction k) (simp_all add: be_nat_def)
  moreover have "be_nat (replicate 128 0) = be_nat (pkcs1_pad 128 VB2_HASH_SHA1 @ replicate 20 0) \<longleftrightarrow>
      replicate 128 0 = pkcs1_pad 128 VB2_HASH_SHA1 @ replicate 20 0"
    using length_pkcs1_pad [of VB2_SIG_RSA1024 VB2_HASH_SHA1] by (intro be_nat_inj) simp
  moreover have "replicate 128 0 \<noteq> pkcs1_pad 128 VB2_HASH_SHA1 @ replicate 20 0"
    by (auto simp: pkcs1_pad_def padding_tail_def eval_nat_numeral)
  moreover have "fst (vb2_workbuf_alloc demo_wb (3 * vb2_rsa_sig_size (pk_sig_alg demo_key))) \<noteq> 0"
    by (simp add: demo_key_def demo_wb_def vb2_workbuf_alloc_def wb_round_up_def)
  ultimately show ?thesis
    using vb2_rsa_verify_digest_correct [of demo_key "replicate 128 0" "replicate 20 0" demo_wb] demo_key_sized
    by (auto simp: demo_key_def zero_power)
qed

end
