(* ===== verification/Memory.thy ===== *)
theory Memory
  imports Vb2_Prelude
begin

text \<open>
  Memory as the verification code uses it: a byte for every 64-bit address.  Structures in the work
  buffer are read and written through little-endian fields at their offsets.
\<close>

type_synonym mem = "u64 \<Rightarrow> u8"

definition rdbytes :: "mem \<Rightarrow> u64 \<Rightarrow> nat \<Rightarrow> bytes" where
  "rdbytes m a k = map (\<lambda>i. m (a + of_nat i)) [0..<k]"

definition wrbytes :: "mem \<Rightarrow> u64 \<Rightarrow> bytes \<Rightarrow> mem" where
  "wrbytes m a bs = (\<lambda>x. if unat (x - a) < length bs then bs ! unat (x - a) else m x)"

definition rdm32 :: "mem \<Rightarrow> u64 \<Rightarrow> u32" where
  "rdm32 m a = rd32 (rdbytes m a 4) 0"

definition rdm64 :: "mem \<Rightarrow> u64 \<Rightarrow> u64" where
  "rdm64 m a = ucast (rdm32 m a) OR shl (ucast (rdm32 m (a + 4))) 32"

definition le32_bytes :: "u32 \<Rightarrow> bytes" where
  "le32_bytes v = [ucast v, ucast (shr v 8), ucast (shr v 16), ucast (shr v 24)]"

definition wrm32 :: "mem \<Rightarrow> u64 \<Rightarrow> u32 \<Rightarrow> mem" where
  "wrm32 m a v = wrbytes m a (le32_bytes v)"

section \<open>Reading and writing\<close>

lemma length_rdbytes [simp]: "length (rdbytes m a k) = k"
  by (simp add: rdbytes_def)

lemma nth_rdbytes [simp]: "i < k \<Longrightarrow> rdbytes m a k ! i = m (a + of_nat i)"
  by (simp add: rdbytes_def)

lemma take_rdbytes: "j \<le> k \<Longrightarrow> take j (rdbytes m a k) = rdbytes m a j"
  by (rule nth_equalityI) simp_all

lemma drop_rdbytes: "drop j (rdbytes m a k) = rdbytes m (a + of_nat j) (k - j)"
  by (rule nth_equalityI) (simp_all add: add.assoc)

lemma rdbytes_cong:
  "(\<And>i. i < k \<Longrightarrow> m (a + of_nat i) = m' (a + of_nat i)) \<Longrightarrow> rdbytes m a k = rdbytes m' a k"
  by (simp add: rdbytes_def)

lemma unat_of_nat_64: "k < 2 ^ 64 \<Longrightarrow> unat (of_nat k :: u64) = k"
  by (simp add: unat_of_nat)

lemma rdbytes_wrbytes_same:
  assumes "length bs \<le> 2 ^ 64"
  shows "rdbytes (wrbytes m a bs) a (length bs) = bs"
proof (rule nth_equalityI)
  fix i assume "i < length (rdbytes (wrbytes m a bs) a (length bs))"
  then have "i < length bs" "unat (of_nat i :: u64) = i" using assms by (simp_all add: unat_of_nat_64)
  then show "rdbytes (wrbytes m a bs) a (length bs) ! i = bs ! i" by (simp add: wrbytes_def)
qed simp

text \<open>Areas of memory that do not wrap around, as intervals of numbers.\<close>

definition area :: "u64 \<Rightarrow> nat \<Rightarrow> nat set" where
  "area a k = {unat a..<unat a + k}"

lemma in_area: "unat x \<in> area a k \<longleftrightarrow> unat a \<le> unat x \<and> unat (x - a) < k"
proof (cases "unat a \<le> unat x")
  case True
  then have "unat (x - a) = unat x - unat a" by (simp add: unat_sub word_le_nat_alt)
  then show ?thesis using True by (auto simp: area_def)
qed (auto simp: area_def)

lemma wrbytes_outside:
  assumes "unat x \<notin> area a (length bs)" and "unat a + length bs \<le> 2 ^ 64"
  shows "wrbytes m a bs x = m x"
proof -
  have "length bs \<le> unat (x - a)"
  proof (cases "unat a \<le> unat x")
    case True
    then show ?thesis using assms(1) in_area [of x a "length bs"] by simp
  next
    case False
    then have "unat (x - a) = 2 ^ 64 + unat x - unat a"
      by (simp add: unat_sub_if' not_le)
    then show ?thesis using assms(2) False by linarith
  qed
  then show ?thesis by (simp add: wrbytes_def)
qed

lemma unat_plus_offset: "unat (a :: u64) + k < 2 ^ 64 \<Longrightarrow> unat (a + of_nat k) = unat a + k"
  by (simp add: unat_word_ariths unat_of_nat)

lemma rdbytes_wrbytes_disjoint:
  assumes "area a k \<inter> area b (length bs) = {}" and "unat a + k \<le> 2 ^ 64" and "unat b + length bs \<le> 2 ^ 64"
  shows "rdbytes (wrbytes m b bs) a k = rdbytes m a k"
proof (rule rdbytes_cong)
  fix i assume i: "i < k"
  then have "unat (a + of_nat i) = unat a + i" using assms(2) by (intro unat_plus_offset) simp
  then have "unat (a + of_nat i) \<in> area a k" using i by (simp add: area_def)
  then show "wrbytes m b bs (a + of_nat i) = m (a + of_nat i)"
    using assms(1,3) by (intro wrbytes_outside) auto
qed

lemma rdm32_rdbytes: "i + 4 \<le> k \<Longrightarrow> rdm32 m (a + of_nat i) = rd32 (rdbytes m a k) i"
  by (simp add: rdm32_def rd32_def algebra_simps)

lemma rdm32_wrbytes:
  assumes "i + 4 \<le> length bs" and "length bs \<le> 2 ^ 64"
  shows "rdm32 (wrbytes m a bs) (a + of_nat i) = rd32 bs i"
  using rdm32_rdbytes [OF assms(1), of "wrbytes m a bs" a] by (simp add: rdbytes_wrbytes_same [OF assms(2)])

end
