(* ===== verification/Keyblock.thy ===== *)
theory Keyblock
  imports Rsa_Correct Memory
begin

text \<open>
  Packed keys, signatures, keyblocks and firmware preambles: \<^verbatim>\<open>firmware/lib20/common.c\<close> and
  \<^verbatim>\<open>firmware/lib20/packed_key.c\<close>.  The structures live in memory and are read through the offsets of
  their fields (\<^verbatim>\<open>vb2_struct.h\<close>).  The contexts and scratch arrays that verification puts in the free
  part of the work buffer are not kept in memory: nothing reads them afterwards.
\<close>

section \<open>Structures\<close>

abbreviation (input) SIZEOF_PACKED_KEY :: nat where "SIZEOF_PACKED_KEY \<equiv> 32"
definition key_offset :: "mem \<Rightarrow> u64 \<Rightarrow> u32" where "key_offset m key = rdm32 m (key + 0)"
definition key_size :: "mem \<Rightarrow> u64 \<Rightarrow> u32" where "key_size m key = rdm32 m (key + 8)"
definition key_algorithm :: "mem \<Rightarrow> u64 \<Rightarrow> u32" where "key_algorithm m key = rdm32 m (key + 16)"
definition key_version :: "mem \<Rightarrow> u64 \<Rightarrow> u32" where "key_version m key = rdm32 m (key + 24)"

abbreviation (input) SIZEOF_SIGNATURE :: nat where "SIZEOF_SIGNATURE \<equiv> 24"
definition sig_offset :: "mem \<Rightarrow> u64 \<Rightarrow> u32" where "sig_offset m sig = rdm32 m (sig + 0)"
definition sig_size :: "mem \<Rightarrow> u64 \<Rightarrow> u32" where "sig_size m sig = rdm32 m (sig + 8)"
definition data_size :: "mem \<Rightarrow> u64 \<Rightarrow> u32" where "data_size m sig = rdm32 m (sig + 16)"

abbreviation (input) SIZEOF_KEYBLOCK :: nat where "SIZEOF_KEYBLOCK \<equiv> 112"
abbreviation (input) KEY_BLOCK_MAGIC :: bytes where
  "KEY_BLOCK_MAGIC \<equiv> [0x43, 0x48, 0x52, 0x4f, 0x4d, 0x45, 0x4f, 0x53]"
abbreviation (input) KEY_BLOCK_MAGIC_SIZE :: nat where "KEY_BLOCK_MAGIC_SIZE \<equiv> 8"
abbreviation (input) KEY_BLOCK_HEADER_VERSION_MAJOR :: u32 where "KEY_BLOCK_HEADER_VERSION_MAJOR \<equiv> 2"
definition keyblock_header_version_major :: "mem \<Rightarrow> u64 \<Rightarrow> u32" where
  "keyblock_header_version_major m kb = rdm32 m (kb + 8)"
definition keyblock_size :: "mem \<Rightarrow> u64 \<Rightarrow> u32" where "keyblock_size m kb = rdm32 m (kb + 16)"
definition keyblock_signature :: "u64 \<Rightarrow> u64" where "keyblock_signature kb = kb + 24"
definition keyblock_hash :: "u64 \<Rightarrow> u64" where "keyblock_hash kb = kb + 48"
definition keyblock_flags :: "mem \<Rightarrow> u64 \<Rightarrow> u32" where "keyblock_flags m kb = rdm32 m (kb + 72)"
definition keyblock_data_key :: "u64 \<Rightarrow> u64" where "keyblock_data_key kb = kb + 80"

abbreviation (input) SIZEOF_FW_PREAMBLE :: nat where "SIZEOF_FW_PREAMBLE \<equiv> 108"
abbreviation (input) FIRMWARE_PREAMBLE_HEADER_VERSION_MAJOR :: u32 where
  "FIRMWARE_PREAMBLE_HEADER_VERSION_MAJOR \<equiv> 2"
definition preamble_size :: "mem \<Rightarrow> u64 \<Rightarrow> u32" where "preamble_size m pre = rdm32 m (pre + 0)"
definition preamble_signature :: "u64 \<Rightarrow> u64" where "preamble_signature pre = pre + 8"
definition preamble_header_version_major :: "mem \<Rightarrow> u64 \<Rightarrow> u32" where
  "preamble_header_version_major m pre = rdm32 m (pre + 32)"
definition preamble_header_version_minor :: "mem \<Rightarrow> u64 \<Rightarrow> u32" where
  "preamble_header_version_minor m pre = rdm32 m (pre + 36)"
definition firmware_version :: "mem \<Rightarrow> u64 \<Rightarrow> u32" where "firmware_version m pre = rdm32 m (pre + 40)"
definition kernel_subkey :: "u64 \<Rightarrow> u64" where "kernel_subkey pre = pre + 48"
definition body_signature :: "u64 \<Rightarrow> u64" where "body_signature pre = pre + 80"
definition preamble_flags :: "mem \<Rightarrow> u64 \<Rightarrow> u32" where "preamble_flags m pre = rdm32 m (pre + 104)"

section \<open>Containment checks\<close>

definition vb2_signature_data :: "mem \<Rightarrow> u64 \<Rightarrow> u64" where
  "vb2_signature_data m sig = sig + ucast (sig_offset m sig)"

definition vb2_packed_key_data :: "mem \<Rightarrow> u64 \<Rightarrow> u64" where
  "vb2_packed_key_data m key = key + ucast (key_offset m key)"

text \<open>\<^verbatim>\<open>ptrdiff_t\<close> comparisons between offsets are signed, those with \<^verbatim>\<open>size_t\<close> unsigned.\<close>

definition vb2_verify_member_inside :: "u64 \<Rightarrow> u64 \<Rightarrow> u64 \<Rightarrow> u64 \<Rightarrow> u64 \<Rightarrow> u64 \<Rightarrow> u32" where
  "vb2_verify_member_inside parent parent_size member member_size member_data_offset member_data_size =
     (let parent_end = parent + parent_size;
          member_offs = vb2_offset_of parent member;
          member_end_offs = member_offs + member_size;
          data_offs = member_offs + member_data_offset;
          data_end_offs = data_offs + member_data_size
      in if parent_end < parent then VB2_ERROR_INSIDE_PARENT_WRAPS
         else if sint member_end_offs < sint member_offs then VB2_ERROR_INSIDE_MEMBER_WRAPS
         else if sint member_offs < 0 \<or> member_offs > parent_size \<or> member_end_offs > parent_size
         then VB2_ERROR_INSIDE_MEMBER_OUTSIDE
         else if member_data_size > 0 \<and> sint data_offs < sint member_end_offs then VB2_ERROR_INSIDE_DATA_OVERLAP
         else if sint data_end_offs < sint data_offs then VB2_ERROR_INSIDE_DATA_WRAPS
         else if sint data_offs < 0 \<or> data_offs > parent_size \<or> data_end_offs > parent_size
         then VB2_ERROR_INSIDE_DATA_OUTSIDE
         else VB2_SUCCESS)"

definition vb2_verify_signature_inside :: "mem \<Rightarrow> u64 \<Rightarrow> u32 \<Rightarrow> u64 \<Rightarrow> u32" where
  "vb2_verify_signature_inside m parent parent_size sig =
     vb2_verify_member_inside parent (ucast parent_size) sig (of_nat SIZEOF_SIGNATURE)
       (ucast (sig_offset m sig)) (ucast (sig_size m sig))"

definition vb2_verify_packed_key_inside :: "mem \<Rightarrow> u64 \<Rightarrow> u32 \<Rightarrow> u64 \<Rightarrow> u32" where
  "vb2_verify_packed_key_inside m parent parent_size key =
     vb2_verify_member_inside parent (ucast parent_size) key (of_nat SIZEOF_PACKED_KEY)
       (ucast (key_offset m key)) (ucast (key_size m key))"

section \<open>Unpacking a key\<close>

text \<open>An unpacked key points into the packed key; its arrays are read from memory when it is used.\<close>

record vb2_key_ref =
  kr_arrsize :: u32
  kr_n0inv :: u32
  kr_n :: u64
  kr_rr :: u64
  kr_sig_alg :: vb2_signature_algorithm
  kr_hash_alg :: vb2_hash_algorithm

definition rdwords :: "mem \<Rightarrow> u64 \<Rightarrow> nat \<Rightarrow> u32 list" where
  "rdwords m a k = map (\<lambda>i. rdm32 m (a + of_nat (4 * i))) [0..<k]"

definition deref_key :: "mem \<Rightarrow> vb2_key_ref \<Rightarrow> vb2_public_key" where
  "deref_key m k =
     \<lparr>pk_arrsize = kr_arrsize k, pk_n0inv = kr_n0inv k,
      pk_n = rdwords m (kr_n k) (unat (kr_arrsize k)), pk_rr = rdwords m (kr_rr k) (unat (kr_arrsize k)),
      pk_sig_alg = kr_sig_alg k, pk_hash_alg = kr_hash_alg k\<rparr>"

definition vb2_aligned :: "u64 \<Rightarrow> u64 \<Rightarrow> bool" where
  "vb2_aligned ptr align \<longleftrightarrow> ptr AND (align - 1) = 0"

definition vb2_unpack_key :: "mem \<Rightarrow> u64 \<Rightarrow> u32 \<Rightarrow> u32 + vb2_key_ref" where
  "vb2_unpack_key m buf sz =
     (let packed_key = buf;
          rv = vb2_verify_packed_key_inside m buf sz packed_key
      in if rv \<noteq> 0 then Inl rv
         else let sig_alg = vb2_crypto_to_signature (key_algorithm m packed_key)
           in if sig_alg = VB2_SIG_INVALID then Inl VB2_ERROR_UNPACK_KEY_SIG_ALGORITHM
              else let hash_alg = vb2_crypto_to_hash (key_algorithm m packed_key)
                in if hash_alg = VB2_HASH_INVALID then Inl VB2_ERROR_UNPACK_KEY_HASH_ALGORITHM
                   else let expected_key_size = vb2_packed_key_size sig_alg
                     in if expected_key_size = 0 \<or> expected_key_size \<noteq> key_size m packed_key
                        then Inl VB2_ERROR_UNPACK_KEY_SIZE
                        else let buf32 = vb2_packed_key_data m packed_key
                          in if \<not> vb2_aligned buf32 4 then Inl VB2_ERROR_UNPACK_KEY_ALIGN
                             else let arrsize = rdm32 m buf32
                               in if ucast arrsize * 4 \<noteq> (ucast (vb2_rsa_sig_size sig_alg) :: u64)
                                  then Inl VB2_ERROR_UNPACK_KEY_ARRAY_SIZE
                                  else Inr \<lparr>kr_arrsize = arrsize, kr_n0inv = rdm32 m (buf32 + 4),
                                            kr_n = buf32 + 8, kr_rr = buf32 + 8 + 4 * ucast arrsize,
                                            kr_sig_alg = sig_alg, kr_hash_alg = hash_alg\<rparr>)"

section \<open>Verifying signed data\<close>

abbreviation (input) SIZEOF_DIGEST_CONTEXT :: u32 where "SIZEOF_DIGEST_CONTEXT \<equiv> 336"

definition vb2_verify_digest ::
  "mem \<Rightarrow> vb2_key_ref \<Rightarrow> u64 \<Rightarrow> u64 \<Rightarrow> vb2_workbuf \<Rightarrow> u32 \<times> mem" where
  "vb2_verify_digest m key sig digest wb =
     (let sig_data = vb2_signature_data m sig;
          k = deref_key m key
      in if sig_size m sig \<noteq> vb2_rsa_sig_size (kr_sig_alg key) then (VB2_ERROR_VDATA_SIG_SIZE, m)
         else if sig_data = NULL \<or> digest = NULL then (VB2_ERROR_RSA_VERIFY_PARAM, m)
         else let (rv, s) = vb2_rsa_verify_digest k (rdbytes m sig_data (unat (sig_size m sig)))
                (rdbytes m digest (unat (vb2_digest_size (kr_hash_alg key)))) wb
           in (rv, wrbytes m sig_data s))"

text \<open>\<^verbatim>\<open>dc0\<close> stands for the uninitialized digest context in the work buffer.\<close>

definition vb2_verify_data ::
  "vb2_digest_context \<Rightarrow> mem \<Rightarrow> u64 \<Rightarrow> u32 \<Rightarrow> u64 \<Rightarrow> vb2_key_ref \<Rightarrow> vb2_workbuf \<Rightarrow> u32 \<times> mem" where
  "vb2_verify_data dc0 m data sz sig key wb =
     (if data_size m sig > sz then (VB2_ERROR_VDATA_NOT_ENOUGH_DATA, m)
      else let digest_size = vb2_digest_size (kr_hash_alg key)
        in if digest_size = 0 then (VB2_ERROR_VDATA_DIGEST_SIZE, m)
           else let (digest, wblocal) = vb2_workbuf_alloc wb digest_size
             in if digest = NULL then (VB2_ERROR_VDATA_WORKBUF_DIGEST, m)
                else let (dc, wblocal) = vb2_workbuf_alloc wblocal SIZEOF_DIGEST_CONTEXT
                  in if dc = NULL then (VB2_ERROR_VDATA_WORKBUF_HASHING, m)
                     else let (rv, c) = vb2_digest_init dc0 (kr_hash_alg key)
                       in if rv \<noteq> 0 then (rv, m)
                          else let (rv, c) = vb2_digest_extend c (rdbytes m data (unat (data_size m sig))) (data_size m sig)
                            in if rv \<noteq> 0 then (rv, m)
                               else let (rv, c, d) = vb2_digest_finalize c (rdbytes m digest (unat digest_size)) digest_size;
                                        m = wrbytes m digest d
                                 in if rv \<noteq> 0 then (rv, m)
                                    else let wblocal = vb2_workbuf_free wblocal SIZEOF_DIGEST_CONTEXT
                                      in vb2_verify_digest m key sig digest wblocal)"

definition vb2_check_keyblock :: "mem \<Rightarrow> u64 \<Rightarrow> u32 \<Rightarrow> u64 \<Rightarrow> u32" where
  "vb2_check_keyblock m block sz sig =
     (if sz < of_nat SIZEOF_KEYBLOCK then VB2_ERROR_KEYBLOCK_TOO_SMALL_FOR_HEADER
      else if rdbytes m block KEY_BLOCK_MAGIC_SIZE \<noteq> KEY_BLOCK_MAGIC then VB2_ERROR_KEYBLOCK_MAGIC
      else if keyblock_header_version_major m block \<noteq> KEY_BLOCK_HEADER_VERSION_MAJOR
      then VB2_ERROR_KEYBLOCK_HEADER_VERSION
      else if sz < keyblock_size m block then VB2_ERROR_KEYBLOCK_SIZE
      else if vb2_verify_signature_inside m block (keyblock_size m block) sig \<noteq> 0
      then VB2_ERROR_KEYBLOCK_SIG_OUTSIDE
      else if keyblock_size m block < data_size m sig then VB2_ERROR_KEYBLOCK_SIGNED_TOO_MUCH
      else if data_size m sig < of_nat SIZEOF_KEYBLOCK then VB2_ERROR_KEYBLOCK_SIGNED_TOO_LITTLE
      else if vb2_verify_packed_key_inside m block (keyblock_size m block) (keyblock_data_key block) \<noteq> 0
      then VB2_ERROR_KEYBLOCK_DATA_KEY_OUTSIDE
      else if vb2_verify_packed_key_inside m block (data_size m sig) (keyblock_data_key block) \<noteq> 0
      then VB2_ERROR_KEYBLOCK_DATA_KEY_UNSIGNED
      else VB2_SUCCESS)"

definition vb2_verify_keyblock ::
  "vb2_digest_context \<Rightarrow> mem \<Rightarrow> u64 \<Rightarrow> u32 \<Rightarrow> vb2_key_ref \<Rightarrow> vb2_workbuf \<Rightarrow> u32 \<times> mem" where
  "vb2_verify_keyblock dc0 m block sz key wb =
     (let sig = keyblock_signature block;
          rv = vb2_check_keyblock m block sz sig
      in if rv \<noteq> 0 then (rv, m)
         else let (rv, m) = vb2_verify_data dc0 m block sz sig key wb
           in if rv \<noteq> 0 then (VB2_ERROR_KEYBLOCK_SIG_INVALID, m) else (VB2_SUCCESS, m))"

definition vb2_verify_fw_preamble ::
  "vb2_digest_context \<Rightarrow> mem \<Rightarrow> u64 \<Rightarrow> u32 \<Rightarrow> vb2_key_ref \<Rightarrow> vb2_workbuf \<Rightarrow> u32 \<times> mem" where
  "vb2_verify_fw_preamble dc0 m preamble sz key wb =
     (let sig = preamble_signature preamble
      in if sz < of_nat SIZEOF_FW_PREAMBLE then (VB2_ERROR_PREAMBLE_TOO_SMALL_FOR_HEADER, m)
         else if preamble_header_version_major m preamble \<noteq> FIRMWARE_PREAMBLE_HEADER_VERSION_MAJOR
         then (VB2_ERROR_PREAMBLE_HEADER_VERSION, m)
         else if preamble_header_version_minor m preamble < 1 then (VB2_ERROR_PREAMBLE_HEADER_OLD, m)
         else if sz < preamble_size m preamble then (VB2_ERROR_PREAMBLE_SIZE, m)
         else if vb2_verify_signature_inside m preamble (preamble_size m preamble) sig \<noteq> 0
         then (VB2_ERROR_PREAMBLE_SIG_OUTSIDE, m)
         else if preamble_size m preamble < data_size m sig then (VB2_ERROR_PREAMBLE_SIGNED_TOO_MUCH, m)
         else let (rv, m) = vb2_verify_data dc0 m preamble sz sig key wb
           in if rv \<noteq> 0 then (VB2_ERROR_PREAMBLE_SIG_INVALID, m)
              else if data_size m sig < of_nat SIZEOF_FW_PREAMBLE then (VB2_ERROR_PREAMBLE_SIGNED_TOO_LITTLE, m)
              else if vb2_verify_signature_inside m preamble (data_size m sig) (body_signature preamble) \<noteq> 0
              then (VB2_ERROR_PREAMBLE_BODY_SIG_OUTSIDE, m)
              else if vb2_verify_packed_key_inside m preamble (data_size m sig) (kernel_subkey preamble) \<noteq> 0
              then (VB2_ERROR_PREAMBLE_KERNEL_SUBKEY_OUTSIDE, m)
              else (VB2_SUCCESS, m))"

end
