(* ===== verification/Keyblock_Correct.thy ===== *)
theory Keyblock_Correct
  imports Keyblock
begin

text \<open>
  Correctness of the checks in \<^verbatim>\<open>firmware/lib20\<close>: what the containment checks accept, where the arrays of
  an unpacked key are, and when data, a keyblock and a firmware preamble pass verification.
\<close>

section \<open>Containment\<close>

lemma sint_small:
  assumes "unat (w :: u64) = k" and "k < 2 ^ 63"
  shows "sint w = int k"
proof -
  have "(word_of_int (int k) :: u64) = w" using assms(1) by auto
  then show ?thesis using sint_word_of_int_64 [of "int k"] assms(2) by simp
qed

text \<open>
  The two areas a structure occupies, its header and its data, lie inside the parent, which does not
  wrap around; data that is not empty starts after the header.
\<close>

definition inside :: "u64 \<Rightarrow> nat \<Rightarrow> u64 \<Rightarrow> nat \<Rightarrow> nat \<Rightarrow> nat \<Rightarrow> bool" where
  "inside parent psz member msz doff dsz \<longleftrightarrow>
     unat parent + psz < 2 ^ 64 \<and> unat parent \<le> unat member \<and> unat member + msz \<le> unat parent + psz \<and>
     (0 < dsz \<longrightarrow> msz \<le> doff) \<and> unat member + doff + dsz \<le> unat parent + psz"

lemma plus_wraps: "(a :: u64) + b < a \<longleftrightarrow> 2 ^ 64 \<le> unat a + unat b"
proof (cases "unat a + unat b < 2 ^ 64")
  case True
  then have "unat (a + b) = unat a + unat b" by (simp add: unat_word_ariths)
  then show ?thesis using True by (simp add: word_less_nat_alt)
next
  case False
  then have "unat (a + b) = unat a + unat b - 2 ^ 64"
    using unsigned_less [where ?'a = nat, of a] unsigned_less [where ?'a = nat, of b]
    by (simp add: unat_word_ariths le_mod_geq)
  then show ?thesis
    using False unsigned_less [where ?'a = nat, of b] by (simp add: word_less_nat_alt)
qed

lemma unat_offset: "unat ((b :: u64) - a) = (if unat a \<le> unat b then unat b - unat a else 2 ^ 64 + unat b - unat a)"
  by (auto simp: unat_sub_if')

lemma verify_member_inside_iff:
  fixes psz msz doff dsz :: u64
  assumes b: "unat psz < 2 ^ 32" "unat msz < 2 ^ 32" "unat doff < 2 ^ 32" "unat dsz < 2 ^ 32"
  shows "vb2_verify_member_inside parent psz member msz doff dsz = VB2_SUCCESS \<longleftrightarrow>
    inside parent (unat psz) member (unat msz) (unat doff) (unat dsz)"
proof (cases "unat (member - parent) \<le> unat psz")
  case False
  then have "\<not> inside parent (unat psz) member (unat msz) (unat doff) (unat dsz)"
    by (auto simp: inside_def unat_offset split: if_splits)
  moreover have "member - parent > psz" using False by (simp add: word_less_nat_alt)
  ultimately show ?thesis by (simp add: vb2_verify_member_inside_def vb2_offset_of_def Let_def)
next
  case True
  let ?o = "member - parent"
  have o: "unat ?o < 2 ^ 32" using True b(1) by linarith
  have s: "unat (?o + msz) = unat ?o + unat msz" "unat (?o + doff) = unat ?o + unat doff"
    "unat (?o + doff + dsz) = unat ?o + unat doff + unat dsz"
    using o b by (simp_all add: unat_word_ariths)
  have i: "sint ?o = int (unat ?o)" "sint (?o + msz) = int (unat ?o + unat msz)"
    "sint (?o + doff) = int (unat ?o + unat doff)" "sint (?o + doff + dsz) = int (unat ?o + unat doff + unat dsz)"
    by (rule sint_small [OF refl] sint_small [OF s(1)] sint_small [OF s(2)] sint_small [OF s(3)]; use o b in simp)+
  have neg: "\<not> sint (?o + msz) < sint ?o" "\<not> sint ?o < 0" "\<not> psz < ?o"
    "\<not> sint (?o + doff + dsz) < sint (?o + doff)" "\<not> sint (?o + doff) < 0"
    using True unfolding i word_less_nat_alt by linarith+
  have c: "psz < ?o + msz \<longleftrightarrow> \<not> unat ?o + unat msz \<le> unat psz" "0 < dsz \<longleftrightarrow> 0 < unat dsz"
    "sint (?o + doff) < sint (?o + msz) \<longleftrightarrow> unat doff < unat msz"
    "psz < ?o + doff \<longleftrightarrow> \<not> unat ?o + unat doff \<le> unat psz"
    "psz < ?o + doff + dsz \<longleftrightarrow> \<not> unat ?o + unat doff + unat dsz \<le> unat psz"
    unfolding i word_less_nat_alt s of_nat_less_iff by (simp_all add: not_le)
  have "vb2_verify_member_inside parent psz member msz doff dsz = VB2_SUCCESS \<longleftrightarrow>
      unat parent + unat psz < 2 ^ 64 \<and> unat ?o + unat msz \<le> unat psz \<and>
      (0 < unat dsz \<longrightarrow> unat msz \<le> unat doff) \<and> unat ?o + unat doff + unat dsz \<le> unat psz"
    unfolding vb2_verify_member_inside_def vb2_offset_of_def Let_def plus_wraps c
    using neg by (auto simp: not_le)
  also have "\<dots> \<longleftrightarrow> inside parent (unat psz) member (unat msz) (unat doff) (unat dsz)"
    using True by (auto simp: inside_def unat_offset split: if_splits)
  finally show ?thesis .
qed

lemma verify_signature_inside_iff:
  "vb2_verify_signature_inside m parent psz sig = 0 \<longleftrightarrow>
    inside parent (unat psz) sig SIZEOF_SIGNATURE (unat (sig_offset m sig)) (unat (sig_size m sig))"
  using verify_member_inside_iff [of "ucast psz" "of_nat SIZEOF_SIGNATURE" "ucast (sig_offset m sig)" "ucast (sig_size m sig)" parent sig]
    unat_u32_less [of psz] unat_u32_less [of "sig_offset m sig"] unat_u32_less [of "sig_size m sig"]
  by (simp add: vb2_verify_signature_inside_def)

lemma verify_packed_key_inside_iff:
  "vb2_verify_packed_key_inside m parent psz key = 0 \<longleftrightarrow>
    inside parent (unat psz) key SIZEOF_PACKED_KEY (unat (key_offset m key)) (unat (key_size m key))"
  using verify_member_inside_iff [of "ucast psz" "of_nat SIZEOF_PACKED_KEY" "ucast (key_offset m key)" "ucast (key_size m key)" parent key]
    unat_u32_less [of psz] unat_u32_less [of "key_offset m key"] unat_u32_less [of "key_size m key"]
  by (simp add: vb2_verify_packed_key_inside_def)

text \<open>
  vb2_verify_member_inside() accepts a structure exactly when its header and its data lie inside
  the parent area, the parent does not wrap around the address space, and data that is not empty
  starts after the header; this holds for any pointers and any 32-bit sizes and offsets.\<close>

lemma vb2_verify_member_inside_correct:
  fixes psz msz doff dsz :: u64
  assumes "unat psz < 2 ^ 32" and "unat msz < 2 ^ 32" and "unat doff < 2 ^ 32" and "unat dsz < 2 ^ 32"
  shows "vb2_verify_member_inside parent psz member msz doff dsz = VB2_SUCCESS \<longleftrightarrow>
    unat parent + unat psz < 2 ^ 64 \<and> unat parent \<le> unat member \<and>
    unat member + unat msz \<le> unat parent + unat psz \<and>
    (0 < unat dsz \<longrightarrow> unat msz \<le> unat doff) \<and> unat member + unat doff + unat dsz \<le> unat parent + unat psz"
  using verify_member_inside_iff [OF assms] by (simp add: inside_def)

section \<open>Unpacked keys\<close>

lemma crypto_to_signature_size:
  "vb2_crypto_to_signature alg \<noteq> VB2_SIG_INVALID \<Longrightarrow> vb2_rsa_sig_size (vb2_crypto_to_signature alg) \<noteq> 0"
proof -
  have "\<forall>a \<in> set crypto_to_sig. vb2_rsa_sig_size a \<noteq> 0" by (simp add: crypto_to_sig_def)
  then show "vb2_crypto_to_signature alg \<noteq> VB2_SIG_INVALID \<Longrightarrow> vb2_rsa_sig_size (vb2_crypto_to_signature alg) \<noteq> 0"
    using nth_mem by (auto simp: vb2_crypto_to_signature_def split: if_splits)
qed

lemma packed_key_size_unat:
  "vb2_rsa_sig_size alg \<noteq> 0 \<Longrightarrow> unat (vb2_packed_key_size alg) = 2 * unat (vb2_rsa_sig_size alg) + 8"
  by (cases alg) (simp_all add: vb2_packed_key_size_def)

lemma unpack_key_Inr:
  assumes "vb2_unpack_key m buf sz = Inr k"
  shows "inside buf (unat sz) buf SIZEOF_PACKED_KEY (unat (key_offset m buf)) (unat (key_size m buf))"
    and "kr_hash_alg k \<noteq> VB2_HASH_INVALID" and "vb2_rsa_sig_size (kr_sig_alg k) \<noteq> 0"
    and "4 * unat (kr_arrsize k) = unat (vb2_rsa_sig_size (kr_sig_alg k))"
    and "unat (key_size m buf) = 8 * unat (kr_arrsize k) + 8"
    and "kr_n k = buf + ucast (key_offset m buf) + 8" and "kr_rr k = kr_n k + 4 * ucast (kr_arrsize k)"
proof -
  show "inside buf (unat sz) buf SIZEOF_PACKED_KEY (unat (key_offset m buf)) (unat (key_size m buf))"
    using assms by (simp add: vb2_unpack_key_def Let_def verify_packed_key_inside_iff split: if_splits)
  show "kr_hash_alg k \<noteq> VB2_HASH_INVALID"
    using assms by (auto simp: vb2_unpack_key_def Let_def split: if_splits)
  show s: "vb2_rsa_sig_size (kr_sig_alg k) \<noteq> 0"
    using assms crypto_to_signature_size by (auto simp: vb2_unpack_key_def Let_def split: if_splits)
  have "ucast (kr_arrsize k) * 4 = (ucast (vb2_rsa_sig_size (kr_sig_alg k)) :: u64)"
    using assms by (auto simp: vb2_unpack_key_def Let_def split: if_splits)
  then have "unat (ucast (kr_arrsize k) * 4 :: u64) = unat (vb2_rsa_sig_size (kr_sig_alg k))" by simp
  then show a: "4 * unat (kr_arrsize k) = unat (vb2_rsa_sig_size (kr_sig_alg k))"
    using unat_u32_less [of "kr_arrsize k"] by (simp add: unat_word_ariths)
  have "key_size m buf = vb2_packed_key_size (kr_sig_alg k)"
    using assms by (auto simp: vb2_unpack_key_def Let_def split: if_splits)
  then show "unat (key_size m buf) = 8 * unat (kr_arrsize k) + 8" using a packed_key_size_unat [OF s] by simp
  show "kr_n k = buf + ucast (key_offset m buf) + 8" "kr_rr k = kr_n k + 4 * ucast (kr_arrsize k)"
    using assms by (auto simp: vb2_unpack_key_def Let_def vb2_packed_key_data_def split: if_splits)
qed

lemma unat_plus_u64: "unat (a :: u64) + unat (b :: u64) < 2 ^ 64 \<Longrightarrow> unat (a + b) = unat a + unat b"
  by (simp add: unat_word_ariths)

lemma unpack_key_arrays:
  assumes "vb2_unpack_key m buf sz = Inr k"
  shows "unat buf + SIZEOF_PACKED_KEY + 8 \<le> unat (kr_n k)"
    and "unat (kr_rr k) = unat (kr_n k) + 4 * unat (kr_arrsize k)"
    and "unat (kr_rr k) + 4 * unat (kr_arrsize k) \<le> unat buf + unat sz"
    and "unat buf + unat sz < 2 ^ 64"
proof -
  note u = unpack_key_Inr [OF assms]
  let ?o = "unat (key_offset m buf)" and ?a = "unat (kr_arrsize k)"
  have i: "unat buf + unat sz < 2 ^ 64" "unat buf + ?o + (8 * ?a + 8) \<le> unat buf + unat sz" "SIZEOF_PACKED_KEY \<le> ?o"
    using u(1) unfolding inside_def u(5) by auto
  have n: "unat (kr_n k) = unat buf + ?o + 8"
    using i unfolding u(6) by (simp add: unat_plus_u64)
  then show "unat buf + SIZEOF_PACKED_KEY + 8 \<le> unat (kr_n k)" using i by simp
  have "unat (4 * ucast (kr_arrsize k) :: u64) = 4 * ?a"
    using unat_u32_less [of "kr_arrsize k"] by (simp add: unat_word_ariths)
  then show r: "unat (kr_rr k) = unat (kr_n k) + 4 * ?a"
    using i n unfolding u(7) by (simp add: unat_plus_u64)
  show "unat (kr_rr k) + 4 * ?a \<le> unat buf + unat sz" using i n r by simp
  show "unat buf + unat sz < 2 ^ 64" by (rule i(1))
qed

text \<open>
  C20. A packed key that vb2_unpack_key() accepts has arrays of the size its signature algorithm asks
  for, one after the other after the header, inside the buffer it was unpacked from.\<close>

theorem vb2_unpack_key_safe:
  assumes "vb2_unpack_key m buf sz = Inr k"
  shows "vb2_rsa_sig_size (kr_sig_alg k) \<noteq> 0 \<and> kr_hash_alg k \<noteq> VB2_HASH_INVALID \<and>
    4 * unat (kr_arrsize k) = unat (vb2_rsa_sig_size (kr_sig_alg k)) \<and>
    unat buf + SIZEOF_PACKED_KEY \<le> unat (kr_n k) \<and>
    unat (kr_rr k) = unat (kr_n k) + 4 * unat (kr_arrsize k) \<and>
    unat (kr_rr k) + 4 * unat (kr_arrsize k) \<le> unat buf + unat sz"
  using unpack_key_Inr [OF assms] unpack_key_arrays [OF assms] by simp

text \<open>A packed key for RSA-1024 with SHA-1, whose data follows the header.\<close>

definition demo_packed_key :: bytes where
  "demo_packed_key =
     le32_bytes 32 @ le32_bytes 0 @ le32_bytes 264 @ le32_bytes 0 @ le32_bytes 0 @ le32_bytes 0 @
     le32_bytes 1 @ le32_bytes 0 @ le32_bytes 32 @ le32_bytes 1 @ replicate 128 0xff @ 1 # replicate 127 0"

definition demo_mem :: mem where
  "demo_mem = wrbytes (\<lambda>_. 0) 0x1000 demo_packed_key"

lemma length_demo_packed_key: "length demo_packed_key = 296"
  by (simp add: demo_packed_key_def le32_bytes_def)

lemma demo_packed_key_fields:
  "rdm32 demo_mem 0x1000 = 32" "rdm32 demo_mem 0x1008 = 264" "rdm32 demo_mem 0x1010 = 0"
  "rdm32 demo_mem 0x1018 = 1" "rdm32 demo_mem 0x1020 = 32" "rdm32 demo_mem 0x1024 = 1"
proof -
  have r: "rdm32 demo_mem (0x1000 + of_nat i) = rd32 demo_packed_key i" if "i + 4 \<le> 296" for i
    unfolding demo_mem_def using that by (intro rdm32_wrbytes) (simp_all add: length_demo_packed_key)
  have f: "rd32 demo_packed_key 0 = 32" "rd32 demo_packed_key 8 = 264" "rd32 demo_packed_key 16 = 0"
    "rd32 demo_packed_key 24 = 1" "rd32 demo_packed_key 32 = 32" "rd32 demo_packed_key 36 = 1"
    by (simp_all add: demo_packed_key_def rd32_def le32_bytes_def shl_def shr_def)
  show "rdm32 demo_mem 0x1000 = 32" "rdm32 demo_mem 0x1008 = 264" "rdm32 demo_mem 0x1010 = 0"
    "rdm32 demo_mem 0x1018 = 1" "rdm32 demo_mem 0x1020 = 32" "rdm32 demo_mem 0x1024 = 1"
    using r [of 0] r [of 8] r [of 16] r [of 24] r [of 32] r [of 36] f by simp_all
qed

definition demo_ref :: vb2_key_ref where
  "demo_ref = \<lparr>kr_arrsize = 32, kr_n0inv = 1, kr_n = 0x1028, kr_rr = 0x10a8,
     kr_sig_alg = VB2_SIG_RSA1024, kr_hash_alg = VB2_HASH_SHA1\<rparr>"

lemma demo_unpack: "vb2_unpack_key demo_mem 0x1000 296 = Inr demo_ref"
proof -
  have f: "key_offset demo_mem 0x1000 = 32" "key_size demo_mem 0x1000 = 264" "key_algorithm demo_mem 0x1000 = 0"
    by (simp_all add: key_offset_def key_size_def key_algorithm_def demo_packed_key_fields)
  have "vb2_verify_packed_key_inside demo_mem 0x1000 296 0x1000 = 0"
    unfolding verify_packed_key_inside_iff f by (simp add: inside_def)
  then show ?thesis
    unfolding vb2_unpack_key_def Let_def vb2_packed_key_data_def f
    by (simp add: vb2_crypto_to_signature_def crypto_to_sig_def vb2_crypto_to_hash_def crypto_to_hash_def
        vb2_packed_key_size_def vb2_aligned_def demo_packed_key_fields demo_ref_def)
qed

theorem vb2_unpack_key_safe_witness:
  "vb2_unpack_key demo_mem 0x1000 296 = Inr demo_ref \<and>
   unat (kr_rr demo_ref) + 4 * unat (kr_arrsize demo_ref) \<le> unat (0x1000 :: u64) + unat (296 :: u32)"
  using vb2_unpack_key_safe [OF demo_unpack] demo_unpack by blast

section \<open>Signed data\<close>

text \<open>An area that does not wrap and lies outside the free part of the work buffer.\<close>

definition apart :: "vb2_workbuf \<Rightarrow> u64 \<Rightarrow> nat \<Rightarrow> bool" where
  "apart wb a k \<longleftrightarrow> unat a + k \<le> 2 ^ 64 \<and> area a k \<inter> {wb_lo wb..<wb_hi wb} = {}"

lemma apart_part: "apart wb a k \<Longrightarrow> i + j \<le> k \<Longrightarrow> i < 2 ^ 64 \<Longrightarrow> unat a + i < 2 ^ 64 \<Longrightarrow> apart wb (a + of_nat i) j"
  by (auto simp: apart_def area_def unat_plus_offset)

lemma apart_rdbytes:
  assumes "apart wb a k" and "wb_ok wb" and "length d \<le> unat (wb_size wb)"
  shows "rdbytes (wrbytes m (wb_buf wb) d) a k = rdbytes m a k"
  using assms by (intro rdbytes_wrbytes_disjoint) (auto simp: apart_def area_def wb_hi_def wb_ok_def)

lemma rdm32_as_rdbytes: "rdm32 m a = rd32 (rdbytes m a 4) 0"
  by (simp add: rdm32_def)

lemma rdwords_cong: "rdbytes m a (4 * k) = rdbytes m' a (4 * k) \<Longrightarrow> rdwords m a k = rdwords m' a k"
proof -
  assume eq: "rdbytes m a (4 * k) = rdbytes m' a (4 * k)"
  have "rdm32 m (a + of_nat (4 * i)) = rdm32 m' (a + of_nat (4 * i))" if "i < k" for i
    using rdm32_rdbytes [of "4 * i" "4 * k" m a] rdm32_rdbytes [of "4 * i" "4 * k" m' a] that eq by simp
  then show ?thesis unfolding rdwords_def by (intro map_cong) simp_all
qed

text \<open>The fields of a signature only depend on its bytes.\<close>

lemma signature_fields_cong:
  assumes "rdbytes m sig SIZEOF_SIGNATURE = rdbytes m' sig SIZEOF_SIGNATURE"
  shows "sig_offset m sig = sig_offset m' sig" and "sig_size m sig = sig_size m' sig"
    and "data_size m sig = data_size m' sig"
proof -
  have "rdm32 m (sig + of_nat i) = rdm32 m' (sig + of_nat i)" if "i + 4 \<le> SIZEOF_SIGNATURE" for i
    using rdm32_rdbytes [OF that, of m sig] rdm32_rdbytes [OF that, of m' sig] assms by simp
  from this [of 0] this [of 8] this [of 16]
  show "sig_offset m sig = sig_offset m' sig" "sig_size m sig = sig_size m' sig" "data_size m sig = data_size m' sig"
    by (simp_all add: sig_offset_def sig_size_def data_size_def)
qed

lemma digest_size_le: "unat (vb2_digest_size alg) \<le> 64"
  by (cases alg) simp_all

text \<open>The work buffer has room for the digest, and after it for what computes and checks it.\<close>

definition verify_room :: "vb2_workbuf \<Rightarrow> vb2_key_ref \<Rightarrow> bool" where
  "verify_room wb key \<longleftrightarrow>
     (let (digest, wb') = vb2_workbuf_alloc wb (vb2_digest_size (kr_hash_alg key))
      in digest \<noteq> NULL \<and> fst (vb2_workbuf_alloc wb' SIZEOF_DIGEST_CONTEXT) \<noteq> NULL \<and>
         fst (vb2_workbuf_alloc wb' (3 * vb2_rsa_sig_size (kr_sig_alg key))) \<noteq> NULL)"

lemma fits_small: "unat n \<le> 4096 \<Longrightarrow> wb_fits n"
  by (simp add: wb_fits_def word_le_nat_alt)

lemma alloc_size:
  assumes "wb_ok wb" and "unat n \<le> 4096"
  shows "fst (vb2_workbuf_alloc wb n) \<noteq> NULL \<longleftrightarrow> (unat n + 15) div 16 * 16 \<le> unat (wb_size wb)"
    and "fst (vb2_workbuf_alloc wb n) \<noteq> NULL \<Longrightarrow> fst (vb2_workbuf_alloc wb n) = wb_buf wb"
    and "fst (vb2_workbuf_alloc wb n) \<noteq> NULL \<Longrightarrow> unat n \<le> unat (wb_size wb)"
    and "fst (vb2_workbuf_alloc wb n) \<noteq> NULL \<Longrightarrow>
      unat (wb_size (snd (vb2_workbuf_alloc wb n))) = unat (wb_size wb) - (unat n + 15) div 16 * 16"
proof -
  have r: "unat (wb_round_up n) = (unat n + 15) div 16 * 16" using assms(2) by (simp add: unat_wb_round_up)
  have nn: "wb_buf wb \<noteq> NULL" using assms(1) by (simp add: wb_ok_def)
  show 1: "fst (vb2_workbuf_alloc wb n) \<noteq> NULL \<longleftrightarrow> (unat n + 15) div 16 * 16 \<le> unat (wb_size wb)"
    using nn unfolding r [symmetric] wb_alloc_cases [OF assms(1)] by simp
  show "fst (vb2_workbuf_alloc wb n) = wb_buf wb" if "fst (vb2_workbuf_alloc wb n) \<noteq> NULL"
    using that unfolding wb_alloc_cases [OF assms(1)] by (auto split: if_splits)
  show "unat n \<le> unat (wb_size wb)" if "fst (vb2_workbuf_alloc wb n) \<noteq> NULL" using that 1 by linarith
  show "unat (wb_size (snd (vb2_workbuf_alloc wb n))) = unat (wb_size wb) - (unat n + 15) div 16 * 16"
    if "fst (vb2_workbuf_alloc wb n) \<noteq> NULL"
    using wb_after_alloc(2) [OF assms(1), of n] that 1 unfolding r by simp
qed

lemma verify_room_enough:
  assumes "wb_ok wb" and "3136 \<le> unat (wb_size wb)"
  shows "verify_room wb key"
proof -
  let ?d = "vb2_digest_size (kr_hash_alg key)" and ?n = "3 * vb2_rsa_sig_size (kr_sig_alg key)"
  have up: "(unat ?d + 15) div 16 * 16 \<le> 64"
    using div_le_mono [of "unat ?d + 15" "64 + 15" 16] digest_size_le [of "kr_hash_alg key"] by simp
  have small: "unat ?d \<le> 4096" "unat SIZEOF_DIGEST_CONTEXT \<le> 4096" "unat ?n \<le> 4096" "(unat ?n + 15) div 16 * 16 \<le> 3072"
    using digest_size_le [of "kr_hash_alg key"] by (simp_all, (cases "kr_sig_alg key"; simp)+)
  note a = alloc_size [OF assms(1) small(1)]
  have 1: "fst (vb2_workbuf_alloc wb ?d) \<noteq> NULL" using a(1) up assms(2) by linarith
  have ok: "wb_ok (snd (vb2_workbuf_alloc wb ?d))" by (rule wb.ok_alloc [OF assms(1) fits_small [OF small(1)]])
  have "3072 \<le> unat (wb_size (snd (vb2_workbuf_alloc wb ?d)))" using a(4) [OF 1] up assms(2) by linarith
  then show ?thesis
    using 1 alloc_size(1) [OF ok small(2)] alloc_size(1) [OF ok small(3)] small(4)
    by (simp add: verify_room_def case_prod_beta)
qed

lemma copy_at_all: "length src = length dst \<Longrightarrow> copy_at dst 0 src = src"
  by (simp add: copy_at_def)

text \<open>With the room for it, vb2_verify_data() hashes the data and checks the digest.\<close>

lemma verify_data_eq:
  assumes dc: "dc_ok dc0" and wb: "wb_ok wb"
    and alg: "kr_hash_alg key \<noteq> VB2_HASH_INVALID" and len: "unat (data_size m sig) < 2 ^ 29"
    and enough: "data_size m sig \<le> sz"
  defines "wb1 \<equiv> snd (vb2_workbuf_alloc wb (vb2_digest_size (kr_hash_alg key)))"
  assumes room: "fst (vb2_workbuf_alloc wb (vb2_digest_size (kr_hash_alg key))) \<noteq> NULL"
    "fst (vb2_workbuf_alloc wb1 SIZEOF_DIGEST_CONTEXT) \<noteq> NULL"
  shows "vb2_verify_data dc0 m data sz sig key wb =
    vb2_verify_digest (wrbytes m (wb_buf wb) (vb2_hash (kr_hash_alg key) (rdbytes m data (unat (data_size m sig)))))
      key sig (wb_buf wb) wb1"
proof -
  let ?h = "kr_hash_alg key" and ?ds = "data_size m sig" and ?d = "vb2_digest_size (kr_hash_alg key)"
  let ?msg = "rdbytes m data (unat ?ds)" and ?old = "rdbytes m (wb_buf wb) (unat ?d)"
  have d: "unat ?d \<le> 4096" "?d \<noteq> 0"
    using digest_size_le [of ?h] alg by simp (use alg in \<open>cases ?h; simp\<close>)
  have r1: "fst (vb2_workbuf_alloc wb ?d) = wb_buf wb" "wb_buf wb \<noteq> NULL"
    using alloc_size(2) [OF wb d(1) room(1)] room(1) by simp_all
  have "wb_ok wb1" unfolding wb1_def by (rule wb.ok_alloc [OF wb fits_small [OF d(1)]])
  then have r2: "vb2_workbuf_free (snd (vb2_workbuf_alloc wb1 SIZEOF_DIGEST_CONTEXT)) SIZEOF_DIGEST_CONTEXT = wb1"
    using room(2) by (intro wb.free_alloc fits_small) simp_all
  obtain rv1 c1 where i: "vb2_digest_init dc0 ?h = (rv1, c1)" by fastforce
  obtain rv2 c2 where e: "vb2_digest_extend c1 ?msg ?ds = (rv2, c2)" by fastforce
  have 1: "rv1 = 0" "dc_hash_alg c1 = ?h" "dc_holds c1 []" using vb2_digest_init_holds [OF dc alg] i by simp_all
  have 2: "rv2 = 0" "dc_hash_alg c2 = ?h" "dc_holds c2 ?msg"
    using vb2_digest_extend_holds [OF 1(3), of ?msg ?ds] len e 1(2) by simp_all
  obtain c3 where f: "vb2_digest_finalize c2 ?old ?d = (0, c3, vb2_hash ?h ?msg)"
    using vb2_digest_finalize_holds(2) [OF 2(3), of ?d ?old] len 2(2)
    by (auto simp: copy_at_all length_vb2_hash)
  show ?thesis
    unfolding vb2_verify_data_def Let_def case_prod_beta wb1_def [symmetric] r1(1)
    using enough d(2) r1(2) room(2) r2 i 1(1) e 2(1) f by (simp add: not_less [symmetric])
qed

text \<open>Without it, it fails and writes nothing.\<close>

lemma verify_data_no_room:
  assumes "fst (vb2_workbuf_alloc wb (vb2_digest_size (kr_hash_alg key))) = NULL \<or>
    fst (vb2_workbuf_alloc (snd (vb2_workbuf_alloc wb (vb2_digest_size (kr_hash_alg key)))) SIZEOF_DIGEST_CONTEXT) = NULL \<or>
    sz < data_size m sig"
  shows "fst (vb2_verify_data dc0 m data sz sig key wb) \<noteq> 0 \<and> snd (vb2_verify_data dc0 m data sz sig key wb) = m"
  using assms by (auto simp: vb2_verify_data_def Let_def case_prod_beta)

lemma deref_key_cong:
  assumes "rdbytes m (kr_n k) (4 * unat (kr_arrsize k)) = rdbytes m' (kr_n k) (4 * unat (kr_arrsize k))"
    and "rdbytes m (kr_rr k) (4 * unat (kr_arrsize k)) = rdbytes m' (kr_rr k) (4 * unat (kr_arrsize k))"
  shows "deref_key m k = deref_key m' k"
  unfolding deref_key_def rdwords_cong [OF assms(1)] rdwords_cong [OF assms(2)] ..

text \<open>A key with the sizes that unpacking gives it.\<close>

definition key_shape :: "vb2_key_ref \<Rightarrow> bool" where
  "key_shape key \<longleftrightarrow> kr_hash_alg key \<noteq> VB2_HASH_INVALID \<and> vb2_rsa_sig_size (kr_sig_alg key) \<noteq> 0 \<and>
     4 * unat (kr_arrsize key) = unat (vb2_rsa_sig_size (kr_sig_alg key))"

lemma key_shape_sized: "key_shape key \<Longrightarrow> rsa_key_ok (deref_key m key) \<Longrightarrow> rsa_key_sized (deref_key m key)"
  by (simp add: key_shape_def rsa_key_sized_def deref_key_def)

lemma key_shape_length:
  assumes "key_shape key" and "length sig = unat (vb2_rsa_sig_size (kr_sig_alg key))"
  shows "length (snd (vb2_rsa_verify_digest (deref_key m key) sig digest wb)) = length sig"
proof (rule length_rsa_verify_digest)
  show "0 < words (deref_key m key)" using assms(1) by (auto simp: key_shape_def deref_key_def unat_gt_0 unat_eq_zero)
qed (use assms in \<open>auto simp: key_shape_def deref_key_def rdwords_def\<close>)

text \<open>
  What verification relies on: a key of the right sizes, and data, signature and key that lie outside
  the free part of the work buffer.
\<close>

definition verify_setup :: "vb2_digest_context \<Rightarrow> mem \<Rightarrow> u64 \<Rightarrow> u64 \<Rightarrow> vb2_key_ref \<Rightarrow> vb2_workbuf \<Rightarrow> bool" where
  "verify_setup dc0 m data sig key wb \<longleftrightarrow>
     dc_ok dc0 \<and> wb_ok wb \<and> key_shape key \<and>
     unat (data_size m sig) < 2 ^ 29 \<and> vb2_signature_data m sig \<noteq> NULL \<and>
     apart wb sig SIZEOF_SIGNATURE \<and> apart wb (vb2_signature_data m sig) (unat (sig_size m sig)) \<and>
     apart wb (kr_n key) (4 * unat (kr_arrsize key)) \<and> apart wb (kr_rr key) (4 * unat (kr_arrsize key))"

text \<open>The signature of \<^verbatim>\<open>data_size\<close> bytes at \<^verbatim>\<open>data\<close> is valid for the key.\<close>

definition signed_by :: "mem \<Rightarrow> vb2_key_ref \<Rightarrow> u64 \<Rightarrow> u64 \<Rightarrow> bool" where
  "signed_by m key data sig \<longleftrightarrow>
     sig_size m sig = vb2_rsa_sig_size (kr_sig_alg key) \<and>
     rsa_signs (deref_key m key) (rdbytes m (vb2_signature_data m sig) (unat (sig_size m sig)))
       (vb2_hash (kr_hash_alg key) (rdbytes m data (unat (data_size m sig))))"

text \<open>Writing the digest into the work buffer changes nothing the signature check reads.\<close>

lemma verify_digest_written:
  assumes su: "verify_setup dc0 m data sig key wb" and dl: "length d = unat (vb2_digest_size (kr_hash_alg key))"
    and fit: "length d \<le> unat (wb_size wb)"
  shows "vb2_verify_digest (wrbytes m (wb_buf wb) d) key sig (wb_buf wb) wb1 =
      (if sig_size m sig \<noteq> vb2_rsa_sig_size (kr_sig_alg key)
       then (VB2_ERROR_VDATA_SIG_SIZE, wrbytes m (wb_buf wb) d)
       else let r = vb2_rsa_verify_digest (deref_key m key)
                      (rdbytes m (vb2_signature_data m sig) (unat (sig_size m sig))) d wb1
         in (fst r, wrbytes (wrbytes m (wb_buf wb) d) (vb2_signature_data m sig) (snd r)))"
proof -
  let ?h = "kr_hash_alg key" and ?sd = "vb2_signature_data m sig" and ?m = "wrbytes m (wb_buf wb) d"
  note s = su [unfolded verify_setup_def]
  have wb: "wb_ok wb" "length d \<le> unat (wb_size wb)" using s fit by auto
  have keep: "apart wb a k \<Longrightarrow> rdbytes ?m a k = rdbytes m a k" for a k by (rule apart_rdbytes [OF _ wb])
  have f: "sig_offset ?m sig = sig_offset m sig" "sig_size ?m sig = sig_size m sig"
    using signature_fields_cong [of ?m sig m] keep [of sig SIZEOF_SIGNATURE] s by simp_all
  have sdm: "vb2_signature_data ?m sig = ?sd" by (simp add: vb2_signature_data_def f)
  have dk: "deref_key ?m key = deref_key m key" using s by (intro deref_key_cong keep) blast+
  have bytes: "rdbytes ?m ?sd (unat (sig_size m sig)) = rdbytes m ?sd (unat (sig_size m sig))"
    "rdbytes ?m (wb_buf wb) (unat (vb2_digest_size ?h)) = d"
    using keep s rdbytes_wrbytes_same [of d m "wb_buf wb"] dl digest_size_le [of ?h] by auto
  have "wb_buf wb \<noteq> NULL" using wb(1) by (simp add: wb_ok_def)
  then show ?thesis unfolding vb2_verify_digest_def Let_def sdm f dk bytes using s by (simp add: case_prod_beta)
qed

lemma verify_data_run:
  assumes su: "verify_setup dc0 m data sig key wb"
  defines "wb1 \<equiv> snd (vb2_workbuf_alloc wb (vb2_digest_size (kr_hash_alg key)))"
    and "dig \<equiv> vb2_hash (kr_hash_alg key) (rdbytes m data (unat (data_size m sig)))"
    and "sdat \<equiv> vb2_signature_data m sig"
  defines "r \<equiv> vb2_rsa_verify_digest (deref_key m key) (rdbytes m sdat (unat (sig_size m sig))) dig wb1"
  assumes room: "fst (vb2_workbuf_alloc wb (vb2_digest_size (kr_hash_alg key))) \<noteq> NULL"
    "fst (vb2_workbuf_alloc wb1 SIZEOF_DIGEST_CONTEXT) \<noteq> NULL" and enough: "data_size m sig \<le> sz"
  shows "vb2_verify_data dc0 m data sz sig key wb =
      (if sig_size m sig \<noteq> vb2_rsa_sig_size (kr_sig_alg key) then (VB2_ERROR_VDATA_SIG_SIZE, wrbytes m (wb_buf wb) dig)
       else (fst r, wrbytes (wrbytes m (wb_buf wb) dig) sdat (snd r)))"
    and "length dig \<le> unat (wb_size wb)"
proof -
  let ?h = "kr_hash_alg key"
  note s = su [unfolded verify_setup_def]
  have dl: "length dig = unat (vb2_digest_size ?h)" unfolding dig_def by (rule length_vb2_hash)
  have wb: "wb_ok wb" and h: "?h \<noteq> VB2_HASH_INVALID" using s by (simp_all add: key_shape_def)
  show fit: "length dig \<le> unat (wb_size wb)"
    using alloc_size(3) [OF wb _ room(1)] digest_size_le [of ?h] unfolding dl by simp
  have "vb2_verify_data dc0 m data sz sig key wb =
      vb2_verify_digest (wrbytes m (wb_buf wb) dig) key sig (wb_buf wb) wb1"
    using verify_data_eq [OF _ wb h _ enough, of dc0 data] room s unfolding wb1_def dig_def by simp
  then show "vb2_verify_data dc0 m data sz sig key wb =
      (if sig_size m sig \<noteq> vb2_rsa_sig_size (kr_sig_alg key) then (VB2_ERROR_VDATA_SIG_SIZE, wrbytes m (wb_buf wb) dig)
       else (fst r, wrbytes (wrbytes m (wb_buf wb) dig) sdat (snd r)))"
    using verify_digest_written [OF su dl fit, of wb1] unfolding r_def sdat_def by (simp add: Let_def)
qed

text \<open>Data is accepted exactly when there is room to check it and it is signed.\<close>

lemma verify_data_iff:
  assumes su: "verify_setup dc0 m data sig key wb" and ok: "rsa_key_ok (deref_key m key)"
  shows "fst (vb2_verify_data dc0 m data sz sig key wb) = VB2_SUCCESS \<longleftrightarrow>
      verify_room wb key \<and> data_size m sig \<le> sz \<and> signed_by m key data sig"
proof -
  let ?d = "vb2_digest_size (kr_hash_alg key)"
  let ?wb = "snd (vb2_workbuf_alloc wb ?d)" and ?n = "3 * vb2_rsa_sig_size (kr_sig_alg key)"
  let ?dig = "vb2_hash (kr_hash_alg key) (rdbytes m data (unat (data_size m sig)))"
  let ?sg = "rdbytes m (vb2_signature_data m sig) (unat (sig_size m sig))"
  note s = su [unfolded verify_setup_def]
  have sz: "rsa_key_sized (deref_key m key)" using s ok key_shape_sized by blast
  show ?thesis
  proof (cases "fst (vb2_workbuf_alloc wb ?d) = NULL \<or> fst (vb2_workbuf_alloc ?wb SIZEOF_DIGEST_CONTEXT) = NULL \<or> sz < data_size m sig")
    case True
    then show ?thesis using verify_data_no_room [OF True] by (auto simp: verify_room_def case_prod_beta)
  next
    case False
    then have room: "fst (vb2_workbuf_alloc wb ?d) \<noteq> NULL" "fst (vb2_workbuf_alloc ?wb SIZEOF_DIGEST_CONTEXT) \<noteq> NULL"
      "data_size m sig \<le> sz" by auto
    note run = verify_data_run(1) [OF su room]
    have "fst (vb2_rsa_verify_digest (deref_key m key) ?sg ?dig ?wb) = VB2_SUCCESS \<longleftrightarrow>
        fst (vb2_workbuf_alloc ?wb ?n) \<noteq> NULL \<and> rsa_signs (deref_key m key) ?sg ?dig"
      if "sig_size m sig = vb2_rsa_sig_size (kr_sig_alg key)"
    proof (cases "fst (vb2_workbuf_alloc ?wb ?n) = NULL")
      case True
      then show ?thesis using rsa_key_sized_bytes [OF sz]
        by (simp add: vb2_rsa_verify_digest_def Let_def case_prod_beta deref_key_def)
    next
      case False
      then show ?thesis using rsa_verify_digest_eq(1) [OF sz, of ?sg ?dig ?wb] that s length_vb2_hash
        by (simp add: deref_key_def key_shape_def)
    qed
    then show ?thesis unfolding run using room by (auto simp: verify_room_def case_prod_beta signed_by_def)
  qed
qed

text \<open>Only the signature and the free part of the work buffer are written.\<close>

lemma verify_data_frame:
  assumes su: "verify_setup dc0 m data sig key wb" and x: "unat x \<notin> {wb_lo wb..<wb_hi wb}"
    "unat x \<notin> area (vb2_signature_data m sig) (unat (sig_size m sig))"
  shows "snd (vb2_verify_data dc0 m data sz sig key wb) x = m x"
proof (cases "fst (vb2_workbuf_alloc wb (vb2_digest_size (kr_hash_alg key))) = NULL \<or>
    fst (vb2_workbuf_alloc (snd (vb2_workbuf_alloc wb (vb2_digest_size (kr_hash_alg key)))) SIZEOF_DIGEST_CONTEXT) = NULL \<or>
    sz < data_size m sig")
  case True
  then show ?thesis using verify_data_no_room [OF True] by simp
next
  case False
  note s = su [unfolded verify_setup_def]
  have r: "fst (vb2_workbuf_alloc wb (vb2_digest_size (kr_hash_alg key))) \<noteq> NULL"
    "fst (vb2_workbuf_alloc (snd (vb2_workbuf_alloc wb (vb2_digest_size (kr_hash_alg key)))) SIZEOF_DIGEST_CONTEXT) \<noteq> NULL"
    "data_size m sig \<le> sz" using False by auto
  note run = verify_data_run [OF su r]
  let ?dig = "vb2_hash (kr_hash_alg key) (rdbytes m data (unat (data_size m sig)))" and ?sd = "vb2_signature_data m sig"
  have 1: "wrbytes m (wb_buf wb) ?dig x = m x"
    using x(1) run(2) s by (intro wrbytes_outside) (auto simp: area_def wb_hi_def wb_ok_def)
  have 2: "wrbytes (wrbytes m (wb_buf wb) ?dig) ?sd d x = wrbytes m (wb_buf wb) ?dig x" if "length d = unat (sig_size m sig)" for d
    using that x(2) s by (intro wrbytes_outside) (auto simp: apart_def)
  show ?thesis unfolding run(1) using 1 2 key_shape_length s by simp
qed

section \<open>Keyblocks and preambles\<close>

text \<open>What verification with a key relies on: the key and a work buffer that is apart from it.\<close>

definition verify_env :: "vb2_digest_context \<Rightarrow> vb2_key_ref \<Rightarrow> vb2_workbuf \<Rightarrow> bool" where
  "verify_env dc0 key wb \<longleftrightarrow> dc_ok dc0 \<and> wb_ok wb \<and> key_shape key \<and>
     apart wb (kr_n key) (4 * unat (kr_arrsize key)) \<and> apart wb (kr_rr key) (4 * unat (kr_arrsize key))"

lemma verify_setup_inside:
  assumes env: "verify_env dc0 key wb" and out: "apart wb parent (unat sz)" and len: "unat sz < 2 ^ 29"
    and psz: "psz \<le> sz" and ds: "data_size m sig \<le> psz" and sig: "unat sig = unat parent + k" "0 < k"
    and ins: "inside parent (unat psz) sig SIZEOF_SIGNATURE (unat (sig_offset m sig)) (unat (sig_size m sig))"
  shows "verify_setup dc0 m parent sig key wb" and "data_size m sig \<le> sz"
    and "area (vb2_signature_data m sig) (unat (sig_size m sig)) \<subseteq> area parent (unat sz)"
proof -
  have le: "unat psz \<le> unat sz" "unat (data_size m sig) \<le> unat sz" using psz ds by (simp_all add: word_le_nat_alt)
  then show "data_size m sig \<le> sz" by (simp add: word_le_nat_alt)
  have a: "unat (vb2_signature_data m sig) = unat sig + unat (sig_offset m sig)"
    unfolding vb2_signature_data_def by (rule unat_plus_u64 [of sig "ucast (sig_offset m sig)", simplified])
      (use ins in \<open>auto simp: inside_def\<close>)
  then have "vb2_signature_data m sig \<noteq> NULL" using sig by auto
  moreover have "apart wb sig SIZEOF_SIGNATURE" "apart wb (vb2_signature_data m sig) (unat (sig_size m sig))"
    using out ins le sig a by (auto simp: apart_def inside_def area_def)
  ultimately show "verify_setup dc0 m parent sig key wb"
    using env len le by (simp add: verify_env_def verify_setup_def)
  show "area (vb2_signature_data m sig) (unat (sig_size m sig)) \<subseteq> area parent (unat sz)"
    using a ins sig le by (auto simp: area_def inside_def)
qed

lemma unat_field: "apart wb parent k \<Longrightarrow> unat n < k \<Longrightarrow> unat (parent + n) = unat parent + unat n"
  by (rule unat_plus_u64) (simp add: apart_def)

text \<open>The header of a keyblock, its signature and its data key are where they may be.\<close>

definition keyblock_ok :: "mem \<Rightarrow> u64 \<Rightarrow> u32 \<Rightarrow> bool" where
  "keyblock_ok m kb sz \<longleftrightarrow>
     SIZEOF_KEYBLOCK \<le> unat sz \<and> rdbytes m kb KEY_BLOCK_MAGIC_SIZE = KEY_BLOCK_MAGIC \<and>
     keyblock_header_version_major m kb = KEY_BLOCK_HEADER_VERSION_MAJOR \<and> keyblock_size m kb \<le> sz \<and>
     inside kb (unat (keyblock_size m kb)) (keyblock_signature kb) SIZEOF_SIGNATURE
       (unat (sig_offset m (keyblock_signature kb))) (unat (sig_size m (keyblock_signature kb))) \<and>
     data_size m (keyblock_signature kb) \<le> keyblock_size m kb \<and>
     SIZEOF_KEYBLOCK \<le> unat (data_size m (keyblock_signature kb)) \<and>
     inside kb (unat (data_size m (keyblock_signature kb))) (keyblock_data_key kb) SIZEOF_PACKED_KEY
       (unat (key_offset m (keyblock_data_key kb))) (unat (key_size m (keyblock_data_key kb)))"

lemma inside_mono: "inside p k x a b c \<Longrightarrow> k \<le> k' \<Longrightarrow> unat p + k' < 2 ^ 64 \<Longrightarrow> inside p k' x a b c"
  by (auto simp: inside_def)

lemma check_keyblock_iff:
  "vb2_check_keyblock m kb sz (keyblock_signature kb) = 0 \<longleftrightarrow> keyblock_ok m kb sz"
proof -
  let ?s = "keyblock_signature kb" and ?d = "keyblock_data_key kb"
  have "inside kb (unat (keyblock_size m kb)) ?d SIZEOF_PACKED_KEY (unat (key_offset m ?d)) (unat (key_size m ?d))"
    if "inside kb (unat (data_size m ?s)) ?d SIZEOF_PACKED_KEY (unat (key_offset m ?d)) (unat (key_size m ?d))"
      "data_size m ?s \<le> keyblock_size m kb"
      "inside kb (unat (keyblock_size m kb)) ?s SIZEOF_SIGNATURE (unat (sig_offset m ?s)) (unat (sig_size m ?s))"
    using inside_mono [OF that(1), of "unat (keyblock_size m kb)"] that(2,3)
    by (simp add: word_le_nat_alt inside_def)
  then show ?thesis
    unfolding vb2_check_keyblock_def keyblock_ok_def verify_signature_inside_iff verify_packed_key_inside_iff
    by (auto simp: word_less_nat_alt word_le_nat_alt not_less)
qed

lemma verify_keyblock_run:
  "vb2_verify_keyblock dc0 m kb sz key wb =
     (let v = vb2_verify_data dc0 m kb sz (keyblock_signature kb) key wb in
      if keyblock_ok m kb sz then (if fst v \<noteq> 0 then VB2_ERROR_KEYBLOCK_SIG_INVALID else VB2_SUCCESS, snd v)
      else (vb2_check_keyblock m kb sz (keyblock_signature kb), m))"
  unfolding vb2_verify_keyblock_def Let_def check_keyblock_iff case_prod_beta by simp

lemma keyblock_setup:
  assumes env: "verify_env dc0 key wb" and out: "apart wb kb (unat sz)" and len: "unat sz < 2 ^ 29"
    and ok: "keyblock_ok m kb sz"
  shows "verify_setup dc0 m kb (keyblock_signature kb) key wb" and "data_size m (keyblock_signature kb) \<le> sz"
    and "area (vb2_signature_data m (keyblock_signature kb)) (unat (sig_size m (keyblock_signature kb))) \<subseteq> area kb (unat sz)"
proof -
  let ?s = "keyblock_signature kb"
  note k = ok [unfolded keyblock_ok_def]
  have o: "unat ?s = unat kb + 24" unfolding keyblock_signature_def using unat_field [OF out, of 24] k by simp
  show "verify_setup dc0 m kb ?s key wb" "data_size m ?s \<le> sz"
    "area (vb2_signature_data m ?s) (unat (sig_size m ?s)) \<subseteq> area kb (unat sz)"
    by (rule verify_setup_inside [OF env out len _ _ o, of "keyblock_size m kb"]; use k in simp)+
qed

lemma verify_keyblock_iff:
  assumes env: "verify_env dc0 key wb" and out: "apart wb kb (unat sz)" and len: "unat sz < 2 ^ 29"
    and key: "rsa_key_ok (deref_key m key)"
  shows "fst (vb2_verify_keyblock dc0 m kb sz key wb) = VB2_SUCCESS \<longleftrightarrow>
      verify_room wb key \<and> keyblock_ok m kb sz \<and> signed_by m key kb (keyblock_signature kb)"
proof (cases "keyblock_ok m kb sz")
  case True
  note s = keyblock_setup [OF env out len True]
  show ?thesis using verify_data_iff [OF s(1) key, of sz] s(2) True by (simp add: verify_keyblock_run Let_def)
next
  case False
  then show ?thesis using check_keyblock_iff [of m kb sz] by (simp add: verify_keyblock_run Let_def)
qed

lemma verify_keyblock_frame:
  assumes "verify_env dc0 key wb" and "apart wb kb (unat sz)" and "unat sz < 2 ^ 29"
    and "unat x \<notin> {wb_lo wb..<wb_hi wb}" and "unat x \<notin> area kb (unat sz)"
  shows "snd (vb2_verify_keyblock dc0 m kb sz key wb) x = m x"
  using keyblock_setup(1,3) [OF assms(1-3)] verify_data_frame [OF _ assms(4), of dc0 m kb "keyblock_signature kb" key sz] assms(5)
  by (auto simp: verify_keyblock_run Let_def)

definition preamble_ok :: "mem \<Rightarrow> u64 \<Rightarrow> u32 \<Rightarrow> bool" where
  "preamble_ok m pre sz \<longleftrightarrow>
     SIZEOF_FW_PREAMBLE \<le> unat sz \<and> preamble_header_version_major m pre = FIRMWARE_PREAMBLE_HEADER_VERSION_MAJOR \<and>
     1 \<le> preamble_header_version_minor m pre \<and> preamble_size m pre \<le> sz \<and>
     inside pre (unat (preamble_size m pre)) (preamble_signature pre) SIZEOF_SIGNATURE
       (unat (sig_offset m (preamble_signature pre))) (unat (sig_size m (preamble_signature pre))) \<and>
     data_size m (preamble_signature pre) \<le> preamble_size m pre"

text \<open>The body signature and the kernel subkey lie inside the signed part of the preamble.\<close>

definition preamble_parts_ok :: "mem \<Rightarrow> u64 \<Rightarrow> bool" where
  "preamble_parts_ok m pre \<longleftrightarrow>
     SIZEOF_FW_PREAMBLE \<le> unat (data_size m (preamble_signature pre)) \<and>
     inside pre (unat (data_size m (preamble_signature pre))) (body_signature pre) SIZEOF_SIGNATURE
       (unat (sig_offset m (body_signature pre))) (unat (sig_size m (body_signature pre))) \<and>
     inside pre (unat (data_size m (preamble_signature pre))) (kernel_subkey pre) SIZEOF_PACKED_KEY
       (unat (key_offset m (kernel_subkey pre))) (unat (key_size m (kernel_subkey pre)))"

lemma verify_fw_preamble_run:
  "vb2_verify_fw_preamble dc0 m pre sz key wb =
     (let v = vb2_verify_data dc0 m pre sz (preamble_signature pre) key wb in
      if preamble_ok m pre sz
      then (if fst v \<noteq> 0 then VB2_ERROR_PREAMBLE_SIG_INVALID
            else if preamble_parts_ok (snd v) pre then VB2_SUCCESS
            else fst (vb2_verify_fw_preamble dc0 m pre sz key wb), snd v)
      else (fst (vb2_verify_fw_preamble dc0 m pre sz key wb), m))"
  and verify_fw_preamble_bad: "\<not> preamble_ok m pre sz \<or>
     \<not> preamble_parts_ok (snd (vb2_verify_data dc0 m pre sz (preamble_signature pre) key wb)) pre \<Longrightarrow>
     fst (vb2_verify_fw_preamble dc0 m pre sz key wb) \<noteq> VB2_SUCCESS"
  unfolding vb2_verify_fw_preamble_def Let_def case_prod_beta preamble_ok_def preamble_parts_ok_def
    verify_signature_inside_iff verify_packed_key_inside_iff
  by (auto simp: word_less_nat_alt word_le_nat_alt not_less)

lemma preamble_setup:
  assumes env: "verify_env dc0 key wb" and out: "apart wb pre (unat sz)" and len: "unat sz < 2 ^ 29"
    and ok: "preamble_ok m pre sz"
  shows "verify_setup dc0 m pre (preamble_signature pre) key wb" and "data_size m (preamble_signature pre) \<le> sz"
    and "area (vb2_signature_data m (preamble_signature pre)) (unat (sig_size m (preamble_signature pre))) \<subseteq> area pre (unat sz)"
proof -
  let ?s = "preamble_signature pre"
  note k = ok [unfolded preamble_ok_def]
  have o: "unat ?s = unat pre + 8" unfolding preamble_signature_def using unat_field [OF out, of 8] k by simp
  show "verify_setup dc0 m pre ?s key wb" "data_size m ?s \<le> sz"
    "area (vb2_signature_data m ?s) (unat (sig_size m ?s)) \<subseteq> area pre (unat sz)"
    by (rule verify_setup_inside [OF env out len _ _ o, of "preamble_size m pre"]; use k in simp)+
qed

lemma snd_verify_fw_preamble:
  "snd (vb2_verify_fw_preamble dc0 m pre sz key wb) =
     (if preamble_ok m pre sz then snd (vb2_verify_data dc0 m pre sz (preamble_signature pre) key wb) else m)"
  by (subst verify_fw_preamble_run) (simp add: Let_def)

lemma verify_fw_preamble_iff:
  assumes env: "verify_env dc0 key wb" and out: "apart wb pre (unat sz)" and len: "unat sz < 2 ^ 29"
    and key: "rsa_key_ok (deref_key m key)"
  shows "fst (vb2_verify_fw_preamble dc0 m pre sz key wb) = VB2_SUCCESS \<longleftrightarrow>
      verify_room wb key \<and> preamble_ok m pre sz \<and> signed_by m key pre (preamble_signature pre) \<and>
      preamble_parts_ok (snd (vb2_verify_fw_preamble dc0 m pre sz key wb)) pre"
  using preamble_setup [OF env out len] verify_data_iff [OF _ key, of dc0 pre "preamble_signature pre" wb sz]
    verify_fw_preamble_bad [of m pre sz dc0 key wb]
    arg_cong [OF verify_fw_preamble_run [of dc0 m pre sz key wb, unfolded Let_def], of fst]
  unfolding snd_verify_fw_preamble by (auto split: if_splits)

lemma verify_fw_preamble_frame:
  assumes "verify_env dc0 key wb" and "apart wb pre (unat sz)" and "unat sz < 2 ^ 29"
    and "unat x \<notin> {wb_lo wb..<wb_hi wb}" and "unat x \<notin> area pre (unat sz)"
  shows "snd (vb2_verify_fw_preamble dc0 m pre sz key wb) x = m x"
  using preamble_setup(1,3) [OF assms(1-3)] verify_data_frame [OF _ assms(4), of dc0 m pre "preamble_signature pre" key sz] assms(5)
  unfolding snd_verify_fw_preamble by auto

text \<open>
  C18. vb2_verify_keyblock() accepts a keyblock exactly when the work buffer has room to check it, its header is right, its signature lies
  inside it and its data key inside the signed part, and the signature is the PKCS 1.5 signature of
  the digest of that part under the key.  Nothing is written outside the keyblock and the free part
  of the work buffer.\<close>

theorem vb2_verify_keyblock_correct:
  assumes "verify_env dc0 key wb" and "apart wb kb (unat sz)" and "unat sz < 2 ^ 29"
    and "rsa_key_ok (deref_key m key)"
  shows "(fst (vb2_verify_keyblock dc0 m kb sz key wb) = VB2_SUCCESS \<longleftrightarrow>
      verify_room wb key \<and> keyblock_ok m kb sz \<and> signed_by m key kb (keyblock_signature kb)) \<and>
    (\<forall>x. unat x \<notin> {wb_lo wb..<wb_hi wb} \<and> unat x \<notin> area kb (unat sz) \<longrightarrow>
      snd (vb2_verify_keyblock dc0 m kb sz key wb) x = m x)"
  using verify_keyblock_iff [OF assms] verify_keyblock_frame [OF assms(1-3)] by blast

text \<open>
  C19. vb2_verify_fw_preamble() accepts a preamble exactly when the work buffer has room to check it, its header is right, its signature lies
  inside it and signs it under the key, and the body signature and the kernel subkey that it leaves
  in memory lie inside the signed part.  Nothing is written outside the preamble and the free part of
  the work buffer.\<close>

theorem vb2_verify_fw_preamble_correct:
  assumes "verify_env dc0 key wb" and "apart wb pre (unat sz)" and "unat sz < 2 ^ 29"
    and "rsa_key_ok (deref_key m key)"
  shows "(fst (vb2_verify_fw_preamble dc0 m pre sz key wb) = VB2_SUCCESS \<longleftrightarrow>
      verify_room wb key \<and> preamble_ok m pre sz \<and> signed_by m key pre (preamble_signature pre) \<and>
      preamble_parts_ok (snd (vb2_verify_fw_preamble dc0 m pre sz key wb)) pre) \<and>
    (\<forall>x. unat x \<notin> {wb_lo wb..<wb_hi wb} \<and> unat x \<notin> area pre (unat sz) \<longrightarrow>
      snd (vb2_verify_fw_preamble dc0 m pre sz key wb) x = m x)"
  using verify_fw_preamble_iff [OF assms] verify_fw_preamble_frame [OF assms(1-3)] by blast

text \<open>
  A keyblock and a preamble whose headers are right and whose signatures are zero.
\<close>

definition demo_keyblock :: bytes where
  "demo_keyblock =
     KEY_BLOCK_MAGIC @ le32_bytes 2 @ le32_bytes 1 @ le32_bytes 240 @ le32_bytes 0 @
     le32_bytes 88 @ le32_bytes 0 @ le32_bytes 128 @ le32_bytes 0 @ le32_bytes 112 @ le32_bytes 0 @
     replicate 32 0 @ le32_bytes 32 @ replicate 156 0"

definition demo_preamble :: bytes where
  "demo_preamble =
     le32_bytes 236 @ le32_bytes 0 @ le32_bytes 100 @ le32_bytes 0 @ le32_bytes 128 @ le32_bytes 0 @
     le32_bytes 108 @ le32_bytes 0 @ le32_bytes 2 @ le32_bytes 1 @ replicate 40 0 @ replicate 156 0"

definition demo_signed_mem :: mem where
  "demo_signed_mem = wrbytes (wrbytes demo_mem 0x2000 demo_keyblock) 0x3000 demo_preamble"

definition demo_room :: vb2_workbuf where
  "demo_room = \<lparr>wb_buf = 0x10000, wb_size = 0x4000\<rparr>"

lemma length_demo: "length demo_keyblock = 240" "length demo_preamble = 236"
  by (simp_all add: demo_keyblock_def demo_preamble_def le32_bytes_def)

lemma demo_signed_rd:
  "rdbytes demo_signed_mem 0x1000 296 = demo_packed_key"
  "rdbytes demo_signed_mem 0x2000 240 = demo_keyblock"
  "rdbytes demo_signed_mem 0x3000 236 = demo_preamble"
proof -
  have 1: "rdbytes demo_signed_mem 0x3000 (length demo_preamble) = demo_preamble"
    unfolding demo_signed_mem_def by (rule rdbytes_wrbytes_same) (simp add: length_demo)
  then show "rdbytes demo_signed_mem 0x3000 236 = demo_preamble" by (simp add: length_demo)
  have "rdbytes demo_signed_mem 0x2000 240 = rdbytes (wrbytes demo_mem 0x2000 demo_keyblock) 0x2000 (length demo_keyblock)"
    unfolding demo_signed_mem_def length_demo
    by (rule rdbytes_wrbytes_disjoint) (simp_all add: length_demo area_def)
  also have "\<dots> = demo_keyblock" by (rule rdbytes_wrbytes_same) (simp add: length_demo)
  finally show "rdbytes demo_signed_mem 0x2000 240 = demo_keyblock" .
  have "rdbytes demo_signed_mem 0x1000 296 = rdbytes (wrbytes demo_mem 0x2000 demo_keyblock) 0x1000 296"
    unfolding demo_signed_mem_def by (rule rdbytes_wrbytes_disjoint) (simp_all add: length_demo area_def)
  also have "\<dots> = rdbytes demo_mem 0x1000 296"
    by (rule rdbytes_wrbytes_disjoint) (simp_all add: length_demo area_def)
  also have "\<dots> = demo_packed_key"
    unfolding demo_mem_def using rdbytes_wrbytes_same [of demo_packed_key "\<lambda>_. 0" "0x1000"]
    by (simp add: length_demo_packed_key)
  finally show "rdbytes demo_signed_mem 0x1000 296 = demo_packed_key" .
qed

lemma demo_signed_fields:
  "i + 4 \<le> 296 \<Longrightarrow> rdm32 demo_signed_mem (0x1000 + of_nat i) = rd32 demo_packed_key i"
  "i + 4 \<le> 240 \<Longrightarrow> rdm32 demo_signed_mem (0x2000 + of_nat i) = rd32 demo_keyblock i"
  "i + 4 \<le> 236 \<Longrightarrow> rdm32 demo_signed_mem (0x3000 + of_nat i) = rd32 demo_preamble i"
  using rdm32_rdbytes [of i 296 demo_signed_mem "0x1000"] rdm32_rdbytes [of i 240 demo_signed_mem "0x2000"]
    rdm32_rdbytes [of i 236 demo_signed_mem "0x3000"] by (simp_all add: demo_signed_rd)

lemma demo_deref: "deref_key demo_signed_mem demo_ref = demo_key"
proof -
  have n: "rdwords demo_signed_mem 0x1028 32 = replicate 32 0xffffffff"
  proof (rule nth_equalityI)
    fix i assume "i < length (rdwords demo_signed_mem 0x1028 32)"
    then have i: "i < 32" by (simp add: rdwords_def)
    have "rdm32 demo_signed_mem (0x1028 + of_nat (4 * i)) = rd32 demo_packed_key (40 + 4 * i)"
      using demo_signed_fields(1) [of "40 + 4 * i"] i by (simp add: algebra_simps)
    also have "\<dots> = 0xffffffff"
      using i by (simp add: demo_packed_key_def rd32_def le32_bytes_def nth_append shl_def)
    finally show "rdwords demo_signed_mem 0x1028 32 ! i = replicate 32 0xffffffff ! i"
      using i by (simp add: rdwords_def)
  qed (simp add: rdwords_def)
  have r: "rdwords demo_signed_mem 0x10a8 32 = 1 # replicate 31 0"
  proof (rule nth_equalityI)
    fix i assume "i < length (rdwords demo_signed_mem 0x10a8 32)"
    then have i: "i < 32" by (simp add: rdwords_def)
    have "rdm32 demo_signed_mem (0x10a8 + of_nat (4 * i)) = rd32 demo_packed_key (168 + 4 * i)"
      using demo_signed_fields(1) [of "168 + 4 * i"] i by (simp add: algebra_simps)
    also have "\<dots> = (if i = 0 then 1 else 0)"
      using i by (cases i) (simp_all add: demo_packed_key_def rd32_def le32_bytes_def nth_append nth_Cons' shl_def)
    finally show "rdwords demo_signed_mem 0x10a8 32 ! i = (1 # replicate 31 0) ! i"
      using i by (simp add: rdwords_def nth_Cons')
  qed (simp add: rdwords_def)
  show ?thesis unfolding deref_key_def demo_ref_def demo_key_def using n r by simp
qed

lemma demo_env: "verify_env blank_dc demo_ref demo_room"
  by (simp add: verify_env_def key_shape_def wb_ok_def demo_room_def apart_def area_def wb_hi_def demo_ref_def)

lemma demo_deref_ok: "rsa_key_ok (deref_key demo_signed_mem demo_ref)"
  using demo_key_sized by (simp add: demo_deref rsa_key_sized_def)

lemma be_nat_0: "be_nat xs = 0 \<longleftrightarrow> (\<forall>x \<in> set xs. x = 0)"
  by (induction xs rule: rev_induct) (auto simp: be_nat_def unat_eq_zero)

text \<open>A signature of zeros is never valid: the padding of an encoded message is not zero.\<close>

lemma zero_not_signed:
  assumes "deref_key m key = demo_key" and "\<forall>x \<in> set (rdbytes m (vb2_signature_data m sig) (unat (sig_size m sig))). x = 0"
  shows "\<not> signed_by m key data sig"
proof
  assume s: "signed_by m key data sig"
  have alg: "kr_sig_alg key = VB2_SIG_RSA1024" "kr_hash_alg key = VB2_HASH_SHA1"
    using assms(1) by (simp_all add: deref_key_def demo_key_def)
  have sz: "unat (sig_size m sig) = 128" using s alg by (simp add: signed_by_def)
  have z: "be_nat (rdbytes m (vb2_signature_data m sig) 128) = 0" using assms(2) sz by (simp add: be_nat_0)
  have "be_nat (pkcs1_encode 128 VB2_HASH_SHA1 (vb2_hash VB2_HASH_SHA1 (rdbytes m data (unat (data_size m sig))))) \<noteq> 0"
    unfolding be_nat_0 by (simp add: pkcs1_encode_def pkcs1_pad_def padding_tail_def)
  then show False using s z unfolding signed_by_def rsa_signs_def assms(1) sz alg
    by (simp add: demo_key_def zero_power)
qed

lemma demo_keyblock_fields:
  "rd32 demo_keyblock 8 = 2" "rd32 demo_keyblock 16 = 240" "rd32 demo_keyblock 24 = 88" "rd32 demo_keyblock 32 = 128"
  "rd32 demo_keyblock 40 = 112" "rd32 demo_keyblock 80 = 32" "rd32 demo_keyblock 88 = 0"
  by (simp_all add: demo_keyblock_def rd32_def le32_bytes_def shl_def shr_def nth_append nth_Cons')

lemma demo_preamble_fields:
  "rd32 demo_preamble 0 = 236" "rd32 demo_preamble 8 = 100" "rd32 demo_preamble 16 = 128" "rd32 demo_preamble 24 = 108"
  "rd32 demo_preamble 32 = 2" "rd32 demo_preamble 36 = 1"
  by (simp_all add: demo_preamble_def rd32_def le32_bytes_def shl_def shr_def nth_append nth_Cons')

lemma demo_keyblock_ok:
  "keyblock_ok demo_signed_mem 0x2000 240" "\<not> signed_by demo_signed_mem demo_ref 0x2000 (keyblock_signature 0x2000)"
proof -
  note r = demo_signed_fields(2)
  have f: "keyblock_header_version_major demo_signed_mem 0x2000 = 2" "keyblock_size demo_signed_mem 0x2000 = 240"
    "sig_offset demo_signed_mem 0x2018 = 88" "sig_size demo_signed_mem 0x2018 = 128" "data_size demo_signed_mem 0x2018 = 112"
    "key_offset demo_signed_mem 0x2050 = 32" "key_size demo_signed_mem 0x2050 = 0"
    using r [of 8] r [of 16] r [of 24] r [of 32] r [of 40] r [of 80] r [of 88] unfolding demo_keyblock_fields
    by (simp_all add: keyblock_header_version_major_def keyblock_size_def sig_offset_def sig_size_def data_size_def
        key_offset_def key_size_def)
  have "rdbytes demo_signed_mem 0x2000 8 = KEY_BLOCK_MAGIC"
    using arg_cong [OF demo_signed_rd(2), of "take 8"] by (simp add: take_rdbytes demo_keyblock_def)
  then show "keyblock_ok demo_signed_mem 0x2000 240"
    using f by (simp add: keyblock_ok_def keyblock_signature_def keyblock_data_key_def inside_def)
  have "rdbytes demo_signed_mem 0x2070 128 = replicate 128 0"
    using arg_cong [OF demo_signed_rd(2), of "drop 112"]
    by (simp add: drop_rdbytes demo_keyblock_def le32_bytes_def drop_Cons')
  then show "\<not> signed_by demo_signed_mem demo_ref 0x2000 (keyblock_signature 0x2000)"
    by (intro zero_not_signed demo_deref) (simp add: keyblock_signature_def vb2_signature_data_def f)
qed

lemma demo_preamble_ok:
  "preamble_ok demo_signed_mem 0x3000 236" "\<not> signed_by demo_signed_mem demo_ref 0x3000 (preamble_signature 0x3000)"
proof -
  note r = demo_signed_fields(3)
  have f: "preamble_size demo_signed_mem 0x3000 = 236" "preamble_header_version_major demo_signed_mem 0x3000 = 2"
    "preamble_header_version_minor demo_signed_mem 0x3000 = 1"
    "sig_offset demo_signed_mem 0x3008 = 100" "sig_size demo_signed_mem 0x3008 = 128" "data_size demo_signed_mem 0x3008 = 108"
    using r [of 0] r [of 8] r [of 16] r [of 24] r [of 32] r [of 36] unfolding demo_preamble_fields
    by (simp_all add: preamble_header_version_major_def preamble_header_version_minor_def preamble_size_def
        sig_offset_def sig_size_def data_size_def)
  show "preamble_ok demo_signed_mem 0x3000 236"
    using f by (simp add: preamble_ok_def preamble_signature_def inside_def)
  have "rdbytes demo_signed_mem 0x306c 128 = replicate 128 0"
    using arg_cong [OF demo_signed_rd(3), of "drop 108"]
    by (simp add: drop_rdbytes demo_preamble_def le32_bytes_def drop_Cons')
  then show "\<not> signed_by demo_signed_mem demo_ref 0x3000 (preamble_signature 0x3000)"
    by (intro zero_not_signed demo_deref) (simp add: preamble_signature_def vb2_signature_data_def f)
qed

theorem vb2_verify_keyblock_correct_witness:
  "verify_env blank_dc demo_ref demo_room \<and> keyblock_ok demo_signed_mem 0x2000 240 \<and>
   fst (vb2_verify_keyblock blank_dc demo_signed_mem 0x2000 240 demo_ref demo_room) \<noteq> VB2_SUCCESS"
  using vb2_verify_keyblock_correct [OF demo_env _ _ demo_deref_ok, of "0x2000" 240] demo_env demo_keyblock_ok
  by (simp add: apart_def area_def demo_room_def wb_hi_def)

theorem vb2_verify_fw_preamble_correct_witness:
  "verify_env blank_dc demo_ref demo_room \<and> preamble_ok demo_signed_mem 0x3000 236 \<and>
   fst (vb2_verify_fw_preamble blank_dc demo_signed_mem 0x3000 236 demo_ref demo_room) \<noteq> VB2_SUCCESS"
  using vb2_verify_fw_preamble_correct [OF demo_env _ _ demo_deref_ok, of "0x3000" 236] demo_env demo_preamble_ok
  by (simp add: apart_def area_def demo_room_def wb_hi_def)

end
