(* ===== verification/Fw_Verify.thy ===== *)
theory Fw_Verify
  imports Boot_Api Keyblock_Correct
begin

text \<open>
  Verifying a firmware slot: the keyblock and the preamble (\<^verbatim>\<open>firmware/lib20/misc.c\<close>), the third
  phase and the hash of the body (\<^verbatim>\<open>firmware/lib20/api.c\<close>, and \<^verbatim>\<open>vb2api_extend_hash()\<close> of
  \<^verbatim>\<open>firmware/2lib/2api.c\<close>).  Reading a resource and the hash engine are callbacks of the platform, and so
  parameters.
\<close>

section \<open>Keyblock and preamble (\<^verbatim>\<open>misc.c\<close>)\<close>

text \<open>
  Reading a structure whose header says how long it is: the header first, then all of it, from the
  same place and to the same place in the work buffer.
\<close>

definition read_sized ::
  "vb2_platform \<Rightarrow> vb2_context \<Rightarrow> mem \<Rightarrow> vb2_workbuf \<Rightarrow> vb2_resource_index \<Rightarrow> u32 \<Rightarrow> nat \<Rightarrow>
   (mem \<Rightarrow> u64 \<Rightarrow> u32) \<Rightarrow> u32 \<Rightarrow> u32 \<Rightarrow> (u32 \<times> mem) + (u64 \<times> u32 \<times> vb2_workbuf \<times> mem)" where
  "read_sized pl ctx m wb res offs hdr size_field err_header err_all =
     (let (p, wb) = vb2_workbuf_alloc wb (of_nat hdr)
      in if p = NULL then Inl (err_header, m)
      else let (rv, d) = vb2ex_read_resource pl ctx res offs (of_nat hdr);
               m = wrbytes m p d
      in if rv \<noteq> 0 then Inl (rv, m)
      else let sz = size_field m p;
               (p, wb) = vb2_workbuf_realloc wb (of_nat hdr) sz
      in if p = NULL then Inl (err_all, m)
      else let (rv, d) = vb2ex_read_resource pl ctx res offs sz;
               m = wrbytes m p d
      in if rv \<noteq> 0 then Inl (rv, m) else Inr (p, sz, wb, m))"

text \<open>The data key of the keyblock at \<^verbatim>\<open>kb\<close> takes the place of the root key.\<close>

definition save_fw_data_key :: "mem \<Rightarrow> u64 \<Rightarrow> u64 \<Rightarrow> mem" where
  "save_fw_data_key m key_data kb =
     (let data_key = keyblock_data_key kb;
          packed_key = key_data;
          m = wrm32 m (packed_key + 16) (key_algorithm m data_key);
          m = wrm32 m (packed_key + 24) (key_version m data_key);
          m = wrm32 m (packed_key + 8) (key_size m data_key)
      in wrbytes m (key_data + ucast (key_offset m packed_key))
           (rdbytes m (data_key + ucast (key_offset m data_key)) (unat (key_size m packed_key))))"

text \<open>\<^verbatim>\<open>vb2_report_dev_firmware()\<close> only prints a debug message.\<close>

definition vb2_load_fw_keyblock ::
  "vb2_platform \<Rightarrow> vb2_digest_context \<Rightarrow> vb2_context \<Rightarrow> mem \<Rightarrow> u32 \<times> vb2_context \<times> mem" where
  "vb2_load_fw_keyblock pl dc0 ctx m =
     (let wb = vb2_workbuf_from_ctx ctx;
          key_sz = sd_gbb_rootkey_size (sd ctx);
          (key_data, wb) = vb2_workbuf_alloc wb key_sz
      in if key_data = NULL then (VB2_ERROR_FW_KEYBLOCK_WORKBUF_ROOT_KEY, ctx, m)
      else let (rv, d) = vb2ex_read_resource pl ctx VB2_RES_GBB (sd_gbb_rootkey_offset (sd ctx)) key_sz;
               m = wrbytes m key_data d
      in if rv \<noteq> 0 then (rv, ctx, m)
      else case vb2_unpack_key m key_data key_sz of
        Inl rv \<Rightarrow> (rv, ctx, m)
      | Inr root_key \<Rightarrow>
      (case read_sized pl ctx m wb VB2_RES_FW_VBLOCK 0 SIZEOF_KEYBLOCK keyblock_size
              VB2_ERROR_FW_KEYBLOCK_WORKBUF_HEADER VB2_ERROR_FW_KEYBLOCK_WORKBUF of
        Inl (rv, m) \<Rightarrow> (rv, ctx, m)
      | Inr (kb, block_size, wb, m) \<Rightarrow>
          let (rv, m) = vb2_verify_keyblock dc0 m kb block_size root_key wb
          in if rv \<noteq> 0 then (rv, vb2_fail ctx (ucast VB2_RECOVERY_FW_KEYBLOCK) (ucast rv), m)
          else let version = key_version m (keyblock_data_key kb);
                   rv = (if version > 0xffff then VB2_ERROR_FW_KEYBLOCK_VERSION_RANGE
                         else if version < shr (sd_fw_version_secdata (sd ctx)) 16 \<and>
                                 \<not> has_flag (sd_gbb_flags (sd ctx)) VB2_GBB_FLAG_DISABLE_FW_ROLLBACK_CHECK
                         then VB2_ERROR_FW_KEYBLOCK_VERSION_ROLLBACK else VB2_SUCCESS)
          in if rv \<noteq> 0 then (rv, vb2_fail ctx (ucast VB2_RECOVERY_FW_KEY_ROLLBACK) (ucast rv), m)
          else let ctx = upd_sd (\<lambda>d. d\<lparr>sd_fw_version := shl version 16\<rparr>) ctx;
                   m = save_fw_data_key m key_data kb;
                   key_offs = ucast (vb2_offset_of (workbuf ctx) key_data);
                   key_len = key_offset m key_data + key_size m key_data;
                   ctx = upd_sd (\<lambda>d. d\<lparr>sd_workbuf_data_key_offset := key_offs, sd_workbuf_data_key_size := key_len,
                                        sd_vblock_preamble_offset := keyblock_size m kb\<rparr>) ctx
          in (VB2_SUCCESS, ctx\<lparr>workbuf_used := key_offs + key_len\<rparr>, m)))"

text \<open>The version checks of the preamble, and rolling the version in secure storage forward.\<close>

definition check_fw_version :: "vb2_context \<Rightarrow> u32 \<Rightarrow> u32 \<times> vb2_context" where
  "check_fw_version ctx version =
     (let rv = (if version > 0xffff then VB2_ERROR_FW_PREAMBLE_VERSION_RANGE else VB2_SUCCESS);
          ctx = upd_sd (\<lambda>d. d\<lparr>sd_fw_version := sd_fw_version d OR version\<rparr>) ctx;
          rv = (if rv = 0 \<and> sd_fw_version (sd ctx) < sd_fw_version_secdata (sd ctx) \<and>
                   \<not> has_flag (sd_gbb_flags (sd ctx)) VB2_GBB_FLAG_DISABLE_FW_ROLLBACK_CHECK
                then VB2_ERROR_FW_PREAMBLE_VERSION_ROLLBACK else rv)
      in if rv \<noteq> 0 then (rv, vb2_fail ctx (ucast VB2_RECOVERY_FW_ROLLBACK) (ucast rv))
      else if sd_fw_version (sd ctx) > sd_fw_version_secdata (sd ctx) \<and>
              sd_last_fw_slot (sd ctx) = sd_fw_slot (sd ctx) \<and>
              sd_last_fw_result (sd ctx) = VB2_FW_RESULT_SUCCESS
      then let ctx = upd_sd (\<lambda>d. d\<lparr>sd_fw_version_secdata := sd_fw_version d\<rparr>) ctx
           in vb2_secdata_set ctx VB2_SECDATA_VERSIONS (sd_fw_version (sd ctx))
      else (VB2_SUCCESS, ctx))"

definition vb2_load_fw_preamble ::
  "vb2_platform \<Rightarrow> vb2_digest_context \<Rightarrow> vb2_context \<Rightarrow> mem \<Rightarrow> u32 \<times> vb2_context \<times> mem" where
  "vb2_load_fw_preamble pl dc0 ctx m =
     (let key_data = workbuf ctx + ucast (sd_workbuf_data_key_offset (sd ctx));
          key_sz = sd_workbuf_data_key_size (sd ctx);
          wb = vb2_workbuf_from_ctx ctx
      in if key_sz = 0 then (VB2_ERROR_FW_PREAMBLE2_DATA_KEY, ctx, m)
      else case vb2_unpack_key m key_data key_sz of
        Inl rv \<Rightarrow> (rv, ctx, m)
      | Inr data_key \<Rightarrow>
      (case read_sized pl ctx m wb VB2_RES_FW_VBLOCK (sd_vblock_preamble_offset (sd ctx)) SIZEOF_FW_PREAMBLE preamble_size
              VB2_ERROR_FW_PREAMBLE2_WORKBUF_HEADER VB2_ERROR_FW_PREAMBLE2_WORKBUF of
        Inl (rv, m) \<Rightarrow> (rv, ctx, m)
      | Inr (pre, pre_size, wb, m) \<Rightarrow>
          let (rv, m) = vb2_verify_fw_preamble dc0 m pre pre_size data_key wb
          in if rv \<noteq> 0 then (rv, vb2_fail ctx (ucast VB2_RECOVERY_FW_PREAMBLE) (ucast rv), m)
          else let (rv, ctx) = check_fw_version ctx (firmware_version m pre)
          in if rv \<noteq> 0 then (rv, ctx, m)
          else let offs = ucast (vb2_offset_of (workbuf ctx) pre);
                   ctx = upd_sd (\<lambda>d. d\<lparr>sd_workbuf_preamble_offset := offs, sd_workbuf_preamble_size := pre_size\<rparr>) ctx
          in (VB2_SUCCESS, ctx\<lparr>workbuf_used := offs + pre_size\<rparr>, m)))"

section \<open>Third phase (\<^verbatim>\<open>api.c\<close>)\<close>

definition vb2api_fw_phase3 ::
  "vb2_platform \<Rightarrow> vb2_digest_context \<Rightarrow> vb2_context \<Rightarrow> mem \<Rightarrow> u32 \<times> vb2_context \<times> mem" where
  "vb2api_fw_phase3 pl dc0 ctx m =
     (let (rv, ctx, m) = vb2_load_fw_keyblock pl dc0 ctx m
      in if rv \<noteq> 0 then (rv, vb2_fail ctx (ucast VB2_RECOVERY_RO_INVALID_RW) (ucast rv), m)
      else let (rv, ctx, m) = vb2_load_fw_preamble pl dc0 ctx m
      in if rv \<noteq> 0 then (rv, vb2_fail ctx (ucast VB2_RECOVERY_RO_INVALID_RW) (ucast rv), m)
      else (VB2_SUCCESS, ctx, m))"

section \<open>Hash of the body (\<^verbatim>\<open>api.c\<close>, \<^verbatim>\<open>2api.c\<close>)\<close>

text \<open>
  The hash engine of the platform: three callbacks over a state of its own.  The last one returns
  the bytes it writes to the digest.
\<close>

record 'h hwcrypto =
  vb2ex_hwcrypto_digest_init :: "'h \<Rightarrow> vb2_hash_algorithm \<Rightarrow> u32 \<Rightarrow> u32 \<times> 'h"
  vb2ex_hwcrypto_digest_extend :: "'h \<Rightarrow> bytes \<Rightarrow> u32 \<Rightarrow> u32 \<times> 'h"
  vb2ex_hwcrypto_digest_finalize :: "'h \<Rightarrow> u32 \<Rightarrow> u32 \<times> bytes \<times> 'h"

text \<open>
  The digest context at \<^verbatim>\<open>workbuf_hash_offset\<close>, which nothing else reads or writes once it is allocated,
  and the state of the engine.
\<close>

record 'h body_hash =
  bh_dc :: vb2_digest_context
  bh_hw :: 'h

abbreviation (input) VB2_HASH_TAG_INVALID :: u32 where "VB2_HASH_TAG_INVALID \<equiv> 0"
abbreviation (input) VB2_HASH_TAG_FW_BODY :: u32 where "VB2_HASH_TAG_FW_BODY \<equiv> 1"
abbreviation (input) VB2_FIRMWARE_PREAMBLE_DISALLOW_HWCRYPTO :: u32 where
  "VB2_FIRMWARE_PREAMBLE_DISALLOW_HWCRYPTO \<equiv> 2"

definition alloc_hash :: "vb2_context \<Rightarrow> u32 \<times> vb2_context" where
  "alloc_hash ctx =
     (if sd_workbuf_hash_size (sd ctx) \<noteq> 0 then (VB2_SUCCESS, ctx)
      else let dig_size = SIZEOF_DIGEST_CONTEXT;
               (dc, wb) = vb2_workbuf_alloc (vb2_workbuf_from_ctx ctx) dig_size
      in if dc = NULL then (VB2_ERROR_API_INIT_HASH_WORKBUF, ctx)
      else let offs = ucast (vb2_offset_of (workbuf ctx) dc);
               ctx = upd_sd (\<lambda>d. d\<lparr>sd_workbuf_hash_offset := offs, sd_workbuf_hash_size := dig_size\<rparr>) ctx
      in (VB2_SUCCESS, ctx\<lparr>workbuf_used := offs + dig_size\<rparr>))"

text \<open>The engine first, where the preamble allows it; the software when the engine cannot do it.\<close>

definition start_hash ::
  "'h hwcrypto \<Rightarrow> 'h body_hash \<Rightarrow> bool \<Rightarrow> vb2_hash_algorithm \<Rightarrow> u32 \<Rightarrow> u32 \<times> 'h body_hash" where
  "start_hash hw bh allowed alg n =
     (let (rv, bh) =
        (if allowed
         then let (rv, h) = vb2ex_hwcrypto_digest_init hw (bh_hw bh) alg n;
                  bh = bh\<lparr>bh_hw := h\<rparr>
              in (rv, if rv = 0 then bh\<lparr>bh_dc := (bh_dc bh)\<lparr>dc_hash_alg := alg, dc_using_hwcrypto := True\<rparr>\<rparr> else bh)
         else (VB2_ERROR_EX_HWCRYPTO_UNSUPPORTED, bh))
      in if rv \<noteq> VB2_ERROR_EX_HWCRYPTO_UNSUPPORTED then (rv, bh)
      else let (rv, dc) = vb2_digest_init (bh_dc bh) alg in (rv, bh\<lparr>bh_dc := dc\<rparr>))"

text \<open>The size stored through the pointer \<^verbatim>\<open>size\<close> is a result, absent where nothing is stored.\<close>

definition vb2api_init_hash ::
  "'h hwcrypto \<Rightarrow> vb2_context \<Rightarrow> mem \<Rightarrow> 'h body_hash \<Rightarrow> u32 \<Rightarrow> u32 \<times> u32 option \<times> vb2_context \<times> 'h body_hash" where
  "vb2api_init_hash hw ctx m bh tag =
     (if tag = VB2_HASH_TAG_INVALID then (VB2_ERROR_API_INIT_HASH_TAG, None, ctx, bh)
      else if sd_workbuf_preamble_size (sd ctx) = 0 then (VB2_ERROR_API_INIT_HASH_PREAMBLE, None, ctx, bh)
      else let pre = workbuf ctx + ucast (sd_workbuf_preamble_offset (sd ctx))
      in if tag \<noteq> VB2_HASH_TAG_FW_BODY then (VB2_ERROR_API_INIT_HASH_TAG, None, ctx, bh)
      else let (rv, ctx) = alloc_hash ctx
      in if rv \<noteq> 0 then (rv, None, ctx, bh)
      else if sd_workbuf_data_key_size (sd ctx) = 0 then (VB2_ERROR_API_INIT_HASH_DATA_KEY, None, ctx, bh)
      else case vb2_unpack_key m (workbuf ctx + ucast (sd_workbuf_data_key_offset (sd ctx))) (sd_workbuf_data_key_size (sd ctx)) of
        Inl rv \<Rightarrow> (rv, None, ctx, bh)
      | Inr key \<Rightarrow>
          let n = data_size m (body_signature pre);
              ctx = upd_sd (\<lambda>d. d\<lparr>sd_hash_tag := tag, sd_hash_remaining_size := n\<rparr>) ctx;
              (rv, bh) = start_hash hw bh (\<not> has_flag (preamble_flags m pre) VB2_FIRMWARE_PREAMBLE_DISALLOW_HWCRYPTO)
                (kr_hash_alg key) n
          in (rv, Some n, ctx, bh))"

definition vb2api_extend_hash ::
  "'h hwcrypto \<Rightarrow> vb2_context \<Rightarrow> 'h body_hash \<Rightarrow> bytes \<Rightarrow> u32 \<Rightarrow> u32 \<times> vb2_context \<times> 'h body_hash" where
  "vb2api_extend_hash hw ctx bh buf sz =
     (if sd_workbuf_hash_size (sd ctx) = 0 then (VB2_ERROR_API_EXTEND_HASH_WORKBUF, ctx, bh)
      else if sz = 0 \<or> sz > sd_hash_remaining_size (sd ctx) then (VB2_ERROR_API_EXTEND_HASH_SIZE, ctx, bh)
      else let ctx = upd_sd (\<lambda>d. d\<lparr>sd_hash_remaining_size := sd_hash_remaining_size d - sz\<rparr>) ctx
      in if dc_using_hwcrypto (bh_dc bh)
         then let (rv, h) = vb2ex_hwcrypto_digest_extend hw (bh_hw bh) buf sz in (rv, ctx, bh\<lparr>bh_hw := h\<rparr>)
         else let (rv, dc) = vb2_digest_extend (bh_dc bh) buf sz in (rv, ctx, bh\<lparr>bh_dc := dc\<rparr>))"

text \<open>The digest goes to memory at \<^verbatim>\<open>digest\<close>.\<close>

definition finish_hash :: "'h hwcrypto \<Rightarrow> mem \<Rightarrow> 'h body_hash \<Rightarrow> u64 \<Rightarrow> u32 \<Rightarrow> u32 \<times> mem \<times> 'h body_hash" where
  "finish_hash hw m bh digest digest_size =
     (if dc_using_hwcrypto (bh_dc bh)
      then let (rv, d, h) = vb2ex_hwcrypto_digest_finalize hw (bh_hw bh) digest_size
           in (rv, wrbytes m digest d, bh\<lparr>bh_hw := h\<rparr>)
      else let (rv, dc, d) = vb2_digest_finalize (bh_dc bh) (rdbytes m digest (unat digest_size)) digest_size
           in (rv, wrbytes m digest d, bh\<lparr>bh_dc := dc\<rparr>))"

text \<open>\<^verbatim>\<open>digest_out\<close> is the caller's buffer, absent for a null pointer; its new contents are a result.\<close>

definition vb2api_check_hash_get_digest ::
  "'h hwcrypto \<Rightarrow> vb2_context \<Rightarrow> mem \<Rightarrow> 'h body_hash \<Rightarrow> bytes option \<Rightarrow> u32 \<Rightarrow>
   u32 \<times> vb2_context \<times> mem \<times> 'h body_hash \<times> bytes option" where
  "vb2api_check_hash_get_digest hw ctx m bh digest_out digest_out_size =
     (let digest_size = vb2_digest_size (dc_hash_alg (bh_dc bh));
          wb = vb2_workbuf_from_ctx ctx
      in if sd_workbuf_preamble_size (sd ctx) = 0 then (VB2_ERROR_API_CHECK_HASH_PREAMBLE, ctx, m, bh, digest_out)
      else let pre = workbuf ctx + ucast (sd_workbuf_preamble_offset (sd ctx))
      in if sd_workbuf_hash_size (sd ctx) = 0 then (VB2_ERROR_API_CHECK_HASH_WORKBUF, ctx, m, bh, digest_out)
      else if sd_hash_remaining_size (sd ctx) \<noteq> 0 then (VB2_ERROR_API_CHECK_HASH_SIZE, ctx, m, bh, digest_out)
      else let (digest, wb) = vb2_workbuf_alloc wb digest_size
      in if digest = NULL then (VB2_ERROR_API_CHECK_HASH_WORKBUF_DIGEST, ctx, m, bh, digest_out)
      else let (rv, m, bh) = finish_hash hw m bh digest digest_size
      in if rv \<noteq> 0 then (rv, ctx, m, bh, digest_out)
      else if sd_hash_tag (sd ctx) \<noteq> VB2_HASH_TAG_FW_BODY then (VB2_ERROR_API_CHECK_HASH_TAG, ctx, m, bh, digest_out)
      else if sd_workbuf_data_key_size (sd ctx) = 0 then (VB2_ERROR_API_CHECK_HASH_DATA_KEY, ctx, m, bh, digest_out)
      else case vb2_unpack_key m (workbuf ctx + ucast (sd_workbuf_data_key_offset (sd ctx))) (sd_workbuf_data_key_size (sd ctx)) of
        Inl rv \<Rightarrow> (rv, ctx, m, bh, digest_out)
      | Inr key \<Rightarrow>
          let (rv, m) = vb2_verify_digest m key (body_signature pre) digest wb;
              ctx = (if rv \<noteq> 0 then vb2_fail ctx (ucast VB2_RECOVERY_FW_BODY) (ucast rv) else ctx)
          in case digest_out of
               None \<Rightarrow> (rv, ctx, m, bh, None)
             | Some out \<Rightarrow>
                 if digest_out_size < digest_size then (VB2_ERROR_API_CHECK_DIGEST_SIZE, ctx, m, bh, digest_out)
                 else (rv, ctx, m, bh, Some (copy_at out 0 (rdbytes m digest (unat digest_size)))))"

definition vb2api_check_hash ::
  "'h hwcrypto \<Rightarrow> vb2_context \<Rightarrow> mem \<Rightarrow> 'h body_hash \<Rightarrow> u32 \<times> vb2_context \<times> mem \<times> 'h body_hash" where
  "vb2api_check_hash hw ctx m bh =
     (let (rv, ctx, m, bh, digest_out) = vb2api_check_hash_get_digest hw ctx m bh None 0 in (rv, ctx, m, bh))"

end
