(* ===== verification/Fw_Trust.thy ===== *)
theory Fw_Trust
  imports Fw_Verify
begin

text \<open>
  What a firmware slot that passed the third phase has shown: a chain of signatures from the root key
  to the preamble, and a version that is not older than the stored one.
\<close>

section \<open>Memory outside an interval\<close>

definition same_outside :: "nat \<Rightarrow> nat \<Rightarrow> mem \<Rightarrow> mem \<Rightarrow> bool" where
  "same_outside lo hi m m' \<longleftrightarrow> (\<forall>x. unat x < lo \<or> hi \<le> unat x \<longrightarrow> m' x = m x)"

lemma same_outside_refl [simp]: "same_outside lo hi m m"
  by (simp add: same_outside_def)

lemma same_outside_trans: "same_outside lo hi m m' \<Longrightarrow> same_outside lo hi m' m'' \<Longrightarrow> same_outside lo hi m m''"
  by (simp add: same_outside_def)

lemma same_outside_mono: "same_outside a b m m' \<Longrightarrow> lo \<le> a \<Longrightarrow> b \<le> hi \<Longrightarrow> same_outside lo hi m m'"
  by (auto simp: same_outside_def)

lemma same_outside_wrbytes:
  assumes "lo \<le> unat a" and "unat a + length d \<le> hi" and "unat a + length d \<le> 2 ^ 64"
  shows "same_outside lo hi m (wrbytes m a d)"
  unfolding same_outside_def using assms by (auto intro!: wrbytes_outside simp: area_def)

lemma same_outside_rdbytes:
  assumes "same_outside lo hi m m'" and "unat a + k \<le> lo \<or> hi \<le> unat a" and "unat a + k \<le> 2 ^ 64"
  shows "rdbytes m' a k = rdbytes m a k"
proof (rule rdbytes_cong)
  fix i assume i: "i < k"
  then have "unat (a + of_nat i) = unat a + i" using assms(3) by (intro unat_plus_offset) simp
  then show "m' (a + of_nat i) = m (a + of_nat i)" using assms(1,2) i by (auto simp: same_outside_def)
qed

lemma same_outside_rdm32:
  assumes "same_outside lo hi m m'" and "unat a + 4 \<le> lo \<or> hi \<le> unat a" and "unat a + 4 \<le> 2 ^ 64"
  shows "rdm32 m' a = rdm32 m a"
  using same_outside_rdbytes [OF assms] by (simp add: rdm32_def)

lemma rdm32_wrm32_same [simp]: "rdm32 (wrm32 m a v) a = v"
  using rdm32_wrbytes [of 0 "le32_bytes v" m a] split_word32 [of v]
  by (simp add: wrm32_def le32_bytes_def rd32_def)

section \<open>Keys and signatures in byte strings\<close>

text \<open>The key that key data of an algorithm stands for.\<close>

definition key_value :: "u32 \<Rightarrow> bytes \<Rightarrow> vb2_public_key" where
  "key_value alg data =
     (let k = unat (rd32 data 0) in
      \<lparr>pk_arrsize = rd32 data 0, pk_n0inv = rd32 data 4,
       pk_n = map (\<lambda>i. rd32 data (8 + 4 * i)) [0..<k], pk_rr = map (\<lambda>i. rd32 data (8 + 4 * k + 4 * i)) [0..<k],
       pk_sig_alg = vb2_crypto_to_signature alg, pk_hash_alg = vb2_crypto_to_hash alg\<rparr>)"

definition packed_key_in :: "bytes \<Rightarrow> nat \<Rightarrow> vb2_public_key" where
  "packed_key_in bs off =
     key_value (rd32 bs (off + 16)) (take (unat (rd32 bs (off + 8))) (drop (off + unat (rd32 bs off)) bs))"

text \<open>The signature structure at an offset of a block signs the start of the block.\<close>

definition signed_in :: "vb2_public_key \<Rightarrow> bytes \<Rightarrow> nat \<Rightarrow> bool" where
  "signed_in key bs soff \<longleftrightarrow>
     rd32 bs (soff + 8) = vb2_rsa_sig_size (pk_sig_alg key) \<and>
     rsa_signs key (take (unat (rd32 bs (soff + 8))) (drop (soff + unat (rd32 bs soff)) bs))
       (vb2_hash (pk_hash_alg key) (take (unat (rd32 bs (soff + 16))) bs))"

text \<open>The bytes of a signature come after the data it signs.\<close>

definition sig_after :: "bytes \<Rightarrow> nat \<Rightarrow> bool" where
  "sig_after bs soff \<longleftrightarrow> unat (rd32 bs (soff + 16)) \<le> soff + unat (rd32 bs soff)"

lemma slice_rdbytes: "i + j \<le> k \<Longrightarrow> take j (drop i (rdbytes m a k)) = rdbytes m (a + of_nat i) j"
  by (simp add: drop_rdbytes take_rdbytes)

lemma unpack_key_value:
  assumes "vb2_unpack_key m buf sz = Inr k"
  shows "deref_key m k = key_value (key_algorithm m buf)
    (rdbytes m (buf + ucast (key_offset m buf)) (unat (key_size m buf)))"
proof -
  note u = unpack_key_Inr [OF assms]
  let ?b = "buf + ucast (key_offset m buf)" and ?a = "unat (kr_arrsize k)"
  let ?d = "rdbytes m ?b (unat (key_size m buf))"
  have rd: "rd32 ?d i = rdm32 m (?b + of_nat i)" if "i + 4 \<le> 8 * ?a + 8" for i
    using rdm32_rdbytes [of i "unat (key_size m buf)" m ?b] that u(5) by simp
  have a: "kr_arrsize k = rd32 ?d 0" "kr_n0inv k = rd32 ?d 4"
    using assms rd [of 0] rd [of 4] by (auto simp: vb2_unpack_key_def vb2_packed_key_data_def Let_def split: if_splits)
  have alg: "kr_sig_alg k = vb2_crypto_to_signature (key_algorithm m buf)" "kr_hash_alg k = vb2_crypto_to_hash (key_algorithm m buf)"
    using assms by (auto simp: vb2_unpack_key_def Let_def split: if_splits)
  have n: "rdwords m (kr_n k) ?a = map (\<lambda>i. rd32 ?d (8 + 4 * i)) [0..<?a]"
    unfolding rdwords_def u(6) by (rule map_cong) (simp_all add: rd algebra_simps)
  have "(4 * ucast (kr_arrsize k) :: u64) = of_nat (4 * ?a)" by simp
  then have rr: "rdwords m (kr_rr k) ?a = map (\<lambda>i. rd32 ?d (8 + 4 * ?a + 4 * i)) [0..<?a]"
    unfolding rdwords_def u(7) u(6) by (intro map_cong) (simp_all add: rd algebra_simps)
  show ?thesis using n rr unfolding deref_key_def key_value_def Let_def alg a(2) a(1) [symmetric] by simp
qed

lemma unpack_key_in:
  assumes "vb2_unpack_key m buf sz = Inr k"
  shows "deref_key m k = packed_key_in (rdbytes m buf (unat sz)) 0"
proof -
  note i = unpack_key_Inr(1) [OF assms, unfolded inside_def]
  have f: "rd32 (rdbytes m buf (unat sz)) j = rdm32 m (buf + of_nat j)" if "j + 4 \<le> SIZEOF_PACKED_KEY" for j
    using rdm32_rdbytes [of j "unat sz" m buf] that i by simp
  have o: "(ucast (key_offset m buf) :: u64) = of_nat (unat (key_offset m buf))" by simp
  show ?thesis
    unfolding packed_key_in_def unpack_key_value [OF assms] o
    using f [of 16] f [of 8] f [of 0] i
    by (simp add: slice_rdbytes key_algorithm_def key_size_def key_offset_def)
qed

lemma signed_by_in:
  assumes "sig = p + of_nat soff" and "soff + SIZEOF_SIGNATURE \<le> unat sz"
    and "soff + unat (sig_offset m sig) + unat (sig_size m sig) \<le> unat sz" and "unat (data_size m sig) \<le> unat sz"
  shows "signed_by m key p sig \<longleftrightarrow> signed_in (deref_key m key) (rdbytes m p (unat sz)) soff"
proof -
  let ?B = "rdbytes m p (unat sz)"
  have f: "rd32 ?B (soff + j) = rdm32 m (sig + of_nat j)" if "j + 4 \<le> SIZEOF_SIGNATURE" for j
    using rdm32_rdbytes [of "soff + j" "unat sz" m p] that assms(1,2) by (simp add: add.assoc)
  have g: "rd32 ?B soff = sig_offset m sig" "rd32 ?B (soff + 8) = sig_size m sig" "rd32 ?B (soff + 16) = data_size m sig"
    using f [of 0] f [of 8] f [of 16] by (simp_all add: sig_offset_def sig_size_def data_size_def)
  have "(ucast (sig_offset m sig) :: u64) = of_nat (unat (sig_offset m sig))" by simp
  then have "vb2_signature_data m sig = p + of_nat (soff + unat (sig_offset m sig))"
    by (simp only: vb2_signature_data_def assms(1) of_nat_add add.assoc)
  then show ?thesis
    unfolding signed_by_def signed_in_def g using assms(3,4)
    by (simp add: slice_rdbytes take_rdbytes deref_key_def del: of_nat_add)
qed

section \<open>Reading into the work buffer\<close>

text \<open>
  The documented behaviour of \<^verbatim>\<open>vb2ex_read_resource()\<close>: success delivers the amount asked for, and no
  resource is so large that its size cannot be rounded up to the alignment of the work buffer.
\<close>

definition reads_ok :: "vb2_platform \<Rightarrow> bool" where
  "reads_ok pl \<longleftrightarrow> (\<forall>ctx i off sz. fst (vb2ex_read_resource pl ctx i off sz) = VB2_SUCCESS \<longrightarrow>
     length (snd (vb2ex_read_resource pl ctx i off sz)) = unat sz \<and> sz \<le> 0xfffffff0)"

lemma alloc_ok:
  assumes "wb_ok wb" and "sz \<le> 0xfffffff0" and "vb2_workbuf_alloc wb sz = (p, wb')" and "p \<noteq> NULL"
  shows "p = wb_buf wb" and "wb_ok wb'" and "wb_hi wb' = wb_hi wb" and "wb_lo wb + unat sz \<le> wb_lo wb'" and "wb_lo wb' \<le> wb_hi wb"
proof -
  have f: "wb_fits sz" using assms(2) by (simp add: wb_fits_def)
  show "wb_ok wb'" using wb.ok_alloc [OF assms(1) f] assms(3) by simp
  show "wb_hi wb' = wb_hi wb" using wb.hi_alloc [OF assms(1) f] assms(3) by simp
  show "wb_lo wb + unat sz \<le> wb_lo wb'" using wb.alloc_room [OF assms(1) f] assms(3,4) by simp
  show "wb_lo wb' \<le> wb_hi wb" using wb.lo_le_hi [OF \<open>wb_ok wb'\<close>] \<open>wb_hi wb' = wb_hi wb\<close> by simp
  show "p = wb_buf wb" using assms(3,4) by (auto simp: vb2_workbuf_alloc_def Let_def split: if_splits)
qed

lemma wb_hi_less: "wb_ok wb \<Longrightarrow> wb_hi wb < 2 ^ 64"
  by (simp add: wb_ok_def wb_hi_def)

lemma read_sized_ok:
  assumes pl: "reads_ok pl" and wb: "wb_ok wb" and hdr: "hdr \<le> 4096"
    and rd: "read_sized pl ctx m wb res offs hdr size_field e1 e2 = Inr (p, sz, wb', m')"
  obtains H where "vb2ex_read_resource pl ctx res offs (of_nat hdr) = (VB2_SUCCESS, H)" and "length H = hdr"
    and "sz = size_field (wrbytes m p H) p" and "sz \<le> 0xfffffff0"
    and "vb2ex_read_resource pl ctx res offs sz = (VB2_SUCCESS, rdbytes m' p (unat sz))"
    and "p = wb_buf wb" and "wb_ok wb'" and "wb_hi wb' = wb_hi wb" and "wb_lo wb + unat sz \<le> wb_lo wb'"
    and "same_outside (wb_lo wb) (wb_hi wb) m m'" and "wb_lo wb' \<le> wb_hi wb"
proof -
  have uh: "unat (of_nat hdr :: u32) = hdr" "(of_nat hdr :: u32) \<le> 0xfffffff0"
    using hdr by (simp_all add: unat_of_nat word_le_nat_alt)
  obtain p0 wb0 where a0: "vb2_workbuf_alloc wb (of_nat hdr) = (p0, wb0)" by fastforce
  obtain rv0 H where r0: "vb2ex_read_resource pl ctx res offs (of_nat hdr) = (rv0, H)" by fastforce
  define m1 where "m1 = wrbytes m p0 H"
  obtain p1 wb1 where a1: "vb2_workbuf_realloc wb0 (of_nat hdr) (size_field m1 p0) = (p1, wb1)" by fastforce
  obtain rv1 d where r1: "vb2ex_read_resource pl ctx res offs (size_field m1 p0) = (rv1, d)" by fastforce
  have nz: "p0 \<noteq> NULL" "rv0 = 0" "p1 \<noteq> NULL" "rv1 = 0"
    and res: "p = p1" "sz = size_field m1 p0" "wb' = wb1" "m' = wrbytes m1 p1 d"
    using rd by (auto simp: read_sized_def Let_def a0 r0 m1_def [symmetric] a1 r1 split: if_splits)
  have len: "length H = hdr" "length d = unat sz" "sz \<le> 0xfffffff0"
    using pl [unfolded reads_ok_def, rule_format, of ctx res offs "of_nat hdr"]
      pl [unfolded reads_ok_def, rule_format, of ctx res offs sz] r0 r1 nz res uh by simp_all
  note A = alloc_ok [OF wb uh(2) a0 nz(1)]
  have "vb2_workbuf_free wb0 (of_nat hdr) = wb" using wb.free_alloc [OF wb, of "of_nat hdr"] uh a0 nz(1) by (simp add: wb_fits_def)
  then have a1': "vb2_workbuf_alloc wb sz = (p, wb')" using a1 res by (simp add: vb2_workbuf_realloc_def)
  note B = alloc_ok [OF wb len(3) a1'] 
  have p: "p = wb_buf wb" "p0 = p" using B(1) A(1) nz res by simp_all
  have hi: "wb_hi wb < 2 ^ 64" by (rule wb_hi_less [OF wb])
  have room: "wb_lo wb + length H \<le> wb_hi wb" "wb_lo wb + length d \<le> wb_hi wb"
    using A(4,5) B(4,5) len uh nz res by simp_all
  have "same_outside (wb_lo wb) (wb_hi wb) m m1" unfolding m1_def p
    by (rule same_outside_wrbytes) (use room hi in simp_all)
  moreover have "same_outside (wb_lo wb) (wb_hi wb) m1 m'" unfolding res(4) res(1) [symmetric] p
    by (rule same_outside_wrbytes) (use room hi in simp_all)
  moreover have "rdbytes m' p (unat sz) = d"
    using rdbytes_wrbytes_same [of d m1 p] len hi unat_u32_less [of sz] res by simp
  ultimately have "same_outside (wb_lo wb) (wb_hi wb) m m'" "rdbytes m' p (unat sz) = d" by (blast intro: same_outside_trans)+
  then show thesis
    using B(2-5) r0 r1 nz len p res m1_def by (intro that [of H]) simp_all
qed

section \<open>The context\<close>

text \<open>The work buffer of a context does not wrap around, is smaller than half a gigabyte, and its used part is inside.\<close>

definition ctx_ok :: "vb2_context \<Rightarrow> bool" where
  "ctx_ok ctx \<longleftrightarrow> workbuf ctx \<noteq> NULL \<and> unat (workbuf ctx) + unat (workbuf_size ctx) < 2 ^ 64 \<and>
     unat (workbuf_size ctx) < 2 ^ 29 \<and> workbuf_used ctx \<le> workbuf_size ctx"

abbreviation used_end :: "vb2_context \<Rightarrow> nat" where "used_end ctx \<equiv> unat (workbuf ctx) + unat (workbuf_used ctx)"
abbreviation work_end :: "vb2_context \<Rightarrow> nat" where "work_end ctx \<equiv> unat (workbuf ctx) + unat (workbuf_size ctx)"

lemma from_ctx_ok:
  assumes "ctx_ok ctx" and "vb2_workbuf_alloc (vb2_workbuf_from_ctx ctx) sz = (p, wb')" and "p \<noteq> NULL"
    and "0 < unat sz" and "sz \<le> 0xfffffff0"
  shows "wb_ok (vb2_workbuf_from_ctx ctx)" and "used_end ctx \<le> wb_lo (vb2_workbuf_from_ctx ctx)"
    and "wb_hi (vb2_workbuf_from_ctx ctx) = work_end ctx"
proof -
  let ?b = "workbuf ctx + ucast (workbuf_used ctx)" and ?s = "workbuf_size ctx - workbuf_used ctx"
  have u: "unat (workbuf_used ctx) \<le> unat (workbuf_size ctx)" using assms(1) by (simp add: ctx_ok_def word_le_nat_alt)
  have b: "unat ?b = used_end ctx" using assms(1) u by (subst unat_plus_64) (simp_all add: ctx_ok_def)
  have s: "unat ?s = unat (workbuf_size ctx) - unat (workbuf_used ctx)" using u by (simp add: unat_sub word_le_nat_alt)
  have nn: "?b \<noteq> NULL" using b assms(1) by (auto simp: ctx_ok_def unat_eq_zero)
  have "wb_size (vb2_workbuf_from_ctx ctx) \<noteq> 0"
  proof
    assume "wb_size (vb2_workbuf_from_ctx ctx) = 0"
    then have "wb_round_up sz = 0" using assms(2,3) by (auto simp: vb2_workbuf_alloc_def Let_def word_gt_0 split: if_splits)
    then have "(unat sz + 15) div 16 * 16 = 0" using unat_wb_round_up [of sz] assms(5) by (simp add: word_le_nat_alt)
    then show False using assms(4) by simp
  qed
  then show "wb_ok (vb2_workbuf_from_ctx ctx)" "used_end ctx \<le> wb_lo (vb2_workbuf_from_ctx ctx)"
    "wb_hi (vb2_workbuf_from_ctx ctx) = work_end ctx"
    using workbuf_init_cases [OF nn, of ?s] b s u assms(1)
    unfolding vb2_workbuf_from_ctx_def ctx_ok_def by (auto split: if_splits)
qed

section \<open>Saving the data key\<close>

lemma same_outside_wrm32: "lo \<le> unat a \<Longrightarrow> unat a + 4 \<le> hi \<Longrightarrow> unat a + 4 \<le> 2 ^ 64 \<Longrightarrow> same_outside lo hi m (wrm32 m a v)"
  unfolding wrm32_def by (rule same_outside_wrbytes) (simp_all add: le32_bytes_def)

lemma rdm32_wrm32_other:
  assumes "unat a + 4 \<le> unat b \<or> unat b + 4 \<le> unat a" and "unat a + 4 \<le> 2 ^ 64" and "unat b + 4 \<le> 2 ^ 64"
  shows "rdm32 (wrm32 m b v) a = rdm32 m a"
  by (rule same_outside_rdm32 [OF same_outside_wrm32 [of "unat b" b "unat b + 4"]]) (use assms in simp_all)

lemma unat_add_small: "unat (a :: u64) + n < 2 ^ 64 \<Longrightarrow> n < 2 ^ 64 \<Longrightarrow> unat (a + of_nat n) = unat a + n"
  by (rule unat_plus_offset)

lemma key_fields_outside:
  assumes "same_outside lo hi m m'" and "unat key + SIZEOF_PACKED_KEY \<le> lo \<or> hi \<le> unat key"
    and "unat key + SIZEOF_PACKED_KEY < 2 ^ 64"
  shows "key_offset m' key = key_offset m key" "key_size m' key = key_size m key"
    "key_algorithm m' key = key_algorithm m key" "key_version m' key = key_version m key"
proof -
  have u: "unat (key + 8) = unat key + 8" "unat (key + 16) = unat key + 16" "unat (key + 24) = unat key + 24"
    using unat_plus_offset [of key 8] unat_plus_offset [of key 16] unat_plus_offset [of key 24] assms(3) by simp_all
  show "key_offset m' key = key_offset m key" "key_size m' key = key_size m key"
    "key_algorithm m' key = key_algorithm m key" "key_version m' key = key_version m key"
    unfolding key_offset_def key_size_def key_algorithm_def key_version_def
    by (rule same_outside_rdm32 [OF assms(1)]; use assms(2,3) u in auto)+
qed

lemma save_fw_data_key_ok:
  fixes m key_data kb
  defines "dk \<equiv> keyblock_data_key kb" and "ko \<equiv> key_offset m key_data"
  defines "ds \<equiv> key_size m dk" and "m' \<equiv> save_fw_data_key m key_data kb"
  assumes kd: "unat key_data + SIZEOF_PACKED_KEY \<le> unat dk" and ko: "SIZEOF_PACKED_KEY \<le> unat ko"
    and e: "unat dk + SIZEOF_PACKED_KEY \<le> e" "e < 2 ^ 64" "unat dk + unat (key_offset m dk) + unat ds \<le> e"
      "unat key_data + unat ko + unat ds \<le> e2" "e2 < 2 ^ 64"
  shows "key_algorithm m' key_data = key_algorithm m dk" and "key_size m' key_data = ds" and "key_offset m' key_data = ko"
    and "rdbytes m' (key_data + ucast ko) (unat ds) = rdbytes m (dk + ucast (key_offset m dk)) (unat ds)"
    and "same_outside (unat key_data) e2 m m'"
proof -
  let ?a = key_data
  have u: "unat (?a + 8) = unat ?a + 8" "unat (?a + 16) = unat ?a + 16" "unat (?a + 24) = unat ?a + 24"
    using unat_plus_offset [of ?a 8] unat_plus_offset [of ?a 16] unat_plus_offset [of ?a 24] kd e by simp_all
  define m1 where "m1 = wrm32 m (?a + 16) (key_algorithm m dk)"
  define m2 where "m2 = wrm32 m1 (?a + 24) (key_version m1 dk)"
  define m3 where "m3 = wrm32 m2 (?a + 8) (key_size m2 dk)"
  let ?h = "unat ?a + SIZEOF_PACKED_KEY"
  have o1: "same_outside (unat ?a) ?h m m1" unfolding m1_def by (rule same_outside_wrm32) (use u kd e in simp_all)
  have o2: "same_outside (unat ?a) ?h m m2" unfolding m2_def
    by (rule same_outside_trans [OF o1], rule same_outside_wrm32) (use u kd e in simp_all)
  have o3: "same_outside (unat ?a) ?h m m3" unfolding m3_def
    by (rule same_outside_trans [OF o2], rule same_outside_wrm32) (use u kd e in simp_all)
  have f2: "key_size m2 dk = ds" unfolding ds_def by (rule key_fields_outside [OF o2]) (use kd e in simp_all)
  have f3: "key_offset m3 dk = key_offset m dk" by (rule key_fields_outside [OF o3]) (use kd e in simp_all)
  have s3: "key_size m3 ?a = ds" unfolding key_size_def [of _ ?a] m3_def f2 by simp
  have a3: "key_algorithm m3 ?a = key_algorithm m dk"
    unfolding key_algorithm_def [of _ ?a] m3_def m2_def m1_def using u kd e by (simp add: rdm32_wrm32_other)
  have k3: "key_offset m3 ?a = ko"
    unfolding ko_def key_offset_def m3_def m2_def m1_def using u kd e by (simp add: rdm32_wrm32_other)
  have m': "m' = wrbytes m3 (?a + ucast ko) (rdbytes m3 (dk + ucast (key_offset m dk)) (unat ds))"
    by (simp only: m'_def save_fw_data_key_def Let_def dk_def [symmetric] m1_def [symmetric] m2_def [symmetric]
      m3_def [symmetric] f3 s3 k3)
  have uk: "unat (?a + ucast ko) = unat ?a + unat ko" using e unat_plus_u64 [of ?a "ucast ko"] by simp
  have ud: "unat (dk + ucast (key_offset m dk)) = unat dk + unat (key_offset m dk)"
    using e unat_plus_u64 [of dk "ucast (key_offset m dk)"] by simp
  have o4: "same_outside ?h e2 m3 m'" unfolding m' by (rule same_outside_wrbytes) (use uk e ko in simp_all)
  have ea: "?h \<le> e2" using ko e by simp
  show "key_algorithm m' ?a = key_algorithm m dk" "key_size m' ?a = ds" "key_offset m' ?a = ko"
    using key_fields_outside [OF o4, of ?a] a3 s3 k3 kd e by simp_all
  show "rdbytes m' (?a + ucast ko) (unat ds) = rdbytes m (dk + ucast (key_offset m dk)) (unat ds)"
    using rdbytes_wrbytes_same [of "rdbytes m3 (dk + ucast (key_offset m dk)) (unat ds)" m3 "?a + ucast ko"]
      same_outside_rdbytes [OF o3, of "dk + ucast (key_offset m dk)" "unat ds"] unat_u32_less [of ds] ud kd e
    unfolding m' by simp
  show "same_outside (unat ?a) e2 m m'"
    by (rule same_outside_trans [OF same_outside_mono [OF o3] same_outside_mono [OF o4]]) (use ea in simp_all)
qed

section \<open>The keyblock\<close>

lemma packed_key_in_rd:
  assumes "off + SIZEOF_PACKED_KEY \<le> L" and "key = p + of_nat off"
    and "off + unat (key_offset m key) + unat (key_size m key) \<le> L"
  shows "packed_key_in (rdbytes m p L) off =
    key_value (key_algorithm m key) (rdbytes m (key + ucast (key_offset m key)) (unat (key_size m key)))"
proof -
  have f: "rd32 (rdbytes m p L) (off + j) = rdm32 m (key + of_nat j)" if "j + 4 \<le> SIZEOF_PACKED_KEY" for j
    using rdm32_rdbytes [of "off + j" L m p] that assms(1,2) by (simp add: add.assoc)
  have g: "rd32 (rdbytes m p L) off = key_offset m key" "rd32 (rdbytes m p L) (off + 8) = key_size m key"
    "rd32 (rdbytes m p L) (off + 16) = key_algorithm m key"
    using f [of 0] f [of 8] f [of 16] by (simp_all add: key_offset_def key_size_def key_algorithm_def)
  have "(ucast (key_offset m key) :: u64) = of_nat (unat (key_offset m key))" by simp
  then have "key + ucast (key_offset m key) = p + of_nat (off + unat (key_offset m key))"
    by (simp only: assms(2) of_nat_add add.assoc)
  then show ?thesis using assms(3) unfolding packed_key_in_def g by (simp add: slice_rdbytes del: of_nat_add)
qed

text \<open>What the platform delivers.\<close>

definition fw_root :: "vb2_platform \<Rightarrow> vb2_context \<Rightarrow> bytes" where
  "fw_root pl ctx = snd (vb2ex_read_resource pl ctx VB2_RES_GBB (sd_gbb_rootkey_offset (sd ctx)) (sd_gbb_rootkey_size (sd ctx)))"

definition fw_keyblock :: "vb2_platform \<Rightarrow> vb2_context \<Rightarrow> bytes" where
  "fw_keyblock pl ctx = snd (vb2ex_read_resource pl ctx VB2_RES_FW_VBLOCK 0
     (rd32 (snd (vb2ex_read_resource pl ctx VB2_RES_FW_VBLOCK 0 (of_nat SIZEOF_KEYBLOCK))) 16))"

lemma unpack_key_not_0 [simp]: "vb2_unpack_key m buf sz \<noteq> Inl 0"
  by (auto simp: vb2_unpack_key_def Let_def)

lemma read_sized_not_0 [simp]: "e1 \<noteq> 0 \<Longrightarrow> e2 \<noteq> 0 \<Longrightarrow> read_sized pl ctx m wb res offs hdr f e1 e2 \<noteq> Inl (0, x)"
  by (auto simp: read_sized_def Let_def split: prod.splits)

lemma load_fw_keyblock_cases:
  assumes "vb2_load_fw_keyblock pl dc0 ctx m = (VB2_SUCCESS, ctx', m')"
  obtains key_data wb1 root_key kb bsz wb2 m3 m4 where
    "vb2_workbuf_alloc (vb2_workbuf_from_ctx ctx) (sd_gbb_rootkey_size (sd ctx)) = (key_data, wb1)" and "key_data \<noteq> NULL"
    and "fst (vb2ex_read_resource pl ctx VB2_RES_GBB (sd_gbb_rootkey_offset (sd ctx)) (sd_gbb_rootkey_size (sd ctx))) = 0"
    and "vb2_unpack_key (wrbytes m key_data (fw_root pl ctx)) key_data (sd_gbb_rootkey_size (sd ctx)) = Inr root_key"
    and "read_sized pl ctx (wrbytes m key_data (fw_root pl ctx)) wb1 VB2_RES_FW_VBLOCK 0 SIZEOF_KEYBLOCK keyblock_size
              VB2_ERROR_FW_KEYBLOCK_WORKBUF_HEADER VB2_ERROR_FW_KEYBLOCK_WORKBUF = Inr (kb, bsz, wb2, m3)"
    and "vb2_verify_keyblock dc0 m3 kb bsz root_key wb2 = (0, m4)"
    and "key_version m4 (keyblock_data_key kb) \<le> 0xffff"
    and "shr (sd_fw_version_secdata (sd ctx)) 16 \<le> key_version m4 (keyblock_data_key kb) \<or>
      has_flag (sd_gbb_flags (sd ctx)) VB2_GBB_FLAG_DISABLE_FW_ROLLBACK_CHECK"
    and "m' = save_fw_data_key m4 key_data kb"
    and "ctx' = (upd_sd (\<lambda>d. d\<lparr>sd_fw_version := shl (key_version m4 (keyblock_data_key kb)) 16,
        sd_workbuf_data_key_offset := ucast (vb2_offset_of (workbuf ctx) key_data),
        sd_workbuf_data_key_size := key_offset m' key_data + key_size m' key_data,
        sd_vblock_preamble_offset := keyblock_size m' kb\<rparr>) ctx)
      \<lparr>workbuf_used := ucast (vb2_offset_of (workbuf ctx) key_data) + (key_offset m' key_data + key_size m' key_data)\<rparr>"
proof -
  obtain key_data wb1 where a: "vb2_workbuf_alloc (vb2_workbuf_from_ctx ctx) (sd_gbb_rootkey_size (sd ctx)) = (key_data, wb1)"
    by fastforce
  obtain rv where r: "vb2ex_read_resource pl ctx VB2_RES_GBB (sd_gbb_rootkey_offset (sd ctx)) (sd_gbb_rootkey_size (sd ctx)) =
      (rv, fw_root pl ctx)" by (metis fw_root_def surjective_pairing)
  let ?m1 = "wrbytes m key_data (fw_root pl ctx)"
  note L = assms [unfolded vb2_load_fw_keyblock_def Let_def a prod.case r]
  have n: "key_data \<noteq> NULL" "rv = 0" using L by (auto split: if_splits)
  obtain root_key where u: "vb2_unpack_key ?m1 key_data (sd_gbb_rootkey_size (sd ctx)) = Inr root_key"
    using L n by (auto split: sum.splits)
  obtain kb bsz wb2 m3 where rs: "read_sized pl ctx ?m1 wb1 VB2_RES_FW_VBLOCK 0 SIZEOF_KEYBLOCK keyblock_size
              VB2_ERROR_FW_KEYBLOCK_WORKBUF_HEADER VB2_ERROR_FW_KEYBLOCK_WORKBUF = Inr (kb, bsz, wb2, m3)"
    using L n u read_sized_not_0 by (cases "read_sized pl ctx ?m1 wb1 VB2_RES_FW_VBLOCK 0 SIZEOF_KEYBLOCK keyblock_size
              VB2_ERROR_FW_KEYBLOCK_WORKBUF_HEADER VB2_ERROR_FW_KEYBLOCK_WORKBUF") auto
  obtain rv2 m4 where v: "vb2_verify_keyblock dc0 m3 kb bsz root_key wb2 = (rv2, m4)" by fastforce
  note L = L [unfolded u rs sum.case prod.case v]
  show thesis
    by (rule that [OF a n(1) _ u rs, of m4])
      (use L n v r in \<open>auto simp: upd_sd_def not_less split: if_splits\<close>)
qed

text \<open>Verification with a key that was unpacked below the block it is to verify.\<close>

lemma key_env:
  assumes u: "vb2_unpack_key m key_data key_sz = Inr k" and below: "unat key_data + unat key_sz \<le> unat p"
    and s: "same_outside (unat p) hi m m'" and dc: "dc_ok dc0" and wb: "wb_ok wb" and room: "unat p + n \<le> wb_lo wb"
  shows "verify_env dc0 k wb" and "apart wb p n" and "deref_key m' k = packed_key_in (rdbytes m key_data (unat key_sz)) 0"
proof -
  note ki = unpack_key_Inr [OF u] and a = unpack_key_arrays [OF u]
  have hi: "wb_lo wb \<le> wb_hi wb" "wb_hi wb < 2 ^ 64" using wb wb_hi_less by (simp_all add: wb_hi_def)
  show "apart wb p n" using room hi by (auto simp: apart_def area_def)
  have ends: "unat (kr_n k) + 4 * unat (kr_arrsize k) \<le> unat p" "unat (kr_rr k) + 4 * unat (kr_arrsize k) \<le> unat p"
    using a below by simp_all
  then have "apart wb (kr_n k) (4 * unat (kr_arrsize k))" "apart wb (kr_rr k) (4 * unat (kr_arrsize k))"
    using room hi by (auto simp: apart_def area_def)
  then show "verify_env dc0 k wb" using ki dc wb by (simp add: verify_env_def key_shape_def)
  have "rdbytes m' (kr_n k) (4 * unat (kr_arrsize k)) = rdbytes m (kr_n k) (4 * unat (kr_arrsize k))"
    "rdbytes m' (kr_rr k) (4 * unat (kr_arrsize k)) = rdbytes m (kr_rr k) (4 * unat (kr_arrsize k))"
    by (rule same_outside_rdbytes [OF s]; use ends a room hi in simp)+
  then have "deref_key m' k = deref_key m k" by (rule deref_key_cong)
  then show "deref_key m' k = packed_key_in (rdbytes m key_data (unat key_sz)) 0" using unpack_key_in [OF u] by simp
qed

lemma keyblock_verified:
  fixes B m4 kb
  defines "dk \<equiv> keyblock_data_key kb"
  assumes env: "verify_env dc0 k wb" and ap: "apart wb kb (unat sz)" and len: "unat sz < 2 ^ 29"
    and key: "rsa_key_ok (deref_key m3 k)" and v: "vb2_verify_keyblock dc0 m3 kb sz k wb = (VB2_SUCCESS, m4)"
    and B: "B = rdbytes m3 kb (unat sz)" and lo: "unat kb + unat sz \<le> wb_lo wb"
  shows "signed_in (deref_key m3 k) B 24" and "same_outside (unat kb) (wb_hi wb) m3 m4"
    and "sig_after B 24 \<Longrightarrow> packed_key_in B 80 =
      key_value (key_algorithm m4 dk) (rdbytes m4 (dk + ucast (key_offset m4 dk)) (unat (key_size m4 dk)))"
    and "sig_after B 24 \<Longrightarrow> key_version m4 dk = rd32 B 104" and "sig_after B 24 \<Longrightarrow> keyblock_size m4 kb = rd32 B 16"
    and "sig_after B 24 \<Longrightarrow> key_size m4 dk = rd32 B 88"
    and "sig_after B 24 \<Longrightarrow> unat dk + unat (key_offset m4 dk) + unat (key_size m4 dk) \<le> unat kb + unat sz"
    and "unat dk = unat kb + 80" and "112 \<le> unat sz" and "sig_after B 24 \<Longrightarrow> keyblock_flags m4 kb = rd32 B 72"
proof -
  let ?s = "keyblock_signature kb"
  have acc: "fst (vb2_verify_keyblock dc0 m3 kb sz k wb) = VB2_SUCCESS" using v by simp
  then have ok: "keyblock_ok m3 kb sz" and sg: "signed_by m3 k kb ?s"
    using verify_keyblock_iff [OF env ap len key] by blast+
  note K = ok [unfolded keyblock_ok_def]
  have hi: "unat kb + unat sz < 2 ^ 64" using lo env wb_hi_less by (auto simp: verify_env_def wb_ok_def)
  have us: "unat ?s = unat kb + 24" and ud: "unat dk = unat kb + 80"
    using unat_plus_offset [of kb 24] unat_plus_offset [of kb 80] K hi
    by (simp_all add: keyblock_signature_def dk_def keyblock_data_key_def)
  show "unat dk = unat kb + 80" "112 \<le> unat sz" using ud K by simp_all
  have le: "unat (keyblock_size m3 kb) \<le> unat sz" "unat (data_size m3 ?s) \<le> unat (keyblock_size m3 kb)"
    using K by (simp_all add: word_le_nat_alt)
  have i: "24 + unat (sig_offset m3 ?s) + unat (sig_size m3 ?s) \<le> unat sz"
    "80 + unat (key_offset m3 dk) + unat (key_size m3 dk) \<le> unat (data_size m3 ?s)"
    using K us ud le unfolding inside_def dk_def by linarith+
  show "signed_in (deref_key m3 k) B 24"
    using signed_by_in [of ?s kb 24 sz m3 k] sg i le K unfolding B by (simp add: keyblock_signature_def)
  show "same_outside (unat kb) (wb_hi wb) m3 m4"
    unfolding same_outside_def using verify_keyblock_frame [OF env ap len, of _ m3] v lo
    by (auto simp: area_def wb_hi_def)
  have sd: "B = rdbytes m3 kb (unat sz)" "rd32 B 24 = sig_offset m3 ?s" "rd32 B 40 = data_size m3 ?s"
    using rdm32_rdbytes [of 24 "unat sz" m3 kb] rdm32_rdbytes [of 40 "unat sz" m3 kb] K
    unfolding B by (simp_all add: sig_offset_def data_size_def keyblock_signature_def add.assoc)
  {
    assume sa: "sig_after B 24"
    let ?D = "unat (data_size m3 ?s)"
    have m4: "m4 = snd (vb2_verify_data dc0 m3 kb sz ?s k wb)"
      using v ok by (simp add: verify_keyblock_run Let_def split: if_splits)
    have su: "verify_setup dc0 m3 kb ?s k wb" using keyblock_setup(1) [OF env ap len ok] .
    have uv: "unat (vb2_signature_data m3 ?s) = unat kb + 24 + unat (sig_offset m3 ?s)"
      unfolding vb2_signature_data_def using unat_plus_u64 [of ?s "ucast (sig_offset m3 ?s)"] us i hi by simp
    have eq: "rdbytes m4 kb ?D = rdbytes m3 kb ?D"
    proof (rule rdbytes_cong)
      fix j assume j: "j < ?D"
      then have u: "unat (kb + of_nat j) = unat kb + j" using le hi by (intro unat_plus_offset) simp
      show "m4 (kb + of_nat j) = m3 (kb + of_nat j)"
        unfolding m4 by (rule verify_data_frame [OF su])
          (use u j le lo uv sa sd in \<open>auto simp: sig_after_def area_def\<close>)
    qed
    have f: "rdm32 m4 (kb + of_nat j) = rdm32 m3 (kb + of_nat j)" "rdm32 m3 (kb + of_nat j) = rd32 B j" if "j + 4 \<le> 112" for j
      using rdm32_rdbytes [of j ?D m4 kb] rdm32_rdbytes [of j ?D m3 kb] rdm32_rdbytes [of j "unat sz" m3 kb] that K le eq sd
      by simp_all
    show v4: "key_version m4 dk = rd32 B 104" "keyblock_size m4 kb = rd32 B 16" "key_size m4 dk = rd32 B 88"
      "keyblock_flags m4 kb = rd32 B 72"
      using f [of 104] f [of 16] f [of 88] f [of 72] by (simp_all add: key_version_def keyblock_size_def key_size_def keyblock_flags_def dk_def keyblock_data_key_def add.assoc)
    have k4: "key_offset m4 dk = key_offset m3 dk" "key_size m4 dk = key_size m3 dk"
      using f [of 80] f [of 88] by (simp_all add: key_offset_def key_size_def dk_def keyblock_data_key_def add.assoc)
    show "unat dk + unat (key_offset m4 dk) + unat (key_size m4 dk) \<le> unat kb + unat sz" using k4 i le ud by simp
    have "packed_key_in B 80 = packed_key_in (rdbytes m4 kb ?D) 80"
      unfolding eq sd(1) using i le K by (simp add: packed_key_in_rd [where key = dk] dk_def keyblock_data_key_def)
    then show "packed_key_in B 80 =
      key_value (key_algorithm m4 dk) (rdbytes m4 (dk + ucast (key_offset m4 dk)) (unat (key_size m4 dk)))"
      using packed_key_in_rd [of 80 ?D dk kb m4] i K k4 by (simp add: dk_def keyblock_data_key_def)
  }
qed

text \<open>Where the root key and the keyblock are in the work buffer when the keyblock is verified.\<close>

lemma fw_keyblock_layout:
  assumes pl: "reads_ok pl" and ctx: "ctx_ok ctx"
    and a: "vb2_workbuf_alloc (vb2_workbuf_from_ctx ctx) (sd_gbb_rootkey_size (sd ctx)) = (key_data, wb1)" and nn: "key_data \<noteq> NULL"
    and r: "fst (vb2ex_read_resource pl ctx VB2_RES_GBB (sd_gbb_rootkey_offset (sd ctx)) (sd_gbb_rootkey_size (sd ctx))) = 0"
    and u: "vb2_unpack_key (wrbytes m key_data (fw_root pl ctx)) key_data (sd_gbb_rootkey_size (sd ctx)) = Inr root_key"
    and rs: "read_sized pl ctx (wrbytes m key_data (fw_root pl ctx)) wb1 VB2_RES_FW_VBLOCK 0 SIZEOF_KEYBLOCK keyblock_size
              VB2_ERROR_FW_KEYBLOCK_WORKBUF_HEADER VB2_ERROR_FW_KEYBLOCK_WORKBUF = Inr (kb, bsz, wb2, m3)"
  defines "m1 \<equiv> wrbytes m key_data (fw_root pl ctx)"
  shows "used_end ctx \<le> unat key_data" and "unat key_data + unat (sd_gbb_rootkey_size (sd ctx)) \<le> unat kb"
    and "unat kb + unat bsz \<le> wb_lo wb2" and "wb_ok wb2" and "wb_hi wb2 = work_end ctx" and "wb_lo wb2 \<le> work_end ctx"
    and "same_outside (unat key_data) (unat kb) m m1" and "same_outside (unat kb) (work_end ctx) m1 m3"
    and "rdbytes m1 key_data (unat (sd_gbb_rootkey_size (sd ctx))) = fw_root pl ctx"
    and "rdbytes m3 kb (unat bsz) = fw_keyblock pl ctx"
proof -
  let ?sz = "sd_gbb_rootkey_size (sd ctx)"
  have l: "length (fw_root pl ctx) = unat ?sz" "?sz \<le> 0xfffffff0"
    using pl r unfolding reads_ok_def fw_root_def by blast+
  have pos: "0 < unat ?sz" using unpack_key_Inr(1) [OF u] by (simp add: inside_def)
  note w = from_ctx_ok [OF ctx a nn pos l(2)]
  note A = alloc_ok [OF w(1) l(2) a nn]
  obtain H where H: "vb2ex_read_resource pl ctx VB2_RES_FW_VBLOCK 0 (of_nat SIZEOF_KEYBLOCK) = (VB2_SUCCESS, H)" "length H = SIZEOF_KEYBLOCK"
    "bsz = keyblock_size (wrbytes m1 kb H) kb"
    "vb2ex_read_resource pl ctx VB2_RES_FW_VBLOCK 0 bsz = (VB2_SUCCESS, rdbytes m3 kb (unat bsz))"
    "kb = wb_buf wb1" "wb_ok wb2" "wb_hi wb2 = wb_hi wb1" "wb_lo wb1 + unat bsz \<le> wb_lo wb2"
    "same_outside (wb_lo wb1) (wb_hi wb1) m1 m3" "wb_lo wb2 \<le> wb_hi wb1"
    using read_sized_ok [OF pl A(2) _ rs] unfolding m1_def by auto
  show "used_end ctx \<le> unat key_data" "unat key_data + unat ?sz \<le> unat kb"
    "unat kb + unat bsz \<le> wb_lo wb2" "wb_ok wb2" "wb_hi wb2 = work_end ctx" "wb_lo wb2 \<le> work_end ctx"
    "same_outside (unat kb) (work_end ctx) m1 m3"
    using w A H by simp_all
  have hi: "unat key_data + unat ?sz \<le> 2 ^ 64" using A wb_hi_less [OF w(1)] by simp
  show "same_outside (unat key_data) (unat kb) m m1"
    unfolding m1_def by (rule same_outside_wrbytes) (use A H l hi in simp_all)
  show "rdbytes m1 key_data (unat ?sz) = fw_root pl ctx"
    using rdbytes_wrbytes_same [of "fw_root pl ctx" m key_data] l unat_u32_less [of ?sz] unfolding m1_def by simp
  have "keyblock_size (wrbytes m1 kb H) kb = rd32 H 16"
    using rdm32_wrbytes [of 16 H m1 kb] H(2) by (simp add: keyblock_size_def)
  then show "rdbytes m3 kb (unat bsz) = fw_keyblock pl ctx" using H(1,3,4) by (simp add: fw_keyblock_def)
qed

text \<open>A keyblock that is loaded is signed with the root key, and its data key is ready to be saved.\<close>

lemma fw_keyblock_checked:
  assumes pl: "reads_ok pl" and ctx: "ctx_ok ctx" and dc: "dc_ok dc0"
    and root: "rsa_key_ok (packed_key_in (fw_root pl ctx) 0)" and sa: "sig_after (fw_keyblock pl ctx) 24"
    and ld: "vb2_load_fw_keyblock pl dc0 ctx m = (VB2_SUCCESS, ctx', m')"
  defines "B \<equiv> fw_keyblock pl ctx" and "ksz \<equiv> sd_gbb_rootkey_size (sd ctx)"
  obtains kd kb m4 and bsz :: u32 where "signed_in (packed_key_in (fw_root pl ctx) 0) B 24"
    and "used_end ctx \<le> unat kd" and "unat kd + unat ksz \<le> unat kb" and "unat kb + unat bsz \<le> work_end ctx"
    and "same_outside (unat kd) (work_end ctx) m m4"
    and "unat (keyblock_data_key kb) = unat kb + 80" and "112 \<le> unat bsz"
    and "packed_key_in B 80 = key_value (key_algorithm m4 (keyblock_data_key kb))
      (rdbytes m4 (keyblock_data_key kb + ucast (key_offset m4 (keyblock_data_key kb))) (unat (rd32 B 88)))"
    and "key_version m4 (keyblock_data_key kb) = rd32 B 104" and "keyblock_size m4 kb = rd32 B 16"
    and "key_size m4 (keyblock_data_key kb) = rd32 B 88"
    and "unat (keyblock_data_key kb) + unat (key_offset m4 (keyblock_data_key kb)) + unat (rd32 B 88) \<le> unat kb + unat bsz"
    and "key_offset m4 kd = rd32 (fw_root pl ctx) 0" and "SIZEOF_PACKED_KEY \<le> unat (key_offset m4 kd)"
    and "unat (key_offset m4 kd) \<le> unat ksz"
    and "rd32 B 104 \<le> 0xffff" and "shr (sd_fw_version_secdata (sd ctx)) 16 \<le> rd32 B 104 \<or>
      has_flag (sd_gbb_flags (sd ctx)) VB2_GBB_FLAG_DISABLE_FW_ROLLBACK_CHECK"
    and "m' = save_fw_data_key m4 kd kb"
    and "ctx' = (upd_sd (\<lambda>d. d\<lparr>sd_fw_version := shl (rd32 B 104) 16,
        sd_workbuf_data_key_offset := ucast (vb2_offset_of (workbuf ctx) kd),
        sd_workbuf_data_key_size := key_offset m' kd + key_size m' kd,
        sd_vblock_preamble_offset := keyblock_size m' kb\<rparr>) ctx)
      \<lparr>workbuf_used := ucast (vb2_offset_of (workbuf ctx) kd) + (key_offset m' kd + key_size m' kd)\<rparr>"
proof -
  obtain kd wb1 rk kb bsz wb2 m3 m4 where
    a: "vb2_workbuf_alloc (vb2_workbuf_from_ctx ctx) ksz = (kd, wb1)" "kd \<noteq> NULL"
    and r: "fst (vb2ex_read_resource pl ctx VB2_RES_GBB (sd_gbb_rootkey_offset (sd ctx)) ksz) = 0"
    and u: "vb2_unpack_key (wrbytes m kd (fw_root pl ctx)) kd ksz = Inr rk"
    and rs: "read_sized pl ctx (wrbytes m kd (fw_root pl ctx)) wb1 VB2_RES_FW_VBLOCK 0 SIZEOF_KEYBLOCK keyblock_size
              VB2_ERROR_FW_KEYBLOCK_WORKBUF_HEADER VB2_ERROR_FW_KEYBLOCK_WORKBUF = Inr (kb, bsz, wb2, m3)"
    and v: "vb2_verify_keyblock dc0 m3 kb bsz rk wb2 = (0, m4)"
    and ver: "key_version m4 (keyblock_data_key kb) \<le> 0xffff"
      "shr (sd_fw_version_secdata (sd ctx)) 16 \<le> key_version m4 (keyblock_data_key kb) \<or>
      has_flag (sd_gbb_flags (sd ctx)) VB2_GBB_FLAG_DISABLE_FW_ROLLBACK_CHECK"
    and res: "m' = save_fw_data_key m4 kd kb"
      "ctx' = (upd_sd (\<lambda>d. d\<lparr>sd_fw_version := shl (key_version m4 (keyblock_data_key kb)) 16,
        sd_workbuf_data_key_offset := ucast (vb2_offset_of (workbuf ctx) kd),
        sd_workbuf_data_key_size := key_offset m' kd + key_size m' kd,
        sd_vblock_preamble_offset := keyblock_size m' kb\<rparr>) ctx)
      \<lparr>workbuf_used := ucast (vb2_offset_of (workbuf ctx) kd) + (key_offset m' kd + key_size m' kd)\<rparr>"
    using ld unfolding ksz_def by (rule load_fw_keyblock_cases)
  let ?m1 = "wrbytes m kd (fw_root pl ctx)"
  note lay = fw_keyblock_layout [OF pl ctx a [unfolded ksz_def] r [unfolded ksz_def] u [unfolded ksz_def] rs, folded ksz_def]
  have B: "B = rdbytes m3 kb (unat bsz)" using lay(10) by (simp add: B_def)
  have c: "unat (workbuf ctx) \<le> used_end ctx" "work_end ctx < 2 ^ 64" "unat (workbuf_size ctx) < 2 ^ 29"
    using ctx by (simp_all add: ctx_ok_def)
  have len: "unat bsz < 2 ^ 29" using lay c by linarith
  note e = key_env [OF u lay(2) lay(8) dc lay(4) lay(3)]
  have dr: "deref_key m3 rk = packed_key_in (fw_root pl ctx) 0" using e(3) lay(9) by simp
  note kv = keyblock_verified [OF e(1,2) len _ v B lay(3), unfolded dr, OF root]
  note kept = kv(3-7) [OF sa [folded B_def]]
  have s4: "same_outside (unat kb) (work_end ctx) ?m1 m4" using lay(5,8) kv(2) by (metis same_outside_trans)
  then have s: "same_outside (unat kd) (work_end ctx) m m4"
    using lay by (intro same_outside_trans [OF same_outside_mono [OF lay(7)] same_outside_mono [OF s4]]) simp_all
  have i: "SIZEOF_PACKED_KEY \<le> unat ksz" "SIZEOF_PACKED_KEY \<le> unat (key_offset ?m1 kd)" "unat (key_offset ?m1 kd) \<le> unat ksz"
    using unpack_key_Inr(1,5) [OF u] by (simp_all add: inside_def)
  have o: "key_offset m4 kd = key_offset ?m1 kd"
    by (rule key_fields_outside [OF s4]) (use lay c i in simp_all)
  have o1: "key_offset ?m1 kd = rd32 (fw_root pl ctx) 0"
    using rdm32_rdbytes [of 0 "unat ksz" ?m1 kd] i lay(9) by (simp add: key_offset_def)
  show thesis
    by (rule that [of kd kb bsz m4]) (use kv(1,8,9) s kept lay ver res o o1 i in simp_all)
qed

lemma unat_offset_of: "unat base \<le> unat ptr \<Longrightarrow> unat ptr - unat base < 2 ^ 32 \<Longrightarrow>
    unat (ucast (vb2_offset_of base ptr) :: u32) = unat ptr - unat base"
  by (simp add: vb2_offset_of_def unat_offset unsigned_ucast_eq take_bit_nat_eq_self)

lemma base_plus_offset:
  assumes "unat base \<le> unat ptr" and "unat ptr - unat base < 2 ^ 32"
  shows "base + ucast (ucast (vb2_offset_of base ptr) :: u32) = (ptr :: u64)"
proof -
  have "unat (ucast (ucast (vb2_offset_of base ptr) :: u32) :: u64) = unat ptr - unat base"
    using unat_offset_of [OF assms] by simp
  then have "unat (base + ucast (ucast (vb2_offset_of base ptr) :: u32)) = unat ptr"
    using assms unat_plus_u64 [of base "ucast (ucast (vb2_offset_of base ptr) :: u32)"] unsigned_less [where ?'a = nat, of ptr]
    by simp
  then show ?thesis by (simp add: word_unat_eq_iff)
qed

lemma load_fw_keyblock_ok:
  assumes pl: "reads_ok pl" and ctx: "ctx_ok ctx" and dc: "dc_ok dc0"
    and root: "rsa_key_ok (packed_key_in (fw_root pl ctx) 0)" and sa: "sig_after (fw_keyblock pl ctx) 24"
    and ld: "vb2_load_fw_keyblock pl dc0 ctx m = (VB2_SUCCESS, ctx', m')"
  defines "key \<equiv> workbuf ctx' + ucast (sd_workbuf_data_key_offset (sd ctx'))" and "ksz \<equiv> sd_workbuf_data_key_size (sd ctx')"
    and "B \<equiv> fw_keyblock pl ctx"
  shows "signed_in (packed_key_in (fw_root pl ctx) 0) B 24"
    and "\<And>k. vb2_unpack_key m' key ksz = Inr k \<Longrightarrow> deref_key m' k = packed_key_in B 80"
    and "ctx_ok ctx'" and "unat key + unat ksz = used_end ctx'" and "used_end ctx \<le> used_end ctx'"
    and "same_outside (used_end ctx) (work_end ctx) m m'"
    and "\<exists>ko ks po u. ctx' = ctx\<lparr>sd := (sd ctx)\<lparr>sd_fw_version := shl (rd32 B 104) 16, sd_workbuf_data_key_offset := ko,
      sd_workbuf_data_key_size := ks, sd_vblock_preamble_offset := po\<rparr>, workbuf_used := u\<rparr>"
    and "rd32 B 104 \<le> 0xffff"
    and "shr (sd_fw_version_secdata (sd ctx)) 16 \<le> rd32 B 104 \<or>
      has_flag (sd_gbb_flags (sd ctx)) VB2_GBB_FLAG_DISABLE_FW_ROLLBACK_CHECK"
    and "unat (rd32 (fw_root pl ctx) 0) + unat (rd32 B 88) \<le> unat (sd_gbb_rootkey_size (sd ctx)) \<Longrightarrow>
      sd_vblock_preamble_offset (sd ctx') = rd32 B 16"
proof -
  let ?sz = "sd_gbb_rootkey_size (sd ctx)"
  obtain kd kb m4 and bsz :: u32 where sig: "signed_in (packed_key_in (fw_root pl ctx) 0) B 24"
    and lay: "used_end ctx \<le> unat kd" "unat kd + unat ?sz \<le> unat kb" "unat kb + unat bsz \<le> work_end ctx"
    and s4: "same_outside (unat kd) (work_end ctx) m m4"
    and udk: "unat (keyblock_data_key kb) = unat kb + 80" "112 \<le> unat bsz"
    and pk: "packed_key_in B 80 = key_value (key_algorithm m4 (keyblock_data_key kb))
      (rdbytes m4 (keyblock_data_key kb + ucast (key_offset m4 (keyblock_data_key kb))) (unat (rd32 B 88)))"
    and bsize: "keyblock_size m4 kb = rd32 B 16" and ks: "key_size m4 (keyblock_data_key kb) = rd32 B 88"
    and ins: "unat (keyblock_data_key kb) + unat (key_offset m4 (keyblock_data_key kb)) + unat (rd32 B 88) \<le> unat kb + unat bsz"
    and ko: "key_offset m4 kd = rd32 (fw_root pl ctx) 0" "SIZEOF_PACKED_KEY \<le> unat (key_offset m4 kd)"
      "unat (key_offset m4 kd) \<le> unat ?sz"
    and ver: "rd32 B 104 \<le> 0xffff" "shr (sd_fw_version_secdata (sd ctx)) 16 \<le> rd32 B 104 \<or>
      has_flag (sd_gbb_flags (sd ctx)) VB2_GBB_FLAG_DISABLE_FW_ROLLBACK_CHECK"
    and m': "m' = save_fw_data_key m4 kd kb"
    and ctx': "ctx' = (upd_sd (\<lambda>d. d\<lparr>sd_fw_version := shl (rd32 B 104) 16,
        sd_workbuf_data_key_offset := ucast (vb2_offset_of (workbuf ctx) kd),
        sd_workbuf_data_key_size := key_offset m' kd + key_size m' kd,
        sd_vblock_preamble_offset := keyblock_size m' kb\<rparr>) ctx)
      \<lparr>workbuf_used := ucast (vb2_offset_of (workbuf ctx) kd) + (key_offset m' kd + key_size m' kd)\<rparr>"
    using fw_keyblock_checked [OF pl ctx dc root sa ld] unfolding B_def by metis
  have c: "unat (workbuf ctx) \<le> used_end ctx" "work_end ctx < 2 ^ 64" "unat (workbuf_size ctx) < 2 ^ 29"
    using ctx by (simp_all add: ctx_ok_def)
  let ?e = "unat kd + unat (key_offset m4 kd) + unat (rd32 B 88)"
  have ee: "?e \<le> work_end ctx" using ko(3) ins lay udk by linarith
  note sv = save_fw_data_key_ok [of kd kb m4 "unat kb + unat bsz" ?e, unfolded ks, folded m']
  have sv': "key_algorithm m' kd = key_algorithm m4 (keyblock_data_key kb)" "key_size m' kd = rd32 B 88"
    "key_offset m' kd = key_offset m4 kd"
    "rdbytes m' (kd + ucast (key_offset m4 kd)) (unat (rd32 B 88)) =
      rdbytes m4 (keyblock_data_key kb + ucast (key_offset m4 (keyblock_data_key kb))) (unat (rd32 B 88))"
    "same_outside (unat kd) ?e m4 m'"
    by (rule sv; use lay udk ins ko ee c in simp)+
  have off: "unat (workbuf ctx) \<le> unat kd" "unat kd - unat (workbuf ctx) < 2 ^ 32" using lay c by simp_all
  have key: "key = kd" using base_plus_offset [OF off] by (simp add: key_def ctx')
  have kl: "unat ksz = unat (key_offset m4 kd) + unat (rd32 B 88)" "ksz = key_offset m4 kd + rd32 B 88"
    using ee lay c unfolding ksz_def ctx' sv' by (simp_all add: unat_word_ariths)
  have used: "unat (workbuf_used ctx') = unat kd - unat (workbuf ctx) + unat ksz"
    using unat_offset_of [OF off] kl ee lay c unfolding ctx' sv' by (simp add: unat_word_ariths)
  show "signed_in (packed_key_in (fw_root pl ctx) 0) B 24" by (rule sig)
  show "deref_key m' k = packed_key_in B 80" if "vb2_unpack_key m' key ksz = Inr k" for k
    using unpack_key_value [OF that] sv' pk unfolding key by simp
  show "unat key + unat ksz = used_end ctx'" "used_end ctx \<le> used_end ctx'"
    using used off lay unfolding key by (simp_all add: ctx')
  have w: "workbuf ctx' = workbuf ctx" "workbuf_size ctx' = workbuf_size ctx" by (simp_all add: ctx')
  show "ctx_ok ctx'" using ctx used kl ee off unfolding ctx_ok_def w by (simp add: word_le_nat_alt)
  show "same_outside (used_end ctx) (work_end ctx) m m'"
    using same_outside_trans [OF same_outside_mono [OF s4] same_outside_mono [OF sv'(5)]] lay ee by blast
  show "\<exists>ko ks po u. ctx' = ctx\<lparr>sd := (sd ctx)\<lparr>sd_fw_version := shl (rd32 B 104) 16, sd_workbuf_data_key_offset := ko,
      sd_workbuf_data_key_size := ks, sd_vblock_preamble_offset := po\<rparr>, workbuf_used := u\<rparr>"
    unfolding ctx' upd_sd_def by blast
  show "rd32 B 104 \<le> 0xffff" "shr (sd_fw_version_secdata (sd ctx)) 16 \<le> rd32 B 104 \<or>
      has_flag (sd_gbb_flags (sd ctx)) VB2_GBB_FLAG_DISABLE_FW_ROLLBACK_CHECK" by (rule ver)+
  assume fit: "unat (rd32 (fw_root pl ctx) 0) + unat (rd32 B 88) \<le> unat ?sz"
  have "unat (kb + 16) = unat kb + 16" using unat_plus_offset [of kb 16] lay udk c by simp
  then have "rdm32 m' (kb + 16) = rdm32 m4 (kb + 16)"
    by (intro same_outside_rdm32 [OF sv'(5)]) (use fit lay udk c ko in simp_all)
  then show "sd_vblock_preamble_offset (sd ctx') = rd32 B 16"
    using bsize by (simp add: ctx' keyblock_size_def)
qed

section \<open>The preamble\<close>

text \<open>A preamble with a good header whose signature was checked.\<close>

lemma signed_preamble:
  assumes env: "verify_env dc0 k wb" and ap: "apart wb pre (unat sz)" and len: "unat sz < 2 ^ 29"
    and key: "rsa_key_ok (deref_key m3 k)" and ok: "preamble_ok m3 pre sz"
    and v: "vb2_verify_data dc0 m3 pre sz (preamble_signature pre) k wb = (VB2_SUCCESS, m4)"
    and P: "P = rdbytes m3 pre (unat sz)" and lo: "unat pre + unat sz \<le> wb_lo wb"
  shows "signed_in (deref_key m3 k) P 8" and "same_outside (unat pre) (wb_hi wb) m3 m4"
    and "108 \<le> unat sz" and "unat (rd32 P 24) \<le> unat sz"
    and "sig_after P 8 \<Longrightarrow> rdbytes m4 pre (unat (rd32 P 24)) = take (unat (rd32 P 24)) P"
    and "data_size m4 (preamble_signature pre) = rd32 P 24"
proof -
  let ?s = "preamble_signature pre"
  note su = preamble_setup [OF env ap len ok]
  have sg: "signed_by m3 k pre ?s" using verify_data_iff [OF su(1) key, of sz] v by simp
  note K = ok [unfolded preamble_ok_def]
  have hi: "unat pre + unat sz < 2 ^ 64" using lo env wb_hi_less by (auto simp: verify_env_def wb_ok_def)
  have us: "unat ?s = unat pre + 8" using unat_plus_offset [of pre 8] K hi by (simp add: preamble_signature_def)
  have le: "unat (preamble_size m3 pre) \<le> unat sz" "unat (data_size m3 ?s) \<le> unat (preamble_size m3 pre)"
    using K by (simp_all add: word_le_nat_alt)
  have i: "8 + unat (sig_offset m3 ?s) + unat (sig_size m3 ?s) \<le> unat sz" "0 < unat (sig_size m3 ?s) \<Longrightarrow> 24 \<le> unat (sig_offset m3 ?s)"
    using K us le unfolding inside_def by auto
  show "signed_in (deref_key m3 k) P 8"
    using signed_by_in [of ?s pre 8 sz m3 k] sg i le K unfolding P by (simp add: preamble_signature_def)
  have m4: "m4 = snd (vb2_verify_data dc0 m3 pre sz ?s k wb)" using v by simp
  show "same_outside (unat pre) (wb_hi wb) m3 m4"
    unfolding same_outside_def m4 using verify_data_frame [OF su(1)] su(3) lo by (auto simp: area_def wb_hi_def)
  have sd: "rd32 P 8 = sig_offset m3 ?s" "rd32 P 24 = data_size m3 ?s"
    using rdm32_rdbytes [of 8 "unat sz" m3 pre] rdm32_rdbytes [of 24 "unat sz" m3 pre] K
    unfolding P by (simp_all add: sig_offset_def data_size_def preamble_signature_def add.assoc)
  show "108 \<le> unat sz" "unat (rd32 P 24) \<le> unat sz" using K le sd by simp_all
  have uv: "unat (vb2_signature_data m3 ?s) = unat pre + 8 + unat (sig_offset m3 ?s)"
    unfolding vb2_signature_data_def using unat_plus_u64 [of ?s "ucast (sig_offset m3 ?s)"] us i(1) hi by simp
  have kept: "rdbytes m4 pre n = rdbytes m3 pre n" if "n \<le> unat sz" "unat (sig_size m3 ?s) = 0 \<or> n \<le> 8 + unat (sig_offset m3 ?s)" for n
  proof (rule rdbytes_cong)
    fix j assume j: "j < n"
    then have u: "unat (pre + of_nat j) = unat pre + j" using that hi by (intro unat_plus_offset) simp
    show "m4 (pre + of_nat j) = m3 (pre + of_nat j)"
      unfolding m4 by (rule verify_data_frame [OF su(1)]) (use u j that lo uv in \<open>auto simp: area_def\<close>)
  qed
  have "rdbytes m4 pre 32 = rdbytes m3 pre 32" by (rule kept) (use K i in \<open>auto simp: not_less\<close>)
  then show "data_size m4 ?s = rd32 P 24"
    using rdm32_rdbytes [of 24 32 m4 pre] rdm32_rdbytes [of 24 32 m3 pre] sd
    by (simp add: data_size_def preamble_signature_def add.assoc)
  assume "sig_after P 8"
  then show "rdbytes m4 pre (unat (rd32 P 24)) = take (unat (rd32 P 24)) P"
    unfolding P [symmetric] using kept [of "unat (rd32 P 24)"] le sd take_rdbytes [of "unat (rd32 P 24)" "unat sz" m3 pre] P
    by (simp add: sig_after_def)
qed

lemma verify_fw_preamble_success:
  assumes "vb2_verify_fw_preamble dc0 m pre sz k wb = (VB2_SUCCESS, m')"
  shows "preamble_ok m pre sz" and "vb2_verify_data dc0 m pre sz (preamble_signature pre) k wb = (VB2_SUCCESS, m')"
    and "preamble_parts_ok m' pre"
proof -
  have f: "fst (vb2_verify_fw_preamble dc0 m pre sz k wb) = VB2_SUCCESS" using assms by simp
  show ok: "preamble_ok m pre sz" using verify_fw_preamble_bad f by blast
  have m': "m' = snd (vb2_verify_data dc0 m pre sz (preamble_signature pre) k wb)"
    using snd_verify_fw_preamble [of dc0 m pre sz k wb] ok assms by simp
  then show "preamble_parts_ok m' pre" using verify_fw_preamble_bad f by blast
  have "fst (vb2_verify_data dc0 m pre sz (preamble_signature pre) k wb) = VB2_SUCCESS"
    using arg_cong [OF verify_fw_preamble_run [of dc0 m pre sz k wb], of fst] f ok by (auto simp: Let_def split: if_splits)
  then show "vb2_verify_data dc0 m pre sz (preamble_signature pre) k wb = (VB2_SUCCESS, m')" by (simp add: m' prod_eq_iff)
qed

text \<open>The version checks.\<close>

lemma check_fw_version_ok:
  assumes "check_fw_version ctx v = (VB2_SUCCESS, ctx')"
  defines "w \<equiv> sd_fw_version (sd ctx) OR v"
  shows "v \<le> 0xffff" and "sd_fw_version (sd ctx') = w"
    and "sd_fw_version_secdata (sd ctx) \<le> w \<or> has_flag (sd_gbb_flags (sd ctx)) VB2_GBB_FLAG_DISABLE_FW_ROLLBACK_CHECK"
    and "workbuf ctx' = workbuf ctx" and "workbuf_size ctx' = workbuf_size ctx"
    and "\<exists>s. sd ctx' = (sd ctx)\<lparr>sd_fw_version := w, sd_fw_version_secdata := s\<rparr>"
    and "sec_ready ctx \<Longrightarrow> vb2_secdata_get ctx' VB2_SECDATA_VERSIONS =
      (if sd_fw_version_secdata (sd ctx) < w \<and> sd_last_fw_slot (sd ctx) = sd_fw_slot (sd ctx) \<and>
          sd_last_fw_result (sd ctx) = VB2_FW_RESULT_SUCCESS
       then Inr w else vb2_secdata_get ctx VB2_SECDATA_VERSIONS)"
proof -
  let ?c = "upd_sd (\<lambda>d. d\<lparr>sd_fw_version := w\<rparr>) ctx"
  let ?c2 = "upd_sd (\<lambda>d. d\<lparr>sd_fw_version_secdata := sd_fw_version d\<rparr>) ?c"
  let ?roll = "sd_fw_version_secdata (sd ctx) < w \<and> sd_last_fw_slot (sd ctx) = sd_fw_slot (sd ctx) \<and>
          sd_last_fw_result (sd ctx) = VB2_FW_RESULT_SUCCESS"
  have c: "upd_sd (\<lambda>d. d\<lparr>sd_fw_version := sd_fw_version d OR v\<rparr>) ctx = ?c" by (simp add: upd_sd_def w_def)
  note L = assms(1) [unfolded check_fw_version_def Let_def c]
  show 1: "v \<le> 0xffff" and 2: "sd_fw_version_secdata (sd ctx) \<le> w \<or> has_flag (sd_gbb_flags (sd ctx)) VB2_GBB_FLAG_DISABLE_FW_ROLLBACK_CHECK"
    using L by (auto simp: upd_sd_def not_less split: if_splits)
  have r: "(if ?roll then vb2_secdata_set ?c2 VB2_SECDATA_VERSIONS w else (VB2_SUCCESS, ?c)) = (VB2_SUCCESS, ctx')"
    using L 1 2 by (auto simp: upd_sd_def not_less split: if_splits)
  have c': "ctx' = (if ?roll then snd (vb2_secdata_set ?c2 VB2_SECDATA_VERSIONS w) else ?c)"
    "?roll \<Longrightarrow> fst (vb2_secdata_set ?c2 VB2_SECDATA_VERSIONS w) = VB2_SUCCESS"
    using r by (auto split: if_splits)
  show "sd_fw_version (sd ctx') = w" "workbuf ctx' = workbuf ctx" "workbuf_size ctx' = workbuf_size ctx"
    unfolding c'(1) by (simp_all add: upd_sd_def)
  show "\<exists>s. sd ctx' = (sd ctx)\<lparr>sd_fw_version := w, sd_fw_version_secdata := s\<rparr>"
    unfolding c'(1) by (auto simp: upd_sd_def intro: exI [of _ "sd_fw_version_secdata (sd ctx)"])
  assume rd: "sec_ready ctx"
  then have "sec_ready ?c2" by (simp add: sec_ready_def vb2_secdata_check_crc_def upd_sd_def)
  then have "?roll \<Longrightarrow> vb2_secdata_get ctx' VB2_SECDATA_VERSIONS = Inr w"
    using sec.put_ok [of ?c2 VB2_SECDATA_VERSIONS w] c' by simp
  moreover have "\<not> ?roll \<Longrightarrow> vb2_secdata_get ctx' VB2_SECDATA_VERSIONS = vb2_secdata_get ctx VB2_SECDATA_VERSIONS"
    unfolding c'(1) by (auto simp: vb2_secdata_get_def upd_sd_def)
  ultimately show "vb2_secdata_get ctx' VB2_SECDATA_VERSIONS =
      (if ?roll then Inr w else vb2_secdata_get ctx VB2_SECDATA_VERSIONS)" by (cases ?roll) auto
qed

text \<open>
  A context that holds a data key and the preamble signed with it: the key \<^verbatim>\<open>K\<close>, and behind it the
  preamble, whose signed part is that of \<^verbatim>\<open>P\<close>.
\<close>

abbreviation data_key_ptr :: "vb2_context \<Rightarrow> u64" where
  "data_key_ptr ctx \<equiv> workbuf ctx + ucast (sd_workbuf_data_key_offset (sd ctx))"

abbreviation preamble_ptr :: "vb2_context \<Rightarrow> u64" where
  "preamble_ptr ctx \<equiv> workbuf ctx + ucast (sd_workbuf_preamble_offset (sd ctx))"

definition preamble_loaded :: "vb2_context \<Rightarrow> mem \<Rightarrow> vb2_public_key \<Rightarrow> bytes \<Rightarrow> bool" where
  "preamble_loaded ctx m K P \<longleftrightarrow> ctx_ok ctx \<and>
     packed_key_in (rdbytes m (data_key_ptr ctx) (unat (sd_workbuf_data_key_size (sd ctx)))) 0 = K \<and>
     unat (data_key_ptr ctx) + unat (sd_workbuf_data_key_size (sd ctx)) \<le> unat (preamble_ptr ctx) \<and>
     unat (preamble_ptr ctx) + length P \<le> used_end ctx \<and> unat (rd32 P 24) \<le> length P \<and>
     rdbytes m (preamble_ptr ctx) (unat (rd32 P 24)) = take (unat (rd32 P 24)) P \<and>
     data_size m (preamble_signature (preamble_ptr ctx)) = rd32 P 24"

definition fw_loaded :: "vb2_context \<Rightarrow> mem \<Rightarrow> vb2_public_key \<Rightarrow> bytes \<Rightarrow> bool" where
  "fw_loaded ctx m K P \<longleftrightarrow> preamble_loaded ctx m K P \<and> preamble_parts_ok m (preamble_ptr ctx)"

lemma load_fw_preamble_cases:
  assumes "vb2_load_fw_preamble pl dc0 ctx m = (VB2_SUCCESS, ctx', m')"
  obtains data_key pre psz wb2 m3 ctx2 where
    "vb2_unpack_key m (workbuf ctx + ucast (sd_workbuf_data_key_offset (sd ctx))) (sd_workbuf_data_key_size (sd ctx)) = Inr data_key"
    and "read_sized pl ctx m (vb2_workbuf_from_ctx ctx) VB2_RES_FW_VBLOCK (sd_vblock_preamble_offset (sd ctx)) SIZEOF_FW_PREAMBLE
      preamble_size VB2_ERROR_FW_PREAMBLE2_WORKBUF_HEADER VB2_ERROR_FW_PREAMBLE2_WORKBUF = Inr (pre, psz, wb2, m3)"
    and "vb2_verify_fw_preamble dc0 m3 pre psz data_key wb2 = (0, m')"
    and "check_fw_version ctx (firmware_version m' pre) = (VB2_SUCCESS, ctx2)"
    and "ctx' = (upd_sd (\<lambda>d. d\<lparr>sd_workbuf_preamble_offset := ucast (vb2_offset_of (workbuf ctx2) pre),
        sd_workbuf_preamble_size := psz\<rparr>) ctx2)\<lparr>workbuf_used := ucast (vb2_offset_of (workbuf ctx2) pre) + psz\<rparr>"
proof -
  let ?k = "vb2_unpack_key m (workbuf ctx + ucast (sd_workbuf_data_key_offset (sd ctx))) (sd_workbuf_data_key_size (sd ctx))"
  let ?r = "read_sized pl ctx m (vb2_workbuf_from_ctx ctx) VB2_RES_FW_VBLOCK (sd_vblock_preamble_offset (sd ctx)) SIZEOF_FW_PREAMBLE
      preamble_size VB2_ERROR_FW_PREAMBLE2_WORKBUF_HEADER VB2_ERROR_FW_PREAMBLE2_WORKBUF"
  note L = assms [unfolded vb2_load_fw_preamble_def Let_def]
  have nz: "sd_workbuf_data_key_size (sd ctx) \<noteq> 0" using L by (auto split: if_splits)
  obtain data_key where u: "?k = Inr data_key" using L nz by (auto split: sum.splits)
  obtain pre psz wb2 m3 where rs: "?r = Inr (pre, psz, wb2, m3)"
    using L nz u read_sized_not_0 by (cases ?r) auto
  obtain rv m4 where v: "vb2_verify_fw_preamble dc0 m3 pre psz data_key wb2 = (rv, m4)" by fastforce
  obtain rv2 ctx2 where cv: "check_fw_version ctx (firmware_version m4 pre) = (rv2, ctx2)" by fastforce
  note L = L [unfolded u rs sum.case prod.case v cv]
  have "rv = 0" "rv2 = 0" "m' = m4" using L nz by (auto split: if_splits)
  then show thesis
    using L nz v cv by (intro that [OF u rs, of ctx2]) (auto split: if_splits)
qed

lemma read_sized_wb:
  assumes pl: "reads_ok pl" and ctx: "ctx_ok ctx" and hdr: "0 < hdr" "hdr \<le> 4096"
    and rs: "read_sized pl ctx m (vb2_workbuf_from_ctx ctx) res offs hdr f e1 e2 = Inr (p, sz, wb2, m3)"
  shows "wb_ok (vb2_workbuf_from_ctx ctx)" and "used_end ctx \<le> wb_lo (vb2_workbuf_from_ctx ctx)"
    and "wb_hi (vb2_workbuf_from_ctx ctx) = work_end ctx"
proof -
  obtain p0 wb0 where a0: "vb2_workbuf_alloc (vb2_workbuf_from_ctx ctx) (of_nat hdr) = (p0, wb0)" by fastforce
  have "p0 \<noteq> NULL" using rs by (auto simp: read_sized_def Let_def a0)
  moreover have "0 < unat (of_nat hdr :: u32)" "(of_nat hdr :: u32) \<le> 0xfffffff0"
    using hdr by (simp_all add: unat_of_nat word_le_nat_alt)
  ultimately show "wb_ok (vb2_workbuf_from_ctx ctx)" "used_end ctx \<le> wb_lo (vb2_workbuf_from_ctx ctx)"
    "wb_hi (vb2_workbuf_from_ctx ctx) = work_end ctx"
    using from_ctx_ok [OF ctx a0] by blast+
qed

lemma rd32_take: "i + 4 \<le> n \<Longrightarrow> rd32 (take n bs) i = rd32 bs i"
  by (simp add: rd32_def)

text \<open>
  A preamble that was read behind the data key and verified with it, and a context that then records
  where it is.
\<close>

lemma preamble_read_verified:
  fixes ctx m m4 pre psz m3
  defines "kd \<equiv> data_key_ptr ctx" and "ks \<equiv> sd_workbuf_data_key_size (sd ctx)" and "P \<equiv> rdbytes m3 pre (unat psz)"
  assumes pl: "reads_ok pl" and ctx: "ctx_ok ctx" and dc: "dc_ok dc0" and hdr: "0 < hdr" "hdr \<le> 4096"
    and u: "vb2_unpack_key m kd ks = Inr k" and dk: "deref_key m k = K" and K: "rsa_key_ok K"
    and below: "unat kd + unat ks \<le> used_end ctx"
    and rs: "read_sized pl ctx m (vb2_workbuf_from_ctx ctx) res offs hdr preamble_size e1 e2 = Inr (pre, psz, wb2, m3)"
    and ok: "preamble_ok m3 pre psz"
    and v: "vb2_verify_data dc0 m3 pre psz (preamble_signature pre) k wb2 = (VB2_SUCCESS, m4)"
  shows "vb2ex_read_resource pl ctx res offs psz = (VB2_SUCCESS, P)" and "signed_in K P 8"
    and "same_outside (used_end ctx) (work_end ctx) m m4" and "108 \<le> unat (rd32 P 24) \<Longrightarrow> sig_after P 8 \<Longrightarrow> rdm32 m4 (pre + 40) = rd32 P 40"
    and "data_size m4 (preamble_signature pre) = rd32 P 24" and "used_end ctx \<le> unat pre" and "unat pre + unat psz \<le> work_end ctx"
    and "workbuf ctx' = workbuf ctx \<Longrightarrow> workbuf_size ctx' = workbuf_size ctx \<Longrightarrow>
      workbuf_used ctx' = ucast (vb2_offset_of (workbuf ctx) pre) + psz \<Longrightarrow>
      sd_workbuf_data_key_offset (sd ctx') = sd_workbuf_data_key_offset (sd ctx) \<Longrightarrow> sd_workbuf_data_key_size (sd ctx') = ks \<Longrightarrow>
      sd_workbuf_preamble_offset (sd ctx') = ucast (vb2_offset_of (workbuf ctx) pre) \<Longrightarrow> sig_after P 8 \<Longrightarrow>
      preamble_loaded ctx' m4 K P \<and> preamble_ptr ctx' = pre"
proof -
  note w = read_sized_wb [OF pl ctx hdr rs]
  obtain H where H: "vb2ex_read_resource pl ctx res offs psz = (VB2_SUCCESS, P)"
    "pre = wb_buf (vb2_workbuf_from_ctx ctx)" "wb_ok wb2" "wb_hi wb2 = work_end ctx" "unat pre + unat psz \<le> wb_lo wb2"
    "same_outside (unat pre) (work_end ctx) m m3" "wb_lo wb2 \<le> work_end ctx"
    using read_sized_ok [OF pl w(1) hdr(2) rs] w unfolding P_def by auto
  show "vb2ex_read_resource pl ctx res offs psz = (VB2_SUCCESS, P)" by (rule H(1))
  have c: "work_end ctx < 2 ^ 64" "unat (workbuf_size ctx) < 2 ^ 29" "unat (workbuf ctx) \<le> used_end ctx"
    using ctx by (simp_all add: ctx_ok_def)
  show pu: "used_end ctx \<le> unat pre" and pe: "unat pre + unat psz \<le> work_end ctx" using w H by simp_all
  have len: "unat psz < 2 ^ 29" using H pu c by linarith
  have kb: "unat kd + unat ks \<le> unat pre" using below pu by linarith
  note e = key_env [OF u kb H(6) dc H(3,5)]
  have kv: "packed_key_in (rdbytes m kd (unat ks)) 0 = K" using unpack_key_in [OF u] dk by simp
  have dr: "deref_key m3 k = K" using e(3) kv by simp
  note pv = signed_preamble [OF e(1,2) len _ ok v P_def [THEN meta_eq_to_obj_eq] H(5), unfolded dr, OF K]
  show "signed_in K P 8" "data_size m4 (preamble_signature pre) = rd32 P 24" by (rule pv(1,6))+
  show "same_outside (used_end ctx) (work_end ctx) m m4"
    using same_outside_trans [OF same_outside_mono [OF H(6)] same_outside_mono [OF pv(2)]] pu H(4) by simp
  show "rdm32 m4 (pre + 40) = rd32 P 40" if "108 \<le> unat (rd32 P 24)" "sig_after P 8"
    using rdm32_rdbytes [of 40 "unat (rd32 P 24)" m4 pre] that(1) unfolding pv(5) [OF that(2)] by (simp add: rd32_take)
  assume f: "workbuf ctx' = workbuf ctx" "workbuf_size ctx' = workbuf_size ctx"
    and used: "workbuf_used ctx' = ucast (vb2_offset_of (workbuf ctx) pre) + psz"
    and ko: "sd_workbuf_data_key_offset (sd ctx') = sd_workbuf_data_key_offset (sd ctx)" and ks': "sd_workbuf_data_key_size (sd ctx') = ks"
    and po: "sd_workbuf_preamble_offset (sd ctx') = ucast (vb2_offset_of (workbuf ctx) pre)" and sa: "sig_after P 8"
  have off: "unat (workbuf ctx) \<le> unat pre" "unat pre - unat (workbuf ctx) < 2 ^ 32" using pu H c by simp_all
  have pp: "preamble_ptr ctx' = pre" using base_plus_offset [OF off] by (simp add: f po)
  have kd': "data_key_ptr ctx' = kd" by (simp add: f ko kd_def)
  have uu: "unat (workbuf_used ctx') = unat pre - unat (workbuf ctx) + unat psz"
    using unat_offset_of [OF off] H off c unfolding used by (simp add: unat_word_ariths)
  have "rdbytes m4 kd (unat ks) = rdbytes m kd (unat ks)"
    using same_outside_rdbytes [OF same_outside_trans [OF H(6) pv(2) [unfolded H(4)]], of kd "unat ks"] kb
      unsigned_less [where ?'a = nat, of pre] by simp
  then have "packed_key_in (rdbytes m4 kd (unat ks)) 0 = K" using kv by simp
  then show "preamble_loaded ctx' m4 K P \<and> preamble_ptr ctx' = pre"
    using ctx uu off H(5,7) c kb pv(4,5,6) sa unfolding preamble_loaded_def ctx_ok_def pp kd' ks' unfolding f
    by (simp add: word_le_nat_alt P_def)
qed

lemma load_fw_preamble_ok:
  assumes pl: "reads_ok pl" and ctx: "ctx_ok ctx" and dc: "dc_ok dc0"
    and dk: "\<And>k. vb2_unpack_key m (workbuf ctx + ucast (sd_workbuf_data_key_offset (sd ctx))) (sd_workbuf_data_key_size (sd ctx)) = Inr k \<Longrightarrow>
      deref_key m k = K" and K: "rsa_key_ok K"
    and below: "unat (workbuf ctx + ucast (sd_workbuf_data_key_offset (sd ctx))) + unat (sd_workbuf_data_key_size (sd ctx)) \<le> used_end ctx"
    and ld: "vb2_load_fw_preamble pl dc0 ctx m = (VB2_SUCCESS, ctx', m')"
  obtains P v where
    "vb2ex_read_resource pl ctx VB2_RES_FW_VBLOCK (sd_vblock_preamble_offset (sd ctx)) (of_nat (length P)) = (VB2_SUCCESS, P)"
    and "signed_in K P 8" and "sig_after P 8 \<Longrightarrow> v = rd32 P 40" and "v \<le> 0xffff"
    and "sd_fw_version (sd ctx') = sd_fw_version (sd ctx) OR v"
    and "sd_fw_version_secdata (sd ctx) \<le> sd_fw_version (sd ctx') \<or>
      has_flag (sd_gbb_flags (sd ctx)) VB2_GBB_FLAG_DISABLE_FW_ROLLBACK_CHECK"
    and "same_outside (used_end ctx) (work_end ctx) m m'"
    and "sec_ready ctx \<Longrightarrow> vb2_secdata_get ctx' VB2_SECDATA_VERSIONS =
      (if sd_fw_version_secdata (sd ctx) < sd_fw_version (sd ctx') \<and> sd_last_fw_slot (sd ctx) = sd_fw_slot (sd ctx) \<and>
          sd_last_fw_result (sd ctx) = VB2_FW_RESULT_SUCCESS
       then Inr (sd_fw_version (sd ctx')) else vb2_secdata_get ctx VB2_SECDATA_VERSIONS)"
    and "sig_after P 8 \<Longrightarrow> fw_loaded ctx' m' K P"
proof -
  let ?kd = "workbuf ctx + ucast (sd_workbuf_data_key_offset (sd ctx))" and ?ks = "sd_workbuf_data_key_size (sd ctx)"
  obtain k pre psz wb2 m3 ctx2 where u: "vb2_unpack_key m ?kd ?ks = Inr k"
    and rs: "read_sized pl ctx m (vb2_workbuf_from_ctx ctx) VB2_RES_FW_VBLOCK (sd_vblock_preamble_offset (sd ctx)) SIZEOF_FW_PREAMBLE
      preamble_size VB2_ERROR_FW_PREAMBLE2_WORKBUF_HEADER VB2_ERROR_FW_PREAMBLE2_WORKBUF = Inr (pre, psz, wb2, m3)"
    and v: "vb2_verify_fw_preamble dc0 m3 pre psz k wb2 = (0, m')"
    and cv: "check_fw_version ctx (firmware_version m' pre) = (VB2_SUCCESS, ctx2)"
    and c': "ctx' = (upd_sd (\<lambda>d. d\<lparr>sd_workbuf_preamble_offset := ucast (vb2_offset_of (workbuf ctx2) pre),
        sd_workbuf_preamble_size := psz\<rparr>) ctx2)\<lparr>workbuf_used := ucast (vb2_offset_of (workbuf ctx2) pre) + psz\<rparr>"
    using ld by (rule load_fw_preamble_cases)
  note vs = verify_fw_preamble_success [OF v]
  let ?P = "rdbytes m3 pre (unat psz)"
  note pv = preamble_read_verified [OF pl ctx dc _ _ u dk [OF u] K below rs vs(1,2)]
  note cvo = check_fw_version_ok [OF cv]
  have d: "108 \<le> unat (rd32 ?P 24)" using vs(3) pv(5) by (simp add: preamble_parts_ok_def)
  have sd': "workbuf ctx' = workbuf ctx" "workbuf_size ctx' = workbuf_size ctx"
    "sd_workbuf_data_key_offset (sd ctx') = sd_workbuf_data_key_offset (sd ctx)" "sd_workbuf_data_key_size (sd ctx') = ?ks"
    "sd_workbuf_preamble_offset (sd ctx') = ucast (vb2_offset_of (workbuf ctx) pre)"
    "workbuf_used ctx' = ucast (vb2_offset_of (workbuf ctx) pre) + psz"
    using cvo(4-6) unfolding c' by auto
  have loaded: "fw_loaded ctx' m' K ?P" if "sig_after ?P 8"
    using pv(8) [of ctx'] sd' vs(3) that by (simp add: fw_loaded_def)
  show thesis
  proof (rule that [of ?P "firmware_version m' pre"])
    show "sig_after ?P 8 \<Longrightarrow> fw_loaded ctx' m' K ?P" by (rule loaded)
    show "sig_after ?P 8 \<Longrightarrow> firmware_version m' pre = rd32 ?P 40" using pv(4) d by (simp add: firmware_version_def)
  qed (use pv(1-3) cvo c' in \<open>auto simp: vb2_secdata_get_def\<close>)
qed

section \<open>What the third phase accepts\<close>

lemma fw_phase3_trust:
  assumes "reads_ok pl" and "ctx_ok ctx" and "dc_ok dc0" and "sec_ready ctx"
    and "rsa_key_ok (packed_key_in (fw_root pl ctx) 0)" and "rsa_key_ok (packed_key_in (fw_keyblock pl ctx) 80)"
    and "sig_after (fw_keyblock pl ctx) 24"
    and "vb2api_fw_phase3 pl dc0 ctx m = (VB2_SUCCESS, ctx', m')"
  shows "\<exists>ctx1 offs P v.
    vb2ex_read_resource pl ctx1 VB2_RES_FW_VBLOCK offs (of_nat (length P)) = (VB2_SUCCESS, P) \<and>
    (unat (rd32 (fw_root pl ctx) 0) + unat (rd32 (fw_keyblock pl ctx) 88) \<le> unat (sd_gbb_rootkey_size (sd ctx)) \<longrightarrow>
      offs = rd32 (fw_keyblock pl ctx) 16) \<and>
    signed_in (packed_key_in (fw_root pl ctx) 0) (fw_keyblock pl ctx) 24 \<and>
    signed_in (packed_key_in (fw_keyblock pl ctx) 80) P 8 \<and>
    rd32 (fw_keyblock pl ctx) 104 \<le> 0xffff \<and> v \<le> 0xffff \<and> (sig_after P 8 \<longrightarrow> v = rd32 P 40) \<and>
    sd_fw_version (sd ctx') = shl (rd32 (fw_keyblock pl ctx) 104) 16 OR v \<and>
    (\<not> has_flag (sd_gbb_flags (sd ctx)) VB2_GBB_FLAG_DISABLE_FW_ROLLBACK_CHECK \<longrightarrow>
      sd_fw_version_secdata (sd ctx) \<le> sd_fw_version (sd ctx')) \<and>
    vb2_secdata_get ctx' VB2_SECDATA_VERSIONS =
      (if sd_fw_version_secdata (sd ctx) < sd_fw_version (sd ctx') \<and> sd_last_fw_slot (sd ctx) = sd_fw_slot (sd ctx) \<and>
          sd_last_fw_result (sd ctx) = VB2_FW_RESULT_SUCCESS
       then Inr (sd_fw_version (sd ctx')) else vb2_secdata_get ctx VB2_SECDATA_VERSIONS) \<and>
    same_outside (used_end ctx) (work_end ctx) m m' \<and>
    (sig_after P 8 \<longrightarrow> fw_loaded ctx' m' (packed_key_in (fw_keyblock pl ctx) 80) P)"
proof -
  let ?B = "fw_keyblock pl ctx"
  obtain ctx1 m1 where l1: "vb2_load_fw_keyblock pl dc0 ctx m = (VB2_SUCCESS, ctx1, m1)"
    and l2: "vb2_load_fw_preamble pl dc0 ctx1 m1 = (VB2_SUCCESS, ctx', m')"
    using assms(8) by (auto simp: vb2api_fw_phase3_def Let_def split: prod.splits if_splits)
  note K = load_fw_keyblock_ok [OF assms(1,2,3,5,7) l1]
  obtain ko ks po u where c1: "ctx1 = ctx\<lparr>sd := (sd ctx)\<lparr>sd_fw_version := shl (rd32 ?B 104) 16, sd_workbuf_data_key_offset := ko,
      sd_workbuf_data_key_size := ks, sd_vblock_preamble_offset := po\<rparr>, workbuf_used := u\<rparr>"
    using K(7) by blast
  then have f: "sd_fw_version_secdata (sd ctx1) = sd_fw_version_secdata (sd ctx)" "sd_gbb_flags (sd ctx1) = sd_gbb_flags (sd ctx)"
    "sd_last_fw_slot (sd ctx1) = sd_last_fw_slot (sd ctx)" "sd_fw_slot (sd ctx1) = sd_fw_slot (sd ctx)"
    "sd_last_fw_result (sd ctx1) = sd_last_fw_result (sd ctx)" "sd_fw_version (sd ctx1) = shl (rd32 ?B 104) 16"
    "work_end ctx1 = work_end ctx"
    "vb2_secdata_get ctx1 VB2_SECDATA_VERSIONS = vb2_secdata_get ctx VB2_SECDATA_VERSIONS" "sec_ready ctx1"
    using assms(4) by (simp_all add: vb2_secdata_get_def sec_ready_def vb2_secdata_check_crc_def)
  have below: "unat (workbuf ctx1 + ucast (sd_workbuf_data_key_offset (sd ctx1))) + unat (sd_workbuf_data_key_size (sd ctx1)) \<le> used_end ctx1"
    using K(4) by simp
  obtain P v where P: "vb2ex_read_resource pl ctx1 VB2_RES_FW_VBLOCK (sd_vblock_preamble_offset (sd ctx1)) (of_nat (length P)) = (VB2_SUCCESS, P)"
    "signed_in (packed_key_in ?B 80) P 8" "sig_after P 8 \<Longrightarrow> v = rd32 P 40" "v \<le> 0xffff"
    "sd_fw_version (sd ctx') = sd_fw_version (sd ctx1) OR v"
    "sd_fw_version_secdata (sd ctx1) \<le> sd_fw_version (sd ctx') \<or> has_flag (sd_gbb_flags (sd ctx1)) VB2_GBB_FLAG_DISABLE_FW_ROLLBACK_CHECK"
    "same_outside (used_end ctx1) (work_end ctx1) m1 m'"
    "sec_ready ctx1 \<Longrightarrow> vb2_secdata_get ctx' VB2_SECDATA_VERSIONS =
      (if sd_fw_version_secdata (sd ctx1) < sd_fw_version (sd ctx') \<and> sd_last_fw_slot (sd ctx1) = sd_fw_slot (sd ctx1) \<and>
          sd_last_fw_result (sd ctx1) = VB2_FW_RESULT_SUCCESS
       then Inr (sd_fw_version (sd ctx')) else vb2_secdata_get ctx1 VB2_SECDATA_VERSIONS)"
    "sig_after P 8 \<Longrightarrow> fw_loaded ctx' m' (packed_key_in ?B 80) P"
    by (rule load_fw_preamble_ok [OF assms(1) K(3) assms(3) K(2) assms(6) below l2]) (assumption, rule that)
  have s: "same_outside (used_end ctx) (work_end ctx) m m'"
    using same_outside_trans [OF K(6) same_outside_mono [OF P(7)]] K(5) f(7) by simp
  show ?thesis
    by (rule exI [of _ ctx1], rule exI [of _ "sd_vblock_preamble_offset (sd ctx1)"], rule exI [of _ P], rule exI [of _ v])
      (use K(1,8,10) P s f in auto)
qed


section \<open>A firmware that is not signed\<close>

text \<open>A keyblock with a good data key and a signature of zeros.\<close>

definition unsigned_keyblock :: bytes where
  "unsigned_keyblock =
     KEY_BLOCK_MAGIC @ le32_bytes 2 @ le32_bytes 1 @ le32_bytes 504 @ le32_bytes 0 @
     le32_bytes 352 @ le32_bytes 0 @ le32_bytes 128 @ le32_bytes 0 @ le32_bytes 376 @ le32_bytes 0 @
     replicate 32 0 @ demo_packed_key @ replicate 128 0"

abbreviation (input) VB2_ERROR_EX_READ_RESOURCE_SIZE :: u32 where "VB2_ERROR_EX_READ_RESOURCE_SIZE \<equiv> 0x100a0003"

definition read_part :: "bytes \<Rightarrow> u32 \<Rightarrow> u32 \<Rightarrow> u32 \<times> bytes" where
  "read_part bs offs sz =
     (if unat offs + unat sz \<le> length bs then (VB2_SUCCESS, take (unat sz) (drop (unat offs) bs))
      else (VB2_ERROR_EX_READ_RESOURCE_SIZE, []))"

definition unsigned_platform :: vb2_platform where
  "unsigned_platform = \<lparr>vb2ex_tpm_clear_owner = \<lambda>_. VB2_SUCCESS,
     vb2ex_read_resource = \<lambda>_ i. read_part (case i of VB2_RES_GBB \<Rightarrow> demo_packed_key | _ \<Rightarrow> unsigned_keyblock)\<rparr>"

definition unsigned_ctx :: vb2_context where
  "unsigned_ctx = upd_sd (\<lambda>d. d\<lparr>sd_gbb_rootkey_offset := 0, sd_gbb_rootkey_size := 296\<rparr>)
     (snd (vb2_secdata_init (snd (vb2_secdata_create (zero_context\<lparr>workbuf_used := 128\<rparr>)))))"

lemma length_unsigned: "length unsigned_keyblock = 504"
  by (simp add: unsigned_keyblock_def le32_bytes_def length_demo_packed_key)

lemma unsigned_reads_ok: "reads_ok unsigned_platform"
  by (auto simp: reads_ok_def unsigned_platform_def read_part_def word_le_nat_alt length_unsigned length_demo_packed_key
    split: vb2_resource_index.split)

lemma unsigned_root: "fw_root unsigned_platform unsigned_ctx = demo_packed_key"
  by (simp add: fw_root_def unsigned_platform_def unsigned_ctx_def read_part_def length_demo_packed_key upd_sd_def)

lemma unsigned_fields:
  "rd32 unsigned_keyblock 16 = 504" "rd32 unsigned_keyblock 24 = 352" "rd32 unsigned_keyblock 32 = 128" "rd32 unsigned_keyblock 40 = 376"
  by (simp_all add: unsigned_keyblock_def rd32_def le32_bytes_def shl_def shr_def)

lemma unsigned_fw_keyblock: "fw_keyblock unsigned_platform ctx = unsigned_keyblock"
proof -
  have "rd32 (take 112 unsigned_keyblock) 16 = 504" using unsigned_fields(1) by (simp add: rd32_def)
  then show ?thesis by (simp add: fw_keyblock_def unsigned_platform_def read_part_def length_unsigned)
qed

lemma rd32_append_right: "rd32 (a @ b) (length a + i) = rd32 b i"
  by (simp add: rd32_def nth_append add.assoc)

lemma rd32_append_left: "i + 4 \<le> length a \<Longrightarrow> rd32 (a @ b) i = rd32 a i"
  by (simp add: rd32_def nth_append)

lemma packed_key_in_append:
  assumes "unat (rd32 k 0) + unat (rd32 k 8) \<le> length k" and "32 \<le> length k" and "length a = off"
  shows "packed_key_in (a @ k @ z) off = packed_key_in k 0"
  using assms rd32_append_right [of a "k @ z" 0] rd32_append_right [of a "k @ z" 8] rd32_append_right [of a "k @ z" 16]
  by (simp add: packed_key_in_def rd32_append_left)

lemma demo_packed_value: "packed_key_in demo_packed_key 0 = demo_key"
proof -
  have m: "rdbytes demo_mem 0x1000 296 = demo_packed_key"
    using rdbytes_wrbytes_same [of demo_packed_key "\<lambda>_. 0" "0x1000"] by (simp add: demo_mem_def length_demo_packed_key)
  have "deref_key demo_mem demo_ref = deref_key demo_signed_mem demo_ref"
  proof (rule deref_key_cong)
    have eq: "rdbytes demo_mem (0x1000 + of_nat i) j = rdbytes demo_signed_mem (0x1000 + of_nat i) j" if "i + j \<le> 296" for i j
      using slice_rdbytes [of i j 296 demo_mem "0x1000"] slice_rdbytes [of i j 296 demo_signed_mem "0x1000"] that
      by (simp add: m demo_signed_rd)
    show "rdbytes demo_mem (kr_n demo_ref) (4 * unat (kr_arrsize demo_ref)) =
        rdbytes demo_signed_mem (kr_n demo_ref) (4 * unat (kr_arrsize demo_ref))"
      "rdbytes demo_mem (kr_rr demo_ref) (4 * unat (kr_arrsize demo_ref)) =
        rdbytes demo_signed_mem (kr_rr demo_ref) (4 * unat (kr_arrsize demo_ref))"
      using eq [of 40 128] eq [of 168 128] by (simp_all add: demo_ref_def)
  qed
  then show ?thesis using unpack_key_in [OF demo_unpack] by (simp add: demo_deref m)
qed

lemma unsigned_data_key: "packed_key_in unsigned_keyblock 80 = demo_key"
proof -
  have f: "rd32 demo_packed_key 0 = 32" "rd32 demo_packed_key 8 = 264"
    by (simp_all add: demo_packed_key_def rd32_def le32_bytes_def shl_def shr_def)
  show ?thesis
    using packed_key_in_append [of demo_packed_key "KEY_BLOCK_MAGIC @ le32_bytes 2 @ le32_bytes 1 @ le32_bytes 504 @ le32_bytes 0 @
       le32_bytes 352 @ le32_bytes 0 @ le32_bytes 128 @ le32_bytes 0 @ le32_bytes 376 @ le32_bytes 0 @ replicate 32 0" 80 "replicate 128 0"]
    by (simp add: unsigned_keyblock_def demo_packed_value length_demo_packed_key f le32_bytes_def)
qed

lemma zero_sig_not_signed:
  assumes "\<forall>x \<in> set (take 128 (drop (soff + unat (rd32 bs soff)) bs)). x = 0"
  shows "\<not> signed_in demo_key bs soff"
proof
  assume s: "signed_in demo_key bs soff"
  let ?d = "vb2_hash VB2_HASH_SHA1 (take (unat (rd32 bs (soff + 16))) bs)"
  have k: "pk_sig_alg demo_key = VB2_SIG_RSA1024" "pk_hash_alg demo_key = VB2_HASH_SHA1" by (simp_all add: demo_key_def)
  have sz: "rd32 bs (soff + 8) = 128" using s by (simp add: signed_in_def k)
  have z: "be_nat (take 128 (drop (soff + unat (rd32 bs soff)) bs)) = 0" using assms by (simp add: be_nat_0)
  have "be_nat (pkcs1_encode n VB2_HASH_SHA1 ?d) \<noteq> 0" for n
    unfolding be_nat_0 by (simp add: pkcs1_encode_def pkcs1_pad_def padding_tail_def)
  then show False using s z unfolding signed_in_def rsa_signs_def sz k
    by (simp add: demo_key_def zero_power) (metis less_numeral_extra(3))
qed

lemma unsigned_not_signed: "\<not> signed_in demo_key unsigned_keyblock 24"
proof (rule zero_sig_not_signed)
  have "drop 376 unsigned_keyblock = replicate 128 0"
    by (simp add: unsigned_keyblock_def le32_bytes_def drop_Cons' length_demo_packed_key)
  then show "\<forall>x \<in> set (take 128 (drop (24 + unat (rd32 unsigned_keyblock 24)) unsigned_keyblock)). x = 0"
    by (simp add: unsigned_fields)
qed

lemma unsigned_ctx_ok: "ctx_ok unsigned_ctx" "sec_ready unsigned_ctx"
proof -
  show "sec_ready unsigned_ctx"
    using sec_ready_created [of "zero_context\<lparr>workbuf_used := 128\<rparr>"]
    by (simp add: unsigned_ctx_def sec_ready_def vb2_secdata_check_crc_def upd_sd_def)
  show "ctx_ok unsigned_ctx"
    by (simp add: ctx_ok_def unsigned_ctx_def vb2_secdata_init_def vb2_secdata_create_def vb2_secdata_regen_crc_def Let_def upd_sd_def
      split: sum.split)
qed


end
