(* ===== verification/Fw_Body.thy ===== *)
theory Fw_Body
  imports Fw_Trust
begin

text \<open>
  The firmware body: what its hash was taken over when vb2api_check_hash() accepts it, whether the
  platform's hash engine or the software computed it.
\<close>

section \<open>What the hash engine promises\<close>

text \<open>
  The documented behaviour of the engine, over a relation that says which data its state has taken in:
  after a successful start nothing, after a successful extension the data in addition, and a
  successful end delivers the hash.
\<close>

definition hw_ok :: "'h hwcrypto \<Rightarrow> ('h \<Rightarrow> vb2_hash_algorithm \<Rightarrow> bytes \<Rightarrow> bool) \<Rightarrow> bool" where
  "hw_ok hw took \<longleftrightarrow>
     (\<forall>h alg n h'. vb2ex_hwcrypto_digest_init hw h alg n = (VB2_SUCCESS, h') \<longrightarrow> took h' alg []) \<and>
     (\<forall>h alg msg buf sz h'. took h alg msg \<and> length buf = unat sz \<and>
        vb2ex_hwcrypto_digest_extend hw h buf sz = (VB2_SUCCESS, h') \<longrightarrow> took h' alg (msg @ buf)) \<and>
     (\<forall>h alg msg d h'. took h alg msg \<and>
        vb2ex_hwcrypto_digest_finalize hw h (vb2_digest_size alg) = (VB2_SUCCESS, d, h') \<longrightarrow> d = vb2_hash alg msg)"

definition body_holds :: "('h \<Rightarrow> vb2_hash_algorithm \<Rightarrow> bytes \<Rightarrow> bool) \<Rightarrow> 'h body_hash \<Rightarrow> vb2_hash_algorithm \<Rightarrow> bytes \<Rightarrow> bool" where
  "body_holds took bh alg msg \<longleftrightarrow> dc_hash_alg (bh_dc bh) = alg \<and>
     (if dc_using_hwcrypto (bh_dc bh) then took (bh_hw bh) alg msg else dc_holds (bh_dc bh) msg)"

lemma start_hash_ok:
  assumes "hw_ok hw took" and "dc_ok (bh_dc bh)" and "alg \<noteq> VB2_HASH_INVALID"
    and "start_hash hw bh allowed alg n = (VB2_SUCCESS, bh')"
  shows "body_holds took bh' alg []"
proof (cases "allowed \<and> fst (vb2ex_hwcrypto_digest_init hw (bh_hw bh) alg n) \<noteq> VB2_ERROR_EX_HWCRYPTO_UNSUPPORTED")
  case True
  then obtain h where h: "vb2ex_hwcrypto_digest_init hw (bh_hw bh) alg n = (VB2_SUCCESS, h)"
    and bh': "bh' = bh\<lparr>bh_hw := h, bh_dc := (bh_dc bh)\<lparr>dc_hash_alg := alg, dc_using_hwcrypto := True\<rparr>\<rparr>"
    using assms(4) by (auto simp: start_hash_def Let_def split: prod.splits if_splits)
  have "took h alg []" using assms(1) h unfolding hw_ok_def by blast
  then show ?thesis by (simp add: body_holds_def bh')
next
  case False
  then have "bh_dc bh' = snd (vb2_digest_init (bh_dc bh) alg)"
    using assms(4) by (auto simp: start_hash_def Let_def split: prod.splits if_splits)
  then show ?thesis using vb2_digest_init_holds [OF assms(2,3)] by (simp add: body_holds_def)
qed

lemma extend_hash_ok:
  assumes "hw_ok hw took" and "body_holds took bh alg msg" and "length buf = unat sz" and "unat sz < 2 ^ 29"
    and "vb2api_extend_hash hw ctx bh buf sz = (VB2_SUCCESS, ctx', bh')"
  shows "body_holds took bh' alg (msg @ buf)" and "sz \<le> sd_hash_remaining_size (sd ctx)"
    and "ctx' = upd_sd (\<lambda>d. d\<lparr>sd_hash_remaining_size := sd_hash_remaining_size d - sz\<rparr>) ctx"
proof -
  note L = assms(5) [unfolded vb2api_extend_hash_def Let_def]
  show "sz \<le> sd_hash_remaining_size (sd ctx)"
    and "ctx' = upd_sd (\<lambda>d. d\<lparr>sd_hash_remaining_size := sd_hash_remaining_size d - sz\<rparr>) ctx"
    using L by (auto simp: not_less split: if_splits prod.splits)
  show "body_holds took bh' alg (msg @ buf)"
  proof (cases "dc_using_hwcrypto (bh_dc bh)")
    case True
    then obtain h where h: "vb2ex_hwcrypto_digest_extend hw (bh_hw bh) buf sz = (VB2_SUCCESS, h)" "bh' = bh\<lparr>bh_hw := h\<rparr>"
      using L by (auto split: if_splits prod.splits)
    have "took (bh_hw bh) alg msg" using assms(2) True by (simp add: body_holds_def)
    then have "took h alg (msg @ buf)" using assms(1,3) h(1) unfolding hw_ok_def by blast
    then show ?thesis using assms(2) True by (simp add: body_holds_def h)
  next
    case False
    then have "bh' = bh\<lparr>bh_dc := snd (vb2_digest_extend (bh_dc bh) buf sz)\<rparr>" using L by (auto split: if_splits prod.splits)
    then show ?thesis
      using vb2_digest_extend_holds [of "bh_dc bh" msg buf sz] assms(2-4) False by (simp add: body_holds_def)
  qed
qed

text \<open>The body comes in pieces.\<close>

fun extend_hashes :: "'h hwcrypto \<Rightarrow> vb2_context \<Rightarrow> 'h body_hash \<Rightarrow> bytes list \<Rightarrow> u32 \<times> vb2_context \<times> 'h body_hash" where
  "extend_hashes hw ctx bh [] = (VB2_SUCCESS, ctx, bh)"
| "extend_hashes hw ctx bh (buf # bufs) =
     (let (rv, ctx, bh) = vb2api_extend_hash hw ctx bh buf (of_nat (length buf))
      in if rv \<noteq> 0 then (rv, ctx, bh) else extend_hashes hw ctx bh bufs)"

lemma extend_hashes_Cons:
  assumes "hw_ok hw took" and bh: "body_holds took bh alg msg" and len: "length buf < 2 ^ 29"
    and ex: "extend_hashes hw ctx bh (buf # bufs) = (VB2_SUCCESS, ctx', bh')"
  obtains ctx1 bh1 where "extend_hashes hw ctx1 bh1 bufs = (VB2_SUCCESS, ctx', bh')" and "body_holds took bh1 alg (msg @ buf)"
    and "ctx1 = upd_sd (\<lambda>d. d\<lparr>sd_hash_remaining_size := sd_hash_remaining_size (sd ctx1)\<rparr>) ctx"
    and "unat (sd_hash_remaining_size (sd ctx1)) + length buf = unat (sd_hash_remaining_size (sd ctx))"
proof -
  obtain rv ctx1 bh1 where e: "vb2api_extend_hash hw ctx bh buf (of_nat (length buf)) = (rv, ctx1, bh1)" by (metis surj_pair)
  have rv: "rv = VB2_SUCCESS" and r: "extend_hashes hw ctx1 bh1 bufs = (VB2_SUCCESS, ctx', bh')"
    using ex by (auto simp: e split: if_splits)
  have u: "unat (of_nat (length buf) :: u32) = length buf" using len by (simp add: unat_of_nat)
  have o: "body_holds took bh1 alg (msg @ buf)" "of_nat (length buf) \<le> sd_hash_remaining_size (sd ctx)"
    "ctx1 = upd_sd (\<lambda>d. d\<lparr>sd_hash_remaining_size := sd_hash_remaining_size d - of_nat (length buf)\<rparr>) ctx"
    using extend_hash_ok [OF assms(1) bh _ _ e [unfolded rv]] u len by simp_all
  have "sd_hash_remaining_size (sd ctx1) = sd_hash_remaining_size (sd ctx) - of_nat (length buf)" unfolding o(3) by (simp add: upd_sd_def)
  moreover from this have "unat (sd_hash_remaining_size (sd ctx1)) + length buf = unat (sd_hash_remaining_size (sd ctx))"
    using o(2) u by (simp add: unat_sub word_le_nat_alt)
  ultimately show thesis using that [OF r o(1)] o(3) by (simp add: upd_sd_def)
qed

lemma extend_hashes_ok:
  assumes "hw_ok hw took" and "body_holds took bh alg msg" and "length (concat bufs) < 2 ^ 29"
    and "extend_hashes hw ctx bh bufs = (VB2_SUCCESS, ctx', bh')"
  shows "body_holds took bh' alg (msg @ concat bufs) \<and>
      ctx' = upd_sd (\<lambda>d. d\<lparr>sd_hash_remaining_size := sd_hash_remaining_size (sd ctx')\<rparr>) ctx \<and>
      unat (sd_hash_remaining_size (sd ctx')) + length (concat bufs) = unat (sd_hash_remaining_size (sd ctx))"
  using assms(2-4)
proof (induction bufs arbitrary: ctx bh msg)
  case Nil
  then show ?case by (simp add: upd_sd_def)
next
  case (Cons buf bufs)
  have "length buf < 2 ^ 29" using Cons.prems(2) by simp
  from extend_hashes_Cons [OF assms(1) Cons.prems(1) this Cons.prems(3)]
  obtain ctx1 bh1 where s: "extend_hashes hw ctx1 bh1 bufs = (VB2_SUCCESS, ctx', bh')" "body_holds took bh1 alg (msg @ buf)"
    "ctx1 = upd_sd (\<lambda>d. d\<lparr>sd_hash_remaining_size := sd_hash_remaining_size (sd ctx1)\<rparr>) ctx"
    "unat (sd_hash_remaining_size (sd ctx1)) + length buf = unat (sd_hash_remaining_size (sd ctx))" .
  have "length (concat bufs) < 2 ^ 29" using Cons.prems(2) by simp
  from Cons.IH [OF s(2) this s(1)]
  have i: "body_holds took bh' alg ((msg @ buf) @ concat bufs)"
    "ctx' = upd_sd (\<lambda>d. d\<lparr>sd_hash_remaining_size := sd_hash_remaining_size (sd ctx')\<rparr>) ctx1"
    "unat (sd_hash_remaining_size (sd ctx')) + length (concat bufs) = unat (sd_hash_remaining_size (sd ctx1))" by blast+
  have "upd_sd (\<lambda>d. d\<lparr>sd_hash_remaining_size := r\<rparr>) (upd_sd (\<lambda>d. d\<lparr>sd_hash_remaining_size := q\<rparr>) ctx) =
      upd_sd (\<lambda>d. d\<lparr>sd_hash_remaining_size := r\<rparr>) ctx" for r q by (simp add: upd_sd_def)
  then have "ctx' = upd_sd (\<lambda>d. d\<lparr>sd_hash_remaining_size := sd_hash_remaining_size (sd ctx')\<rparr>) ctx" using i(2) s(3) by metis
  then show ?case using i(1,3) s(4) by simp
qed

section \<open>The context while the body is hashed\<close>

lemma fw_loaded_mono:
  assumes "fw_loaded ctx m K P" and "ctx_ok ctx'" and "used_end ctx \<le> used_end ctx'" and "workbuf ctx' = workbuf ctx"
    and "sd_workbuf_data_key_offset (sd ctx') = sd_workbuf_data_key_offset (sd ctx)"
    and "sd_workbuf_data_key_size (sd ctx') = sd_workbuf_data_key_size (sd ctx)"
    and "sd_workbuf_preamble_offset (sd ctx') = sd_workbuf_preamble_offset (sd ctx)"
  shows "fw_loaded ctx' m K P"
  using assms(1-3) unfolding fw_loaded_def preamble_loaded_def assms(4-7) by auto

lemma alloc_hash_ok:
  assumes ctx: "ctx_ok ctx" and a: "alloc_hash ctx = (VB2_SUCCESS, ctx')"
  shows "ctx_ok ctx'" and "used_end ctx \<le> used_end ctx'"
    and "\<exists>offs n u. ctx' = ctx\<lparr>sd := (sd ctx)\<lparr>sd_workbuf_hash_offset := offs, sd_workbuf_hash_size := n\<rparr>, workbuf_used := u\<rparr>"
proof -
  have "ctx_ok ctx' \<and> used_end ctx \<le> used_end ctx' \<and>
    (\<exists>offs n u. ctx' = ctx\<lparr>sd := (sd ctx)\<lparr>sd_workbuf_hash_offset := offs, sd_workbuf_hash_size := n\<rparr>, workbuf_used := u\<rparr>)"
  proof (cases "sd_workbuf_hash_size (sd ctx) = 0")
    case False
    then have "ctx' = ctx" using a by (simp add: alloc_hash_def)
    moreover have "ctx = ctx\<lparr>sd := (sd ctx)\<lparr>sd_workbuf_hash_offset := sd_workbuf_hash_offset (sd ctx),
        sd_workbuf_hash_size := sd_workbuf_hash_size (sd ctx)\<rparr>, workbuf_used := workbuf_used ctx\<rparr>" by simp
    ultimately show ?thesis using ctx by blast
  next
    case True
    obtain p wb where al: "vb2_workbuf_alloc (vb2_workbuf_from_ctx ctx) SIZEOF_DIGEST_CONTEXT = (p, wb)" by fastforce
    have p: "p \<noteq> NULL" and c': "ctx' = (upd_sd (\<lambda>d. d\<lparr>sd_workbuf_hash_offset := ucast (vb2_offset_of (workbuf ctx) p),
        sd_workbuf_hash_size := SIZEOF_DIGEST_CONTEXT\<rparr>) ctx)
        \<lparr>workbuf_used := ucast (vb2_offset_of (workbuf ctx) p) + SIZEOF_DIGEST_CONTEXT\<rparr>"
      using a True by (auto simp: alloc_hash_def Let_def al split: if_splits)
    note w = from_ctx_ok [OF ctx al p, simplified]
    note o = alloc_ok [OF w(1) _ al p, simplified]
    have c: "work_end ctx < 2 ^ 64" "unat (workbuf_size ctx) < 2 ^ 29" "unat (workbuf ctx) \<le> used_end ctx"
      using ctx by (simp_all add: ctx_ok_def)
    have pe: "used_end ctx \<le> unat p" "unat p + 336 \<le> work_end ctx" using w(2,3) o(1,4,5) by simp_all
    have off: "unat (workbuf ctx) \<le> unat p" "unat p - unat (workbuf ctx) < 2 ^ 32" using pe c by simp_all
    have u: "unat (workbuf_used ctx') = unat p - unat (workbuf ctx) + 336"
      using unat_offset_of [OF off] pe c unfolding c' by (simp add: unat_word_ariths)
    have ws: "workbuf ctx' = workbuf ctx" "workbuf_size ctx' = workbuf_size ctx" by (simp_all add: c')
    have "ctx_ok ctx'" "used_end ctx \<le> used_end ctx'"
      using ctx u pe off unfolding ctx_ok_def ws by (simp_all add: word_le_nat_alt)
    then show ?thesis unfolding c' upd_sd_def by auto
  qed
  then show "ctx_ok ctx'" "used_end ctx \<le> used_end ctx'"
    "\<exists>offs n u. ctx' = ctx\<lparr>sd := (sd ctx)\<lparr>sd_workbuf_hash_offset := offs, sd_workbuf_hash_size := n\<rparr>, workbuf_used := u\<rparr>"
    by blast+
qed

lemma init_hash_ok:
  assumes hw: "hw_ok hw took" and ld: "fw_loaded ctx m K P" and dc: "dc_ok (bh_dc bh)"
    and i: "vb2api_init_hash hw ctx m bh tag = (VB2_SUCCESS, sz, ctx', bh')"
  shows "body_holds took bh' (pk_hash_alg K) []" and "fw_loaded ctx' m K P" and "sz = Some (sd_hash_remaining_size (sd ctx'))"
    and "sd_hash_remaining_size (sd ctx') = data_size m (body_signature (preamble_ptr ctx))"
    and "preamble_ptr ctx' = preamble_ptr ctx" and "pk_hash_alg K \<noteq> VB2_HASH_INVALID"
proof -
  note L = i [unfolded vb2api_init_hash_def Let_def]
  have t: "tag = VB2_HASH_TAG_FW_BODY" "sd_workbuf_preamble_size (sd ctx) \<noteq> 0" using L by (auto split: if_splits)
  obtain rv ctx1 where a: "alloc_hash ctx = (rv, ctx1)" by fastforce
  have rv: "rv = VB2_SUCCESS" using L t by (auto simp: a split: if_splits)
  have cx: "ctx_ok ctx" using ld by (simp add: fw_loaded_def preamble_loaded_def)
  note ao = alloc_hash_ok [OF cx a [unfolded rv]]
  obtain offs n u where c1: "ctx1 = ctx\<lparr>sd := (sd ctx)\<lparr>sd_workbuf_hash_offset := offs, sd_workbuf_hash_size := n\<rparr>, workbuf_used := u\<rparr>"
    using ao(3) by blast
  let ?k = "vb2_unpack_key m (data_key_ptr ctx) (sd_workbuf_data_key_size (sd ctx))"
  let ?n = "data_size m (body_signature (preamble_ptr ctx))"
  obtain key where key: "?k = Inr key" using L t by (cases ?k) (auto simp: a rv c1 split: if_splits)
  have K: "K = deref_key m key" using unpack_key_in [OF key] ld by (simp add: fw_loaded_def preamble_loaded_def)
  have alg: "pk_hash_alg K = kr_hash_alg key" "kr_hash_alg key \<noteq> VB2_HASH_INVALID"
    using unpack_key_Inr [OF key] unfolding K by (simp_all add: deref_key_def)
  show "pk_hash_alg K \<noteq> VB2_HASH_INVALID" using alg by simp
  have "\<exists>allowed. start_hash hw bh allowed (kr_hash_alg key) ?n = (VB2_SUCCESS, bh')"
    and c': "ctx' = upd_sd (\<lambda>d. d\<lparr>sd_hash_tag := tag, sd_hash_remaining_size := ?n\<rparr>) ctx1" and sz: "sz = Some ?n"
    using L t key by (auto simp: a rv c1 split: if_splits prod.splits)
  then show "body_holds took bh' (pk_hash_alg K) []" using start_hash_ok [OF hw dc alg(2)] alg(1) by auto
  show "fw_loaded ctx' m K P"
    by (rule fw_loaded_mono [OF ld]) (use ao(1,2) in \<open>simp_all add: c' c1 upd_sd_def ctx_ok_def\<close>)
  show "sz = Some (sd_hash_remaining_size (sd ctx'))" "sd_hash_remaining_size (sd ctx') = ?n" "preamble_ptr ctx' = preamble_ptr ctx"
    by (simp_all add: c' c1 upd_sd_def sz)
qed

section \<open>The check\<close>

lemma finish_hash_ok:
  assumes "hw_ok hw took" and "body_holds took bh alg msg" and "length msg < 2 ^ 29"
    and "finish_hash hw m bh digest (vb2_digest_size alg) = (VB2_SUCCESS, m', bh')"
  shows "m' = wrbytes m digest (vb2_hash alg msg)"
proof (cases "dc_using_hwcrypto (bh_dc bh)")
  case True
  obtain rv d h where f: "vb2ex_hwcrypto_digest_finalize hw (bh_hw bh) (vb2_digest_size alg) = (rv, d, h)" by (metis surj_pair)
  have "rv = VB2_SUCCESS" "m' = wrbytes m digest d" using assms(4) True by (simp_all add: finish_hash_def f)
  moreover have "took (bh_hw bh) alg msg" using assms(2) True by (simp add: body_holds_def)
  ultimately show ?thesis using assms(1) f unfolding hw_ok_def by blast
next
  case False
  let ?b = "rdbytes m digest (unat (vb2_digest_size alg))"
  have h: "dc_holds (bh_dc bh) msg" "dc_hash_alg (bh_dc bh) = alg" using assms(2) False by (simp_all add: body_holds_def)
  obtain dc' where "vb2_digest_finalize (bh_dc bh) ?b (vb2_digest_size alg) = (VB2_SUCCESS, dc', copy_at ?b 0 (vb2_hash alg msg))"
    using vb2_digest_finalize_holds(2) [OF h(1) assms(3), of "vb2_digest_size alg" ?b] h(2) by auto
  moreover have "copy_at ?b 0 (vb2_hash alg msg) = vb2_hash alg msg" by (simp add: copy_at_def length_vb2_hash)
  ultimately show ?thesis using assms(4) False by (simp add: finish_hash_def)
qed

lemma verify_digest_signs:
  assumes key: "key_shape key" "rsa_key_ok (deref_key m key)" and v: "fst (vb2_verify_digest m key sig digest wb) = VB2_SUCCESS"
  shows "sig_size m sig = vb2_rsa_sig_size (kr_sig_alg key)"
    and "rsa_signs (deref_key m key) (rdbytes m (vb2_signature_data m sig) (unat (sig_size m sig)))
      (rdbytes m digest (unat (vb2_digest_size (kr_hash_alg key))))"
proof -
  let ?k = "deref_key m key" and ?s = "rdbytes m (vb2_signature_data m sig) (unat (sig_size m sig))"
  let ?d = "rdbytes m digest (unat (vb2_digest_size (kr_hash_alg key)))"
  have sz: "rsa_key_sized ?k" by (rule key_shape_sized [OF key])
  have ss: "sig_size m sig = vb2_rsa_sig_size (kr_sig_alg key)" and ok: "fst (vb2_rsa_verify_digest ?k ?s ?d wb) = VB2_SUCCESS"
    using v by (auto simp: vb2_verify_digest_def Let_def split: if_splits prod.splits)
  show "sig_size m sig = vb2_rsa_sig_size (kr_sig_alg key)" by (rule ss)
  have "fst (vb2_workbuf_alloc wb (3 * vb2_rsa_sig_size (kr_sig_alg key))) \<noteq> NULL"
    using ok rsa_key_sized_bytes [OF sz] by (auto simp: vb2_rsa_verify_digest_def Let_def case_prod_beta deref_key_def split: if_splits)
  then show "rsa_signs ?k ?s ?d"
    using rsa_verify_digest_eq(1) [OF sz, of ?s ?d wb] ok ss key by (simp add: deref_key_def key_shape_def)
qed

text \<open>The signature structure at an offset of a block holds a signature of a digest.\<close>

definition signs_digest :: "vb2_public_key \<Rightarrow> bytes \<Rightarrow> nat \<Rightarrow> bytes \<Rightarrow> bool" where
  "signs_digest K P off digest \<longleftrightarrow> rd32 P (off + 8) = vb2_rsa_sig_size (pk_sig_alg K) \<and>
     rsa_signs K (take (unat (rd32 P (off + 8))) (drop (off + unat (rd32 P off)) P)) digest"

text \<open>The body signature of a preamble signs the body: its size and its hash.\<close>

definition body_signed :: "vb2_public_key \<Rightarrow> bytes \<Rightarrow> nat \<Rightarrow> bytes \<Rightarrow> bool" where
  "body_signed K P off body \<longleftrightarrow>
     unat (rd32 P (off + 16)) = length body \<and> signs_digest K P off (vb2_hash (pk_hash_alg K) body)"

text \<open>A signature inside the part of a block that memory holds.\<close>

lemma stored_sig:
  assumes P: "rdbytes m pre D = take D P" "D \<le> length P" "unat pre + length P < 2 ^ 64"
    and sig: "sig = pre + of_nat off" "off + SIZEOF_SIGNATURE \<le> D"
    and ins: "inside pre D sig SIZEOF_SIGNATURE (unat (sig_offset m sig)) (unat (sig_size m sig))"
  shows "sig_offset m sig = rd32 P off" and "sig_size m sig = rd32 P (off + 8)" and "data_size m sig = rd32 P (off + 16)"
    and "unat sig = unat pre + off" and "off + unat (rd32 P off) + unat (rd32 P (off + 8)) \<le> D"
    and "vb2_signature_data m sig = pre + of_nat (off + unat (rd32 P off))"
    and "rdbytes m (vb2_signature_data m sig) (unat (rd32 P (off + 8))) =
      take (unat (rd32 P (off + 8))) (drop (off + unat (rd32 P off)) P)"
proof -
  let ?so = "unat (rd32 P off)" and ?ss = "unat (rd32 P (off + 8))"
  show us: "unat sig = unat pre + off" unfolding sig(1) by (rule unat_plus_offset) (use P sig in simp)
  have f: "rdm32 m (sig + of_nat i) = rd32 P (off + i)" if "i + 4 \<le> 24" for i
    using rdm32_rdbytes [of "off + i" D m pre] that sig P by (simp add: rd32_def add.assoc)
  show o: "sig_offset m sig = rd32 P off" "sig_size m sig = rd32 P (off + 8)" "data_size m sig = rd32 P (off + 16)"
    using f [of 0] f [of 8] f [of 16] by (simp_all add: sig_offset_def sig_size_def data_size_def)
  show i: "off + ?so + ?ss \<le> D" using ins us unfolding inside_def o by linarith
  have "(ucast (rd32 P off) :: u64) = of_nat ?so" by simp
  then show sdat: "vb2_signature_data m sig = pre + of_nat (off + ?so)"
    unfolding vb2_signature_data_def o(1) by (simp only: sig(1) of_nat_add add.assoc)
  have "take ?ss (drop (off + ?so) (rdbytes m pre D)) = rdbytes m (vb2_signature_data m sig) ?ss"
    unfolding sdat by (rule slice_rdbytes) (use i in simp)
  moreover have "min ?ss (D - (off + ?so)) = ?ss" using i by linarith
  ultimately show "rdbytes m (vb2_signature_data m sig) ?ss = take ?ss (drop (off + ?so) P)"
    unfolding P(1) by (simp add: drop_take)
qed

text \<open>The check of a digest against such a signature, after memory behind the block was written.\<close>

lemma stored_digest_signs:
  assumes P: "rdbytes m pre D = take D P" "D \<le> length P" "unat pre + length P \<le> lo" "lo < 2 ^ 64"
    and sig: "sig = pre + of_nat off" "off + SIZEOF_SIGNATURE \<le> D"
    and ins: "inside pre D sig SIZEOF_SIGNATURE (unat (sig_offset m sig)) (unat (sig_size m sig))"
    and so: "same_outside lo hi m m1" and key: "key_shape key" "deref_key m1 key = K" "rsa_key_ok K"
    and d: "rdbytes m1 digest (unat (vb2_digest_size (pk_hash_alg K))) = h"
    and v: "fst (vb2_verify_digest m1 key sig digest wb) = VB2_SUCCESS"
  shows "signs_digest K P off h"
proof -
  have hi: "unat pre + length P < 2 ^ 64" using P by linarith
  note s = stored_sig [OF P(1,2) hi sig ins]
  have keep: "rdbytes m1 x n = rdbytes m x n" if "unat x + n \<le> lo" for x n
    by (rule same_outside_rdbytes [OF so]) (use that P(4) in simp_all)
  have ka: "kr_hash_alg key = pk_hash_alg K" "kr_sig_alg key = pk_sig_alg K" using key(2) by (auto simp: deref_key_def)
  have sf: "sig_offset m1 sig = rd32 P off" "sig_size m1 sig = rd32 P (off + 8)"
    using signature_fields_cong [of m1 sig m] keep [of sig 24] s(1,2,4) sig(2) P(2,3) by simp_all
  have sdat: "vb2_signature_data m1 sig = vb2_signature_data m sig" by (simp add: vb2_signature_data_def sf s(1))
  have usd: "unat (vb2_signature_data m sig) = unat pre + (off + unat (rd32 P off))"
    unfolding s(6) by (rule unat_plus_offset) (use s(5) P(2) hi in simp)
  have sb: "rdbytes m1 (vb2_signature_data m1 sig) (unat (rd32 P (off + 8))) =
      take (unat (rd32 P (off + 8))) (drop (off + unat (rd32 P off)) P)"
    unfolding sdat s(7) [symmetric] by (rule keep) (use usd s(5) P(2,3) in simp)
  show ?thesis
    using verify_digest_signs [OF key(1) _ v, unfolded key(2) ka sf sb d, OF key(3)] by (simp add: signs_digest_def)
qed

lemma loaded_body_sig:
  assumes ld: "fw_loaded ctx m K P"
  defines "D \<equiv> unat (rd32 P 24)" and "sig \<equiv> body_signature (preamble_ptr ctx)"
  shows "rdbytes m (preamble_ptr ctx) D = take D P" and "D \<le> length P" and "unat (preamble_ptr ctx) + length P \<le> used_end ctx"
    and "used_end ctx < 2 ^ 64" and "sig = preamble_ptr ctx + of_nat 80" and "80 + SIZEOF_SIGNATURE \<le> D"
    and "inside (preamble_ptr ctx) D sig SIZEOF_SIGNATURE (unat (sig_offset m sig)) (unat (sig_size m sig))"
proof -
  show "rdbytes m (preamble_ptr ctx) D = take D P" "D \<le> length P" "unat (preamble_ptr ctx) + length P \<le> used_end ctx"
    and "sig = preamble_ptr ctx + of_nat 80"
    using ld unfolding fw_loaded_def preamble_loaded_def D_def sig_def body_signature_def by auto
  have "ctx_ok ctx" using ld by (simp add: fw_loaded_def preamble_loaded_def)
  then show "used_end ctx < 2 ^ 64" by (simp add: ctx_ok_def word_le_nat_alt)
  have "preamble_parts_ok m (preamble_ptr ctx)" "unat (data_size m (preamble_signature (preamble_ptr ctx))) = D"
    using ld unfolding fw_loaded_def preamble_loaded_def D_def by auto
  then show "80 + SIZEOF_SIGNATURE \<le> D" "inside (preamble_ptr ctx) D sig SIZEOF_SIGNATURE (unat (sig_offset m sig)) (unat (sig_size m sig))"
    unfolding preamble_parts_ok_def sig_def by auto
qed

lemma check_hash_cases:
  assumes "vb2api_check_hash hw ctx m bh = (VB2_SUCCESS, ctx', m', bh')"
  obtains digest wb m1 bh1 key where
    "vb2_workbuf_alloc (vb2_workbuf_from_ctx ctx) (vb2_digest_size (dc_hash_alg (bh_dc bh))) = (digest, wb)"
    and "digest \<noteq> NULL" and "sd_hash_remaining_size (sd ctx) = 0"
    and "finish_hash hw m bh digest (vb2_digest_size (dc_hash_alg (bh_dc bh))) = (VB2_SUCCESS, m1, bh1)"
    and "vb2_unpack_key m1 (data_key_ptr ctx) (sd_workbuf_data_key_size (sd ctx)) = Inr key"
    and "fst (vb2_verify_digest m1 key (body_signature (preamble_ptr ctx)) digest wb) = VB2_SUCCESS"
proof -
  note L = assms [unfolded vb2api_check_hash_def vb2api_check_hash_get_digest_def Let_def]
  let ?n = "vb2_digest_size (dc_hash_alg (bh_dc bh))"
  have g: "sd_workbuf_preamble_size (sd ctx) \<noteq> 0" "sd_workbuf_hash_size (sd ctx) \<noteq> 0" "sd_hash_remaining_size (sd ctx) = 0"
    using L by (auto split: if_splits)
  obtain digest wb where a: "vb2_workbuf_alloc (vb2_workbuf_from_ctx ctx) ?n = (digest, wb)" by fastforce
  have d: "digest \<noteq> NULL" using L g by (auto simp: a split: if_splits)
  obtain rv m1 bh1 where f: "finish_hash hw m bh digest ?n = (rv, m1, bh1)" by (metis surj_pair)
  have rv: "rv = 0" "sd_hash_tag (sd ctx) = VB2_HASH_TAG_FW_BODY" "sd_workbuf_data_key_size (sd ctx) \<noteq> 0"
    using L g d by (auto simp: a f split: if_splits)
  let ?k = "vb2_unpack_key m1 (data_key_ptr ctx) (sd_workbuf_data_key_size (sd ctx))"
  obtain key where k: "?k = Inr key" using L g d rv unpack_key_not_0 by (cases ?k) (auto simp: a f)
  have "fst (vb2_verify_digest m1 key (body_signature (preamble_ptr ctx)) digest wb) = VB2_SUCCESS"
    using L g d rv k by (auto simp: a f split: prod.splits)
  then show thesis using that [OF a d g(3) f [unfolded rv(1)] k] by simp
qed

lemma check_hash_signed:
  assumes hw: "hw_ok hw took" and ld: "fw_loaded ctx m K P" and K: "rsa_key_ok K"
    and alg0: "pk_hash_alg K \<noteq> VB2_HASH_INVALID"
    and bh: "body_holds took bh (pk_hash_alg K) body" and len: "length body < 2 ^ 29"
    and rem: "unat (sd_hash_remaining_size (sd ctx)) + length body = unat (rd32 P 96)"
    and ch: "vb2api_check_hash hw ctx m bh = (VB2_SUCCESS, ctx', m', bh')"
  shows "body_signed K P 80 body"
proof -
  let ?pre = "preamble_ptr ctx" and ?kd = "data_key_ptr ctx" and ?ks = "sd_workbuf_data_key_size (sd ctx)"
  let ?sig = "body_signature ?pre" and ?wb = "vb2_workbuf_from_ctx ctx" and ?h = "vb2_hash (pk_hash_alg K) body"
  have alg: "dc_hash_alg (bh_dc bh) = pk_hash_alg K" using bh by (simp add: body_holds_def)
  obtain digest wb m1 bh1 key where a: "vb2_workbuf_alloc ?wb (vb2_digest_size (pk_hash_alg K)) = (digest, wb)"
    and d: "digest \<noteq> NULL" and r0: "sd_hash_remaining_size (sd ctx) = 0"
    and f: "finish_hash hw m bh digest (vb2_digest_size (pk_hash_alg K)) = (VB2_SUCCESS, m1, bh1)"
    and u: "vb2_unpack_key m1 ?kd ?ks = Inr key"
    and v: "fst (vb2_verify_digest m1 key ?sig digest wb) = VB2_SUCCESS"
    using check_hash_cases [OF ch] unfolding alg by blast
  have m1: "m1 = wrbytes m digest ?h" by (rule finish_hash_ok [OF hw bh len f])
  have ctx: "ctx_ok ctx" and kp: "unat ?kd + unat ?ks \<le> unat ?pre" and kv: "packed_key_in (rdbytes m ?kd (unat ?ks)) 0 = K"
    using ld by (simp_all add: fw_loaded_def preamble_loaded_def)
  note s = loaded_body_sig [OF ld]
  have dk: "deref_key m1 key = packed_key_in (rdbytes m1 ?kd (unat ?ks)) 0" by (rule unpack_key_in [OF u])
  have hd: "unat (vb2_digest_size (pk_hash_alg K)) \<le> 64" "vb2_digest_size (pk_hash_alg K) \<le> 0xfffffff0"
    by (cases "pk_hash_alg K"; simp)+
  have "0 < unat (vb2_digest_size (pk_hash_alg K))" using alg0 by (cases "pk_hash_alg K") simp_all
  note w = from_ctx_ok [OF ctx a d this hd(2)]
  note o = alloc_ok [OF w(1) hd(2) a d]
  have hi: "work_end ctx < 2 ^ 64" using ctx by (simp add: ctx_ok_def)
  have so: "same_outside (wb_lo ?wb) (wb_hi ?wb) m m1" unfolding m1 o(1)
    by (rule same_outside_wrbytes) (use o hd w hi in \<open>simp_all add: length_vb2_hash\<close>)
  have ple: "unat ?pre + length P \<le> wb_lo ?wb" "wb_lo ?wb < 2 ^ 64" using s(3) w(2,3) o(4,5) hi by linarith+
  have "rdbytes m1 ?kd (unat ?ks) = rdbytes m ?kd (unat ?ks)"
    by (rule same_outside_rdbytes [OF so]) (use kp ple in simp_all)
  then have dk: "deref_key m1 key = K" using dk kv by simp
  have db: "rdbytes m1 digest (unat (vb2_digest_size (pk_hash_alg K))) = ?h"
    using rdbytes_wrbytes_same [of ?h m digest] hd(1) by (simp add: m1 length_vb2_hash)
  have shape: "key_shape key" using unpack_key_Inr [OF u] by (simp add: key_shape_def)
  have "signs_digest K P 80 ?h"
    by (rule stored_digest_signs [OF s(1,2) ple s(5-7) so shape dk K db v])
  then show ?thesis unfolding body_signed_def using rem r0 by simp
qed

text \<open>
  C5. With a data key and a preamble in the context as the third phase leaves them, vb2api_init_hash() tells the
  size of the body from the preamble, and when vb2api_check_hash() succeeds after the body was hashed piece by
  piece, in the hardware engine or in software, the body signature of the preamble is the data key's
  signature of exactly the data that was hashed, of exactly that size.\<close>

theorem vb2api_check_hash_trust:
  assumes "hw_ok hw took" and "fw_loaded ctx m K P" and "rsa_key_ok K" and "dc_ok (bh_dc bh)"
    and "length (concat bufs) < 2 ^ 29" and "vb2api_init_hash hw ctx m bh tag = (VB2_SUCCESS, sz, ctx1, bh1)"
    and "extend_hashes hw ctx1 bh1 bufs = (VB2_SUCCESS, ctx2, bh2)"
  shows "sz = Some (rd32 P 96) \<and>
    (fst (vb2api_check_hash hw ctx2 m bh2) = VB2_SUCCESS \<longrightarrow> body_signed K P 80 (concat bufs))"
proof -
  note i = init_hash_ok [OF assms(1,2,4,6)]
  have e: "body_holds took bh2 (pk_hash_alg K) (concat bufs)"
    "ctx2 = upd_sd (\<lambda>d. d\<lparr>sd_hash_remaining_size := sd_hash_remaining_size (sd ctx2)\<rparr>) ctx1"
    "unat (sd_hash_remaining_size (sd ctx2)) + length (concat bufs) = unat (sd_hash_remaining_size (sd ctx1))"
    using extend_hashes_ok [OF assms(1) i(1) assms(5,7)] by simp_all
  have f: "workbuf ctx2 = workbuf ctx1" "workbuf_size ctx2 = workbuf_size ctx1" "workbuf_used ctx2 = workbuf_used ctx1"
    "sd_workbuf_data_key_offset (sd ctx2) = sd_workbuf_data_key_offset (sd ctx1)"
    "sd_workbuf_data_key_size (sd ctx2) = sd_workbuf_data_key_size (sd ctx1)"
    "sd_workbuf_preamble_offset (sd ctx2) = sd_workbuf_preamble_offset (sd ctx1)"
    by (subst e(2), simp add: upd_sd_def)+
  have ld: "fw_loaded ctx2 m K P" using i(2) by (rule fw_loaded_mono) (use i(2) f in \<open>auto simp: fw_loaded_def preamble_loaded_def ctx_ok_def\<close>)
  note l = loaded_body_sig [OF assms(2)]
  have n: "sd_hash_remaining_size (sd ctx1) = rd32 P 96" 
    using i(4,5) stored_sig(3) [OF l(1,2) _ l(5-7)] l(3,4) by simp
  have "body_signed K P 80 (concat bufs)" if "fst (vb2api_check_hash hw ctx2 m bh2) = VB2_SUCCESS"
    using check_hash_signed [OF assms(1) ld assms(3) i(6) e(1) assms(5) e(3) [unfolded n]] that by (metis prod.collapse)
  then show ?thesis using i(3) n by simp
qed

section \<open>A body whose signature is zero\<close>

text \<open>A hash engine that keeps what it was given.\<close>

definition model_hw :: "(vb2_hash_algorithm \<times> bytes) hwcrypto" where
  "model_hw = \<lparr>vb2ex_hwcrypto_digest_init = \<lambda>h alg n. (VB2_SUCCESS, (alg, [])),
     vb2ex_hwcrypto_digest_extend = \<lambda>h buf sz. (VB2_SUCCESS, (fst h, snd h @ buf)),
     vb2ex_hwcrypto_digest_finalize = \<lambda>h sz. (VB2_SUCCESS, vb2_hash (fst h) (snd h), h)\<rparr>"

lemma model_hw_ok: "hw_ok model_hw (\<lambda>h alg msg. h = (alg, msg))"
  by (auto simp: hw_ok_def model_hw_def)

definition body_preamble :: bytes where
  "body_preamble =
     le32_bytes 236 @ replicate 20 0 @ le32_bytes 236 @ replicate 52 0 @
     le32_bytes 28 @ le32_bytes 0 @ le32_bytes 128 @ le32_bytes 0 @ le32_bytes 3 @ le32_bytes 0 @ le32_bytes 0 @ replicate 128 0"

definition body_mem :: mem where
  "body_mem = wrbytes demo_mem 0x3000 body_preamble"

definition body_ctx :: vb2_context where
  "body_ctx = upd_sd (\<lambda>d. d\<lparr>sd_workbuf_data_key_offset := 0x100, sd_workbuf_data_key_size := 296,
       sd_workbuf_preamble_offset := 0x2100, sd_workbuf_preamble_size := 236\<rparr>)
     (zero_context\<lparr>workbuf := 0xf00, workbuf_used := 8684\<rparr>)"

lemma length_body_preamble: "length body_preamble = 236"
  by (simp add: body_preamble_def le32_bytes_def)

lemma body_mem_rd: "rdbytes body_mem 0x1000 296 = demo_packed_key" "rdbytes body_mem 0x3000 236 = body_preamble"
proof -
  have "rdbytes body_mem 0x1000 296 = rdbytes demo_mem 0x1000 296"
    unfolding body_mem_def by (rule rdbytes_wrbytes_disjoint) (simp_all add: length_body_preamble area_def)
  then show "rdbytes body_mem 0x1000 296 = demo_packed_key"
    using rdbytes_wrbytes_same [of demo_packed_key "\<lambda>_. 0" "0x1000"] by (simp add: demo_mem_def length_demo_packed_key)
  show "rdbytes body_mem 0x3000 236 = body_preamble"
    using rdbytes_wrbytes_same [of body_preamble demo_mem "0x3000"] by (simp add: body_mem_def length_body_preamble)
qed

lemma body_preamble_fields:
  "rd32 body_preamble 24 = 236" "rd32 body_preamble 48 = 0" "rd32 body_preamble 56 = 0" "rd32 body_preamble 80 = 28"
  "rd32 body_preamble 88 = 128" "rd32 body_preamble 96 = 3" "rd32 body_preamble 104 = 0"
  by (simp_all add: body_preamble_def rd32_def le32_bytes_def shl_def shr_def nth_append nth_Cons')

lemma body_mem_fields:
  "i + 4 \<le> 296 \<Longrightarrow> rdm32 body_mem (0x1000 + of_nat i) = rd32 demo_packed_key i"
  "i + 4 \<le> 236 \<Longrightarrow> rdm32 body_mem (0x3000 + of_nat i) = rd32 body_preamble i"
  using rdm32_rdbytes [of i 296 body_mem "0x1000"] rdm32_rdbytes [of i 236 body_mem "0x3000"] by (simp_all add: body_mem_rd)

lemma body_unpack: "vb2_unpack_key body_mem 0x1000 296 = Inr demo_ref"
proof -
  note r = body_mem_fields(1)
  have d: "rd32 demo_packed_key 0 = 32" "rd32 demo_packed_key 8 = 264" "rd32 demo_packed_key 16 = 0"
    "rd32 demo_packed_key 32 = 32" "rd32 demo_packed_key 36 = 1"
    by (simp_all add: demo_packed_key_def rd32_def le32_bytes_def shl_def shr_def)
  have f: "key_offset body_mem 0x1000 = 32" "key_size body_mem 0x1000 = 264" "key_algorithm body_mem 0x1000 = 0"
    "rdm32 body_mem 0x1020 = 32" "rdm32 body_mem 0x1024 = 1"
    using r [of 0] r [of 8] r [of 16] r [of 32] r [of 36] d by (simp_all add: key_offset_def key_size_def key_algorithm_def)
  have "vb2_verify_packed_key_inside body_mem 0x1000 296 0x1000 = 0"
    unfolding verify_packed_key_inside_iff f by (simp add: inside_def)
  then show ?thesis
    unfolding vb2_unpack_key_def Let_def vb2_packed_key_data_def f
    by (simp add: vb2_crypto_to_signature_def crypto_to_sig_def vb2_crypto_to_hash_def crypto_to_hash_def
        vb2_packed_key_size_def vb2_aligned_def demo_ref_def f)
qed

lemma body_sig_fields:
  "data_size body_mem 0x3008 = 236" "sig_offset body_mem 0x3050 = 28" "sig_size body_mem 0x3050 = 128" "data_size body_mem 0x3050 = 3"
  "key_offset body_mem 0x3030 = 0" "key_size body_mem 0x3030 = 0" "preamble_flags body_mem 0x3000 = 0"
  using body_mem_fields(2) [of 24] body_mem_fields(2) [of 80] body_mem_fields(2) [of 88] body_mem_fields(2) [of 96]
    body_mem_fields(2) [of 48] body_mem_fields(2) [of 56] body_mem_fields(2) [of 104]
  by (simp_all add: body_preamble_fields sig_offset_def sig_size_def data_size_def key_offset_def key_size_def preamble_flags_def)

lemma body_loaded: "fw_loaded body_ctx body_mem demo_key body_preamble"
  by (simp add: fw_loaded_def preamble_loaded_def body_ctx_def upd_sd_def ctx_ok_def body_mem_rd demo_packed_value body_preamble_fields
    length_body_preamble preamble_parts_ok_def preamble_signature_def body_signature_def kernel_subkey_def body_sig_fields inside_def)

lemma body_not_signed: "\<not> body_signed demo_key body_preamble 80 body"
proof
  assume s: "body_signed demo_key body_preamble 80 body"
  have "drop 108 body_preamble = replicate 128 0"
    by (simp add: body_preamble_def le32_bytes_def drop_Cons')
  then have z: "be_nat (take 128 (drop 108 body_preamble)) = 0" by (simp add: be_nat_0)
  have "be_nat (pkcs1_encode n VB2_HASH_SHA1 (vb2_hash VB2_HASH_SHA1 body)) \<noteq> 0" for n
    unfolding be_nat_0 by (simp add: pkcs1_encode_def pkcs1_pad_def padding_tail_def)
  then show False using s z unfolding body_signed_def signs_digest_def rsa_signs_def
    by (simp add: body_preamble_fields demo_key_def zero_power) (metis less_numeral_extra(3))
qed

lemma body_alloc: "fst (vb2_workbuf_alloc (vb2_workbuf_from_ctx body_ctx) 336) \<noteq> NULL"
  by (simp add: body_ctx_def vb2_workbuf_from_ctx_def vb2_workbuf_init_def vb2_workbuf_alloc_def vb2_align_def wb_round_up_def Let_def)

lemma body_init:
  assumes "vb2api_init_hash model_hw body_ctx body_mem \<lparr>bh_dc = blank_dc, bh_hw = (VB2_HASH_INVALID, [])\<rparr> 1 = (rv, n, ctx1, bh1)"
  shows "rv = VB2_SUCCESS" and "n = Some 3" and "bh_hw bh1 = (VB2_HASH_SHA1, [])" and "dc_using_hwcrypto (bh_dc bh1)"
    and "sd_hash_remaining_size (sd ctx1) = 3" and "sd_workbuf_hash_size (sd ctx1) = 336"
proof -
  have f: "sd_workbuf_hash_size (sd body_ctx) = 0" "sd_workbuf_preamble_size (sd body_ctx) = 236"
    "sd_workbuf_data_key_size (sd body_ctx) = 296" "data_key_ptr body_ctx = 0x1000" "preamble_ptr body_ctx = 0x3000"
    by (simp_all add: body_ctx_def upd_sd_def zero_shared_data_def)
  obtain p wb where al: "vb2_workbuf_alloc (vb2_workbuf_from_ctx body_ctx) 336 = (p, wb)" by fastforce
  obtain ctx0 where a: "alloc_hash body_ctx = (VB2_SUCCESS, ctx0)" "sd_workbuf_hash_size (sd ctx0) = 336"
    using body_alloc f(1) by (simp add: alloc_hash_def Let_def upd_sd_def al)
  moreover have "ctx_ok body_ctx" using body_loaded by (simp add: fw_loaded_def preamble_loaded_def)
  ultimately have g: "workbuf ctx0 = workbuf body_ctx" "sd_workbuf_data_key_size (sd ctx0) = 296"
    "sd_workbuf_data_key_offset (sd ctx0) = sd_workbuf_data_key_offset (sd body_ctx)"
    using alloc_hash_ok(3) [of body_ctx ctx0] f(3) by auto
  show "rv = VB2_SUCCESS" "n = Some 3" "bh_hw bh1 = (VB2_HASH_SHA1, [])" "dc_using_hwcrypto (bh_dc bh1)"
    "sd_hash_remaining_size (sd ctx1) = 3" "sd_workbuf_hash_size (sd ctx1) = 336"
    using assms unfolding vb2api_init_hash_def Let_def a f g prod.case
    by (auto simp: f a g body_unpack body_sig_fields body_signature_def start_hash_def model_hw_def has_flag_def upd_sd_def demo_ref_def)
qed

theorem vb2api_check_hash_trust_witness:
  "\<exists>ctx1 bh1 ctx2 bh2.
     vb2api_init_hash model_hw body_ctx body_mem \<lparr>bh_dc = blank_dc, bh_hw = (VB2_HASH_INVALID, [])\<rparr> 1 =
       (VB2_SUCCESS, Some 3, ctx1, bh1) \<and>
     extend_hashes model_hw ctx1 bh1 [[1, 2], [3]] = (VB2_SUCCESS, ctx2, bh2) \<and>
     bh_hw bh2 = (VB2_HASH_SHA1, [1, 2, 3]) \<and> fst (vb2api_check_hash model_hw ctx2 body_mem bh2) \<noteq> VB2_SUCCESS"
proof -
  let ?bh = "\<lparr>bh_dc = blank_dc, bh_hw = (VB2_HASH_INVALID, [])\<rparr>"
  obtain rv n ctx1 bh1 where i: "vb2api_init_hash model_hw body_ctx body_mem ?bh 1 = (rv, n, ctx1, bh1)" by (metis surj_pair)
  note b = body_init [OF i]
  obtain r ctx2 bh2 where e: "extend_hashes model_hw ctx1 bh1 [[1, 2], [3]] = (r, ctx2, bh2)" by (metis surj_pair)
  have r: "r = VB2_SUCCESS" "bh_hw bh2 = (VB2_HASH_SHA1, [1, 2, 3])"
    using e b by (auto simp: vb2api_extend_hash_def model_hw_def upd_sd_def Let_def)
  have "rsa_key_ok demo_key" using demo_key_sized by (simp add: rsa_key_sized_def)
  from vb2api_check_hash_trust [OF model_hw_ok body_loaded this _ _ i [unfolded b(1)] e [unfolded r(1)]]
  have "fst (vb2api_check_hash model_hw ctx2 body_mem bh2) \<noteq> VB2_SUCCESS" using body_not_signed by simp
  then show ?thesis using i e b r by blast
qed

end
