(* ===== verification/Kernel_Verify.thy ===== *)
theory Kernel_Verify
  imports Fw_Body
begin

text \<open>
  Verifying a kernel: the keyblock and the preamble (\<^verbatim>\<open>firmware/lib20/kernel.c\<close>) and the kernel phases
  (\<^verbatim>\<open>firmware/lib20/api_kernel.c\<close>).
\<close>

section \<open>Structures\<close>

abbreviation (input) VB2_KEY_BLOCK_FLAG_DEVELOPER_0 :: u32 where "VB2_KEY_BLOCK_FLAG_DEVELOPER_0 \<equiv> 0x01"
abbreviation (input) VB2_KEY_BLOCK_FLAG_DEVELOPER_1 :: u32 where "VB2_KEY_BLOCK_FLAG_DEVELOPER_1 \<equiv> 0x02"
abbreviation (input) VB2_KEY_BLOCK_FLAG_RECOVERY_0 :: u32 where "VB2_KEY_BLOCK_FLAG_RECOVERY_0 \<equiv> 0x04"
abbreviation (input) VB2_KEY_BLOCK_FLAG_RECOVERY_1 :: u32 where "VB2_KEY_BLOCK_FLAG_RECOVERY_1 \<equiv> 0x08"

abbreviation (input) SIZEOF_KERNEL_PREAMBLE :: nat where "SIZEOF_KERNEL_PREAMBLE \<equiv> 116"
abbreviation (input) KERNEL_PREAMBLE_HEADER_VERSION_MAJOR :: u32 where
  "KERNEL_PREAMBLE_HEADER_VERSION_MAJOR \<equiv> 2"

text \<open>A kernel preamble starts like a firmware preamble, up to the version.\<close>

definition kernel_version :: "mem \<Rightarrow> u64 \<Rightarrow> u32" where "kernel_version m pre = rdm32 m (pre + 40)"
definition body_load_address :: "mem \<Rightarrow> u64 \<Rightarrow> u64" where "body_load_address m pre = rdm64 m (pre + 48)"
definition bootloader_address :: "mem \<Rightarrow> u64 \<Rightarrow> u64" where "bootloader_address m pre = rdm64 m (pre + 56)"
definition bootloader_size :: "mem \<Rightarrow> u64 \<Rightarrow> u32" where "bootloader_size m pre = rdm32 m (pre + 64)"
definition kernel_body_signature :: "u64 \<Rightarrow> u64" where "kernel_body_signature pre = pre + 72"
definition vmlinuz_header_address :: "mem \<Rightarrow> u64 \<Rightarrow> u64" where "vmlinuz_header_address m pre = rdm64 m (pre + 96)"
definition vmlinuz_header_size :: "mem \<Rightarrow> u64 \<Rightarrow> u32" where "vmlinuz_header_size m pre = rdm32 m (pre + 104)"

section \<open>Keyblock (\<^verbatim>\<open>kernel.c\<close>)\<close>

definition vb2_need_signed_kernel :: "vb2_context \<Rightarrow> bool" where
  "vb2_need_signed_kernel ctx =
     (if has_flag (ctx_flags ctx) VB2_CONTEXT_RECOVERY_MODE then True
      else if \<not> has_flag (ctx_flags ctx) VB2_CONTEXT_DEVELOPER_MODE then True
      else if vb2_nv_get ctx VB2_NV_DEV_BOOT_SIGNED_ONLY \<noteq> 0 then True else False)"

definition vb2_verify_keyblock_hash ::
  "vb2_digest_context \<Rightarrow> mem \<Rightarrow> u64 \<Rightarrow> u32 \<Rightarrow> vb2_workbuf \<Rightarrow> u32 \<times> mem" where
  "vb2_verify_keyblock_hash dc0 m block sz wb =
     (let sig = keyblock_hash block;
          rv = vb2_check_keyblock m block sz sig
      in if rv \<noteq> 0 then (rv, m)
      else let digest_size = vb2_digest_size VB2_HASH_SHA512;
               (digest, wblocal) = vb2_workbuf_alloc wb digest_size
      in if digest = NULL then (VB2_ERROR_VDATA_WORKBUF_DIGEST, m)
      else let (dc, wblocal) = vb2_workbuf_alloc wblocal SIZEOF_DIGEST_CONTEXT
      in if dc = NULL then (VB2_ERROR_VDATA_WORKBUF_HASHING, m)
      else let (rv, c) = vb2_digest_init dc0 VB2_HASH_SHA512
      in if rv \<noteq> 0 then (rv, m)
      else let (rv, c) = vb2_digest_extend c (rdbytes m block (unat (data_size m sig))) (data_size m sig)
      in if rv \<noteq> 0 then (rv, m)
      else let (rv, c, d) = vb2_digest_finalize c (rdbytes m digest (unat digest_size)) digest_size;
               m = wrbytes m digest d
      in if rv \<noteq> 0 then (rv, m)
      else if vb2_safe_memcmp (rdbytes m (vb2_signature_data m sig) (unat digest_size))
                (rdbytes m digest (unat digest_size)) (unat digest_size) \<noteq> 0
      then (VB2_ERROR_KEYBLOCK_SIG_INVALID, m)
      else (VB2_SUCCESS, m))"

text \<open>
  A check that a kernel need not pass when it need not be signed: it then only loses the mark of a
  valid keyblock.
\<close>

fun check_or_clear :: "bool \<Rightarrow> bool \<Rightarrow> u32 \<Rightarrow> u32 + bool \<Rightarrow> u32 + bool" where
  "check_or_clear need bad err (Inl rv) = Inl rv"
| "check_or_clear need bad err (Inr valid) = (if \<not> bad then Inr valid else if need then Inl err else Inr False)"

definition kernel_keyblock_checks :: "vb2_context \<Rightarrow> bool \<Rightarrow> u32 \<Rightarrow> u32 \<Rightarrow> bool \<Rightarrow> u32 + bool" where
  "kernel_keyblock_checks ctx need flags version valid =
     (let rec_switch = has_flag (ctx_flags ctx) VB2_CONTEXT_RECOVERY_MODE;
          dev_switch = has_flag (ctx_flags ctx) VB2_CONTEXT_DEVELOPER_MODE;
          r = check_or_clear need
                (\<not> has_flag flags (if dev_switch then VB2_KEY_BLOCK_FLAG_DEVELOPER_1 else VB2_KEY_BLOCK_FLAG_DEVELOPER_0))
                VB2_ERROR_KERNEL_KEYBLOCK_DEV_FLAG (Inr valid);
          r = check_or_clear need
                (\<not> has_flag flags (if rec_switch then VB2_KEY_BLOCK_FLAG_RECOVERY_1 else VB2_KEY_BLOCK_FLAG_RECOVERY_0))
                VB2_ERROR_KERNEL_KEYBLOCK_REC_FLAG r;
          r = check_or_clear need (\<not> rec_switch \<and> version > 0xffff) VB2_ERROR_KERNEL_KEYBLOCK_VERSION_RANGE r
      in check_or_clear need (\<not> rec_switch \<and> version < shr (sd_kernel_version_secdatak (sd ctx)) 16)
           VB2_ERROR_KERNEL_KEYBLOCK_VERSION_ROLLBACK r)"

text \<open>
  A packed key moves to another place, its data right behind its header.  \<^verbatim>\<open>sized\<close> is the header
  the size of the data is read from.
\<close>

definition move_packed_key :: "mem \<Rightarrow> u64 \<Rightarrow> u64 \<Rightarrow> u64 \<Rightarrow> mem" where
  "move_packed_key m key_data src sized =
     (let m = wrbytes m key_data (rdbytes m src SIZEOF_PACKED_KEY);
          m = wrm32 m (key_data + 0) (of_nat SIZEOF_PACKED_KEY)
      in wrbytes m (key_data + ucast (key_offset m key_data))
           (rdbytes m (src + ucast (key_offset m src)) (unat (key_size m sized))))"

definition verify_kernel_keyblock ::
  "vb2_digest_context \<Rightarrow> mem \<Rightarrow> bool \<Rightarrow> u64 \<Rightarrow> u32 \<Rightarrow> vb2_key_ref \<Rightarrow> vb2_workbuf \<Rightarrow> u32 \<times> bool \<times> mem" where
  "verify_kernel_keyblock dc0 m need kb block_size kernel_key wb =
     (let (rv, m) = vb2_verify_keyblock dc0 m kb block_size kernel_key wb
      in if rv = 0 then (VB2_SUCCESS, True, m)
      else if need then (rv, False, m)
      else let (rv, m) = vb2_verify_keyblock_hash dc0 m kb block_size wb in (rv, False, m))"

text \<open>What stays of a keyblock that passed: its versions and its data key, right behind the kernel key.\<close>

definition keep_kernel_keyblock :: "vb2_context \<Rightarrow> mem \<Rightarrow> u64 \<Rightarrow> u32 \<Rightarrow> bool \<Rightarrow> vb2_context \<times> mem" where
  "keep_kernel_keyblock ctx m kb version keyblock_is_valid =
     (let ctx = upd_sd (\<lambda>d. d\<lparr>sd_kernel_version := shl version 16\<rparr>) ctx;
          ctx = (if keyblock_is_valid
                 then upd_sd (\<lambda>d. d\<lparr>sd_flags := sd_flags d OR VB2_SD_FLAG_KERNEL_SIGNED\<rparr>) ctx else ctx);
          offs = workbuf_used ctx;
          ctx = upd_sd (\<lambda>d. d\<lparr>sd_vblock_preamble_offset := keyblock_size m kb, sd_workbuf_data_key_offset := offs\<rparr>) ctx;
          key_data = workbuf ctx + ucast offs;
          m = move_packed_key m key_data (keyblock_data_key kb) key_data;
          key_len = key_offset m key_data + key_size m key_data;
          ctx = upd_sd (\<lambda>d. d\<lparr>sd_workbuf_data_key_size := key_len\<rparr>) ctx
      in (ctx\<lparr>workbuf_used := offs + key_len\<rparr>, m))"

definition vb2_load_kernel_keyblock ::
  "vb2_platform \<Rightarrow> vb2_digest_context \<Rightarrow> vb2_context \<Rightarrow> mem \<Rightarrow> u32 \<times> vb2_context \<times> mem" where
  "vb2_load_kernel_keyblock pl dc0 ctx m =
     (let need_keyblock_valid = vb2_need_signed_kernel ctx;
          wb = vb2_workbuf_from_ctx ctx;
          ctx = upd_sd (\<lambda>d. d\<lparr>sd_flags := clear_flag (sd_flags d) VB2_SD_FLAG_KERNEL_SIGNED\<rparr>) ctx;
          key_data = workbuf ctx + ucast (sd_workbuf_kernel_key_offset (sd ctx));
          key_sz = sd_workbuf_kernel_key_size (sd ctx)
      in case vb2_unpack_key m key_data key_sz of
        Inl rv \<Rightarrow> (rv, ctx, m)
      | Inr kernel_key \<Rightarrow>
      (case read_sized pl ctx m wb VB2_RES_KERNEL_VBLOCK 0 SIZEOF_KEYBLOCK keyblock_size
              VB2_ERROR_KERNEL_KEYBLOCK_WORKBUF_HEADER VB2_ERROR_KERNEL_KEYBLOCK_WORKBUF of
        Inl (rv, m) \<Rightarrow> (rv, ctx, m)
      | Inr (kb, block_size, wb, m) \<Rightarrow>
          let (rv, valid, m) = verify_kernel_keyblock dc0 m need_keyblock_valid kb block_size kernel_key wb
          in if rv \<noteq> 0 then (rv, ctx, m)
          else let version = key_version m (keyblock_data_key kb)
          in case kernel_keyblock_checks ctx need_keyblock_valid (keyblock_flags m kb) version valid of
            Inl rv \<Rightarrow> (rv, ctx, m)
          | Inr keyblock_is_valid \<Rightarrow>
              let (ctx, m) = keep_kernel_keyblock ctx m kb version keyblock_is_valid in (VB2_SUCCESS, ctx, m)))"

section \<open>Preamble (\<^verbatim>\<open>kernel.c\<close>)\<close>

definition vb2_verify_kernel_preamble ::
  "vb2_digest_context \<Rightarrow> mem \<Rightarrow> u64 \<Rightarrow> u32 \<Rightarrow> vb2_key_ref \<Rightarrow> vb2_workbuf \<Rightarrow> u32 \<times> mem" where
  "vb2_verify_kernel_preamble dc0 m preamble sz key wb =
     (let sig = preamble_signature preamble
      in if sz < of_nat SIZEOF_KERNEL_PREAMBLE then (VB2_ERROR_PREAMBLE_TOO_SMALL_FOR_HEADER, m)
      else if preamble_header_version_major m preamble \<noteq> KERNEL_PREAMBLE_HEADER_VERSION_MAJOR
      then (VB2_ERROR_PREAMBLE_HEADER_VERSION, m)
      else if preamble_header_version_minor m preamble < 2 then (VB2_ERROR_PREAMBLE_HEADER_OLD, m)
      else if sz < preamble_size m preamble then (VB2_ERROR_PREAMBLE_SIZE, m)
      else if vb2_verify_signature_inside m preamble (preamble_size m preamble) sig \<noteq> 0
      then (VB2_ERROR_PREAMBLE_SIG_OUTSIDE, m)
      else if preamble_size m preamble < data_size m sig then (VB2_ERROR_PREAMBLE_SIGNED_TOO_MUCH, m)
      else let (rv, m) = vb2_verify_data dc0 m preamble sz sig key wb
      in if rv \<noteq> 0 then (VB2_ERROR_PREAMBLE_SIG_INVALID, m)
      else if data_size m sig < of_nat SIZEOF_FW_PREAMBLE then (VB2_ERROR_PREAMBLE_SIGNED_TOO_LITTLE, m)
      else if vb2_verify_signature_inside m preamble (data_size m sig) (kernel_body_signature preamble) \<noteq> 0
      then (VB2_ERROR_PREAMBLE_BODY_SIG_OUTSIDE, m)
      else if bootloader_size m preamble \<noteq> 0 \<and>
              vb2_verify_member_inside (body_load_address m preamble) (ucast (data_size m (kernel_body_signature preamble)))
                (bootloader_address m preamble) (ucast (bootloader_size m preamble)) 0 0 \<noteq> 0
      then (VB2_ERROR_PREAMBLE_BOOTLOADER_OUTSIDE, m)
      else if vmlinuz_header_size m preamble \<noteq> 0 \<and>
              vb2_verify_member_inside (body_load_address m preamble) (ucast (data_size m (kernel_body_signature preamble)))
                (vmlinuz_header_address m preamble) (ucast (vmlinuz_header_size m preamble)) 0 0 \<noteq> 0
      then (VB2_ERROR_PREAMBLE_VMLINUZ_HEADER_OUTSIDE, m)
      else (VB2_SUCCESS, m))"

definition vb2_load_kernel_preamble ::
  "vb2_platform \<Rightarrow> vb2_digest_context \<Rightarrow> vb2_context \<Rightarrow> mem \<Rightarrow> u32 \<times> vb2_context \<times> mem" where
  "vb2_load_kernel_preamble pl dc0 ctx m =
     (let key_data = workbuf ctx + ucast (sd_workbuf_data_key_offset (sd ctx));
          key_sz = sd_workbuf_data_key_size (sd ctx);
          wb = vb2_workbuf_from_ctx ctx
      in if key_sz = 0 then (VB2_ERROR_KERNEL_PREAMBLE2_DATA_KEY, ctx, m)
      else case vb2_unpack_key m key_data key_sz of
        Inl rv \<Rightarrow> (rv, ctx, m)
      | Inr data_key \<Rightarrow>
      (case read_sized pl ctx m wb VB2_RES_KERNEL_VBLOCK (sd_vblock_preamble_offset (sd ctx)) SIZEOF_KERNEL_PREAMBLE
              preamble_size VB2_ERROR_KERNEL_PREAMBLE2_WORKBUF_HEADER VB2_ERROR_KERNEL_PREAMBLE2_WORKBUF of
        Inl (rv, m) \<Rightarrow> (rv, ctx, m)
      | Inr (pre, pre_size, wb, m) \<Rightarrow>
          let (rv, m) = vb2_verify_kernel_preamble dc0 m pre pre_size data_key wb
          in if rv \<noteq> 0 then (rv, ctx, m)
          else if kernel_version m pre > 0xffff then (VB2_ERROR_KERNEL_PREAMBLE_VERSION_RANGE, ctx, m)
          else let ctx = upd_sd (\<lambda>d. d\<lparr>sd_kernel_version := sd_kernel_version d OR kernel_version m pre\<rparr>) ctx
          in if vb2_need_signed_kernel ctx \<and> sd_kernel_version (sd ctx) < sd_kernel_version_secdatak (sd ctx)
             then (VB2_ERROR_KERNEL_PREAMBLE_VERSION_ROLLBACK, ctx, m)
          else let offs = ucast (vb2_offset_of (workbuf ctx) pre);
                   ctx = upd_sd (\<lambda>d. d\<lparr>sd_workbuf_preamble_offset := offs, sd_workbuf_preamble_size := pre_size\<rparr>) ctx
          in (VB2_SUCCESS, ctx\<lparr>workbuf_used := offs + pre_size\<rparr>, m)))"

section \<open>Kernel phases (\<^verbatim>\<open>api_kernel.c\<close>)\<close>

text \<open>The key for the kernel keyblock: from the GBB in recovery mode, else from the firmware preamble.\<close>

definition load_recovery_key ::
  "vb2_platform \<Rightarrow> vb2_context \<Rightarrow> mem \<Rightarrow> vb2_workbuf \<Rightarrow> (u32 \<times> mem) + (u64 \<times> u32 \<times> mem)" where
  "load_recovery_key pl ctx m wb =
     (let (gbb, wb) = vb2_workbuf_alloc wb SIZEOF_GBB_HEADER
      in if gbb = NULL then Inl (VB2_ERROR_GBB_WORKBUF, m)
      else let (rv, h) = vb2_read_gbb_header pl ctx;
               m = wrbytes m gbb h
      in if rv \<noteq> 0 then Inl (rv, m)
      else let key_offs = rdm32 m (gbb + of_nat GBB_recovery_key_offset);
               key_sz = rdm32 m (gbb + of_nat GBB_recovery_key_size);
               wb = vb2_workbuf_free wb SIZEOF_GBB_HEADER;
               (key_data, wb) = vb2_workbuf_alloc wb key_sz
      in if key_data = NULL then Inl (VB2_ERROR_API_KPHASE1_WORKBUF_REC_KEY, m)
      else let (rv, d) = vb2ex_read_resource pl ctx VB2_RES_GBB key_offs key_sz;
               m = wrbytes m key_data d
      in if rv \<noteq> 0 then Inl (rv, m) else Inr (key_data, key_sz, m))"

definition take_kernel_subkey :: "vb2_context \<Rightarrow> mem \<Rightarrow> (u32 \<times> mem) + (u64 \<times> u32 \<times> mem)" where
  "take_kernel_subkey ctx m =
     (if sd_workbuf_preamble_size (sd ctx) = 0 then Inl (VB2_ERROR_API_KPHASE1_PREAMBLE, m)
      else let pre = workbuf ctx + ucast (sd_workbuf_preamble_offset (sd ctx));
               pre_key = kernel_subkey pre;
               key_data = workbuf ctx + of_nat SIZEOF_SHARED_DATA;
               m = move_packed_key m key_data pre_key pre_key
      in Inr (key_data, key_offset m key_data + key_size m key_data, m))"

definition vb2api_kernel_phase1 :: "vb2_platform \<Rightarrow> vb2_context \<Rightarrow> mem \<Rightarrow> u32 \<times> vb2_context \<times> mem" where
  "vb2api_kernel_phase1 pl ctx m =
     (let wb = vb2_workbuf_from_ctx ctx;
          (rv, ctx) = vb2_secdatak_init ctx;
          (rv, ctx) = (if rv \<noteq> 0 then (rv, ctx)
                       else case vb2_secdatak_get ctx VB2_SECDATAK_VERSIONS of
                              Inl rv \<Rightarrow> (rv, ctx)
                            | Inr v \<Rightarrow> (VB2_SUCCESS, upd_sd (\<lambda>d. d\<lparr>sd_kernel_version_secdatak := v\<rparr>) ctx));
          rec_mode = has_flag (ctx_flags ctx) VB2_CONTEXT_RECOVERY_MODE
      in if rv \<noteq> 0 \<and> \<not> rec_mode then (rv, vb2_fail ctx (ucast VB2_RECOVERY_SECDATAK_INIT) (ucast rv), m)
      else let ctx = (if rv \<noteq> 0 then upd_sd (\<lambda>d. d\<lparr>sd_kernel_version_secdatak := 0\<rparr>) ctx else ctx)
      in case (if rec_mode then load_recovery_key pl ctx m wb else take_kernel_subkey ctx m) of
           Inl (rv, m) \<Rightarrow> (rv, ctx, m)
         | Inr (key_data, key_sz, m) \<Rightarrow>
             let offs = ucast (vb2_offset_of (workbuf ctx) key_data);
                 ctx = upd_sd (\<lambda>d. d\<lparr>sd_workbuf_data_key_size := 0, sd_workbuf_preamble_size := 0, sd_workbuf_hash_size := 0,
                                      sd_workbuf_kernel_key_offset := offs, sd_workbuf_kernel_key_size := key_sz\<rparr>) ctx
             in (VB2_SUCCESS, ctx\<lparr>workbuf_used := offs + key_sz\<rparr>, m))"

definition vb2api_load_kernel_vblock ::
  "vb2_platform \<Rightarrow> vb2_digest_context \<Rightarrow> vb2_context \<Rightarrow> mem \<Rightarrow> u32 \<times> vb2_context \<times> mem" where
  "vb2api_load_kernel_vblock pl dc0 ctx m =
     (let (rv, ctx, m) = vb2_load_kernel_keyblock pl dc0 ctx m
      in if rv \<noteq> 0 then (rv, ctx, m)
      else let (rv, ctx, m) = vb2_load_kernel_preamble pl dc0 ctx m
      in if rv \<noteq> 0 then (rv, ctx, m) else (VB2_SUCCESS, ctx, m))"

text \<open>Offset and size of the kernel are results; the caller may leave out either.\<close>

definition vb2api_get_kernel_size :: "vb2_context \<Rightarrow> mem \<Rightarrow> u32 + (u32 \<times> u32)" where
  "vb2api_get_kernel_size ctx m =
     (if sd_workbuf_preamble_size (sd ctx) = 0 then Inl VB2_ERROR_API_GET_KERNEL_SIZE_PREAMBLE
      else let pre = workbuf ctx + ucast (sd_workbuf_preamble_offset (sd ctx))
      in Inr (sd_vblock_preamble_offset (sd ctx) + sd_workbuf_preamble_size (sd ctx), data_size m (kernel_body_signature pre)))"

definition vb2api_verify_kernel_data ::
  "vb2_digest_context \<Rightarrow> vb2_context \<Rightarrow> mem \<Rightarrow> bytes \<Rightarrow> u32 \<Rightarrow> u32 \<times> mem" where
  "vb2api_verify_kernel_data dc0 ctx m buf sz =
     (let wb = vb2_workbuf_from_ctx ctx
      in if sd_workbuf_preamble_size (sd ctx) = 0 then (VB2_ERROR_API_VERIFY_KDATA_PREAMBLE, m)
      else let pre = workbuf ctx + ucast (sd_workbuf_preamble_offset (sd ctx))
      in if sz \<noteq> data_size m (kernel_body_signature pre) then (VB2_ERROR_API_VERIFY_KDATA_SIZE, m)
      else let (dc, wb) = vb2_workbuf_alloc wb SIZEOF_DIGEST_CONTEXT
      in if dc = NULL then (VB2_ERROR_API_VERIFY_KDATA_WORKBUF, m)
      else if sd_workbuf_data_key_size (sd ctx) = 0 then (VB2_ERROR_API_VERIFY_KDATA_KEY, m)
      else case vb2_unpack_key m (workbuf ctx + ucast (sd_workbuf_data_key_offset (sd ctx))) (sd_workbuf_data_key_size (sd ctx)) of
        Inl rv \<Rightarrow> (rv, m)
      | Inr key \<Rightarrow>
          let (rv, c) = vb2_digest_init dc0 (kr_hash_alg key)
          in if rv \<noteq> 0 then (rv, m)
          else let (rv, c) = vb2_digest_extend c buf sz
          in if rv \<noteq> 0 then (rv, m)
          else let digest_size = vb2_digest_size (kr_hash_alg key);
                   (digest, wb) = vb2_workbuf_alloc wb digest_size
          in if digest = NULL then (VB2_ERROR_API_CHECK_HASH_WORKBUF_DIGEST, m)
          else let (rv, c, d) = vb2_digest_finalize c (rdbytes m digest (unat digest_size)) digest_size;
                   m = wrbytes m digest d
          in if rv \<noteq> 0 then (rv, m)
          else vb2_verify_digest m key (kernel_body_signature pre) digest wb)"

definition vb2api_kernel_phase3 :: "vb2_context \<Rightarrow> u32 \<times> vb2_context" where
  "vb2api_kernel_phase3 ctx =
     (if sd_kernel_version (sd ctx) > sd_kernel_version_secdatak (sd ctx) \<and>
         has_flag (sd_flags (sd ctx)) VB2_SD_FLAG_KERNEL_SIGNED \<and>
         \<not> has_flag (ctx_flags ctx) VB2_CONTEXT_RECOVERY_MODE \<and>
         has_flag (ctx_flags ctx) VB2_CONTEXT_ALLOW_KERNEL_ROLL_FORWARD
      then let (rv, ctx) = vb2_secdatak_set ctx VB2_SECDATAK_VERSIONS (sd_kernel_version (sd ctx))
           in if rv \<noteq> 0 then (rv, ctx)
              else (VB2_SUCCESS, upd_sd (\<lambda>d. d\<lparr>sd_kernel_version_secdatak := sd_kernel_version d\<rparr>) ctx)
      else (VB2_SUCCESS, ctx))"

end
