(* ===== verification/Kernel_Trust.thy ===== *)
theory Kernel_Trust
  imports Kernel_Verify
begin

text \<open>
  What a kernel that was accepted has shown: a chain of signatures from the kernel subkey in the
  firmware preamble to the kernel, and a version that is not older than the stored one.
\<close>

section \<open>Moving a key\<close>

lemma move_packed_key_ok:
  fixes m dst src sized
  defines "n \<equiv> key_size m src" and "m' \<equiv> move_packed_key m dst src sized"
  assumes far: "unat dst + SIZEOF_PACKED_KEY \<le> unat src" and sized: "sized = src \<or> sized = dst"
    and e: "unat src + SIZEOF_PACKED_KEY \<le> e" "unat src + unat (key_offset m src) + unat n \<le> e" "e < 2 ^ 64"
      "unat dst + SIZEOF_PACKED_KEY + unat n \<le> e2" "e2 < 2 ^ 64"
  shows "key_algorithm m' dst = key_algorithm m src" and "key_size m' dst = n" and "key_offset m' dst = 32"
    and "rdbytes m' (dst + 32) (unat n) = rdbytes m (src + ucast (key_offset m src)) (unat n)"
    and "same_outside (unat dst) e2 m m'"
proof -
  let ?h = "rdbytes m src SIZEOF_PACKED_KEY" and ?x = "unat dst + SIZEOF_PACKED_KEY"
  define m1 where "m1 = wrbytes m dst ?h"
  define m2 where "m2 = wrm32 m1 dst 32"
  have u: "unat (dst + 8) = unat dst + 8" "unat (dst + 16) = unat dst + 16" "unat (dst + 32) = unat dst + 32"
    using unat_plus_offset [of dst 8] unat_plus_offset [of dst 16] unat_plus_offset [of dst 32] e by simp_all
  have o1: "same_outside (unat dst) ?x m m1" unfolding m1_def by (rule same_outside_wrbytes) (use e in simp_all)
  have o2: "same_outside (unat dst) ?x m m2" unfolding m2_def
    by (rule same_outside_trans [OF o1], rule same_outside_wrm32) (use e in simp_all)
  have f1: "rdm32 m1 (dst + of_nat i) = rdm32 m (src + of_nat i)" if "i + 4 \<le> 32" for i
    using rdm32_wrbytes [of i ?h m dst] rdm32_rdbytes [of i 32 m src] that by (simp add: m1_def)
  have f2: "key_algorithm m2 dst = key_algorithm m src" "key_size m2 dst = n" "key_offset m2 dst = 32"
    unfolding key_algorithm_def key_size_def key_offset_def n_def m2_def
    using f1 [of 16] f1 [of 8] u e by (simp_all add: rdm32_wrm32_other)
  have g2: "key_offset m2 src = key_offset m src" "key_size m2 src = n"
    unfolding n_def by (rule key_fields_outside [OF o2]; use far e in simp)+
  have m': "m' = wrbytes m2 (dst + 32) (rdbytes m2 (src + ucast (key_offset m src)) (unat n))"
    using sized g2 f2 by (auto simp: m'_def move_packed_key_def Let_def m1_def [symmetric] m2_def [symmetric])
  have o3: "same_outside ?x e2 m2 m'" unfolding m' by (rule same_outside_wrbytes) (use u e in simp_all)
  show "key_algorithm m' dst = key_algorithm m src" "key_size m' dst = n" "key_offset m' dst = 32"
    using key_fields_outside [OF o3, of dst] f2 e by simp_all
  have us: "unat (src + ucast (key_offset m src)) = unat src + unat (key_offset m src)"
    using e unat_plus_u64 [of src "ucast (key_offset m src)"] by simp
  show "rdbytes m' (dst + 32) (unat n) = rdbytes m (src + ucast (key_offset m src)) (unat n)"
    using rdbytes_wrbytes_same [of "rdbytes m2 (src + ucast (key_offset m src)) (unat n)" m2 "dst + 32"]
      same_outside_rdbytes [OF o2, of "src + ucast (key_offset m src)" "unat n"] unat_u32_less [of n] us far e
    unfolding m' by simp
  show "same_outside (unat dst) e2 m m'"
    by (rule same_outside_trans [OF same_outside_mono [OF o2] same_outside_mono [OF o3]]) (use e in simp_all)
qed

text \<open>The key at the new place is the key at the old one.\<close>

lemma move_packed_key_value:
  fixes m dst src sized
  defines "m' \<equiv> move_packed_key m dst src sized"
  assumes "unat dst + SIZEOF_PACKED_KEY \<le> unat src" "sized = src \<or> sized = dst"
    "unat src + SIZEOF_PACKED_KEY \<le> e" "unat src + unat (key_offset m src) + unat (key_size m src) \<le> e" "e < 2 ^ 64"
    "unat dst + SIZEOF_PACKED_KEY + unat (key_size m src) \<le> e2" "e2 < 2 ^ 64" "unat (key_size m src) < 2 ^ 31"
  shows "packed_key_in (rdbytes m' dst (unat (key_offset m' dst + key_size m' dst))) 0 =
      key_value (key_algorithm m src) (rdbytes m (src + ucast (key_offset m src)) (unat (key_size m src)))"
    and "unat (key_offset m' dst + key_size m' dst) = 32 + unat (key_size m src)"
proof -
  note v = move_packed_key_ok [OF assms(2-8), folded m'_def]
  show l: "unat (key_offset m' dst + key_size m' dst) = 32 + unat (key_size m src)"
    using v(2,3) assms(9) by (simp add: unat_word_ariths)
  have "packed_key_in (rdbytes m' dst (32 + unat (key_size m src))) 0 =
      key_value (key_algorithm m' dst) (rdbytes m' (dst + ucast (key_offset m' dst)) (unat (key_size m' dst)))"
    by (rule packed_key_in_rd) (use v(2,3) in simp_all)
  then show "packed_key_in (rdbytes m' dst (unat (key_offset m' dst + key_size m' dst))) 0 =
      key_value (key_algorithm m src) (rdbytes m (src + ucast (key_offset m src)) (unat (key_size m src)))"
    unfolding l using v(1-4) by simp
qed

section \<open>The keyblock\<close>

abbreviation kernel_key_ptr :: "vb2_context \<Rightarrow> u64" where
  "kernel_key_ptr ctx \<equiv> workbuf ctx + ucast (sd_workbuf_kernel_key_offset (sd ctx))"

abbreviation unmarked :: "vb2_context \<Rightarrow> vb2_context" where
  "unmarked ctx \<equiv> upd_sd (\<lambda>d. d\<lparr>sd_flags := clear_flag (sd_flags d) VB2_SD_FLAG_KERNEL_SIGNED\<rparr>) ctx"

abbreviation marked_signed :: "vb2_context \<Rightarrow> bool" where
  "marked_signed ctx \<equiv> has_flag (sd_flags (sd ctx)) VB2_SD_FLAG_KERNEL_SIGNED"

text \<open>The keyblock the platform delivers.\<close>

definition kernel_keyblock :: "vb2_platform \<Rightarrow> vb2_context \<Rightarrow> bytes" where
  "kernel_keyblock pl ctx = snd (vb2ex_read_resource pl ctx VB2_RES_KERNEL_VBLOCK 0
     (rd32 (snd (vb2ex_read_resource pl ctx VB2_RES_KERNEL_VBLOCK 0 (of_nat SIZEOF_KEYBLOCK))) 16))"

text \<open>A keyblock is for the boot mode, and its key is not too old.\<close>

definition keyblock_fits :: "vb2_context \<Rightarrow> u32 \<Rightarrow> u32 \<Rightarrow> bool" where
  "keyblock_fits ctx flags version \<longleftrightarrow>
     has_flag flags (if has_flag (ctx_flags ctx) VB2_CONTEXT_DEVELOPER_MODE
       then VB2_KEY_BLOCK_FLAG_DEVELOPER_1 else VB2_KEY_BLOCK_FLAG_DEVELOPER_0) \<and>
     has_flag flags (if has_flag (ctx_flags ctx) VB2_CONTEXT_RECOVERY_MODE
       then VB2_KEY_BLOCK_FLAG_RECOVERY_1 else VB2_KEY_BLOCK_FLAG_RECOVERY_0) \<and>
     (\<not> has_flag (ctx_flags ctx) VB2_CONTEXT_RECOVERY_MODE \<longrightarrow>
       version \<le> 0xffff \<and> shr (sd_kernel_version_secdatak (sd ctx)) 16 \<le> version)"

lemma check_or_clear_Inr: "check_or_clear need bad err r = Inr v \<longleftrightarrow>
    (\<exists>w. r = Inr w \<and> (if bad then \<not> need \<and> \<not> v else v = w))"
  by (cases r) auto

lemma keyblock_checks_ok:
  assumes "kernel_keyblock_checks ctx need flags version valid = Inr r" and "need \<and> valid \<or> r"
  shows "valid" and "r" and "keyblock_fits ctx flags version"
  using assms unfolding kernel_keyblock_checks_def Let_def check_or_clear_Inr keyblock_fits_def
  by (auto simp: not_less split: if_splits)

lemma check_or_clear_not_0 [simp]: "err \<noteq> 0 \<Longrightarrow> check_or_clear need bad err r = Inl 0 \<longleftrightarrow> r = Inl 0"
  by (cases r) auto

lemma keyblock_checks_not_0 [simp]: "kernel_keyblock_checks ctx need flags version valid \<noteq> Inl 0"
  by (simp add: kernel_keyblock_checks_def Let_def del: check_or_clear.simps)

lemma verify_kernel_keyblock_ok:
  assumes "verify_kernel_keyblock dc0 m need kb sz key wb = (VB2_SUCCESS, valid, m')" and "need \<or> valid"
  shows "valid" and "vb2_verify_keyblock dc0 m kb sz key wb = (VB2_SUCCESS, m')"
  using assms by (auto simp: verify_kernel_keyblock_def Let_def split: prod.splits if_splits)

lemma load_kernel_keyblock_cases:
  assumes "vb2_load_kernel_keyblock pl dc0 ctx m = (VB2_SUCCESS, ctx', m')"
    and "vb2_need_signed_kernel ctx \<or> marked_signed ctx'"
  defines "dst \<equiv> workbuf ctx + ucast (workbuf_used ctx)"
  obtains key kb bsz wb2 m3 m4 where
    "vb2_unpack_key m (kernel_key_ptr ctx) (sd_workbuf_kernel_key_size (sd ctx)) = Inr key"
    and "read_sized pl (unmarked ctx) m (vb2_workbuf_from_ctx ctx) VB2_RES_KERNEL_VBLOCK 0 SIZEOF_KEYBLOCK keyblock_size
      VB2_ERROR_KERNEL_KEYBLOCK_WORKBUF_HEADER VB2_ERROR_KERNEL_KEYBLOCK_WORKBUF = Inr (kb, bsz, wb2, m3)"
    and "vb2_verify_keyblock dc0 m3 kb bsz key wb2 = (VB2_SUCCESS, m4)"
    and "keyblock_fits ctx (keyblock_flags m4 kb) (key_version m4 (keyblock_data_key kb))"
    and "m' = move_packed_key m4 dst (keyblock_data_key kb) dst"
    and "marked_signed ctx'"
    and "ctx' = (upd_sd (\<lambda>d. d\<lparr>sd_flags := sd_flags (sd ctx'), sd_kernel_version := shl (key_version m4 (keyblock_data_key kb)) 16,
        sd_vblock_preamble_offset := keyblock_size m4 kb, sd_workbuf_data_key_offset := workbuf_used ctx,
        sd_workbuf_data_key_size := key_offset m' dst + key_size m' dst\<rparr>) ctx)
      \<lparr>workbuf_used := workbuf_used ctx + (key_offset m' dst + key_size m' dst)\<rparr>"
proof -
  let ?k = "vb2_unpack_key m (kernel_key_ptr ctx) (sd_workbuf_kernel_key_size (sd ctx))" and ?need = "vb2_need_signed_kernel ctx"
  let ?r = "read_sized pl (unmarked ctx) m (vb2_workbuf_from_ctx ctx) VB2_RES_KERNEL_VBLOCK 0 SIZEOF_KEYBLOCK keyblock_size
      VB2_ERROR_KERNEL_KEYBLOCK_WORKBUF_HEADER VB2_ERROR_KERNEL_KEYBLOCK_WORKBUF"
  note L = assms(1) [unfolded vb2_load_kernel_keyblock_def Let_def upd_sd_simps]
  obtain key where u: "?k = Inr key" using L by (cases ?k) (auto simp: upd_sd_def)
  obtain kb bsz wb2 m3 where rs: "?r = Inr (kb, bsz, wb2, m3)" using L u by (cases ?r) (auto simp: upd_sd_def)
  obtain rv valid m4 where v: "verify_kernel_keyblock dc0 m3 ?need kb bsz key wb2 = (rv, valid, m4)" by (metis surj_pair)
  let ?ver = "key_version m4 (keyblock_data_key kb)"
  have rv: "rv = 0" using L u rs by (auto simp: v split: if_splits)
  obtain r where ch: "kernel_keyblock_checks (unmarked ctx) ?need (keyblock_flags m4 kb) ?ver valid = Inr r"
    using L u rs v rv by (cases "kernel_keyblock_checks (unmarked ctx) ?need (keyblock_flags m4 kb) ?ver valid") auto
  have res: "keep_kernel_keyblock (unmarked ctx) m4 kb ?ver r = (ctx', m')"
    using L u rs v rv ch by (auto split: prod.splits)
  have um: "\<not> marked_signed (unmarked ctx)" by (simp add: upd_sd_def)
  have cx: "marked_signed ctx' \<longleftrightarrow> r" "m' = move_packed_key m4 dst (keyblock_data_key kb) dst"
    using res um by (cases r; auto simp: keep_kernel_keyblock_def Let_def upd_sd_def dst_def)+
  have need: "?need \<and> valid \<or> r" using assms(2) cx(1) verify_kernel_keyblock_ok(1) [OF v [unfolded rv]] by blast
  note ck = keyblock_checks_ok [OF ch need]
  have "keyblock_fits ctx (keyblock_flags m4 kb) ?ver" using ck(3) by (simp add: keyblock_fits_def upd_sd_def)
  moreover have "vb2_verify_keyblock dc0 m3 kb bsz key wb2 = (VB2_SUCCESS, m4)"
    using verify_kernel_keyblock_ok(2) [OF v [unfolded rv]] ck(1) by blast
  moreover have "ctx' = (upd_sd (\<lambda>d. d\<lparr>sd_flags := sd_flags (sd ctx'), sd_kernel_version := shl ?ver 16,
        sd_vblock_preamble_offset := keyblock_size m4 kb, sd_workbuf_data_key_offset := workbuf_used ctx,
        sd_workbuf_data_key_size := key_offset m' dst + key_size m' dst\<rparr>) ctx)
      \<lparr>workbuf_used := workbuf_used ctx + (key_offset m' dst + key_size m' dst)\<rparr>"
    using res ck(2) by (auto simp: keep_kernel_keyblock_def Let_def upd_sd_def dst_def)
  ultimately show thesis using that [OF u rs] cx ck(2) by blast
qed

lemma from_ctx_upd_sd [simp]: "vb2_workbuf_from_ctx (upd_sd f ctx) = vb2_workbuf_from_ctx ctx"
  by (simp add: vb2_workbuf_from_ctx_def)

lemma ctx_ok_upd_sd [simp]: "ctx_ok (upd_sd f ctx) \<longleftrightarrow> ctx_ok ctx"
  by (simp add: ctx_ok_def)

text \<open>The keyblock in memory, between the kernel key and the free part of the work buffer.\<close>

lemma kernel_keyblock_layout:
  assumes pl: "reads_ok pl" and ctx: "ctx_ok ctx"
    and rs: "read_sized pl (unmarked ctx) m (vb2_workbuf_from_ctx ctx) VB2_RES_KERNEL_VBLOCK 0 SIZEOF_KEYBLOCK keyblock_size
      VB2_ERROR_KERNEL_KEYBLOCK_WORKBUF_HEADER VB2_ERROR_KERNEL_KEYBLOCK_WORKBUF = Inr (kb, bsz, wb2, m3)"
  shows "used_end ctx \<le> unat kb" and "unat kb + unat bsz \<le> wb_lo wb2" and "wb_ok wb2" and "wb_hi wb2 = work_end ctx"
    and "wb_lo wb2 \<le> work_end ctx" and "same_outside (unat kb) (work_end ctx) m m3"
    and "rdbytes m3 kb (unat bsz) = kernel_keyblock pl (unmarked ctx)"
proof -
  let ?c = "unmarked ctx"
  have w: "wb_ok (vb2_workbuf_from_ctx ctx)" "used_end ctx \<le> wb_lo (vb2_workbuf_from_ctx ctx)" "wb_hi (vb2_workbuf_from_ctx ctx) = work_end ctx"
    using read_sized_wb [of pl ?c SIZEOF_KEYBLOCK m VB2_RES_KERNEL_VBLOCK 0 keyblock_size] pl ctx rs by auto
  obtain H where H: "vb2ex_read_resource pl ?c VB2_RES_KERNEL_VBLOCK 0 (of_nat SIZEOF_KEYBLOCK) = (VB2_SUCCESS, H)" "length H = SIZEOF_KEYBLOCK"
    "bsz = keyblock_size (wrbytes m kb H) kb"
    "vb2ex_read_resource pl ?c VB2_RES_KERNEL_VBLOCK 0 bsz = (VB2_SUCCESS, rdbytes m3 kb (unat bsz))"
    "kb = wb_buf (vb2_workbuf_from_ctx ctx)" "wb_ok wb2" "wb_hi wb2 = wb_hi (vb2_workbuf_from_ctx ctx)"
    "wb_lo (vb2_workbuf_from_ctx ctx) + unat bsz \<le> wb_lo wb2"
    "same_outside (wb_lo (vb2_workbuf_from_ctx ctx)) (wb_hi (vb2_workbuf_from_ctx ctx)) m m3" "wb_lo wb2 \<le> wb_hi (vb2_workbuf_from_ctx ctx)"
    using read_sized_ok [OF pl w(1) _ rs] by auto
  then show "used_end ctx \<le> unat kb" "unat kb + unat bsz \<le> wb_lo wb2" "wb_ok wb2" "wb_hi wb2 = work_end ctx"
    "wb_lo wb2 \<le> work_end ctx" "same_outside (unat kb) (work_end ctx) m m3"
    using w by simp_all
  have "keyblock_size (wrbytes m kb H) kb = rd32 H 16"
    using rdm32_wrbytes [of 16 H m kb] H(2) by (simp add: keyblock_size_def)
  then show "rdbytes m3 kb (unat bsz) = kernel_keyblock pl ?c" using H(1,3,4) by (simp add: kernel_keyblock_def)
qed

lemma load_kernel_keyblock_ok:
  assumes pl: "reads_ok pl" and ctx: "ctx_ok ctx" and dc: "dc_ok dc0"
    and kk: "packed_key_in (rdbytes m (kernel_key_ptr ctx) (unat (sd_workbuf_kernel_key_size (sd ctx)))) 0 = KK" "rsa_key_ok KK"
    and below: "unat (kernel_key_ptr ctx) + unat (sd_workbuf_kernel_key_size (sd ctx)) \<le> used_end ctx"
    and B: "B = kernel_keyblock pl (unmarked ctx)" and sa: "sig_after B 24"
    and ld: "vb2_load_kernel_keyblock pl dc0 ctx m = (VB2_SUCCESS, ctx', m')"
    and sgn: "vb2_need_signed_kernel ctx \<or> marked_signed ctx'"
  shows "signed_in KK B 24" and "keyblock_fits ctx (rd32 B 72) (rd32 B 104)" and "marked_signed ctx'"
    and "packed_key_in (rdbytes m' (data_key_ptr ctx') (unat (sd_workbuf_data_key_size (sd ctx')))) 0 = packed_key_in B 80"
    and "unat (data_key_ptr ctx') + unat (sd_workbuf_data_key_size (sd ctx')) = used_end ctx'"
    and "ctx_ok ctx'" and "used_end ctx \<le> used_end ctx'" and "same_outside (used_end ctx) (work_end ctx) m m'"
    and "\<exists>fl n u. ctx' = ctx\<lparr>sd := (sd ctx)\<lparr>sd_flags := fl, sd_kernel_version := shl (rd32 B 104) 16,
      sd_vblock_preamble_offset := rd32 B 16, sd_workbuf_data_key_offset := workbuf_used ctx, sd_workbuf_data_key_size := n\<rparr>,
      workbuf_used := u\<rparr>"
proof -
  let ?dst = "workbuf ctx + ucast (workbuf_used ctx)"
  obtain key kb bsz wb2 m3 m4 where u: "vb2_unpack_key m (kernel_key_ptr ctx) (sd_workbuf_kernel_key_size (sd ctx)) = Inr key"
    and rs: "read_sized pl (unmarked ctx) m (vb2_workbuf_from_ctx ctx) VB2_RES_KERNEL_VBLOCK 0 SIZEOF_KEYBLOCK keyblock_size
      VB2_ERROR_KERNEL_KEYBLOCK_WORKBUF_HEADER VB2_ERROR_KERNEL_KEYBLOCK_WORKBUF = Inr (kb, bsz, wb2, m3)"
    and v: "vb2_verify_keyblock dc0 m3 kb bsz key wb2 = (VB2_SUCCESS, m4)"
    and fits: "keyblock_fits ctx (keyblock_flags m4 kb) (key_version m4 (keyblock_data_key kb))"
    and m': "m' = move_packed_key m4 ?dst (keyblock_data_key kb) ?dst" and mk: "marked_signed ctx'"
    and c': "ctx' = (upd_sd (\<lambda>d. d\<lparr>sd_flags := sd_flags (sd ctx'), sd_kernel_version := shl (key_version m4 (keyblock_data_key kb)) 16,
        sd_vblock_preamble_offset := keyblock_size m4 kb, sd_workbuf_data_key_offset := workbuf_used ctx,
        sd_workbuf_data_key_size := key_offset m' ?dst + key_size m' ?dst\<rparr>) ctx)
      \<lparr>workbuf_used := workbuf_used ctx + (key_offset m' ?dst + key_size m' ?dst)\<rparr>"
    using ld sgn by (rule load_kernel_keyblock_cases)
  let ?dk = "keyblock_data_key kb"
  note lay = kernel_keyblock_layout [OF pl ctx rs]
  have c: "unat (workbuf ctx) \<le> used_end ctx" "work_end ctx < 2 ^ 64" "unat (workbuf_size ctx) < 2 ^ 29" "used_end ctx \<le> work_end ctx"
    using ctx by (simp_all add: ctx_ok_def word_le_nat_alt)
  have len: "unat bsz < 2 ^ 29" using lay c by linarith
  have kb: "unat (kernel_key_ptr ctx) + unat (sd_workbuf_kernel_key_size (sd ctx)) \<le> unat kb" using below lay(1) by linarith
  note e = key_env [OF u kb lay(6) dc lay(3,2)]
  have dr: "deref_key m3 key = KK" using e(3) kk(1) by simp
  note kv = keyblock_verified [OF e(1,2) len _ v B [unfolded lay(7) [symmetric]] lay(2), unfolded dr, OF kk(2)]
  note kept = kv(3-7,10) [OF sa]
  show "signed_in KK B 24" by (rule kv(1))
  show "keyblock_fits ctx (rd32 B 72) (rd32 B 104)" using fits kept by simp
  show "marked_signed ctx'" by (rule mk)
  have ud: "unat ?dst = used_end ctx" using unat_plus_u64 [of "workbuf ctx" "ucast (workbuf_used ctx)"] c by simp
  have ks: "unat (key_size m4 ?dk) \<le> unat bsz" using kept(5) kv(8) by linarith
  have e1: "unat ?dst + SIZEOF_PACKED_KEY \<le> unat ?dk" "unat ?dk + SIZEOF_PACKED_KEY \<le> unat kb + unat bsz"
    "unat kb + unat bsz < 2 ^ 64" using kv(8,9) lay ud c by linarith+
  have e2: "unat ?dst + SIZEOF_PACKED_KEY + unat (key_size m4 ?dk) \<le> work_end ctx"
    using kept(5) kv(8) lay ud by linarith
  have k31: "unat (key_size m4 ?dk) < 2 ^ 31" using ks len by simp
  note mo = move_packed_key_ok(5) [OF e1(1) _ e1(2) kept(5) e1(3) e2 c(2), of ?dst, simplified, folded m']
  note mv = move_packed_key_value [OF e1(1) _ e1(2) kept(5) e1(3) e2 c(2) k31, of ?dst, simplified, folded m']
  let ?n = "key_offset m' ?dst + key_size m' ?dst"
  have f: "workbuf ctx' = workbuf ctx" "workbuf_size ctx' = workbuf_size ctx" "workbuf_used ctx' = workbuf_used ctx + ?n"
    "sd_workbuf_data_key_offset (sd ctx') = workbuf_used ctx" "sd_workbuf_data_key_size (sd ctx') = ?n"
    by (subst c', simp)+
  have p: "data_key_ptr ctx' = ?dst" by (simp add: f)
  show "packed_key_in (rdbytes m' (data_key_ptr ctx') (unat (sd_workbuf_data_key_size (sd ctx')))) 0 = packed_key_in B 80"
    unfolding p f(5) using mv(1) kept(1) by simp
  have used: "unat (workbuf_used ctx') = unat (workbuf_used ctx) + unat ?n"
    unfolding f(3) using mv(2) e2 ud c by (simp add: unat_word_ariths)
  show "unat (data_key_ptr ctx') + unat (sd_workbuf_data_key_size (sd ctx')) = used_end ctx'" "used_end ctx \<le> used_end ctx'"
    unfolding p f(5) ud used by (simp_all add: f(1))
  show "ctx_ok ctx'" using ctx used mv(2) e2 ud unfolding ctx_ok_def f(1,2) by (simp add: word_le_nat_alt)
  show "same_outside (used_end ctx) (work_end ctx) m m'"
    using same_outside_trans [OF same_outside_mono [OF lay(6)] same_outside_trans [OF same_outside_mono [OF kv(2)] mo [unfolded ud]]]
      lay by simp
  show "\<exists>fl n u. ctx' = ctx\<lparr>sd := (sd ctx)\<lparr>sd_flags := fl, sd_kernel_version := shl (rd32 B 104) 16,
      sd_vblock_preamble_offset := rd32 B 16, sd_workbuf_data_key_offset := workbuf_used ctx, sd_workbuf_data_key_size := n\<rparr>,
      workbuf_used := u\<rparr>"
    using c' unfolding upd_sd_def kept(2,3) by blast
qed

section \<open>The preamble\<close>

text \<open>
  The body signature lies in the signed part of the preamble; the boot loader and the header of the
  kernel, where there are any, lie in the memory that the body is loaded to.
\<close>

definition kernel_parts_ok :: "mem \<Rightarrow> u64 \<Rightarrow> bool" where
  "kernel_parts_ok m pre \<longleftrightarrow>
     SIZEOF_FW_PREAMBLE \<le> unat (data_size m (preamble_signature pre)) \<and>
     inside pre (unat (data_size m (preamble_signature pre))) (kernel_body_signature pre) SIZEOF_SIGNATURE
       (unat (sig_offset m (kernel_body_signature pre))) (unat (sig_size m (kernel_body_signature pre))) \<and>
     (bootloader_size m pre \<noteq> 0 \<longrightarrow>
       inside (body_load_address m pre) (unat (data_size m (kernel_body_signature pre))) (bootloader_address m pre)
         (unat (bootloader_size m pre)) 0 0) \<and>
     (vmlinuz_header_size m pre \<noteq> 0 \<longrightarrow>
       inside (body_load_address m pre) (unat (data_size m (kernel_body_signature pre))) (vmlinuz_header_address m pre)
         (unat (vmlinuz_header_size m pre)) 0 0)"

definition kernel_loaded :: "vb2_context \<Rightarrow> mem \<Rightarrow> vb2_public_key \<Rightarrow> bytes \<Rightarrow> bool" where
  "kernel_loaded ctx m K P \<longleftrightarrow> preamble_loaded ctx m K P \<and> kernel_parts_ok m (preamble_ptr ctx)"

lemma verify_member_inside_u32:
  fixes psz msz :: u32
  shows "vb2_verify_member_inside parent (ucast psz) member (ucast msz) 0 0 = 0 \<longleftrightarrow> inside parent (unat psz) member (unat msz) 0 0"
  using verify_member_inside_iff [of "ucast psz" "ucast msz" 0 0 parent member] unat_u32_less [of psz] unat_u32_less [of msz] by simp

lemma verify_kernel_preamble_success:
  assumes "vb2_verify_kernel_preamble dc0 m pre sz k wb = (VB2_SUCCESS, m')"
  shows "preamble_ok m pre sz" and "vb2_verify_data dc0 m pre sz (preamble_signature pre) k wb = (VB2_SUCCESS, m')"
    and "kernel_parts_ok m' pre"
proof -
  obtain rv m1 where v: "vb2_verify_data dc0 m pre sz (preamble_signature pre) k wb = (rv, m1)" by fastforce
  note L = assms [unfolded vb2_verify_kernel_preamble_def Let_def v prod.case]
  have 1: "\<not> sz < of_nat SIZEOF_KERNEL_PREAMBLE" "preamble_header_version_major m pre = KERNEL_PREAMBLE_HEADER_VERSION_MAJOR"
    "\<not> preamble_header_version_minor m pre < 2" "\<not> sz < preamble_size m pre"
    "vb2_verify_signature_inside m pre (preamble_size m pre) (preamble_signature pre) = 0"
    "\<not> preamble_size m pre < data_size m (preamble_signature pre)" "rv = 0" "m1 = m'"
    using L by (auto split: if_splits)
  then show "vb2_verify_data dc0 m pre sz (preamble_signature pre) k wb = (VB2_SUCCESS, m')" using v by simp
  show "preamble_ok m pre sz"
    using 1 unfolding preamble_ok_def verify_signature_inside_iff by (simp add: word_less_nat_alt word_le_nat_alt not_less)
  show "kernel_parts_ok m' pre"
    using L 1 unfolding kernel_parts_ok_def verify_signature_inside_iff verify_member_inside_u32
    by (auto simp: word_less_nat_alt word_le_nat_alt not_less split: if_splits)
qed

lemma need_signed_kernel_cong:
  "ctx_flags a = ctx_flags b \<Longrightarrow> nvdata a = nvdata b \<Longrightarrow> vb2_need_signed_kernel a = vb2_need_signed_kernel b"
  using vb2_nv_get_cong [of a b] by (simp add: vb2_need_signed_kernel_def)

lemma need_signed_kernel_sd [simp]: "vb2_need_signed_kernel (ctx\<lparr>sd := d\<rparr>) = vb2_need_signed_kernel ctx"
  by (rule need_signed_kernel_cong) simp_all

lemma load_kernel_preamble_cases:
  assumes "vb2_load_kernel_preamble pl dc0 ctx m = (VB2_SUCCESS, ctx', m')"
  obtains data_key pre psz wb2 m3 where
    "vb2_unpack_key m (data_key_ptr ctx) (sd_workbuf_data_key_size (sd ctx)) = Inr data_key"
    and "read_sized pl ctx m (vb2_workbuf_from_ctx ctx) VB2_RES_KERNEL_VBLOCK (sd_vblock_preamble_offset (sd ctx)) SIZEOF_KERNEL_PREAMBLE
      preamble_size VB2_ERROR_KERNEL_PREAMBLE2_WORKBUF_HEADER VB2_ERROR_KERNEL_PREAMBLE2_WORKBUF = Inr (pre, psz, wb2, m3)"
    and "vb2_verify_kernel_preamble dc0 m3 pre psz data_key wb2 = (VB2_SUCCESS, m')" and "kernel_version m' pre \<le> 0xffff"
    and "vb2_need_signed_kernel ctx \<longrightarrow> sd_kernel_version_secdatak (sd ctx) \<le> sd_kernel_version (sd ctx) OR kernel_version m' pre"
    and "ctx' = (upd_sd (\<lambda>d. d\<lparr>sd_kernel_version := sd_kernel_version d OR kernel_version m' pre,
        sd_workbuf_preamble_offset := ucast (vb2_offset_of (workbuf ctx) pre), sd_workbuf_preamble_size := psz\<rparr>) ctx)
        \<lparr>workbuf_used := ucast (vb2_offset_of (workbuf ctx) pre) + psz\<rparr>"
proof -
  let ?k = "vb2_unpack_key m (data_key_ptr ctx) (sd_workbuf_data_key_size (sd ctx))"
  let ?r = "read_sized pl ctx m (vb2_workbuf_from_ctx ctx) VB2_RES_KERNEL_VBLOCK (sd_vblock_preamble_offset (sd ctx)) SIZEOF_KERNEL_PREAMBLE
      preamble_size VB2_ERROR_KERNEL_PREAMBLE2_WORKBUF_HEADER VB2_ERROR_KERNEL_PREAMBLE2_WORKBUF"
  note L = assms [unfolded vb2_load_kernel_preamble_def Let_def]
  have nz: "sd_workbuf_data_key_size (sd ctx) \<noteq> 0" using L by (auto split: if_splits)
  obtain data_key where u: "?k = Inr data_key" using L nz by (auto split: sum.splits)
  obtain pre psz wb2 m3 where rs: "?r = Inr (pre, psz, wb2, m3)"
    using L nz u read_sized_not_0 by (cases ?r) auto
  obtain rv m4 where v: "vb2_verify_kernel_preamble dc0 m3 pre psz data_key wb2 = (rv, m4)" by fastforce
  note L = L [unfolded u rs sum.case prod.case v]
  have "rv = 0" "m4 = m'" "kernel_version m' pre \<le> 0xffff" using L nz by (auto simp: not_less split: if_splits)
  then show thesis
    using L nz v by (intro that [OF u rs]) (auto simp: not_less upd_sd_def split: if_splits)
qed

lemma load_kernel_preamble_ok:
  assumes pl: "reads_ok pl" and ctx: "ctx_ok ctx" and dc: "dc_ok dc0"
    and kv: "packed_key_in (rdbytes m (data_key_ptr ctx) (unat (sd_workbuf_data_key_size (sd ctx)))) 0 = K" and K: "rsa_key_ok K"
    and below: "unat (data_key_ptr ctx) + unat (sd_workbuf_data_key_size (sd ctx)) \<le> used_end ctx"
    and ld: "vb2_load_kernel_preamble pl dc0 ctx m = (VB2_SUCCESS, ctx', m')"
  obtains P v where
    "vb2ex_read_resource pl ctx VB2_RES_KERNEL_VBLOCK (sd_vblock_preamble_offset (sd ctx)) (of_nat (length P)) = (VB2_SUCCESS, P)"
    and "signed_in K P 8" and "sig_after P 8 \<longrightarrow> v = rd32 P 40" and "v \<le> 0xffff"
    and "sd_kernel_version (sd ctx') = sd_kernel_version (sd ctx) OR v" and "sd_flags (sd ctx') = sd_flags (sd ctx)"
    and "vb2_need_signed_kernel ctx \<longrightarrow> sd_kernel_version_secdatak (sd ctx) \<le> sd_kernel_version (sd ctx')"
    and "same_outside (used_end ctx) (work_end ctx) m m'" and "sig_after P 8 \<longrightarrow> kernel_loaded ctx' m' K P"
proof -
  obtain k pre psz wb2 m3 where u: "vb2_unpack_key m (data_key_ptr ctx) (sd_workbuf_data_key_size (sd ctx)) = Inr k"
    and rs: "read_sized pl ctx m (vb2_workbuf_from_ctx ctx) VB2_RES_KERNEL_VBLOCK (sd_vblock_preamble_offset (sd ctx)) SIZEOF_KERNEL_PREAMBLE
      preamble_size VB2_ERROR_KERNEL_PREAMBLE2_WORKBUF_HEADER VB2_ERROR_KERNEL_PREAMBLE2_WORKBUF = Inr (pre, psz, wb2, m3)"
    and v: "vb2_verify_kernel_preamble dc0 m3 pre psz k wb2 = (VB2_SUCCESS, m')" and ver: "kernel_version m' pre \<le> 0xffff"
    and roll: "vb2_need_signed_kernel ctx \<longrightarrow> sd_kernel_version_secdatak (sd ctx) \<le> sd_kernel_version (sd ctx) OR kernel_version m' pre"
    and c': "ctx' = (upd_sd (\<lambda>d. d\<lparr>sd_kernel_version := sd_kernel_version d OR kernel_version m' pre,
        sd_workbuf_preamble_offset := ucast (vb2_offset_of (workbuf ctx) pre), sd_workbuf_preamble_size := psz\<rparr>) ctx)
        \<lparr>workbuf_used := ucast (vb2_offset_of (workbuf ctx) pre) + psz\<rparr>"
    using ld by (rule load_kernel_preamble_cases)
  note vs = verify_kernel_preamble_success [OF v]
  let ?P = "rdbytes m3 pre (unat psz)"
  have dk: "deref_key m k = K" using unpack_key_in [OF u] kv by simp
  note pv = preamble_read_verified [OF pl ctx dc _ _ u dk K below rs vs(1,2)]
  have d: "108 \<le> unat (rd32 ?P 24)" using vs(3) pv(5) by (simp add: kernel_parts_ok_def)
  have "kernel_loaded ctx' m' K ?P" if "sig_after ?P 8"
    using pv(8) [of ctx'] vs(3) that by (simp add: kernel_loaded_def c')
  then show thesis
    by (intro that [of ?P "kernel_version m' pre"]) (use pv(1-4) d ver roll c' in \<open>auto simp: kernel_version_def\<close>)
qed

lemma load_kernel_vblock_trust:
  assumes pl: "reads_ok pl" and ctx: "ctx_ok ctx" and dc: "dc_ok dc0"
    and kk: "packed_key_in (rdbytes m (kernel_key_ptr ctx) (unat (sd_workbuf_kernel_key_size (sd ctx)))) 0 = KK" "rsa_key_ok KK"
    and below: "unat (kernel_key_ptr ctx) + unat (sd_workbuf_kernel_key_size (sd ctx)) \<le> used_end ctx"
    and B: "B = kernel_keyblock pl (unmarked ctx)" and sa: "sig_after B 24" and dk: "rsa_key_ok (packed_key_in B 80)"
    and ld: "vb2api_load_kernel_vblock pl dc0 ctx m = (VB2_SUCCESS, ctx', m')"
    and sgn: "vb2_need_signed_kernel ctx \<or> marked_signed ctx'"
  shows "signed_in KK B 24" and "keyblock_fits ctx (rd32 B 72) (rd32 B 104)" and "marked_signed ctx'"
    and "same_outside (used_end ctx) (work_end ctx) m m'"
    and "vb2_need_signed_kernel ctx \<longrightarrow> sd_kernel_version_secdatak (sd ctx) \<le> sd_kernel_version (sd ctx')"
    and "\<exists>ctx1 P v. vb2ex_read_resource pl ctx1 VB2_RES_KERNEL_VBLOCK (rd32 B 16) (of_nat (length P)) = (VB2_SUCCESS, P) \<and>
      signed_in (packed_key_in B 80) P 8 \<and> v \<le> 0xffff \<and> (sig_after P 8 \<longrightarrow> v = rd32 P 40) \<and>
      sd_kernel_version (sd ctx') = shl (rd32 B 104) 16 OR v \<and> (sig_after P 8 \<longrightarrow> kernel_loaded ctx' m' (packed_key_in B 80) P)"
proof -
  obtain ctx1 m1 where l1: "vb2_load_kernel_keyblock pl dc0 ctx m = (VB2_SUCCESS, ctx1, m1)"
    and l2: "vb2_load_kernel_preamble pl dc0 ctx1 m1 = (VB2_SUCCESS, ctx', m')"
    using ld by (auto simp: vb2api_load_kernel_vblock_def Let_def split: prod.splits if_splits)
  have fl: "sd_flags (sd ctx') = sd_flags (sd ctx1)" by (rule load_kernel_preamble_cases [OF l2]) simp
  have sgn1: "vb2_need_signed_kernel ctx \<or> marked_signed ctx1" using sgn fl by simp
  note K = load_kernel_keyblock_ok [OF pl ctx dc kk below B sa l1 sgn1]
  show "signed_in KK B 24" "keyblock_fits ctx (rd32 B 72) (rd32 B 104)" "marked_signed ctx'" using K(1-3) fl by simp_all
  obtain P v where P: "vb2ex_read_resource pl ctx1 VB2_RES_KERNEL_VBLOCK (sd_vblock_preamble_offset (sd ctx1)) (of_nat (length P)) = (VB2_SUCCESS, P)"
    "signed_in (packed_key_in B 80) P 8" "sig_after P 8 \<longrightarrow> v = rd32 P 40" "v \<le> 0xffff"
    "sd_kernel_version (sd ctx') = sd_kernel_version (sd ctx1) OR v"
    "vb2_need_signed_kernel ctx1 \<longrightarrow> sd_kernel_version_secdatak (sd ctx1) \<le> sd_kernel_version (sd ctx')"
    "same_outside (used_end ctx1) (work_end ctx1) m1 m'" "sig_after P 8 \<longrightarrow> kernel_loaded ctx' m' (packed_key_in B 80) P"
    using load_kernel_preamble_ok [OF pl K(6) dc K(4) dk _ l2] K(5) by (metis order_refl)
  obtain fl n u where c1: "ctx1 = ctx\<lparr>sd := (sd ctx)\<lparr>sd_flags := fl, sd_kernel_version := shl (rd32 B 104) 16,
      sd_vblock_preamble_offset := rd32 B 16, sd_workbuf_data_key_offset := workbuf_used ctx, sd_workbuf_data_key_size := n\<rparr>,
      workbuf_used := u\<rparr>" using K(9) by blast
  have f: "sd_vblock_preamble_offset (sd ctx1) = rd32 B 16" "sd_kernel_version (sd ctx1) = shl (rd32 B 104) 16" "work_end ctx1 = work_end ctx"
    "sd_kernel_version_secdatak (sd ctx1) = sd_kernel_version_secdatak (sd ctx)" "vb2_need_signed_kernel ctx1 = vb2_need_signed_kernel ctx"
    by (simp_all add: c1) (rule need_signed_kernel_cong, simp_all)
  show "same_outside (used_end ctx) (work_end ctx) m m'"
    using same_outside_trans [OF K(8) same_outside_mono [OF P(7)]] K(7) f(3) by simp
  show "vb2_need_signed_kernel ctx \<longrightarrow> sd_kernel_version_secdatak (sd ctx) \<le> sd_kernel_version (sd ctx')"
    using P(6) f by simp
  show "\<exists>ctx1 P v. vb2ex_read_resource pl ctx1 VB2_RES_KERNEL_VBLOCK (rd32 B 16) (of_nat (length P)) = (VB2_SUCCESS, P) \<and>
      signed_in (packed_key_in B 80) P 8 \<and> v \<le> 0xffff \<and> (sig_after P 8 \<longrightarrow> v = rd32 P 40) \<and>
      sd_kernel_version (sd ctx') = shl (rd32 B 104) 16 OR v \<and> (sig_after P 8 \<longrightarrow> kernel_loaded ctx' m' (packed_key_in B 80) P)"
    using P(1-5,8) unfolding f(1,2) by blast
qed

section \<open>The kernel key\<close>

lemma packed_key_in_take:
  assumes "off + 32 \<le> D" and "off + unat (rd32 P off) + unat (rd32 P (off + 8)) \<le> D"
  shows "packed_key_in (take D P) off = packed_key_in P off"
proof -
  let ?o = "unat (rd32 P off)" and ?n = "unat (rd32 P (off + 8))"
  have f: "rd32 (take D P) off = rd32 P off" "rd32 (take D P) (off + 8) = rd32 P (off + 8)" "rd32 (take D P) (off + 16) = rd32 P (off + 16)"
    using assms(1) by (simp_all add: rd32_take)
  have "min ?n (D - (off + ?o)) = ?n" using assms(2) by linarith
  then show ?thesis unfolding packed_key_in_def f by (simp add: drop_take)
qed

lemma take_kernel_subkey_ok:
  fixes ctx m P
  defines "dst \<equiv> workbuf ctx + of_nat SIZEOF_SHARED_DATA"
  assumes ld: "fw_loaded ctx m K P" and front: "unat (workbuf ctx) + SIZEOF_SHARED_DATA \<le> unat (preamble_ptr ctx)"
    and t: "take_kernel_subkey ctx m = Inr (key_data, n, m')"
  shows "key_data = dst" and "packed_key_in (rdbytes m' dst (unat n)) 0 = packed_key_in P 48"
    and "unat dst = unat (workbuf ctx) + 128" and "unat dst + unat n \<le> used_end ctx"
    and "same_outside (unat dst) (used_end ctx) m m'"
proof -
  let ?pre = "preamble_ptr ctx" and ?D = "unat (rd32 P 24)"
  let ?src = "kernel_subkey ?pre"
  have L: "ctx_ok ctx" "unat ?pre + length P \<le> used_end ctx" "?D \<le> length P" "rdbytes m ?pre ?D = take ?D P"
    and parts: "preamble_parts_ok m ?pre" "unat (data_size m (preamble_signature ?pre)) = ?D"
    using ld unfolding fw_loaded_def preamble_loaded_def by auto
  have i: "108 \<le> ?D" "inside ?pre ?D ?src SIZEOF_PACKED_KEY (unat (key_offset m ?src)) (unat (key_size m ?src))"
    using parts unfolding preamble_parts_ok_def by auto
  have c: "used_end ctx \<le> work_end ctx" "work_end ctx < 2 ^ 64" "unat (workbuf_size ctx) < 2 ^ 29"
    using L(1) by (simp_all add: ctx_ok_def word_le_nat_alt)
  have ud: "unat dst = unat (workbuf ctx) + 128" unfolding dst_def using unat_plus_offset [of "workbuf ctx" 128] front L c by simp
  have us: "unat ?src = unat ?pre + 48" unfolding kernel_subkey_def using unat_plus_offset [of ?pre 48] i(1) L c by simp
  have far: "unat dst + SIZEOF_PACKED_KEY \<le> unat ?src" using ud us front by simp
  have e: "unat ?src + SIZEOF_PACKED_KEY \<le> used_end ctx" "unat ?src + unat (key_offset m ?src) + unat (key_size m ?src) \<le> used_end ctx"
    "used_end ctx < 2 ^ 64" using i us L c unfolding inside_def by linarith+
  have e2: "unat dst + SIZEOF_PACKED_KEY + unat (key_size m ?src) \<le> used_end ctx" using far i(2) us L unfolding inside_def by linarith
  have k31: "unat (key_size m ?src) < 2 ^ 31" using e2 c ud by simp
  have m': "m' = move_packed_key m dst ?src ?src" and n: "n = key_offset m' dst + key_size m' dst" and kd: "key_data = dst"
    using t by (auto simp: take_kernel_subkey_def Let_def dst_def split: if_splits)
  note mv = move_packed_key_value [OF far _ e e2 e(3) k31, of ?src, simplified, folded m', folded n]
  show "key_data = dst" "unat dst = unat (workbuf ctx) + 128" by (rule kd ud)+
  show "unat dst + unat n \<le> used_end ctx" using mv(2) e2 by simp
  show "same_outside (unat dst) (used_end ctx) m m'"
    using move_packed_key_ok(5) [OF far _ e e2 e(3), of ?src, simplified, folded m'] .
  have f: "rdm32 m (?src + of_nat j) = rd32 P (48 + j)" if "j + 4 \<le> 32" for j
    using rdm32_rdbytes [of "48 + j" ?D m ?pre] that i(1) unfolding L(4) by (simp add: rd32_take kernel_subkey_def add.assoc)
  have g: "key_offset m ?src = rd32 P 48" "key_size m ?src = rd32 P 56"
    using f [of 0] f [of 8] by (simp_all add: key_offset_def key_size_def)
  have "packed_key_in (rdbytes m ?pre ?D) 48 =
      key_value (key_algorithm m ?src) (rdbytes m (?src + ucast (key_offset m ?src)) (unat (key_size m ?src)))"
    by (rule packed_key_in_rd) (use i us in \<open>auto simp: kernel_subkey_def inside_def\<close>)
  moreover have "packed_key_in (take ?D P) 48 = packed_key_in P 48"
    by (rule packed_key_in_take) (use i us g in \<open>simp_all add: inside_def\<close>)
  ultimately show "packed_key_in (rdbytes m' dst (unat n)) 0 = packed_key_in P 48" using mv(1) L(4) by simp
qed

text \<open>Outside recovery mode, phase 1 leaves the kernel subkey of the firmware preamble.\<close>

lemma kernel_phase1_subkey:
  assumes ld: "fw_loaded ctx m K P" and front: "unat (workbuf ctx) + SIZEOF_SHARED_DATA \<le> unat (preamble_ptr ctx)"
    and mode: "\<not> has_flag (ctx_flags ctx) VB2_CONTEXT_RECOVERY_MODE"
    and ph: "vb2api_kernel_phase1 pl ctx m = (VB2_SUCCESS, ctx', m')"
  shows "ctx_ok ctx'" and "packed_key_in (rdbytes m' (kernel_key_ptr ctx') (unat (sd_workbuf_kernel_key_size (sd ctx')))) 0 = packed_key_in P 48"
    and "unat (kernel_key_ptr ctx') + unat (sd_workbuf_kernel_key_size (sd ctx')) \<le> used_end ctx'"
    and "ctx_flags ctx' = ctx_flags ctx" and "nvdata ctx' = nvdata ctx"
    and "vb2_secdatak_get ctx' VB2_SECDATAK_VERSIONS = Inr (sd_kernel_version_secdatak (sd ctx'))"
proof -
  obtain rv0 c0 where i: "vb2_secdatak_init ctx = (rv0, c0)" by fastforce
  have c0: "ctx_flags c0 = ctx_flags ctx" "rv0 = 0 \<Longrightarrow> c0 = upd_sd (\<lambda>d. d\<lparr>sd_status := sd_status d OR VB2_SD_STATUS_SECDATAK_INIT\<rparr>) ctx"
    using i by (auto simp: vb2_secdatak_init_def Let_def split: if_splits)
  note L = ph [unfolded vb2api_kernel_phase1_def Let_def i prod.case]
  have rv0: "rv0 = 0" using L mode c0(1) by (auto split: if_splits)
  obtain v where g: "vb2_secdatak_get c0 VB2_SECDATAK_VERSIONS = Inr v"
    using c0(2) [OF rv0] by (auto simp: vb2_secdatak_get_def)
  define c1 where "c1 = upd_sd (\<lambda>d. d\<lparr>sd_kernel_version_secdatak := v\<rparr>) c0"
  have c1: "c1 = ctx\<lparr>sd := (sd ctx)\<lparr>sd_status := sd_status (sd ctx) OR VB2_SD_STATUS_SECDATAK_INIT, sd_kernel_version_secdatak := v\<rparr>\<rparr>"
    by (simp add: c1_def c0(2) [OF rv0] upd_sd_def)
  note L = L [unfolded rv0 g, simplified, unfolded c0(1) c1_def [symmetric]]
  obtain kd n where t: "take_kernel_subkey c1 m = Inr (kd, n, m')"
    and c': "ctx' = (upd_sd (\<lambda>d. d\<lparr>sd_workbuf_data_key_size := 0, sd_workbuf_preamble_size := 0, sd_workbuf_hash_size := 0,
        sd_workbuf_kernel_key_offset := ucast (vb2_offset_of (workbuf c1) kd), sd_workbuf_kernel_key_size := n\<rparr>) c1)
      \<lparr>workbuf_used := ucast (vb2_offset_of (workbuf c1) kd) + n\<rparr>"
    using L mode by (auto simp: take_kernel_subkey_def Let_def split: if_splits sum.splits)
  have ld1: "fw_loaded c1 m K P" using ld by (simp add: fw_loaded_def preamble_loaded_def ctx_ok_def c1)
  note T = take_kernel_subkey_ok [OF ld1 _ t, unfolded c1, simplified, OF front]
  let ?dst = "workbuf ctx + 128"
  have c: "ctx_ok ctx" "unat (workbuf_size ctx) < 2 ^ 29" "used_end ctx \<le> work_end ctx"
    using ld by (simp_all add: fw_loaded_def preamble_loaded_def ctx_ok_def word_le_nat_alt)
  have off: "unat (workbuf ctx) \<le> unat ?dst" "unat ?dst - unat (workbuf ctx) < 2 ^ 32" using T(3) by simp_all
  have p: "kernel_key_ptr ctx' = ?dst" "sd_workbuf_kernel_key_size (sd ctx') = n"
    using base_plus_offset [OF off] T(1) by (simp_all add: c' c1 upd_sd_def)
  have u: "unat (workbuf_used ctx') = 128 + unat n" "workbuf ctx' = workbuf ctx" "workbuf_size ctx' = workbuf_size ctx"
    using unat_offset_of [OF off] T(1,3,4) c(2,3) by (simp_all add: c' c1 upd_sd_def unat_word_ariths)
  show "ctx_ok ctx'" using c u T(3,4) by (simp add: ctx_ok_def word_le_nat_alt)
  show "packed_key_in (rdbytes m' (kernel_key_ptr ctx') (unat (sd_workbuf_kernel_key_size (sd ctx')))) 0 = packed_key_in P 48"
    unfolding p using T(2) .
  show "unat (kernel_key_ptr ctx') + unat (sd_workbuf_kernel_key_size (sd ctx')) \<le> used_end ctx'"
    unfolding p unfolding u using T(3) by simp
  show "ctx_flags ctx' = ctx_flags ctx" "nvdata ctx' = nvdata ctx" by (simp_all add: c' c1 upd_sd_def)
  show "vb2_secdatak_get ctx' VB2_SECDATAK_VERSIONS = Inr (sd_kernel_version_secdatak (sd ctx'))"
    using g c0(2) [OF rv0] by (simp add: c' c1 upd_sd_def vb2_secdatak_get_def)
qed

section \<open>The kernel itself\<close>

lemma verify_kernel_data_cases:
  assumes "vb2api_verify_kernel_data dc0 ctx m buf sz = (VB2_SUCCESS, m')" and "dc_ok dc0"
    and len: "length buf = unat sz" "unat sz < 2 ^ 29"
  obtains key wb digest wb2 where
    "sz = data_size m (kernel_body_signature (preamble_ptr ctx))"
    and "fst (vb2_workbuf_alloc (vb2_workbuf_from_ctx ctx) SIZEOF_DIGEST_CONTEXT) \<noteq> NULL"
    and "wb = snd (vb2_workbuf_alloc (vb2_workbuf_from_ctx ctx) SIZEOF_DIGEST_CONTEXT)"
    and "vb2_unpack_key m (data_key_ptr ctx) (sd_workbuf_data_key_size (sd ctx)) = Inr key"
    and "vb2_workbuf_alloc wb (vb2_digest_size (kr_hash_alg key)) = (digest, wb2)" and "digest \<noteq> NULL"
    and "vb2_verify_digest (wrbytes m digest (vb2_hash (kr_hash_alg key) buf)) key (kernel_body_signature (preamble_ptr ctx)) digest wb2 =
      (VB2_SUCCESS, m')"
proof -
  let ?k = "vb2_unpack_key m (data_key_ptr ctx) (sd_workbuf_data_key_size (sd ctx))" and ?sig = "kernel_body_signature (preamble_ptr ctx)"
  obtain dc wb where a: "vb2_workbuf_alloc (vb2_workbuf_from_ctx ctx) SIZEOF_DIGEST_CONTEXT = (dc, wb)" by fastforce
  note L = assms(1) [unfolded vb2api_verify_kernel_data_def Let_def a prod.case]
  have g: "sd_workbuf_preamble_size (sd ctx) \<noteq> 0" "sz = data_size m ?sig" "dc \<noteq> NULL" "sd_workbuf_data_key_size (sd ctx) \<noteq> 0"
    using L by (auto split: if_splits)
  obtain key where u: "?k = Inr key" using L g by (cases ?k) auto
  have alg: "kr_hash_alg key \<noteq> VB2_HASH_INVALID" using unpack_key_Inr [OF u] by simp
  let ?n = "vb2_digest_size (kr_hash_alg key)"
  obtain r1 d1 where i: "vb2_digest_init dc0 (kr_hash_alg key) = (r1, d1)" by fastforce
  obtain r2 d2 where e: "vb2_digest_extend d1 buf sz = (r2, d2)" by fastforce
  have 1: "r1 = VB2_SUCCESS" "dc_hash_alg d1 = kr_hash_alg key" "dc_holds d1 []"
    using vb2_digest_init_holds [OF assms(2) alg] i by simp_all
  then have 2: "r2 = VB2_SUCCESS" "dc_hash_alg d2 = kr_hash_alg key" "dc_holds d2 buf"
    using vb2_digest_extend_holds [OF 1(3) len(1)] len(2) e by simp_all
  obtain digest wb2 where b: "vb2_workbuf_alloc wb ?n = (digest, wb2)" by fastforce
  obtain dc' where f: "vb2_digest_finalize d2 (rdbytes m digest (unat ?n)) ?n =
      (VB2_SUCCESS, dc', copy_at (rdbytes m digest (unat ?n)) 0 (vb2_hash (kr_hash_alg key) buf))"
    using vb2_digest_finalize_holds(2) [OF 2(3), of ?n "rdbytes m digest (unat ?n)"] len 2(2) by auto
  have cp: "copy_at (rdbytes m digest (unat ?n)) 0 (vb2_hash (kr_hash_alg key) buf) = vb2_hash (kr_hash_alg key) buf"
    by (rule copy_at_all) (simp add: length_vb2_hash)
  have "digest \<noteq> NULL" "vb2_verify_digest (wrbytes m digest (vb2_hash (kr_hash_alg key) buf)) key ?sig digest wb2 = (VB2_SUCCESS, m')"
    using L g(1,3,4) unfolding g(2) [symmetric] by (simp_all add: u i 1(1) e 2(1) b f cp split: if_splits)
  then show thesis by (intro that [OF g(2) _ _ u b]) (use a g(3) in simp_all)
qed

lemma kernel_data_signed:
  assumes ld: "kernel_loaded ctx m K P" and K: "rsa_key_ok K" and dc: "dc_ok dc0"
    and len: "length buf = unat sz" "unat sz < 2 ^ 29"
    and v: "vb2api_verify_kernel_data dc0 ctx m buf sz = (VB2_SUCCESS, m')"
  shows "body_signed K P 72 buf"
proof -
  let ?pre = "preamble_ptr ctx" and ?kd = "data_key_ptr ctx" and ?ks = "sd_workbuf_data_key_size (sd ctx)" and ?D = "unat (rd32 P 24)"
  let ?sig = "kernel_body_signature ?pre" and ?w0 = "vb2_workbuf_from_ctx ctx"
  obtain key wb digest wb2 where sz: "sz = data_size m ?sig"
    and a: "fst (vb2_workbuf_alloc ?w0 SIZEOF_DIGEST_CONTEXT) \<noteq> NULL" "wb = snd (vb2_workbuf_alloc ?w0 SIZEOF_DIGEST_CONTEXT)"
    and u: "vb2_unpack_key m ?kd ?ks = Inr key"
    and b: "vb2_workbuf_alloc wb (vb2_digest_size (kr_hash_alg key)) = (digest, wb2)" "digest \<noteq> NULL"
    and vd: "vb2_verify_digest (wrbytes m digest (vb2_hash (kr_hash_alg key) buf)) key ?sig digest wb2 = (VB2_SUCCESS, m')"
    using v dc len by (rule verify_kernel_data_cases)
  let ?h = "vb2_hash (kr_hash_alg key) buf" and ?n = "vb2_digest_size (kr_hash_alg key)"
  have L: "ctx_ok ctx" "packed_key_in (rdbytes m ?kd (unat ?ks)) 0 = K" "unat ?kd + unat ?ks \<le> unat ?pre"
    "unat ?pre + length P \<le> used_end ctx" "?D \<le> length P" "rdbytes m ?pre ?D = take ?D P"
    "unat (data_size m (preamble_signature ?pre)) = ?D" "kernel_parts_ok m ?pre"
    using ld unfolding kernel_loaded_def preamble_loaded_def by auto
  note w = from_ctx_ok [OF L(1) prod.collapse [symmetric] a(1), simplified]
  note o = alloc_ok [OF w(1) _ prod.collapse [symmetric] a(1), simplified, folded a(2)]
  have hd: "?n \<le> 0xfffffff0" "unat ?n \<le> 64" by (cases "kr_hash_alg key"; simp)+
  note o2 = alloc_ok [OF o(2) hd(1) b]
  have hi: "work_end ctx < 2 ^ 64" using L(1) by (simp add: ctx_ok_def)
  have dlo: "used_end ctx \<le> unat digest" "unat digest + unat ?n \<le> work_end ctx" using w o o2 by simp_all
  have so: "same_outside (unat digest) (work_end ctx) m (wrbytes m digest ?h)"
    by (rule same_outside_wrbytes) (use dlo hi in \<open>simp_all add: length_vb2_hash\<close>)
  have K': "deref_key m key = K" using unpack_key_in [OF u] L(2) by simp
  have al: "kr_hash_alg key = pk_hash_alg K" using K' by (auto simp: deref_key_def)
  have ar: "rdbytes (wrbytes m digest ?h) x k = rdbytes m x k" if "unat x + k \<le> unat digest" for x k
    by (rule same_outside_rdbytes [OF so]) (use that unsigned_less [where ?'a = nat, of digest] in simp_all)
  have "deref_key (wrbytes m digest ?h) key = deref_key m key"
    by (rule deref_key_cong; rule ar; use unpack_key_arrays [OF u] L(3,4) dlo in simp)
  then have dk: "deref_key (wrbytes m digest ?h) key = K" using K' by simp
  have db: "rdbytes (wrbytes m digest ?h) digest (unat (vb2_digest_size (pk_hash_alg K))) = ?h"
    using rdbytes_wrbytes_same [of ?h m digest] hd(2) al by (simp add: length_vb2_hash)
  have shape: "key_shape key" using unpack_key_Inr [OF u] by (simp add: key_shape_def)
  have sig: "?sig = ?pre + of_nat 72" "72 + SIZEOF_SIGNATURE \<le> ?D"
    "inside ?pre ?D ?sig SIZEOF_SIGNATURE (unat (sig_offset m ?sig)) (unat (sig_size m ?sig))"
    using L(7,8) by (auto simp: kernel_body_signature_def kernel_parts_ok_def)
  have pl: "unat ?pre + length P \<le> unat digest" "unat digest < 2 ^ 64" using L(4) dlo hi by linarith+
  have "signs_digest K P 72 ?h"
    by (rule stored_digest_signs [OF L(6,5) pl sig so shape dk K db, of wb2]) (simp add: vd)
  moreover have "data_size m ?sig = rd32 P 88" using stored_sig(3) [OF L(6,5) _ sig] pl by simp
  ultimately show ?thesis using sz len(1) al by (simp add: body_signed_def)
qed

section \<open>What an accepted kernel has shown\<close>



text \<open>
  C4. vb2api_kernel_phase3() never lowers the stored kernel version.  It raises it exactly to the version
  of a newer kernel whose signature was valid, outside recovery mode and when that is allowed.\<close>

theorem vb2api_kernel_phase3_correct:
  assumes "seck_ready ctx" and "vb2_secdatak_get ctx VB2_SECDATAK_VERSIONS = Inr (sd_kernel_version_secdatak (sd ctx))"
  shows "\<exists>ctx'. vb2api_kernel_phase3 ctx = (VB2_SUCCESS, ctx') \<and> seck_ready ctx' \<and>
    vb2_secdatak_get ctx' VB2_SECDATAK_VERSIONS = Inr (sd_kernel_version_secdatak (sd ctx')) \<and>
    sd_kernel_version_secdatak (sd ctx) \<le> sd_kernel_version_secdatak (sd ctx') \<and>
    sd_kernel_version_secdatak (sd ctx') =
      (if marked_signed ctx \<and> \<not> has_flag (ctx_flags ctx) VB2_CONTEXT_RECOVERY_MODE \<and>
          has_flag (ctx_flags ctx) VB2_CONTEXT_ALLOW_KERNEL_ROLL_FORWARD
       then max (sd_kernel_version_secdatak (sd ctx)) (sd_kernel_version (sd ctx)) else sd_kernel_version_secdatak (sd ctx))"
proof (cases "sd_kernel_version (sd ctx) > sd_kernel_version_secdatak (sd ctx) \<and> marked_signed ctx \<and>
    \<not> has_flag (ctx_flags ctx) VB2_CONTEXT_RECOVERY_MODE \<and> has_flag (ctx_flags ctx) VB2_CONTEXT_ALLOW_KERNEL_ROLL_FORWARD")
  case True
  obtain rv c where s: "vb2_secdatak_set ctx VB2_SECDATAK_VERSIONS (sd_kernel_version (sd ctx)) = (rv, c)" by fastforce
  have rv: "rv = 0" "sd c = sd ctx"
    using s assms(1) by (auto simp: vb2_secdatak_set_def seck_ready_def vb2_secdatak_regen_crc_def Let_def split: if_splits)
  have g: "seck_ready c" "vb2_secdatak_get c VB2_SECDATAK_VERSIONS = Inr (sd_kernel_version (sd ctx))"
    using seck.ready_put [OF assms(1), of VB2_SECDATAK_VERSIONS "sd_kernel_version (sd ctx)"]
      seck.put_ok [OF assms(1), of VB2_SECDATAK_VERSIONS "sd_kernel_version (sd ctx)"] s rv by simp_all
  let ?c = "upd_sd (\<lambda>d. d\<lparr>sd_kernel_version_secdatak := sd_kernel_version d\<rparr>) c"
  have "seck_ready ?c" "vb2_secdatak_get ?c VB2_SECDATAK_VERSIONS = Inr (sd_kernel_version_secdatak (sd ?c))"
    using g rv by (simp_all add: seck_ready_def vb2_secdatak_get_def vb2_secdatak_check_crc_def)
  moreover have "vb2api_kernel_phase3 ctx = (VB2_SUCCESS, ?c)" using True s rv by (simp add: vb2api_kernel_phase3_def)
  ultimately show ?thesis using True rv by (intro exI [of _ ?c]) (simp add: max_def less_imp_le)
next
  case False
  then have "vb2api_kernel_phase3 ctx = (VB2_SUCCESS, ctx)" by (auto simp: vb2api_kernel_phase3_def)
  then show ?thesis using False assms by (intro exI [of _ ctx]) (auto simp: max_def)
qed

section \<open>A kernel that is not signed\<close>

definition unsigned_kernel_ctx :: vb2_context where
  "unsigned_kernel_ctx = upd_sd (\<lambda>d. d\<lparr>sd_workbuf_kernel_key_offset := 0x100, sd_workbuf_kernel_key_size := 296\<rparr>)
     (zero_context\<lparr>workbuf := 0xf00, workbuf_used := 0x300\<rparr>)"

lemma unsigned_kernel_keyblock: "kernel_keyblock unsigned_platform ctx = unsigned_keyblock"
proof -
  have "rd32 (take 112 unsigned_keyblock) 16 = 504" using unsigned_fields(1) by (simp add: rd32_take)
  then show ?thesis by (simp add: kernel_keyblock_def unsigned_platform_def read_part_def length_unsigned)
qed

lemma unsigned_kernel_facts: "sig_after unsigned_keyblock 24" "rsa_key_ok demo_key" "rsa_key_ok (packed_key_in unsigned_keyblock 80)"
  using demo_key_sized by (simp_all add: sig_after_def unsigned_fields unsigned_data_key rsa_key_sized_def)


text \<open>A firmware preamble with a kernel subkey, in a context that holds the data key too.\<close>

definition subkey_preamble :: bytes where
  "subkey_preamble =
     le32_bytes 500 @ replicate 20 0 @ le32_bytes 500 @ replicate 20 0 @
     le32_bytes 188 @ le32_bytes 0 @ le32_bytes 264 @ replicate 20 0 @ replicate 28 0 @ replicate 128 0 @ drop 32 demo_packed_key"

definition subkey_mem :: mem where
  "subkey_mem = wrbytes demo_mem 0x3000 subkey_preamble"

definition subkey_ctx :: vb2_context where
  "subkey_ctx = upd_sd (\<lambda>d. d\<lparr>sd_workbuf_data_key_offset := 0x100, sd_workbuf_data_key_size := 296,
       sd_workbuf_preamble_offset := 0x2100, sd_workbuf_preamble_size := 500\<rparr>)
     ((snd (vb2_secdatak_create zero_context))\<lparr>workbuf := 0xf00, workbuf_used := 8948\<rparr>)"

lemma length_subkey_preamble: "length subkey_preamble = 500"
  by (simp add: subkey_preamble_def le32_bytes_def length_demo_packed_key)

lemma subkey_fields:
  "rd32 subkey_preamble 24 = 500" "rd32 subkey_preamble 48 = 188" "rd32 subkey_preamble 56 = 264" "rd32 subkey_preamble 64 = 0"
  "rd32 subkey_preamble 80 = 0" "rd32 subkey_preamble 88 = 0"
  by (simp_all add: subkey_preamble_def rd32_def le32_bytes_def shl_def shr_def nth_append nth_Cons')

lemma subkey_value: "packed_key_in subkey_preamble 48 = demo_key"
proof -
  have d: "rd32 demo_packed_key 0 = 32" "rd32 demo_packed_key 8 = 264" "rd32 demo_packed_key 16 = 0"
    by (simp_all add: demo_packed_key_def rd32_def le32_bytes_def shl_def shr_def)
  have "drop 236 subkey_preamble = drop 32 demo_packed_key"
    by (simp add: subkey_preamble_def le32_bytes_def drop_Cons' length_demo_packed_key)
  then show ?thesis using demo_packed_value by (simp add: packed_key_in_def subkey_fields d)
qed

lemma subkey_mem_rd: "rdbytes subkey_mem 0x1000 296 = demo_packed_key" "rdbytes subkey_mem 0x3000 500 = subkey_preamble"
proof -
  have "rdbytes subkey_mem 0x1000 296 = rdbytes demo_mem 0x1000 296"
    unfolding subkey_mem_def by (rule rdbytes_wrbytes_disjoint) (simp_all add: length_subkey_preamble area_def)
  then show "rdbytes subkey_mem 0x1000 296 = demo_packed_key"
    using rdbytes_wrbytes_same [of demo_packed_key "\<lambda>_. 0" "0x1000"] by (simp add: demo_mem_def length_demo_packed_key)
  show "rdbytes subkey_mem 0x3000 500 = subkey_preamble"
    using rdbytes_wrbytes_same [of subkey_preamble demo_mem "0x3000"] by (simp add: subkey_mem_def length_subkey_preamble)
qed

lemma subkey_loaded: "fw_loaded subkey_ctx subkey_mem demo_key subkey_preamble"
proof -
  have r: "i + 4 \<le> 500 \<Longrightarrow> rdm32 subkey_mem (0x3000 + of_nat i) = rd32 subkey_preamble i" for i
    using rdm32_rdbytes [of i 500 subkey_mem "0x3000"] by (simp add: subkey_mem_rd)
  have f: "data_size subkey_mem 0x3008 = 500" "sig_offset subkey_mem 0x3050 = 0" "sig_size subkey_mem 0x3050 = 0"
    "key_offset subkey_mem 0x3030 = 188" "key_size subkey_mem 0x3030 = 264"
    using r [of 24] r [of 80] r [of 88] r [of 48] r [of 56]
    by (simp_all add: subkey_fields sig_offset_def sig_size_def data_size_def key_offset_def key_size_def)
  have c: "workbuf subkey_ctx = 0xf00" "workbuf_size subkey_ctx = 12288" "workbuf_used subkey_ctx = 8948"
    "data_key_ptr subkey_ctx = 0x1000" "sd_workbuf_data_key_size (sd subkey_ctx) = 296" "preamble_ptr subkey_ctx = 0x3000"
    by (simp_all add: subkey_ctx_def vb2_secdatak_create_def vb2_secdatak_regen_crc_def Let_def)
  show ?thesis
    unfolding fw_loaded_def preamble_loaded_def c(4-6)
    by (simp add: ctx_ok_def c(1-3) subkey_mem_rd demo_packed_value subkey_fields length_subkey_preamble preamble_parts_ok_def
      preamble_signature_def body_signature_def kernel_subkey_def f inside_def)
qed

lemma subkey_phase1: "fst (vb2api_kernel_phase1 pl subkey_ctx m) = VB2_SUCCESS"
  and subkey_mode: "\<not> has_flag (ctx_flags subkey_ctx) VB2_CONTEXT_RECOVERY_MODE" "\<not> has_flag (ctx_flags subkey_ctx) VB2_CONTEXT_DEVELOPER_MODE"
  and subkey_front: "unat (workbuf subkey_ctx) + SIZEOF_SHARED_DATA \<le> unat (preamble_ptr subkey_ctx)"
proof -
  show m: "\<not> has_flag (ctx_flags subkey_ctx) VB2_CONTEXT_RECOVERY_MODE" "\<not> has_flag (ctx_flags subkey_ctx) VB2_CONTEXT_DEVELOPER_MODE"
    "unat (workbuf subkey_ctx) + SIZEOF_SHARED_DATA \<le> unat (preamble_ptr subkey_ctx)"
    by (simp_all add: subkey_ctx_def vb2_secdatak_create_def vb2_secdatak_regen_crc_def Let_def)
  have "fst (vb2_secdatak_init (snd (vb2_secdatak_create zero_context))) = VB2_SUCCESS"
    by (simp add: vb2_secdatak_init_def vb2_secdatak_create_def secdatak_simps vb2_crc8_beyond Let_def)
  then have i: "vb2_secdatak_init subkey_ctx =
      (VB2_SUCCESS, upd_sd (\<lambda>d. d\<lparr>sd_status := sd_status d OR VB2_SD_STATUS_SECDATAK_INIT\<rparr>) subkey_ctx)"
    by (auto simp: vb2_secdatak_init_def subkey_ctx_def vb2_secdatak_check_crc_def Let_def split: if_splits)
  have "sd_workbuf_preamble_size (sd subkey_ctx) = 500" by (simp add: subkey_ctx_def)
  then show "fst (vb2api_kernel_phase1 pl subkey_ctx m) = VB2_SUCCESS"
    by (simp add: vb2api_kernel_phase1_def i m(1) vb2_secdatak_get_def take_kernel_subkey_def Let_def)
qed


definition signed_kernel_ctx :: vb2_context where
  "signed_kernel_ctx = (upd_sd (\<lambda>d. d\<lparr>sd_flags := VB2_SD_FLAG_KERNEL_SIGNED, sd_kernel_version := 0x10002\<rparr>)
     (snd (vb2_secdatak_init (snd (vb2_secdatak_create zero_context)))))\<lparr>ctx_flags := VB2_CONTEXT_ALLOW_KERNEL_ROLL_FORWARD\<rparr>"

theorem vb2api_kernel_phase3_correct_witness:
  "seck_ready signed_kernel_ctx \<and> vb2_secdatak_get signed_kernel_ctx VB2_SECDATAK_VERSIONS = Inr 0 \<and>
   (\<exists>ctx'. vb2api_kernel_phase3 signed_kernel_ctx = (VB2_SUCCESS, ctx') \<and> vb2_secdatak_get ctx' VB2_SECDATAK_VERSIONS = Inr 0x10002)"
proof -
  have s: "seck_ready signed_kernel_ctx" "vb2_secdatak_get signed_kernel_ctx VB2_SECDATAK_VERSIONS = Inr 0"
    by (simp_all add: signed_kernel_ctx_def vb2_secdatak_init_def vb2_secdatak_create_def secdatak_simps vb2_crc8_beyond Let_def)
      (simp add: rd32_def nth_append shl_def)
  have z: "sd_kernel_version_secdatak (sd signed_kernel_ctx) = 0" "sd_kernel_version (sd signed_kernel_ctx) = 0x10002"
    "sd_flags (sd signed_kernel_ctx) = 4" "ctx_flags signed_kernel_ctx = 0x800"
    by (simp_all add: signed_kernel_ctx_def vb2_secdatak_init_def vb2_secdatak_create_def vb2_secdatak_regen_crc_def Let_def
      zero_shared_data_def)
  from vb2api_kernel_phase3_correct [OF s(1)] s z show ?thesis by (auto simp: max_def)
qed

end
