(* ===== verification/Cgpt_Crc.thy ===== *)
theory Cgpt_Crc
  imports Vb2_Prelude
begin

text \<open>
  The checksum of the partition table, \<^verbatim>\<open>firmware/lib/cgptlib/crc32.c\<close>: the table holds the remainders of
  the polynomial, and changes of up to four consecutive bytes are detected.
\<close>

section \<open>The code\<close>

definition crc32_tab :: "u32 list" where
  "crc32_tab = concat
     [[0x00000000, 0x77073096, 0xee0e612c, 0x990951ba, 0x076dc419],
      [0x706af48f, 0xe963a535, 0x9e6495a3, 0x0edb8832, 0x79dcb8a4],
      [0xe0d5e91e, 0x97d2d988, 0x09b64c2b, 0x7eb17cbd, 0xe7b82d07],
      [0x90bf1d91, 0x1db71064, 0x6ab020f2, 0xf3b97148, 0x84be41de],
      [0x1adad47d, 0x6ddde4eb, 0xf4d4b551, 0x83d385c7, 0x136c9856],
      [0x646ba8c0, 0xfd62f97a, 0x8a65c9ec, 0x14015c4f, 0x63066cd9],
      [0xfa0f3d63, 0x8d080df5, 0x3b6e20c8, 0x4c69105e, 0xd56041e4],
      [0xa2677172, 0x3c03e4d1, 0x4b04d447, 0xd20d85fd, 0xa50ab56b],
      [0x35b5a8fa, 0x42b2986c, 0xdbbbc9d6, 0xacbcf940, 0x32d86ce3],
      [0x45df5c75, 0xdcd60dcf, 0xabd13d59, 0x26d930ac, 0x51de003a],
      [0xc8d75180, 0xbfd06116, 0x21b4f4b5, 0x56b3c423, 0xcfba9599],
      [0xb8bda50f, 0x2802b89e, 0x5f058808, 0xc60cd9b2, 0xb10be924],
      [0x2f6f7c87, 0x58684c11, 0xc1611dab, 0xb6662d3d, 0x76dc4190],
      [0x01db7106, 0x98d220bc, 0xefd5102a, 0x71b18589, 0x06b6b51f],
      [0x9fbfe4a5, 0xe8b8d433, 0x7807c9a2, 0x0f00f934, 0x9609a88e],
      [0xe10e9818, 0x7f6a0dbb, 0x086d3d2d, 0x91646c97, 0xe6635c01],
      [0x6b6b51f4, 0x1c6c6162, 0x856530d8, 0xf262004e, 0x6c0695ed],
      [0x1b01a57b, 0x8208f4c1, 0xf50fc457, 0x65b0d9c6, 0x12b7e950],
      [0x8bbeb8ea, 0xfcb9887c, 0x62dd1ddf, 0x15da2d49, 0x8cd37cf3],
      [0xfbd44c65, 0x4db26158, 0x3ab551ce, 0xa3bc0074, 0xd4bb30e2],
      [0x4adfa541, 0x3dd895d7, 0xa4d1c46d, 0xd3d6f4fb, 0x4369e96a],
      [0x346ed9fc, 0xad678846, 0xda60b8d0, 0x44042d73, 0x33031de5],
      [0xaa0a4c5f, 0xdd0d7cc9, 0x5005713c, 0x270241aa, 0xbe0b1010],
      [0xc90c2086, 0x5768b525, 0x206f85b3, 0xb966d409, 0xce61e49f],
      [0x5edef90e, 0x29d9c998, 0xb0d09822, 0xc7d7a8b4, 0x59b33d17],
      [0x2eb40d81, 0xb7bd5c3b, 0xc0ba6cad, 0xedb88320, 0x9abfb3b6],
      [0x03b6e20c, 0x74b1d29a, 0xead54739, 0x9dd277af, 0x04db2615],
      [0x73dc1683, 0xe3630b12, 0x94643b84, 0x0d6d6a3e, 0x7a6a5aa8],
      [0xe40ecf0b, 0x9309ff9d, 0x0a00ae27, 0x7d079eb1, 0xf00f9344],
      [0x8708a3d2, 0x1e01f268, 0x6906c2fe, 0xf762575d, 0x806567cb],
      [0x196c3671, 0x6e6b06e7, 0xfed41b76, 0x89d32be0, 0x10da7a5a],
      [0x67dd4acc, 0xf9b9df6f, 0x8ebeeff9, 0x17b7be43, 0x60b08ed5],
      [0xd6d6a3e8, 0xa1d1937e, 0x38d8c2c4, 0x4fdff252, 0xd1bb67f1],
      [0xa6bc5767, 0x3fb506dd, 0x48b2364b, 0xd80d2bda, 0xaf0a1b4c],
      [0x36034af6, 0x41047a60, 0xdf60efc3, 0xa867df55, 0x316e8eef],
      [0x4669be79, 0xcb61b38c, 0xbc66831a, 0x256fd2a0, 0x5268e236],
      [0xcc0c7795, 0xbb0b4703, 0x220216b9, 0x5505262f, 0xc5ba3bbe],
      [0xb2bd0b28, 0x2bb45a92, 0x5cb36a04, 0xc2d7ffa7, 0xb5d0cf31],
      [0x2cd99e8b, 0x5bdeae1d, 0x9b64c2b0, 0xec63f226, 0x756aa39c],
      [0x026d930a, 0x9c0906a9, 0xeb0e363f, 0x72076785, 0x05005713],
      [0x95bf4a82, 0xe2b87a14, 0x7bb12bae, 0x0cb61b38, 0x92d28e9b],
      [0xe5d5be0d, 0x7cdcefb7, 0x0bdbdf21, 0x86d3d2d4, 0xf1d4e242],
      [0x68ddb3f8, 0x1fda836e, 0x81be16cd, 0xf6b9265b, 0x6fb077e1],
      [0x18b74777, 0x88085ae6, 0xff0f6a70, 0x66063bca, 0x11010b5c],
      [0x8f659eff, 0xf862ae69, 0x616bffd3, 0x166ccf45, 0xa00ae278],
      [0xd70dd2ee, 0x4e048354, 0x3903b3c2, 0xa7672661, 0xd06016f7],
      [0x4969474d, 0x3e6e77db, 0xaed16a4a, 0xd9d65adc, 0x40df0b66],
      [0x37d83bf0, 0xa9bcae53, 0xdebb9ec5, 0x47b2cf7f, 0x30b5ffe9],
      [0xbdbdf21c, 0xcabac28a, 0x53b39330, 0x24b4a3a6, 0xbad03605],
      [0xcdd70693, 0x54de5729, 0x23d967bf, 0xb3667a2e, 0xc4614ab8],
      [0x5d681b02, 0x2a6f2b94, 0xb40bbe37, 0xc30c8ea1, 0x5a05df1b],
      [0x2d02ef8d]]"

definition Crc32 :: "bytes \<Rightarrow> u32 \<Rightarrow> u32" where
  "Crc32 buffer len =
     (let value = foldl (\<lambda>value b. crc32_tab ! unat ((value XOR ucast b) AND 0xff) XOR shr value 8) (NOT 0)
                    (take (unat len) buffer)
      in value XOR NOT 0)"

section \<open>The table holds the remainders of the polynomial\<close>

text \<open>One shift of the register: the reflected polynomial is subtracted when a one falls out.\<close>

definition crc32_bit :: "u32 \<Rightarrow> u32" where
  "crc32_bit v = (if bit v 0 then shr v 1 XOR 0xedb88320 else shr v 1)"

definition crc32_byte :: "u32 \<Rightarrow> u8 \<Rightarrow> u32" where
  "crc32_byte v b = (crc32_bit ^^ 8) (v XOR ucast b)"

lemma shr_xor: "shr (a XOR b) n = shr a n XOR shr (b :: u32) n"
  by (simp add: shr_def)

lemma crc32_bit_xor: "crc32_bit (a XOR b) = crc32_bit a XOR crc32_bit b"
  by (auto simp: crc32_bit_def shr_xor bit_simps ac_simps)

lemma crc32_bits_xor: "(crc32_bit ^^ n) (a XOR b) = (crc32_bit ^^ n) a XOR (crc32_bit ^^ n) b"
  by (induction n) (simp_all add: crc32_bit_xor)

lemma xor_right_cancel: "a XOR c = b XOR c \<longleftrightarrow> a = (b :: u32)"
  by (auto simp: bit_eq_iff bit_simps)

lemma crc32_bit_inj: "crc32_bit a = crc32_bit b \<Longrightarrow> a = b"
proof (rule bit_word_eqI)
  fix n assume eq: "crc32_bit a = crc32_bit b" and n: "n < LENGTH(32)"
  have top: "bit (crc32_bit v) 31 \<longleftrightarrow> bit v 0" for v by (simp add: crc32_bit_def bit_simps)
  have 0: "bit a 0 \<longleftrightarrow> bit b 0" using top [of a] top [of b] eq by simp
  then have "shr a 1 = shr b 1"
    using eq by (auto simp: crc32_bit_def xor_right_cancel)
  then have "bit (shr a 1) (n - 1) \<longleftrightarrow> bit (shr b 1) (n - 1)" by simp
  with 0 show "bit a n \<longleftrightarrow> bit b n" by (cases n) (simp_all add: bit_simps)
qed

lemma crc32_bits_inj: "(crc32_bit ^^ n) a = (crc32_bit ^^ n) b \<longleftrightarrow> a = b"
  by (induction n) (auto dest: crc32_bit_inj)

text \<open>
  One shift leads from the entry for an even number to the entry for its half, and the entry for the
  next number differs by the entry for one.
\<close>

fun tab_steps :: "u32 list \<Rightarrow> u32 list \<Rightarrow> bool" where
  "tab_steps (h # hs) (a # b # xs) \<longleftrightarrow> crc32_bit a = h \<and> b = a XOR 0x77073096 \<and> tab_steps hs xs"
| "tab_steps hs xs \<longleftrightarrow> xs = []"

lemma crc32_tab_steps: "tab_steps crc32_tab crc32_tab" "length crc32_tab = 256" "crc32_tab ! 0 = 0"
  by (simp_all add: crc32_tab_def crc32_bit_def shr_def)

lemma tab_stepsD:
  "tab_steps hs xs \<Longrightarrow> 2 * i < length xs \<Longrightarrow> i < length hs \<and> Suc (2 * i) < length xs \<and>
     crc32_bit (xs ! (2 * i)) = hs ! i \<and> xs ! Suc (2 * i) = xs ! (2 * i) XOR 0x77073096"
proof (induction hs xs arbitrary: i rule: tab_steps.induct)
  case (1 h hs a b xs)
  then show ?case by (cases i) auto
qed auto

lemma funpow_8: "(f ^^ 8) x = f (f (f (f (f (f (f (f x)))))))"
  by (simp add: eval_nat_numeral)

lemma crc32_bits_1: "(crc32_bit ^^ 8) 1 = 0x77073096"
  unfolding funpow_8 by (simp add: crc32_bit_def shr_def)

lemma crc32_tab_bits: "i < 256 \<Longrightarrow> crc32_tab ! i = (crc32_bit ^^ 8) (of_nat i)"
proof (induction i rule: less_induct)
  case (less i)
  note s = tab_stepsD [OF crc32_tab_steps(1), unfolded crc32_tab_steps(2)]
  show ?case
  proof (cases "i = 0")
    case True
    then show ?thesis unfolding funpow_8 by (simp add: crc32_tab_steps(3) crc32_bit_def)
  next
    case False
    define j where "j = i div 2"
    have j: "j < i" "j < 256" "2 * j < 256" using False less.prems by (auto simp: j_def)
    have half: "crc32_bit (of_nat (2 * j)) = of_nat j"
    proof -
      have "unat (of_nat (2 * j) :: u32) = 2 * j" using j by (simp only: unat_of_nat) simp
      then have "unat (shr (of_nat (2 * j) :: u32) 1) = j" by (simp add: unat_shr)
      then have "shr (of_nat (2 * j) :: u32) 1 = of_nat j"
        using j by (simp add: word_unat_eq_iff unat_of_nat)
      then show ?thesis by (simp add: crc32_bit_def bit_0)
    qed
    have "crc32_bit (crc32_tab ! (2 * j)) = crc32_bit ((crc32_bit ^^ 8) (of_nat (2 * j)))"
      using s [OF j(3)] less.IH [OF j(1,2)] half by (simp add: funpow_swap1)
    then have even: "crc32_tab ! (2 * j) = (crc32_bit ^^ 8) (of_nat (2 * j))" by (rule crc32_bit_inj)
    have "of_nat (Suc (2 * j)) = (of_nat (2 * j) XOR 1 :: u32)"
      by (simp add: xor_one_eq)
    then have odd: "crc32_tab ! Suc (2 * j) = (crc32_bit ^^ 8) (of_nat (Suc (2 * j)))"
      using s [OF j(3)] even by (simp add: crc32_bits_xor crc32_bits_1)
    show ?thesis using even odd by (cases "even i") (auto simp: j_def)
  qed
qed

lemma crc32_bits_shift:
  "(\<forall>i<k. \<not> bit y i) \<Longrightarrow> (crc32_bit ^^ k) y = shr y k"
proof (induction k arbitrary: y)
  case (Suc k)
  have "crc32_bit y = shr y 1" using Suc.prems by (auto simp: crc32_bit_def)
  moreover have "(crc32_bit ^^ k) (shr y 1) = shr (shr y 1) k"
    using Suc.prems by (intro Suc.IH) (auto simp: bit_simps)
  moreover have "shr (shr y 1) k = shr y (Suc k)" by (rule bit_word_eqI) (simp add: bit_simps)
  ultimately show ?case by (simp add: funpow_swap1)
qed simp

lemma bit_255: "bit (0xff :: u32) n \<longleftrightarrow> n < 8"
proof -
  have "(0xff :: u32) = mask 8" by (simp add: mask_eq_exp_minus_1)
  then show ?thesis by (simp only: bit_mask_iff) auto
qed

lemma crc32_tab_byte: "crc32_tab ! unat (x AND 0xff) XOR shr x 8 = (crc32_bit ^^ 8) x"
proof -
  have split: "x = (x AND 0xff) XOR (x AND NOT 0xff)" by (auto simp: bit_eq_iff bit_simps)
  have "x AND 0xff \<le> 0xff" by (rule word_and_le1)
  then have "unat (x AND 0xff) < 256" by (simp add: word_le_nat_alt)
  then have lo: "crc32_tab ! unat (x AND 0xff) = (crc32_bit ^^ 8) (x AND 0xff)" by (simp add: crc32_tab_bits)
  have "(crc32_bit ^^ 8) (x AND NOT 0xff) = shr (x AND NOT 0xff) 8"
    by (rule crc32_bits_shift) (unfold bit_and_iff bit_not_iff_eq bit_255, simp)
  also have "\<dots> = shr x 8" by (rule bit_word_eqI) (unfold bit_shr bit_and_iff bit_not_iff_eq bit_255, use not_bit_u32 [of _ x] in fastforce)
  finally have "(crc32_bit ^^ 8) ((x AND 0xff) XOR (x AND NOT 0xff)) = crc32_tab ! unat (x AND 0xff) XOR shr x 8"
    unfolding crc32_bits_xor lo by simp
  then show ?thesis unfolding split [symmetric] by (rule sym)
qed

lemma Crc32_bytes: "Crc32 buffer len = foldl crc32_byte (NOT 0) (take (unat len) buffer) XOR NOT 0"
proof -
  have "crc32_tab ! unat ((v XOR ucast b) AND 0xff) XOR shr v 8 = crc32_byte v b" for v and b :: u8
  proof -
    have "shr (v XOR ucast b) 8 = shr v 8" by (rule bit_word_eqI) (simp add: bit_simps)
    then show ?thesis using crc32_tab_byte [of "v XOR ucast b"] by (simp add: crc32_byte_def)
  qed
  then show ?thesis by (simp add: Crc32_def)
qed

section \<open>Errors that the checksum detects\<close>

text \<open>Up to four bytes as one word, the first byte lowest.\<close>

fun le_word :: "bytes \<Rightarrow> u32" where
  "le_word [] = 0"
| "le_word (b # bs) = ucast b XOR shl (le_word bs) 8"

lemma bit_le_word: "n < 32 \<Longrightarrow> bit (le_word bs) n \<longleftrightarrow> n div 8 < length bs \<and> bit (bs ! (n div 8)) (n mod 8)"
proof (induction bs arbitrary: n)
  case (Cons b bs)
  show ?case
  proof (cases "n < 8")
    case False
    then have "n div 8 = Suc ((n - 8) div 8)" "n mod 8 = (n - 8) mod 8" by presburger+
    then show ?thesis using False Cons by (simp add: bit_simps)
  qed (use Cons.prems in \<open>simp add: bit_simps\<close>)
qed simp

lemma le_word_inj:
  assumes "length as = length bs" and "length bs \<le> 4" and "le_word as = le_word bs"
  shows "as = bs"
proof (rule nth_equalityI [OF assms(1)])
  fix i assume i: "i < length as"
  show "as ! i = bs ! i"
  proof (rule bit_word_eqI)
    fix n assume n: "n < LENGTH(8)"
    then have "8 * i + n < 32" "(8 * i + n) div 8 = i" "(8 * i + n) mod 8 = n" using i assms(1,2) by auto
    then show "bit (as ! i) n \<longleftrightarrow> bit (bs ! i) n"
      using bit_le_word [of "8 * i + n" as] bit_le_word [of "8 * i + n" bs] i assms(1,3) by simp
  qed
qed

lemma foldl_crc32_word:
  "length bs \<le> 4 \<Longrightarrow> foldl crc32_byte v bs = (crc32_bit ^^ (8 * length bs)) (v XOR le_word bs)"
proof (induction bs arbitrary: v)
  case (Cons b bs)
  let ?w = "le_word bs"
  have w: "\<not> bit ?w n" if "24 \<le> n" for n
    using that Cons.prems bit_le_word [of n bs] by (cases "n < 32") auto
  have "shr (shl ?w 8) 8 = ?w" using w by (intro bit_word_eqI) (simp add: bit_simps, meson linorder_not_le)
  then have "(crc32_bit ^^ 8) (shl ?w 8) = ?w" by (subst crc32_bits_shift) (simp_all add: bit_simps)
  then have "crc32_byte v b XOR ?w = (crc32_bit ^^ 8) (v XOR le_word (b # bs))"
    by (simp add: crc32_byte_def crc32_bits_xor xor.assoc)
  then have "foldl crc32_byte v (b # bs) = (crc32_bit ^^ (8 * length bs)) ((crc32_bit ^^ 8) (v XOR le_word (b # bs)))"
    using Cons by simp
  also have "\<dots> = (crc32_bit ^^ (8 * length bs + 8)) (v XOR le_word (b # bs))" by (simp only: funpow_add o_apply)
  finally show ?case by (simp only: length_Cons mult_Suc_right add.commute)
qed simp

lemma foldl_crc32_inj: "foldl crc32_byte v bs = foldl crc32_byte v' bs \<longleftrightarrow> v = v'"
proof (induction bs arbitrary: v v')
  case (Cons b bs)
  show ?case by (simp add: Cons.IH) (simp add: crc32_byte_def crc32_bits_inj xor_right_cancel)
qed simp

text \<open>
  C35. Crc32() tells two buffers apart that differ in at most four consecutive bytes, wherever these
  are.\<close>

theorem Crc32_detects_burst:
  assumes "length w = length w'" and "length w \<le> 4" and "length (p @ w @ s) = unat len"
  shows "Crc32 (p @ w @ s) len = Crc32 (p @ w' @ s) len \<longleftrightarrow> w = w'"
proof -
  have "Crc32 (p @ w @ s) len = Crc32 (p @ w' @ s) len \<longleftrightarrow>
      foldl crc32_byte (foldl crc32_byte (NOT 0) p) w = foldl crc32_byte (foldl crc32_byte (NOT 0) p) w'"
    using assms by (simp add: Crc32_bytes xor_right_cancel foldl_crc32_inj)
  also have "\<dots> \<longleftrightarrow> le_word w = le_word w'"
    using assms by (simp add: foldl_crc32_word crc32_bits_inj) (metis xor.commute xor_right_cancel)
  also have "\<dots> \<longleftrightarrow> w = w'" using assms le_word_inj [of w w'] by auto
  finally show ?thesis .
qed

theorem Crc32_detects_burst_witness:
  "Crc32 [1, 2, 3, 4, 5, 6] 6 \<noteq> Crc32 [1, 7, 7, 7, 7, 6] 6"
  using Crc32_detects_burst [of "[2, 3, 4, 5]" "[7, 7, 7, 7]" "[1]" "[6]" 6] by simp

text \<open>
  Crc32() with its table computes the bit-by-bit remainder of the reflected polynomial, for any
  buffer and length.\<close>

lemma Crc32_equiv:
  "Crc32 buffer len = foldl (\<lambda>v b. (crc32_bit ^^ 8) (v XOR ucast b)) (NOT 0) (take (unat len) buffer) XOR NOT 0"
  by (simp add: Crc32_bytes crc32_byte_def [abs_def])

end
