(* ===== verification/Gpt.thy ===== *)
theory Gpt
  imports Cgpt_Crc
begin

text \<open>
  The GUID partition table as the firmware reads it: \<^verbatim>\<open>gpt.h\<close>, \<^verbatim>\<open>cgptlib_internal.c\<close>,
  \<^verbatim>\<open>cgptlib.c\<close> and the helpers of \<^verbatim>\<open>gpt_misc.c\<close> that do not touch the disk.  Headers and entries are
  the bytes of their buffers, read and written at the offsets of the packed structures.
\<close>

section \<open>Structures (\<^verbatim>\<open>gpt.h\<close>)\<close>

definition rd64 :: "bytes \<Rightarrow> nat \<Rightarrow> u64" where
  "rd64 bs i = ucast (rd32 bs i) OR shl (ucast (rd32 bs (i + 4))) 32"

definition wr64 :: "bytes \<Rightarrow> nat \<Rightarrow> u64 \<Rightarrow> bytes" where
  "wr64 bs i v = wr32 (wr32 bs i (ucast v)) (i + 4) (ucast (shr v 32))"

definition wr16 :: "bytes \<Rightarrow> nat \<Rightarrow> u16 \<Rightarrow> bytes" where
  "wr16 bs i v = bs[i := ucast v, i + 1 := ucast (shr v 8)]"

text \<open>Offsets in \<^verbatim>\<open>GptHeader\<close>, which is 92 bytes at the start of a sector.\<close>

abbreviation (input) GPT_HEADER_SIGNATURE_SIZE :: nat where "GPT_HEADER_SIGNATURE_SIZE \<equiv> 8"
abbreviation (input) SIZEOF_GPT_HEADER :: nat where "SIZEOF_GPT_HEADER \<equiv> 92"
abbreviation (input) HDR_revision :: nat where "HDR_revision \<equiv> 8"
abbreviation (input) HDR_size :: nat where "HDR_size \<equiv> 12"
abbreviation (input) HDR_header_crc32 :: nat where "HDR_header_crc32 \<equiv> 16"
abbreviation (input) HDR_reserved_zero :: nat where "HDR_reserved_zero \<equiv> 20"
abbreviation (input) HDR_my_lba :: nat where "HDR_my_lba \<equiv> 24"
abbreviation (input) HDR_alternate_lba :: nat where "HDR_alternate_lba \<equiv> 32"
abbreviation (input) HDR_first_usable_lba :: nat where "HDR_first_usable_lba \<equiv> 40"
abbreviation (input) HDR_last_usable_lba :: nat where "HDR_last_usable_lba \<equiv> 48"
abbreviation (input) HDR_disk_uuid :: nat where "HDR_disk_uuid \<equiv> 56"
abbreviation (input) HDR_entries_lba :: nat where "HDR_entries_lba \<equiv> 72"
abbreviation (input) HDR_number_of_entries :: nat where "HDR_number_of_entries \<equiv> 80"
abbreviation (input) HDR_size_of_entry :: nat where "HDR_size_of_entry \<equiv> 84"
abbreviation (input) HDR_entries_crc32 :: nat where "HDR_entries_crc32 \<equiv> 88"

abbreviation (input) GPT_HEADER_REVISION :: u32 where "GPT_HEADER_REVISION \<equiv> 0x00010000"
abbreviation (input) GPT_HEADER_SIGNATURE :: bytes where
  "GPT_HEADER_SIGNATURE \<equiv> [0x45, 0x46, 0x49, 0x20, 0x50, 0x41, 0x52, 0x54]"
abbreviation (input) GPT_HEADER_SIGNATURE2 :: bytes where
  "GPT_HEADER_SIGNATURE2 \<equiv> [0x43, 0x48, 0x52, 0x4f, 0x4d, 0x45, 0x4f, 0x53]"

text \<open>Offsets in \<^verbatim>\<open>GptEntry\<close>.\<close>

abbreviation (input) SIZEOF_GPT_ENTRY :: nat where "SIZEOF_GPT_ENTRY \<equiv> 128"
abbreviation (input) GUID_SIZE :: nat where "GUID_SIZE \<equiv> 16"
abbreviation (input) ENT_unique :: nat where "ENT_unique \<equiv> 16"
abbreviation (input) ENT_starting_lba :: nat where "ENT_starting_lba \<equiv> 32"
abbreviation (input) ENT_ending_lba :: nat where "ENT_ending_lba \<equiv> 40"
abbreviation (input) ENT_gpt_att :: nat where "ENT_gpt_att \<equiv> 54"

definition entry_at :: "bytes \<Rightarrow> nat \<Rightarrow> bytes" where
  "entry_at entries i = take SIZEOF_GPT_ENTRY (drop (SIZEOF_GPT_ENTRY * i) entries)"

definition ent_type :: "bytes \<Rightarrow> bytes" where "ent_type e = take GUID_SIZE e"
definition ent_unique :: "bytes \<Rightarrow> bytes" where "ent_unique e = take GUID_SIZE (drop ENT_unique e)"
definition starting_lba :: "bytes \<Rightarrow> u64" where "starting_lba e = rd64 e ENT_starting_lba"
definition ending_lba :: "bytes \<Rightarrow> u64" where "ending_lba e = rd64 e ENT_ending_lba"

definition GPT_ENT_TYPE_CHROMEOS_KERNEL :: bytes where
  "GPT_ENT_TYPE_CHROMEOS_KERNEL =
     [0x5d, 0x2a, 0x3a, 0xfe, 0x32, 0x4f, 0xa7, 0x41, 0xb7, 0x25, 0xac, 0xcc, 0x32, 0x85, 0xa3, 0x09]"

text \<open>
  \<^verbatim>\<open>GptData\<close>: the four buffers are allocated, two of one sector and two for the entries.
\<close>

record GptData =
  primary_header :: bytes
  secondary_header :: bytes
  primary_entries :: bytes
  secondary_entries :: bytes
  sector_bytes :: u32
  streaming_drive_sectors :: u64
  gpt_drive_sectors :: u64
  gpt_flags :: u32
  modified :: u8
  current_kernel :: int
  valid_headers :: u32
  valid_entries :: u32
  current_priority :: int

abbreviation (input) GPT_SUCCESS :: int where "GPT_SUCCESS \<equiv> 0"
abbreviation (input) GPT_ERROR_NO_VALID_KERNEL :: int where "GPT_ERROR_NO_VALID_KERNEL \<equiv> 1"
abbreviation (input) GPT_ERROR_INVALID_HEADERS :: int where "GPT_ERROR_INVALID_HEADERS \<equiv> 2"
abbreviation (input) GPT_ERROR_INVALID_ENTRIES :: int where "GPT_ERROR_INVALID_ENTRIES \<equiv> 3"
abbreviation (input) GPT_ERROR_INVALID_SECTOR_SIZE :: int where "GPT_ERROR_INVALID_SECTOR_SIZE \<equiv> 4"
abbreviation (input) GPT_ERROR_INVALID_SECTOR_NUMBER :: int where "GPT_ERROR_INVALID_SECTOR_NUMBER \<equiv> 5"
abbreviation (input) GPT_ERROR_INVALID_UPDATE_TYPE :: int where "GPT_ERROR_INVALID_UPDATE_TYPE \<equiv> 6"
abbreviation (input) GPT_ERROR_CRC_CORRUPTED :: int where "GPT_ERROR_CRC_CORRUPTED \<equiv> 7"
abbreviation (input) GPT_ERROR_OUT_OF_REGION :: int where "GPT_ERROR_OUT_OF_REGION \<equiv> 8"
abbreviation (input) GPT_ERROR_START_LBA_OVERLAP :: int where "GPT_ERROR_START_LBA_OVERLAP \<equiv> 9"
abbreviation (input) GPT_ERROR_END_LBA_OVERLAP :: int where "GPT_ERROR_END_LBA_OVERLAP \<equiv> 10"
abbreviation (input) GPT_ERROR_DUP_GUID :: int where "GPT_ERROR_DUP_GUID \<equiv> 11"

abbreviation (input) GPT_MODIFIED_HEADER1 :: u8 where "GPT_MODIFIED_HEADER1 \<equiv> 0x01"
abbreviation (input) GPT_MODIFIED_HEADER2 :: u8 where "GPT_MODIFIED_HEADER2 \<equiv> 0x02"
abbreviation (input) GPT_MODIFIED_ENTRIES1 :: u8 where "GPT_MODIFIED_ENTRIES1 \<equiv> 0x04"
abbreviation (input) GPT_MODIFIED_ENTRIES2 :: u8 where "GPT_MODIFIED_ENTRIES2 \<equiv> 0x08"
abbreviation (input) GPT_UPDATE_ENTRY_TRY :: u32 where "GPT_UPDATE_ENTRY_TRY \<equiv> 1"
abbreviation (input) GPT_UPDATE_ENTRY_BAD :: u32 where "GPT_UPDATE_ENTRY_BAD \<equiv> 2"
abbreviation (input) GPT_UPDATE_ENTRY_RESET :: u32 where "GPT_UPDATE_ENTRY_RESET \<equiv> 3"
abbreviation (input) GPT_UPDATE_ENTRY_INVALID :: u32 where "GPT_UPDATE_ENTRY_INVALID \<equiv> 4"
abbreviation (input) GPT_FLAG_EXTERNAL :: u32 where "GPT_FLAG_EXTERNAL \<equiv> 0x1"
abbreviation (input) CGPT_KERNEL_ENTRY_NOT_FOUND :: int where "CGPT_KERNEL_ENTRY_NOT_FOUND \<equiv> -1"
abbreviation (input) CGPT_ATTRIBUTE_SUCCESSFUL_OFFSET :: nat where "CGPT_ATTRIBUTE_SUCCESSFUL_OFFSET \<equiv> 8"
abbreviation (input) CGPT_ATTRIBUTE_SUCCESSFUL_MASK :: u16 where "CGPT_ATTRIBUTE_SUCCESSFUL_MASK \<equiv> 0x100"
abbreviation (input) CGPT_ATTRIBUTE_TRIES_OFFSET :: nat where "CGPT_ATTRIBUTE_TRIES_OFFSET \<equiv> 4"
abbreviation (input) CGPT_ATTRIBUTE_TRIES_MASK :: u16 where "CGPT_ATTRIBUTE_TRIES_MASK \<equiv> 0xf0"
abbreviation (input) CGPT_ATTRIBUTE_PRIORITY_OFFSET :: nat where "CGPT_ATTRIBUTE_PRIORITY_OFFSET \<equiv> 0"
abbreviation (input) CGPT_ATTRIBUTE_PRIORITY_MASK :: u16 where "CGPT_ATTRIBUTE_PRIORITY_MASK \<equiv> 0xf"
abbreviation (input) MIN_SIZE_OF_HEADER :: u32 where "MIN_SIZE_OF_HEADER \<equiv> 92"
abbreviation (input) MAX_SIZE_OF_HEADER :: u32 where "MAX_SIZE_OF_HEADER \<equiv> 512"
abbreviation (input) MIN_NUMBER_OF_ENTRIES :: u32 where "MIN_NUMBER_OF_ENTRIES \<equiv> 16"
abbreviation (input) MAX_NUMBER_OF_ENTRIES :: u32 where "MAX_NUMBER_OF_ENTRIES \<equiv> 128"
abbreviation (input) GPT_PMBR_SECTORS :: u64 where "GPT_PMBR_SECTORS \<equiv> 1"
abbreviation (input) GPT_HEADER_SECTORS :: u64 where "GPT_HEADER_SECTORS \<equiv> 1"
abbreviation (input) SECTOR_SIZE :: u32 where "SECTOR_SIZE \<equiv> 512"
abbreviation (input) MASK_NONE :: u32 where "MASK_NONE \<equiv> 0"
abbreviation (input) MASK_PRIMARY :: u32 where "MASK_PRIMARY \<equiv> 1"
abbreviation (input) MASK_SECONDARY :: u32 where "MASK_SECONDARY \<equiv> 2"
abbreviation (input) MASK_BOTH :: u32 where "MASK_BOTH \<equiv> 3"

section \<open>Checking and repairing the table (\<^verbatim>\<open>cgptlib_internal.c\<close>, \<^verbatim>\<open>gpt_misc.c\<close>)\<close>

text \<open>The product of the two 32-bit fields wraps before it becomes a \<^verbatim>\<open>size_t\<close>.\<close>

definition entries_bytes :: "bytes \<Rightarrow> u32" where
  "entries_bytes h = rd32 h HDR_number_of_entries * rd32 h HDR_size_of_entry"

definition CalculateEntriesSectors :: "bytes \<Rightarrow> u64" where
  "CalculateEntriesSectors h = (ucast (entries_bytes h) + ucast SECTOR_SIZE - 1) div ucast SECTOR_SIZE"

definition CheckParameters :: "GptData \<Rightarrow> int" where
  "CheckParameters gpt =
     (if sector_bytes gpt \<noteq> SECTOR_SIZE then GPT_ERROR_INVALID_SECTOR_SIZE
      else if gpt_drive_sectors gpt = 0 \<or>
              (gpt_flags gpt AND GPT_FLAG_EXTERNAL = 0 \<and> gpt_drive_sectors gpt \<noteq> streaming_drive_sectors gpt)
      then GPT_ERROR_INVALID_SECTOR_NUMBER
      else if gpt_drive_sectors gpt < 1 + 2 * (1 + ucast MIN_NUMBER_OF_ENTRIES div (512 div of_nat SIZEOF_GPT_ENTRY))
      then GPT_ERROR_INVALID_SECTOR_NUMBER
      else GPT_SUCCESS)"

text \<open>The checksum of a header is taken with the checksum field zero.\<close>

definition HeaderCrc :: "bytes \<Rightarrow> u32" where
  "HeaderCrc h = Crc32 (wr32 h HDR_header_crc32 0) (rd32 h HDR_size)"

definition CheckHeader :: "bytes option \<Rightarrow> bool \<Rightarrow> u64 \<Rightarrow> u64 \<Rightarrow> u32 \<Rightarrow> int" where
  "CheckHeader hp is_secondary streaming_sectors gpt_sectors flags =
     (case hp of None \<Rightarrow> 1 | Some h \<Rightarrow>
        if take GPT_HEADER_SIGNATURE_SIZE h \<noteq> GPT_HEADER_SIGNATURE \<and>
           take GPT_HEADER_SIGNATURE_SIZE h \<noteq> GPT_HEADER_SIGNATURE2 then 1
        else if rd32 h HDR_revision \<noteq> GPT_HEADER_REVISION then 1
        else if rd32 h HDR_size < MIN_SIZE_OF_HEADER \<or> rd32 h HDR_size > MAX_SIZE_OF_HEADER then 1
        else if HeaderCrc h \<noteq> rd32 h HDR_header_crc32 then 1
        else if rd32 h HDR_reserved_zero \<noteq> 0 then 1
        else if rd32 h HDR_size_of_entry \<noteq> of_nat SIZEOF_GPT_ENTRY then 1
        else if rd32 h HDR_number_of_entries < MIN_NUMBER_OF_ENTRIES \<or>
                rd32 h HDR_number_of_entries > MAX_NUMBER_OF_ENTRIES \<or>
                (flags AND GPT_FLAG_EXTERNAL = 0 \<and> rd32 h HDR_number_of_entries \<noteq> MAX_NUMBER_OF_ENTRIES) then 1
        else if is_secondary \<and> rd64 h HDR_my_lba \<noteq> gpt_sectors - GPT_HEADER_SECTORS then 1
        else if is_secondary \<and> rd64 h HDR_entries_lba \<noteq> rd64 h HDR_my_lba - CalculateEntriesSectors h then 1
        else if \<not> is_secondary \<and> rd64 h HDR_my_lba \<noteq> GPT_PMBR_SECTORS then 1
        else if \<not> is_secondary \<and> rd64 h HDR_entries_lba < rd64 h HDR_my_lba + 1 then 1
        else if rd64 h HDR_first_usable_lba > rd64 h HDR_last_usable_lba then 1
        else if flags AND GPT_FLAG_EXTERNAL \<noteq> 0
        then if rd64 h HDR_last_usable_lba \<ge> streaming_sectors then 1 else 0
        else if rd64 h HDR_first_usable_lba < 2 + CalculateEntriesSectors h then 1
        else if rd64 h HDR_last_usable_lba \<ge> streaming_sectors - 1 - CalculateEntriesSectors h then 1
        else 0)"

definition IsKernelEntry :: "bytes \<Rightarrow> bool" where
  "IsKernelEntry e \<longleftrightarrow> ent_type e = GPT_ENT_TYPE_CHROMEOS_KERNEL"

definition IsUnusedEntry :: "bytes \<Rightarrow> bool" where
  "IsUnusedEntry e \<longleftrightarrow> ent_type e = replicate GUID_SIZE 0"

text \<open>The inner loop, over the other entries, and the outer loop.\<close>

fun check_overlaps :: "bytes \<Rightarrow> nat \<Rightarrow> nat list \<Rightarrow> int" where
  "check_overlaps entries i [] = 0"
| "check_overlaps entries i (i2 # is) =
     (let entry = entry_at entries i; e2 = entry_at entries i2 in
      if i2 = i \<or> IsUnusedEntry e2 then check_overlaps entries i is
      else if starting_lba entry \<ge> starting_lba e2 \<and> starting_lba entry \<le> ending_lba e2
      then GPT_ERROR_START_LBA_OVERLAP
      else if ending_lba entry \<ge> starting_lba e2 \<and> ending_lba entry \<le> ending_lba e2
      then GPT_ERROR_END_LBA_OVERLAP
      else if ent_unique entry = ent_unique e2 then GPT_ERROR_DUP_GUID
      else check_overlaps entries i is)"

fun check_entries_from :: "bytes \<Rightarrow> bytes \<Rightarrow> nat list \<Rightarrow> int" where
  "check_entries_from entries h [] = 0"
| "check_entries_from entries h (i # is) =
     (let entry = entry_at entries i in
      if IsUnusedEntry entry then check_entries_from entries h is
      else if starting_lba entry < rd64 h HDR_first_usable_lba \<or> ending_lba entry > rd64 h HDR_last_usable_lba \<or>
              ending_lba entry < starting_lba entry
      then GPT_ERROR_OUT_OF_REGION
      else let rv = check_overlaps entries i [0..<unat (rd32 h HDR_number_of_entries)]
        in if rv \<noteq> 0 then rv else check_entries_from entries h is)"

definition CheckEntries :: "bytes option \<Rightarrow> bytes \<Rightarrow> int" where
  "CheckEntries ep h =
     (case ep of None \<Rightarrow> GPT_ERROR_INVALID_ENTRIES | Some entries \<Rightarrow>
        if Crc32 entries (rd32 h HDR_size_of_entry * rd32 h HDR_number_of_entries) \<noteq> rd32 h HDR_entries_crc32
        then GPT_ERROR_CRC_CORRUPTED
        else check_entries_from entries h [0..<unat (rd32 h HDR_number_of_entries)])"

definition HeaderFieldsSame :: "bytes \<Rightarrow> bytes \<Rightarrow> int" where
  "HeaderFieldsSame h1 h2 =
     (if take GPT_HEADER_SIGNATURE_SIZE h1 \<noteq> take GPT_HEADER_SIGNATURE_SIZE h2 then 1
      else if rd32 h1 HDR_revision \<noteq> rd32 h2 HDR_revision then 1
      else if rd32 h1 HDR_size \<noteq> rd32 h2 HDR_size then 1
      else if rd32 h1 HDR_reserved_zero \<noteq> rd32 h2 HDR_reserved_zero then 1
      else if rd64 h1 HDR_first_usable_lba \<noteq> rd64 h2 HDR_first_usable_lba then 1
      else if rd64 h1 HDR_last_usable_lba \<noteq> rd64 h2 HDR_last_usable_lba then 1
      else if take GUID_SIZE (drop HDR_disk_uuid h1) \<noteq> take GUID_SIZE (drop HDR_disk_uuid h2) then 1
      else if rd32 h1 HDR_number_of_entries \<noteq> rd32 h2 HDR_number_of_entries then 1
      else if rd32 h1 HDR_size_of_entry \<noteq> rd32 h2 HDR_size_of_entry then 1
      else if rd32 h1 HDR_entries_crc32 \<noteq> rd32 h2 HDR_entries_crc32 then 1
      else 0)"

text \<open>The bits of \<^verbatim>\<open>valid_entries\<close> for the two tables checked against one header.\<close>

definition entries_mask :: "GptData \<Rightarrow> bytes \<Rightarrow> u32" where
  "entries_mask gpt h =
     (if CheckEntries (Some (primary_entries gpt)) h = 0 then MASK_PRIMARY else MASK_NONE) OR
     (if CheckEntries (Some (secondary_entries gpt)) h = 0 then MASK_SECONDARY else MASK_NONE)"

definition headers_mask :: "GptData \<Rightarrow> u32" where
  "headers_mask gpt =
     (if CheckHeader (Some (primary_header gpt)) False (streaming_drive_sectors gpt) (gpt_drive_sectors gpt) (gpt_flags gpt) = 0
      then MASK_PRIMARY else MASK_NONE) OR
     (if CheckHeader (Some (secondary_header gpt)) True (streaming_drive_sectors gpt) (gpt_drive_sectors gpt) (gpt_flags gpt) = 0
      then MASK_SECONDARY else MASK_NONE)"

definition GptSanityCheck :: "GptData \<Rightarrow> int \<times> GptData" where
  "GptSanityCheck gpt =
     (let header1 = primary_header gpt; header2 = secondary_header gpt;
          retval = CheckParameters gpt
      in if retval \<noteq> GPT_SUCCESS then (retval, gpt\<lparr>valid_headers := MASK_NONE, valid_entries := MASK_NONE\<rparr>)
      else let vh = headers_mask gpt;
               goodhdr = (if vh AND MASK_PRIMARY \<noteq> 0 then header1 else header2)
      in if vh = 0 then (GPT_ERROR_INVALID_HEADERS, gpt\<lparr>valid_headers := vh, valid_entries := MASK_NONE\<rparr>)
      else let ve = entries_mask gpt goodhdr;
               (vh, ve) = (if vh = MASK_BOTH \<and> ve = 0
                           then let ve = entries_mask gpt header2
                                in (if ve \<noteq> 0 then vh AND NOT MASK_PRIMARY else vh, ve)
                           else (vh, ve))
      in if ve = 0 then (GPT_ERROR_INVALID_ENTRIES, gpt\<lparr>valid_headers := vh, valid_entries := ve\<rparr>)
      else let vh = (if vh = MASK_BOTH \<and> HeaderFieldsSame header1 header2 \<noteq> 0 then vh AND NOT MASK_SECONDARY else vh)
      in (GPT_SUCCESS, gpt\<lparr>valid_headers := vh, valid_entries := ve\<rparr>))"

definition GptRepair :: "GptData \<Rightarrow> GptData" where
  "GptRepair gpt =
     (if valid_headers gpt = MASK_NONE \<or> valid_entries gpt = MASK_NONE then gpt
      else
        let header1 = primary_header gpt; header2 = secondary_header gpt;
            gpt =
              (if valid_headers gpt = MASK_PRIMARY then
                 let header2 = copy_at header2 0 (take SIZEOF_GPT_HEADER header1);
                     header2 = wr64 header2 HDR_my_lba (gpt_drive_sectors gpt - GPT_HEADER_SECTORS);
                     header2 = wr64 header2 HDR_alternate_lba GPT_PMBR_SECTORS;
                     header2 = wr64 header2 HDR_entries_lba (rd64 header2 HDR_my_lba - CalculateEntriesSectors header1);
                     header2 = wr32 header2 HDR_header_crc32 (HeaderCrc header2)
                 in gpt\<lparr>secondary_header := header2, modified := modified gpt OR GPT_MODIFIED_HEADER2\<rparr>
               else if valid_headers gpt = MASK_SECONDARY then
                 let header1 = copy_at header1 0 (take SIZEOF_GPT_HEADER header2);
                     header1 = wr64 header1 HDR_my_lba GPT_PMBR_SECTORS;
                     header1 = wr64 header1 HDR_alternate_lba (streaming_drive_sectors gpt - GPT_HEADER_SECTORS);
                     header1 = wr64 header1 HDR_entries_lba (rd64 header1 HDR_my_lba + 1);
                     header1 = wr32 header1 HDR_header_crc32 (HeaderCrc header1)
                 in gpt\<lparr>primary_header := header1, modified := modified gpt OR GPT_MODIFIED_HEADER1\<rparr>
               else gpt);
            gpt = gpt\<lparr>valid_headers := MASK_BOTH\<rparr>;
            entries_size = rd32 (primary_header gpt) HDR_size_of_entry * rd32 (primary_header gpt) HDR_number_of_entries;
            gpt =
              (if valid_entries gpt = MASK_PRIMARY then
                 gpt\<lparr>secondary_entries := copy_at (secondary_entries gpt) 0 (take (unat entries_size) (primary_entries gpt)),
                     modified := modified gpt OR GPT_MODIFIED_ENTRIES2\<rparr>
               else if valid_entries gpt = MASK_SECONDARY then
                 gpt\<lparr>primary_entries := copy_at (primary_entries gpt) 0 (take (unat entries_size) (secondary_entries gpt)),
                     modified := modified gpt OR GPT_MODIFIED_ENTRIES1\<rparr>
               else gpt)
        in gpt\<lparr>valid_entries := MASK_BOTH\<rparr>)"

section \<open>Kernel attributes\<close>

definition GetEntrySuccessful :: "bytes \<Rightarrow> int" where
  "GetEntrySuccessful e =
     uint (shr (rd16 e ENT_gpt_att AND CGPT_ATTRIBUTE_SUCCESSFUL_MASK) CGPT_ATTRIBUTE_SUCCESSFUL_OFFSET)"

text \<open>\<^verbatim>\<open>override\<close> stands for \<^verbatim>\<open>VbExOverrideGptEntryPriority()\<close>, which the platform provides.\<close>

definition GetEntryPriority :: "(bytes \<Rightarrow> int) \<Rightarrow> bytes \<Rightarrow> int" where
  "GetEntryPriority override e =
     (let ret = override e in
      if ret > 0 \<and> ret < 16 then ret
      else uint (shr (rd16 e ENT_gpt_att AND CGPT_ATTRIBUTE_PRIORITY_MASK) CGPT_ATTRIBUTE_PRIORITY_OFFSET))"

definition GetEntryTries :: "bytes \<Rightarrow> int" where
  "GetEntryTries e =
     uint (shr (rd16 e ENT_gpt_att AND CGPT_ATTRIBUTE_TRIES_MASK) CGPT_ATTRIBUTE_TRIES_OFFSET)"

definition SetEntrySuccessful :: "bytes \<Rightarrow> bool \<Rightarrow> bytes" where
  "SetEntrySuccessful e successful =
     wr16 e ENT_gpt_att
       (if successful then rd16 e ENT_gpt_att OR CGPT_ATTRIBUTE_SUCCESSFUL_MASK
        else rd16 e ENT_gpt_att AND NOT CGPT_ATTRIBUTE_SUCCESSFUL_MASK)"

definition SetEntryPriority :: "bytes \<Rightarrow> int \<Rightarrow> bytes" where
  "SetEntryPriority e priority =
     (let e = wr16 e ENT_gpt_att (rd16 e ENT_gpt_att AND NOT CGPT_ATTRIBUTE_PRIORITY_MASK)
      in wr16 e ENT_gpt_att (rd16 e ENT_gpt_att OR
           (shl (word_of_int priority) CGPT_ATTRIBUTE_PRIORITY_OFFSET AND CGPT_ATTRIBUTE_PRIORITY_MASK)))"

definition SetEntryTries :: "bytes \<Rightarrow> int \<Rightarrow> bytes" where
  "SetEntryTries e tries =
     (let e = wr16 e ENT_gpt_att (rd16 e ENT_gpt_att AND NOT CGPT_ATTRIBUTE_TRIES_MASK)
      in wr16 e ENT_gpt_att (rd16 e ENT_gpt_att OR
           (shl (word_of_int tries) CGPT_ATTRIBUTE_TRIES_OFFSET AND CGPT_ATTRIBUTE_TRIES_MASK)))"

definition GetCurrentKernelUniqueGuid :: "GptData \<Rightarrow> bytes" where
  "GetCurrentKernelUniqueGuid gpt = ent_unique (entry_at (primary_entries gpt) (nat (current_kernel gpt)))"

definition GptModified :: "GptData \<Rightarrow> GptData" where
  "GptModified gpt =
     (let header = primary_header gpt;
          header = wr32 header HDR_entries_crc32
            (Crc32 (primary_entries gpt) (rd32 header HDR_size_of_entry * rd32 header HDR_number_of_entries));
          header = wr32 header HDR_header_crc32 (HeaderCrc header);
          gpt = gpt\<lparr>primary_header := header, modified := modified gpt OR (GPT_MODIFIED_HEADER1 OR GPT_MODIFIED_ENTRIES1)\<rparr>
      in GptRepair (gpt\<lparr>valid_headers := MASK_PRIMARY, valid_entries := MASK_PRIMARY\<rparr>))"

section \<open>Finding and updating kernel entries (\<^verbatim>\<open>cgptlib.c\<close>)\<close>

definition GptInit :: "GptData \<Rightarrow> int \<times> GptData" where
  "GptInit gpt =
     (let gpt = gpt\<lparr>modified := 0, current_kernel := CGPT_KERNEL_ENTRY_NOT_FOUND, current_priority := 999\<rparr>;
          (retval, gpt) = GptSanityCheck gpt
      in if retval \<noteq> GPT_SUCCESS then (retval, gpt) else (GPT_SUCCESS, GptRepair gpt))"

abbreviation bootable :: "bytes \<Rightarrow> bool" where
  "bootable e \<equiv> GetEntrySuccessful e \<noteq> 0 \<or> GetEntryTries e \<noteq> 0"

text \<open>The two scans of GptNextKernelEntry(): the next kernel of the same priority, and the best of the rest.\<close>

fun next_same_priority :: "(bytes \<Rightarrow> int) \<Rightarrow> GptData \<Rightarrow> nat list \<Rightarrow> nat option" where
  "next_same_priority ov gpt [] = None"
| "next_same_priority ov gpt (i # is) =
     (let e = entry_at (primary_entries gpt) i in
      if \<not> IsKernelEntry e then next_same_priority ov gpt is
      else if \<not> bootable e then next_same_priority ov gpt is
      else if GetEntryPriority ov e = current_priority gpt then Some i
      else next_same_priority ov gpt is)"

definition best_below :: "(bytes \<Rightarrow> int) \<Rightarrow> GptData \<Rightarrow> nat list \<Rightarrow> int \<times> int" where
  "best_below ov gpt is =
     foldl (\<lambda>(new_kernel, new_prio) i.
       let e = entry_at (primary_entries gpt) i; current_prio = GetEntryPriority ov e in
       if \<not> IsKernelEntry e then (new_kernel, new_prio)
       else if \<not> bootable e then (new_kernel, new_prio)
       else if current_prio \<ge> current_priority gpt then (new_kernel, new_prio)
       else if current_prio > new_prio then (int i, current_prio) else (new_kernel, new_prio))
     (CGPT_KERNEL_ENTRY_NOT_FOUND, 0) is"

definition GptNextKernelEntry :: "(bytes \<Rightarrow> int) \<Rightarrow> GptData \<Rightarrow> int \<times> (u64 \<times> u64) option \<times> GptData" where
  "GptNextKernelEntry ov gpt =
     (let header = primary_header gpt;
          k = unat (rd32 header HDR_number_of_entries);
          found = (if current_kernel gpt \<noteq> CGPT_KERNEL_ENTRY_NOT_FOUND
                   then next_same_priority ov gpt [nat (current_kernel gpt + 1)..<k] else None)
      in case found of
        Some i \<Rightarrow>
          let e = entry_at (primary_entries gpt) i
          in (GPT_SUCCESS, Some (starting_lba e, ending_lba e - starting_lba e + 1), gpt\<lparr>current_kernel := int i\<rparr>)
      | None \<Rightarrow>
          let (new_kernel, new_prio) = best_below ov gpt [0..<k];
              gpt = gpt\<lparr>current_kernel := new_kernel, current_priority := new_prio\<rparr>
          in if new_kernel = CGPT_KERNEL_ENTRY_NOT_FOUND then (GPT_ERROR_NO_VALID_KERNEL, None, gpt)
             else let e = entry_at (primary_entries gpt) (nat new_kernel)
               in (GPT_SUCCESS, Some (starting_lba e, ending_lba e - starting_lba e + 1), gpt))"

text \<open>
  An entry pointer is the index of an entry of the primary table.  \<^verbatim>\<open>mark_bad\<close> is the branch that
  giving up on a partition and using up its last try share; its first result is \<^verbatim>\<open>modified\<close>.
\<close>

definition put_entry :: "GptData \<Rightarrow> nat \<Rightarrow> bytes \<Rightarrow> GptData" where
  "put_entry gpt i e = gpt\<lparr>primary_entries := copy_at (primary_entries gpt) (SIZEOF_GPT_ENTRY * i) e\<rparr>"

definition mark_bad :: "bytes \<Rightarrow> bool \<times> bytes" where
  "mark_bad e = (if GetEntrySuccessful e = 0 then (True, SetEntryPriority (SetEntryTries e 0) 0) else (False, e))"

definition GptUpdateKernelWithEntry :: "GptData \<Rightarrow> nat \<Rightarrow> u32 \<Rightarrow> int \<times> GptData" where
  "GptUpdateKernelWithEntry gpt i update_type =
     (let e = entry_at (primary_entries gpt) i
      in if \<not> IsKernelEntry e then (GPT_ERROR_INVALID_UPDATE_TYPE, gpt)
      else if update_type = GPT_UPDATE_ENTRY_TRY \<and> GetEntrySuccessful e \<noteq> 0 then (GPT_SUCCESS, gpt)
      else if update_type \<notin> {GPT_UPDATE_ENTRY_TRY, GPT_UPDATE_ENTRY_BAD, GPT_UPDATE_ENTRY_RESET, GPT_UPDATE_ENTRY_INVALID}
      then (GPT_ERROR_INVALID_UPDATE_TYPE, gpt)
      else let (changed, e) =
                 (if update_type = GPT_UPDATE_ENTRY_TRY then
                    if GetEntryTries e > 1 then (True, SetEntryTries e (GetEntryTries e - 1)) else mark_bad e
                  else if update_type = GPT_UPDATE_ENTRY_BAD then mark_bad e
                  else if update_type = GPT_UPDATE_ENTRY_RESET
                  then (True, SetEntrySuccessful (SetEntryPriority (SetEntryTries e 15) 1) True)
                  else (True, SetEntrySuccessful (SetEntryPriority (SetEntryTries e 0) 0) False))
      in if changed then (GPT_SUCCESS, GptModified (put_entry gpt i e)) else (GPT_SUCCESS, gpt))"

definition GptUpdateKernelEntry :: "GptData \<Rightarrow> u32 \<Rightarrow> int \<times> GptData" where
  "GptUpdateKernelEntry gpt update_type =
     (if current_kernel gpt = CGPT_KERNEL_ENTRY_NOT_FOUND then (GPT_ERROR_INVALID_UPDATE_TYPE, gpt)
      else GptUpdateKernelWithEntry gpt (nat (current_kernel gpt)) update_type)"

fun find_nth :: "bytes \<Rightarrow> bytes \<Rightarrow> nat \<Rightarrow> nat list \<Rightarrow> nat option" where
  "find_nth entries guid n [] = None"
| "find_nth entries guid n (i # is) =
     (if ent_type (entry_at entries i) = guid then
        if n = 0 then Some i else find_nth entries guid (n - 1) is
      else find_nth entries guid n is)"

definition GptFindNthEntry :: "GptData \<Rightarrow> bytes \<Rightarrow> nat \<Rightarrow> nat option" where
  "GptFindNthEntry gpt guid n =
     find_nth (primary_entries gpt) guid n [0..<unat (rd32 (primary_header gpt) HDR_number_of_entries)]"

definition GptGetEntrySizeLba :: "bytes \<Rightarrow> u64" where
  "GptGetEntrySizeLba e = ending_lba e - starting_lba e + 1"

definition GptGetEntrySizeBytes :: "GptData \<Rightarrow> bytes \<Rightarrow> u64" where
  "GptGetEntrySizeBytes gpt e = GptGetEntrySizeLba e * ucast (sector_bytes gpt)"

end
