(* ===== verification/Gpt_Check.thy ===== *)
theory Gpt_Check
  imports Gpt
begin

text \<open>
  What the checks of the partition table accept, and what GptRepair() makes of a table of which one
  copy is left.
\<close>

section \<open>Fields of a header\<close>

lemma length_wr64 [simp]: "length (wr64 bs i v) = length bs"
  by (simp add: wr64_def)

lemma nth_wr64_other [simp]: "k < i \<or> i + 7 < k \<Longrightarrow> wr64 bs i v ! k = bs ! k"
  by (auto simp: wr64_def)

lemma rd32_wr64_other [simp]: "off + 3 < i \<or> i + 7 < off \<Longrightarrow> rd32 (wr64 bs i v) off = rd32 bs off"
  by (auto simp: rd32_def)

lemma rd64_wr64_other [simp]: "off + 7 < i \<or> i + 7 < off \<Longrightarrow> rd64 (wr64 bs i v) off = rd64 bs off"
  by (auto simp: rd64_def)

lemma rd64_wr32_other [simp]: "off + 7 < i \<or> i + 3 < off \<Longrightarrow> rd64 (wr32 bs i v) off = rd64 bs off"
  by (auto simp: rd64_def)

lemma rd64_wr64 [simp]: "i + 7 < length bs \<Longrightarrow> rd64 (wr64 bs i v) i = v"
proof -
  assume "i + 7 < length bs"
  then have "rd32 (wr64 bs i v) i = ucast v" "rd32 (wr64 bs i v) (i + 4) = ucast (shr v 32)"
    by (simp_all add: wr64_def)
  moreover have "ucast (ucast v :: u32) OR shl (ucast (ucast (shr v 32) :: u32)) 32 = v"
    by (rule bit_word_eqI) (auto simp: bit_simps)
  ultimately show ?thesis by (simp add: rd64_def)
qed

lemma take_wr32 [simp]: "n \<le> i \<Longrightarrow> take n (wr32 bs i v) = take n bs"
  and take_wr64 [simp]: "n \<le> i \<Longrightarrow> take n (wr64 bs i w) = take n bs"
  by (rule nth_equalityI; simp)+

lemma slice_wr32 [simp]: "i + 3 < m \<or> m + n \<le> i \<Longrightarrow> take n (drop m (wr32 bs i v)) = take n (drop m bs)"
  and slice_wr64 [simp]: "i + 7 < m \<or> m + n \<le> i \<Longrightarrow> take n (drop m (wr64 bs i w)) = take n (drop m bs)"
  by (rule nth_equalityI; auto)+

lemma nth_copy_front: "k < n \<Longrightarrow> n \<le> length a \<Longrightarrow> copy_at b 0 (take n a) ! k = a ! k"
  by (simp add: copy_at_def nth_append)

lemma rd32_copy_front [simp]: "off + 3 < n \<Longrightarrow> n \<le> length a \<Longrightarrow> rd32 (copy_at b 0 (take n a)) off = rd32 a off"
  by (simp add: rd32_def nth_copy_front)

lemma rd64_copy_front [simp]: "off + 7 < n \<Longrightarrow> n \<le> length a \<Longrightarrow> rd64 (copy_at b 0 (take n a)) off = rd64 a off"
  by (simp add: rd64_def)

lemma take_copy_front [simp]: "m \<le> n \<Longrightarrow> n \<le> length a \<Longrightarrow> take m (copy_at b 0 (take n a)) = take m a"
  by (simp add: copy_at_def)

lemma slice_copy_front [simp]:
  "i + m \<le> n \<Longrightarrow> n \<le> length a \<Longrightarrow> take m (drop i (copy_at b 0 (take n a))) = take m (drop i a)"
  by (simp add: copy_at_def drop_take)

lemma length_copy_front [simp]: "n \<le> length a \<Longrightarrow> n \<le> length b \<Longrightarrow> length (copy_at b 0 (take n a)) = length b"
  by simp

section \<open>Valid headers\<close>

text \<open>What the two copies of a header have in common.\<close>

definition header_common :: "bytes \<Rightarrow> u64 \<Rightarrow> u32 \<Rightarrow> bool" where
  "header_common h sectors flags \<longleftrightarrow>
     (take 8 h = GPT_HEADER_SIGNATURE \<or> take 8 h = GPT_HEADER_SIGNATURE2) \<and>
     rd32 h HDR_revision = GPT_HEADER_REVISION \<and>
     MIN_SIZE_OF_HEADER \<le> rd32 h HDR_size \<and> rd32 h HDR_size \<le> MAX_SIZE_OF_HEADER \<and>
     rd32 h HDR_reserved_zero = 0 \<and> rd32 h HDR_size_of_entry = of_nat SIZEOF_GPT_ENTRY \<and>
     MIN_NUMBER_OF_ENTRIES \<le> rd32 h HDR_number_of_entries \<and> rd32 h HDR_number_of_entries \<le> MAX_NUMBER_OF_ENTRIES \<and>
     (flags AND GPT_FLAG_EXTERNAL = 0 \<longrightarrow> rd32 h HDR_number_of_entries = MAX_NUMBER_OF_ENTRIES) \<and>
     rd64 h HDR_first_usable_lba \<le> rd64 h HDR_last_usable_lba \<and>
     (if flags AND GPT_FLAG_EXTERNAL \<noteq> 0 then rd64 h HDR_last_usable_lba < sectors
      else 2 + CalculateEntriesSectors h \<le> rd64 h HDR_first_usable_lba \<and>
           rd64 h HDR_last_usable_lba < sectors - 1 - CalculateEntriesSectors h)"

definition header_place :: "bytes \<Rightarrow> bool \<Rightarrow> u64 \<Rightarrow> bool" where
  "header_place h is_secondary sectors \<longleftrightarrow>
     (if is_secondary then rd64 h HDR_my_lba = sectors - 1 \<and>
        rd64 h HDR_entries_lba = rd64 h HDR_my_lba - CalculateEntriesSectors h
      else rd64 h HDR_my_lba = 1 \<and> rd64 h HDR_my_lba + 1 \<le> rd64 h HDR_entries_lba)"

lemma if_one_eq_0: "(if c then 1 else x) = (0 :: int) \<longleftrightarrow> \<not> c \<and> x = 0"
  by simp

lemma CheckHeader_iff:
  "CheckHeader (Some h) sec st gs flags = 0 \<longleftrightarrow>
     header_common h st flags \<and> HeaderCrc h = rd32 h HDR_header_crc32 \<and> header_place h sec gs"
  unfolding CheckHeader_def option.case if_one_eq_0 header_common_def header_place_def not_less de_Morgan_disj de_Morgan_conj
  by (cases sec; cases "flags AND GPT_FLAG_EXTERNAL = 0"; simp only: simp_thms if_True if_False if_one_eq_0 not_le not_not;
    rule iffI; elim conjE; intro conjI; (assumption | simp))

lemma HeaderFieldsSame_iff:
  "HeaderFieldsSame h1 h2 = 0 \<longleftrightarrow>
     take 8 h1 = take 8 h2 \<and> rd32 h1 HDR_revision = rd32 h2 HDR_revision \<and> rd32 h1 HDR_size = rd32 h2 HDR_size \<and>
     rd32 h1 HDR_reserved_zero = rd32 h2 HDR_reserved_zero \<and>
     rd64 h1 HDR_first_usable_lba = rd64 h2 HDR_first_usable_lba \<and>
     rd64 h1 HDR_last_usable_lba = rd64 h2 HDR_last_usable_lba \<and>
     take 16 (drop HDR_disk_uuid h1) = take 16 (drop HDR_disk_uuid h2) \<and>
     rd32 h1 HDR_number_of_entries = rd32 h2 HDR_number_of_entries \<and>
     rd32 h1 HDR_size_of_entry = rd32 h2 HDR_size_of_entry \<and> rd32 h1 HDR_entries_crc32 = rd32 h2 HDR_entries_crc32"
  unfolding HeaderFieldsSame_def by auto

lemma header_common_same: "HeaderFieldsSame h1 h2 = 0 \<Longrightarrow> header_common h1 st flags = header_common h2 st flags"
  unfolding HeaderFieldsSame_iff header_common_def CalculateEntriesSectors_def entries_bytes_def by simp

lemma CheckEntries_same: "HeaderFieldsSame h1 h2 = 0 \<Longrightarrow> CheckEntries e h1 = CheckEntries e h2"
proof -
  assume s: "HeaderFieldsSame h1 h2 = 0"
  have "check_entries_from es h1 is = check_entries_from es h2 is" for es "is"
    using s by (induction "is") (simp_all add: HeaderFieldsSame_iff Let_def)
  then show ?thesis using s by (simp add: CheckEntries_def HeaderFieldsSame_iff split: option.split)
qed

lemma wr32_twice: "wr32 (wr32 bs i v) i w = wr32 bs i w"
  by (simp add: wr32_def list_update_swap)

lemma HeaderCrc_set: "HeaderCrc (wr32 h HDR_header_crc32 v) = HeaderCrc h"
  by (simp add: HeaderCrc_def wr32_twice)

text \<open>A header rebuilt from the other one.\<close>

definition rebuilt :: "bytes \<Rightarrow> bytes \<Rightarrow> u64 \<Rightarrow> u64 \<Rightarrow> u64 \<Rightarrow> bytes" where
  "rebuilt old h my alt ent =
     (let h' = wr64 (wr64 (wr64 (copy_at old 0 (take SIZEOF_GPT_HEADER h)) HDR_my_lba my) HDR_alternate_lba alt)
                 HDR_entries_lba ent
      in wr32 h' HDR_header_crc32 (HeaderCrc h'))"

lemma rebuilt_fields:
  assumes "length h = 512" and "length old = 512"
  shows "HeaderFieldsSame h (rebuilt old h my alt ent) = 0" and "HeaderFieldsSame (rebuilt old h my alt ent) h = 0"
    and "HeaderCrc (rebuilt old h my alt ent) = rd32 (rebuilt old h my alt ent) HDR_header_crc32"
    and "rd64 (rebuilt old h my alt ent) HDR_my_lba = my" and "rd64 (rebuilt old h my alt ent) HDR_entries_lba = ent"
    and "length (rebuilt old h my alt ent) = 512"
  using assms by (simp_all add: HeaderFieldsSame_iff rebuilt_def Let_def HeaderCrc_set)

lemma rebuilt_valid:
  assumes "length h = 512" and "length old = 512" and "header_common h st flags"
  shows "my = gs - 1 \<Longrightarrow> ent = my - CalculateEntriesSectors h \<Longrightarrow>
      CheckHeader (Some (rebuilt old h my alt ent)) True st gs flags = 0"
    and "my = 1 \<Longrightarrow> ent = my + 1 \<Longrightarrow> CheckHeader (Some (rebuilt old h my alt ent)) False st gs flags = 0"
proof -
  note f = rebuilt_fields [OF assms(1,2), of my alt ent]
  have c: "header_common (rebuilt old h my alt ent) st flags" using assms(3) header_common_same [OF f(1)] by simp
  have s: "CalculateEntriesSectors (rebuilt old h my alt ent) = CalculateEntriesSectors h"
    using f(1) by (simp add: HeaderFieldsSame_iff CalculateEntriesSectors_def entries_bytes_def)
  show "my = gs - 1 \<Longrightarrow> ent = my - CalculateEntriesSectors h \<Longrightarrow>
      CheckHeader (Some (rebuilt old h my alt ent)) True st gs flags = 0"
    using c s f by (simp add: CheckHeader_iff header_place_def)
  show "my = 1 \<Longrightarrow> ent = my + 1 \<Longrightarrow> CheckHeader (Some (rebuilt old h my alt ent)) False st gs flags = 0"
    using c f by (simp add: CheckHeader_iff header_place_def)
qed

section \<open>Valid entries\<close>

abbreviation entry_count :: "bytes \<Rightarrow> nat" where "entry_count h \<equiv> unat (rd32 h HDR_number_of_entries)"

definition used :: "bytes \<Rightarrow> nat \<Rightarrow> bool" where
  "used entries i \<longleftrightarrow> \<not> IsUnusedEntry (entry_at entries i)"

text \<open>Two partitions share no sector and have different identifiers.\<close>

definition separate :: "bytes \<Rightarrow> bytes \<Rightarrow> bool" where
  "separate a b \<longleftrightarrow> (ending_lba a < starting_lba b \<or> ending_lba b < starting_lba a) \<and> ent_unique a \<noteq> ent_unique b"

definition in_region :: "bytes \<Rightarrow> bytes \<Rightarrow> bool" where
  "in_region h e \<longleftrightarrow> rd64 h HDR_first_usable_lba \<le> starting_lba e \<and> starting_lba e \<le> ending_lba e \<and>
     ending_lba e \<le> rd64 h HDR_last_usable_lba"

lemma check_overlaps_iff:
  "check_overlaps entries i is = 0 \<longleftrightarrow>
     (\<forall>j \<in> set is. j \<noteq> i \<and> used entries j \<longrightarrow>
       \<not> (starting_lba (entry_at entries j) \<le> starting_lba (entry_at entries i) \<and>
          starting_lba (entry_at entries i) \<le> ending_lba (entry_at entries j)) \<and>
       \<not> (starting_lba (entry_at entries j) \<le> ending_lba (entry_at entries i) \<and>
          ending_lba (entry_at entries i) \<le> ending_lba (entry_at entries j)) \<and>
       ent_unique (entry_at entries i) \<noteq> ent_unique (entry_at entries j))"
  by (induction "is") (simp_all add: Let_def used_def)

lemma check_entries_from_iff:
  "check_entries_from entries h is = 0 \<longleftrightarrow>
     (\<forall>i \<in> set is. used entries i \<longrightarrow> in_region h (entry_at entries i) \<and>
       check_overlaps entries i [0..<entry_count h] = 0)"
  by (induction "is") (auto simp: Let_def used_def in_region_def not_less)

lemma ranges_separate:
  fixes s t s' t' :: u64
  assumes "s \<le> t" and "s' \<le> t'"
  shows "(\<not> (s' \<le> s \<and> s \<le> t') \<and> \<not> (s' \<le> t \<and> t \<le> t')) \<and> (\<not> (s \<le> s' \<and> s' \<le> t) \<and> \<not> (s \<le> t' \<and> t' \<le> t)) \<longleftrightarrow>
    t < s' \<or> t' < s"
  using assms by (cases "t < s'"; cases "t' < s") (auto simp: not_less)

text \<open>The entries are fine and the checksum is theirs.\<close>

definition entries_ok :: "bytes \<Rightarrow> bytes \<Rightarrow> bool" where
  "entries_ok h entries \<longleftrightarrow>
     Crc32 entries (rd32 h HDR_size_of_entry * rd32 h HDR_number_of_entries) = rd32 h HDR_entries_crc32 \<and>
     (\<forall>i < entry_count h. used entries i \<longrightarrow> in_region h (entry_at entries i)) \<and>
     (\<forall>i < entry_count h. \<forall>j < entry_count h. i \<noteq> j \<and> used entries i \<and> used entries j \<longrightarrow>
       separate (entry_at entries i) (entry_at entries j))"

lemma CheckEntries_iff: "CheckEntries (Some entries) h = 0 \<longleftrightarrow> entries_ok h entries"
proof -
  let ?n = "entry_count h" and ?e = "entry_at entries"
  have ov: "(\<forall>i<?n. used entries i \<longrightarrow> in_region h (?e i) \<and> check_overlaps entries i [0..<?n] = 0) \<longleftrightarrow>
      (\<forall>i<?n. used entries i \<longrightarrow> in_region h (?e i)) \<and>
      (\<forall>i<?n. \<forall>j<?n. i \<noteq> j \<and> used entries i \<and> used entries j \<longrightarrow> separate (?e i) (?e j))"
    (is "?l \<longleftrightarrow> ?r \<and> ?s")
  proof
    assume l: ?l
    then have ?r by blast
    moreover have "separate (?e i) (?e j)" if "i < ?n" "j < ?n" "i \<noteq> j" "used entries i" "used entries j" for i j
    proof -
      have "in_region h (?e i)" "in_region h (?e j)" "check_overlaps entries i [0..<?n] = 0" "check_overlaps entries j [0..<?n] = 0"
        using l that by blast+
      then show ?thesis
        using ranges_separate [of "starting_lba (?e i)" "ending_lba (?e i)" "starting_lba (?e j)" "ending_lba (?e j)"] that
        by (simp add: check_overlaps_iff separate_def in_region_def)
    qed
    ultimately show "?r \<and> ?s" by blast
  next
    assume rs: "?r \<and> ?s"
    have "check_overlaps entries i [0..<?n] = 0" if i: "i < ?n" "used entries i" for i
      unfolding check_overlaps_iff
    proof (intro ballI impI)
      fix j assume j: "j \<in> set [0..<?n]" "j \<noteq> i \<and> used entries j"
      then have "separate (?e i) (?e j)" "in_region h (?e i)" "in_region h (?e j)" using rs i by auto
      then show "\<not> (starting_lba (?e j) \<le> starting_lba (?e i) \<and> starting_lba (?e i) \<le> ending_lba (?e j)) \<and>
          \<not> (starting_lba (?e j) \<le> ending_lba (?e i) \<and> ending_lba (?e i) \<le> ending_lba (?e j)) \<and>
          ent_unique (?e i) \<noteq> ent_unique (?e j)"
        using ranges_separate [of "starting_lba (?e i)" "ending_lba (?e i)" "starting_lba (?e j)" "ending_lba (?e j)"]
        by (simp add: separate_def in_region_def)
    qed
    then show ?l using rs by blast
  qed
  show ?thesis unfolding CheckEntries_def option.case entries_ok_def
    by (simp add: check_entries_from_iff Ball_def ov [symmetric])
qed

text \<open>Only the bytes that hold the entries matter.\<close>

lemma entry_at_cong: "take (128 * n) a = take (128 * n) b \<Longrightarrow> i < n \<Longrightarrow> entry_at a i = entry_at b i"
proof -
  assume eq: "take (128 * n) a = take (128 * n) b" and i: "i < n"
  have "entry_at c i = take 128 (drop (128 * i) (take (128 * n) c))" for c
    using i by (simp add: entry_at_def drop_take min_def)
  then show ?thesis using eq by simp
qed

lemma header_common_count:
  assumes "header_common h st flags"
  shows "unat (rd32 h HDR_size_of_entry * rd32 h HDR_number_of_entries) = 128 * entry_count h"
    and "entry_count h \<le> 128"
proof -
  have n: "rd32 h HDR_number_of_entries \<le> 128" "rd32 h HDR_size_of_entry = 128"
    using assms by (simp_all add: header_common_def)
  then show le: "entry_count h \<le> 128" by (simp add: word_le_nat_alt)
  show "unat (rd32 h HDR_size_of_entry * rd32 h HDR_number_of_entries) = 128 * entry_count h"
    using n(2) le by (simp add: unat_word_ariths)
qed

lemma entries_ok_cong:
  assumes "header_common h st flags" and "take (128 * entry_count h) a = take (128 * entry_count h) b"
  shows "entries_ok h a \<longleftrightarrow> entries_ok h b"
proof -
  have "Crc32 a (rd32 h HDR_size_of_entry * rd32 h HDR_number_of_entries) =
      Crc32 b (rd32 h HDR_size_of_entry * rd32 h HDR_number_of_entries)"
    using assms(2) header_common_count(1) [OF assms(1)] by (simp add: Crc32_bytes)
  then show ?thesis
    using entry_at_cong [OF assms(2)] unfolding entries_ok_def used_def by simp
qed

section \<open>Repair\<close>

text \<open>Both copies of the table are valid and say the same.\<close>

definition gpt_shape :: "GptData \<Rightarrow> bool" where
  "gpt_shape gpt \<longleftrightarrow> length (primary_header gpt) = 512 \<and> length (secondary_header gpt) = 512 \<and>
     length (primary_entries gpt) = 16384 \<and> length (secondary_entries gpt) = 16384"

definition gpt_valid :: "GptData \<Rightarrow> bool" where
  "gpt_valid gpt \<longleftrightarrow> CheckParameters gpt = 0 \<and>
     CheckHeader (Some (primary_header gpt)) False (streaming_drive_sectors gpt) (gpt_drive_sectors gpt) (gpt_flags gpt) = 0 \<and>
     CheckHeader (Some (secondary_header gpt)) True (streaming_drive_sectors gpt) (gpt_drive_sectors gpt) (gpt_flags gpt) = 0 \<and>
     HeaderFieldsSame (primary_header gpt) (secondary_header gpt) = 0 \<and>
     entries_ok (primary_header gpt) (primary_entries gpt) \<and> entries_ok (primary_header gpt) (secondary_entries gpt)"

lemma CheckParameters_upd [simp]:
  "CheckParameters (g\<lparr>primary_header := x0\<rparr>) = CheckParameters g"
  "CheckParameters (g\<lparr>secondary_header := x1\<rparr>) = CheckParameters g"
  "CheckParameters (g\<lparr>primary_entries := x2\<rparr>) = CheckParameters g"
  "CheckParameters (g\<lparr>secondary_entries := x3\<rparr>) = CheckParameters g"
  "CheckParameters (g\<lparr>modified := x4\<rparr>) = CheckParameters g"
  "CheckParameters (g\<lparr>current_kernel := x5\<rparr>) = CheckParameters g"
  "CheckParameters (g\<lparr>current_priority := x6\<rparr>) = CheckParameters g"
  "CheckParameters (g\<lparr>valid_headers := x7\<rparr>) = CheckParameters g"
  "CheckParameters (g\<lparr>valid_entries := x8\<rparr>) = CheckParameters g"
  unfolding CheckParameters_def by simp_all

lemma valid_sanity:
  "gpt_valid gpt \<Longrightarrow> GptSanityCheck gpt = (GPT_SUCCESS, gpt\<lparr>valid_headers := MASK_BOTH, valid_entries := MASK_BOTH\<rparr>)"
  by (simp add: GptSanityCheck_def headers_mask_def entries_mask_def gpt_valid_def CheckEntries_iff Let_def)

text \<open>What GptSanityCheck() leaves for GptRepair(): one good header and entries that match it.\<close>

definition good_entries :: "GptData \<Rightarrow> bytes \<Rightarrow> u32 \<Rightarrow> bool" where
  "good_entries gpt h ve \<longleftrightarrow>
     ve = MASK_PRIMARY \<and> entries_ok h (primary_entries gpt) \<or> ve = MASK_SECONDARY \<and> entries_ok h (secondary_entries gpt) \<or>
     ve = MASK_BOTH \<and> entries_ok h (primary_entries gpt) \<and> entries_ok h (secondary_entries gpt)"

definition primary_ok :: "GptData \<Rightarrow> bool" where
  "primary_ok gpt \<longleftrightarrow>
     CheckHeader (Some (primary_header gpt)) False (streaming_drive_sectors gpt) (gpt_drive_sectors gpt) (gpt_flags gpt) = 0"

definition secondary_ok :: "GptData \<Rightarrow> bool" where
  "secondary_ok gpt \<longleftrightarrow>
     CheckHeader (Some (secondary_header gpt)) True (streaming_drive_sectors gpt) (gpt_drive_sectors gpt) (gpt_flags gpt) = 0"

definition good_headers :: "GptData \<Rightarrow> u32 \<Rightarrow> bool" where
  "good_headers gpt vh \<longleftrightarrow> vh = MASK_PRIMARY \<and> primary_ok gpt \<or> vh = MASK_SECONDARY \<and> secondary_ok gpt \<or>
     vh = MASK_BOTH \<and> primary_ok gpt \<and> secondary_ok gpt \<and> HeaderFieldsSame (primary_header gpt) (secondary_header gpt) = 0"

lemma headers_mask_eq:
  "headers_mask gpt = (if primary_ok gpt then if secondary_ok gpt then MASK_BOTH else MASK_PRIMARY
     else if secondary_ok gpt then MASK_SECONDARY else MASK_NONE)"
  by (simp add: headers_mask_def primary_ok_def secondary_ok_def)

lemma entries_mask_good: "entries_mask gpt h = 0 \<or> good_entries gpt h (entries_mask gpt h)"
  by (simp add: entries_mask_def good_entries_def CheckEntries_iff)

lemma sanity_good:
  assumes "GptSanityCheck gpt = (GPT_SUCCESS, g)"
  obtains vh ve where "g = gpt\<lparr>valid_headers := vh, valid_entries := ve\<rparr>" and "CheckParameters gpt = 0"
    and "good_headers gpt vh" and "good_entries gpt (if vh = MASK_SECONDARY then secondary_header gpt else primary_header gpt) ve"
proof -
  let ?good = "if headers_mask gpt AND MASK_PRIMARY \<noteq> 0 then primary_header gpt else secondary_header gpt"
  define e where "e = entries_mask gpt ?good"
  define e2 where "e2 = entries_mask gpt (secondary_header gpt)"
  define vh where "vh = (if headers_mask gpt = MASK_BOTH \<and> e = 0 then MASK_SECONDARY
     else if headers_mask gpt = MASK_BOTH \<and> HeaderFieldsSame (primary_header gpt) (secondary_header gpt) \<noteq> 0
     then MASK_PRIMARY else headers_mask gpt)"
  define ve where "ve = (if headers_mask gpt = MASK_BOTH \<and> e = 0 then e2 else e)"
  have par: "CheckParameters gpt = 0" using assms by (auto simp: GptSanityCheck_def Let_def split: if_splits)
  have g: "g = gpt\<lparr>valid_headers := vh, valid_entries := ve\<rparr>" and nz: "headers_mask gpt \<noteq> 0" "ve \<noteq> 0"
    using assms par unfolding GptSanityCheck_def vh_def ve_def
    by (auto simp: Let_def e_def e2_def headers_mask_eq split: if_splits)
  have "good_headers gpt vh"
    using nz(1) by (simp add: good_headers_def vh_def headers_mask_eq split: if_splits)
  moreover have "good_entries gpt (if vh = MASK_SECONDARY then secondary_header gpt else primary_header gpt) ve"
    using nz entries_mask_good [of gpt "primary_header gpt"] entries_mask_good [of gpt "secondary_header gpt"]
    by (simp add: vh_def ve_def e_def e2_def headers_mask_eq split: if_splits)
  ultimately show ?thesis using that g par by blast
qed

definition fixed_headers :: "GptData \<Rightarrow> bytes \<times> bytes" where
  "fixed_headers g =
     (let h1 = primary_header g; h2 = secondary_header g in
      if valid_headers g = MASK_PRIMARY
      then (h1, rebuilt h2 h1 (gpt_drive_sectors g - 1) 1 (gpt_drive_sectors g - 1 - CalculateEntriesSectors h1))
      else if valid_headers g = MASK_SECONDARY then (rebuilt h1 h2 1 (streaming_drive_sectors g - 1) (1 + 1), h2)
      else (h1, h2))"

definition fixed_entries :: "GptData \<Rightarrow> nat \<Rightarrow> bytes \<times> bytes" where
  "fixed_entries g k =
     (let e1 = primary_entries g; e2 = secondary_entries g in
      if valid_entries g = MASK_PRIMARY then (e1, copy_at e2 0 (take k e1))
      else if valid_entries g = MASK_SECONDARY then (copy_at e1 0 (take k e2), e2) else (e1, e2))"

lemma GptRepair_eq:
  assumes "gpt_shape g" and "valid_headers g \<noteq> 0" and "valid_entries g \<noteq> 0"
  obtains md where "GptRepair g =
    (let (ph, sh) = fixed_headers g;
         (pe, se) = fixed_entries g (unat (rd32 ph HDR_size_of_entry * rd32 ph HDR_number_of_entries))
     in g\<lparr>primary_header := ph, secondary_header := sh, primary_entries := pe, secondary_entries := se,
          modified := md, valid_headers := MASK_BOTH, valid_entries := MASK_BOTH\<rparr>)"
proof
  let ?m1 = "if valid_headers g = MASK_PRIMARY then modified g OR GPT_MODIFIED_HEADER2
    else if valid_headers g = MASK_SECONDARY then modified g OR GPT_MODIFIED_HEADER1 else modified g"
  let ?m2 = "if valid_entries g = MASK_PRIMARY then ?m1 OR GPT_MODIFIED_ENTRIES2
    else if valid_entries g = MASK_SECONDARY then ?m1 OR GPT_MODIFIED_ENTRIES1 else ?m1"
  show "GptRepair g =
    (let (ph, sh) = fixed_headers g;
         (pe, se) = fixed_entries g (unat (rd32 ph HDR_size_of_entry * rd32 ph HDR_number_of_entries))
     in g\<lparr>primary_header := ph, secondary_header := sh, primary_entries := pe, secondary_entries := se,
          modified := ?m2, valid_headers := MASK_BOTH, valid_entries := MASK_BOTH\<rparr>)"
    using assms unfolding GptRepair_def fixed_headers_def fixed_entries_def rebuilt_def Let_def
    by (cases "valid_headers g = MASK_PRIMARY"; cases "valid_headers g = MASK_SECONDARY";
        cases "valid_entries g = MASK_PRIMARY"; cases "valid_entries g = MASK_SECONDARY") (simp_all add: gpt_shape_def)
qed

lemma HeaderFieldsSame_refl: "HeaderFieldsSame h h = 0"
  by (simp add: HeaderFieldsSame_iff)

lemma fixed_headers_ok:
  assumes shape: "gpt_shape g" and good: "good_headers g (valid_headers g)" and f: "fixed_headers g = (ph, sh)"
  shows "CheckHeader (Some ph) False (streaming_drive_sectors g) (gpt_drive_sectors g) (gpt_flags g) = 0"
    and "CheckHeader (Some sh) True (streaming_drive_sectors g) (gpt_drive_sectors g) (gpt_flags g) = 0"
    and "HeaderFieldsSame ph sh = 0"
    and "HeaderFieldsSame ph (if valid_headers g = MASK_SECONDARY then secondary_header g else primary_header g) = 0"
    and "length ph = 512" and "length sh = 512"
proof -
  have l: "length (primary_header g) = 512" "length (secondary_header g) = 512" using shape by (simp_all add: gpt_shape_def)
  note r1 = rebuilt_valid(1) [OF l] and r2 = rebuilt_valid(2) [OF l(2,1)]
  note f1 = rebuilt_fields [OF l] and f2 = rebuilt_fields [OF l(2,1)]
  consider "valid_headers g = MASK_PRIMARY" "primary_ok g" | "valid_headers g = MASK_SECONDARY" "secondary_ok g"
    | "valid_headers g = MASK_BOTH" "primary_ok g" "secondary_ok g" "HeaderFieldsSame (primary_header g) (secondary_header g) = 0"
    using good by (auto simp: good_headers_def)
  then have "CheckHeader (Some ph) False (streaming_drive_sectors g) (gpt_drive_sectors g) (gpt_flags g) = 0 \<and>
    CheckHeader (Some sh) True (streaming_drive_sectors g) (gpt_drive_sectors g) (gpt_flags g) = 0 \<and>
    HeaderFieldsSame ph sh = 0 \<and>
    HeaderFieldsSame ph (if valid_headers g = MASK_SECONDARY then secondary_header g else primary_header g) = 0 \<and>
    length ph = 512 \<and> length sh = 512"
  proof cases
    case 1
    then have "header_common (primary_header g) (streaming_drive_sectors g) (gpt_flags g)"
      by (simp add: primary_ok_def CheckHeader_iff)
    then show ?thesis using 1 f l r1 f1 by (auto simp: fixed_headers_def Let_def primary_ok_def HeaderFieldsSame_refl)
  next
    case 2
    then have "header_common (secondary_header g) (streaming_drive_sectors g) (gpt_flags g)"
      by (simp add: secondary_ok_def CheckHeader_iff)
    then show ?thesis using 2 f l r2 f2 by (auto simp: fixed_headers_def Let_def secondary_ok_def)
  next
    case 3
    then show ?thesis using f l by (auto simp: fixed_headers_def Let_def primary_ok_def secondary_ok_def HeaderFieldsSame_refl)
  qed
  then show "CheckHeader (Some ph) False (streaming_drive_sectors g) (gpt_drive_sectors g) (gpt_flags g) = 0"
    "CheckHeader (Some sh) True (streaming_drive_sectors g) (gpt_drive_sectors g) (gpt_flags g) = 0"
    "HeaderFieldsSame ph sh = 0"
    "HeaderFieldsSame ph (if valid_headers g = MASK_SECONDARY then secondary_header g else primary_header g) = 0"
    "length ph = 512" "length sh = 512" by blast+
qed

lemma repair_valid:
  assumes shape: "gpt_shape g" and par: "CheckParameters g = 0" and gh: "good_headers g (valid_headers g)"
    and ge: "good_entries g (if valid_headers g = MASK_SECONDARY then secondary_header g else primary_header g) (valid_entries g)"
  shows "gpt_valid (GptRepair g) \<and> gpt_shape (GptRepair g)"
proof -
  have nz: "valid_headers g \<noteq> 0" "valid_entries g \<noteq> 0" using gh ge by (auto simp: good_headers_def good_entries_def)
  obtain ph sh where f: "fixed_headers g = (ph, sh)" by fastforce
  note h = fixed_headers_ok [OF shape gh f]
  let ?good = "if valid_headers g = MASK_SECONDARY then secondary_header g else primary_header g"
  let ?k = "unat (rd32 ph HDR_size_of_entry * rd32 ph HDR_number_of_entries)"
  have com: "header_common ph (streaming_drive_sectors g) (gpt_flags g)" using h(1) by (simp add: CheckHeader_iff)
  note k = header_common_count [OF com]
  have eok: "entries_ok ?good e = entries_ok ph e" for e
    unfolding CheckEntries_iff [symmetric] CheckEntries_same [OF h(4)] ..
  obtain pe se where e: "fixed_entries g ?k = (pe, se)" by fastforce
  have le: "?k \<le> 16384" using k by simp
  have l: "length (primary_entries g) = 16384" "length (secondary_entries g) = 16384" using shape by (simp_all add: gpt_shape_def)
  have c: "entries_ok ph (copy_at a 0 (take ?k b)) \<longleftrightarrow> entries_ok ph b" if "length b = 16384" for a b
    by (rule entries_ok_cong [OF com]) (use that le k in simp)
  have "entries_ok ph pe \<and> entries_ok ph se \<and> length pe = 16384 \<and> length se = 16384"
    using ge e l le c unfolding good_entries_def eok by (auto simp: fixed_entries_def Let_def split: if_splits)
  moreover obtain md where "GptRepair g = g\<lparr>primary_header := ph, secondary_header := sh, primary_entries := pe,
      secondary_entries := se, modified := md, valid_headers := MASK_BOTH, valid_entries := MASK_BOTH\<rparr>"
    using GptRepair_eq [OF shape nz] f e by (auto simp: Let_def)
  ultimately show ?thesis
    using h par by (simp add: gpt_valid_def gpt_shape_def)
qed

lemma GptInit_valid:
  assumes "gpt_shape gpt" and "GptInit gpt = (GPT_SUCCESS, g)"
  shows "gpt_valid g" and "gpt_shape g"
proof -
  let ?g0 = "gpt\<lparr>modified := 0, current_kernel := CGPT_KERNEL_ENTRY_NOT_FOUND, current_priority := 999\<rparr>"
  obtain g1 where s: "GptSanityCheck ?g0 = (GPT_SUCCESS, g1)" and g: "g = GptRepair g1"
    using assms(2) by (auto simp: GptInit_def Let_def split: prod.splits if_splits)
  obtain vh ve where "g1 = ?g0\<lparr>valid_headers := vh, valid_entries := ve\<rparr>" "CheckParameters ?g0 = 0"
    "good_headers ?g0 vh" "good_entries ?g0 (if vh = MASK_SECONDARY then secondary_header ?g0 else primary_header ?g0) ve"
    using s by (rule sanity_good)
  then have "gpt_valid (GptRepair g1) \<and> gpt_shape (GptRepair g1)"
    using assms(1) by (intro repair_valid)
      (simp_all add: gpt_shape_def good_headers_def primary_ok_def secondary_ok_def good_entries_def cong: if_cong)
  then show "gpt_valid g" "gpt_shape g" unfolding g by blast+
qed

end
