(* ===== verification/Gpt_Kernels.thy ===== *)
theory Gpt_Kernels
  imports Gpt_Check
begin

text \<open>
  The kernels of a valid table: the attributes an update changes, the validity an update keeps, and
  the order in which GptNextKernelEntry() offers the kernels.
\<close>

section \<open>Kernel attributes\<close>

lemma bit_att:
  "bit (0xf0 :: u16) n \<longleftrightarrow> 4 \<le> n \<and> n < 8" "bit (0xf :: u16) n \<longleftrightarrow> n < 4" "bit (0x100 :: u16) n \<longleftrightarrow> n = 8"
proof -
  have m: "(0xf0 :: u16) = push_bit 4 (mask 4)" "(0xf :: u16) = mask 4"
    by (simp_all add: mask_eq_exp_minus_1)
  show "bit (0xf0 :: u16) n \<longleftrightarrow> 4 \<le> n \<and> n < 8" "bit (0xf :: u16) n \<longleftrightarrow> n < 4"
    unfolding m by (auto simp: bit_push_bit_iff bit_mask_iff)
  have "(0x100 :: u16) = 2 ^ 8" by simp
  then show "bit (0x100 :: u16) n \<longleftrightarrow> n = 8" by (simp only: bit_exp_iff) auto
qed

lemma att_not: "(-241 :: u16) = NOT 0xf0" "(-16 :: u16) = NOT 0xf" "(-257 :: u16) = NOT 0x100"
  by simp_all

lemma att_bits:
  fixes a t :: u16
  shows "shr ((a AND -241 OR shl t 4 AND 0xf0) AND 0xf0) 4 = t AND 0xf"
    and "(a AND -241 OR shl t 4 AND 0xf0) AND 0xf = a AND 0xf"
    and "(a AND -241 OR shl t 4 AND 0xf0) AND 0x100 = a AND 0x100"
    and "(a AND -16 OR t AND 0xf) AND 0xf0 = a AND 0xf0"
    and "(a AND -16 OR t AND 0xf) AND 0xf = t AND 0xf"
    and "(a AND -16 OR t AND 0xf) AND 0x100 = a AND 0x100"
    and "(a OR 0x100) AND 0xf0 = a AND 0xf0" and "(a OR 0x100) AND 0xf = a AND 0xf"
    and "(a AND -257) AND 0xf0 = a AND 0xf0" and "(a AND -257) AND 0xf = a AND 0xf"
    and "(a AND -257) AND 0x100 = 0"
  unfolding att_not
  by (rule bit_word_eqI; simp only: bit_and_iff bit_or_iff bit_not_iff_eq bit_shl bit_shr bit_att bit_0_eq; fastforce)+

lemma rd16_wr16 [simp]: "i + 1 < length bs \<Longrightarrow> rd16 (wr16 bs i v) i = v"
  by (rule bit_word_eqI) (auto simp: rd16_def wr16_def bit_simps)

lemma length_wr16 [simp]: "length (wr16 bs i v) = length bs"
  by (simp add: wr16_def)

lemma length_SetEntry [simp]:
  "length (SetEntryTries e t) = length e" "length (SetEntryPriority e t) = length e" "length (SetEntrySuccessful e b) = length e"
  by (simp_all add: SetEntryTries_def SetEntryPriority_def SetEntrySuccessful_def Let_def)

abbreviation stored_priority :: "bytes \<Rightarrow> int" where "stored_priority \<equiv> GetEntryPriority (\<lambda>_. 0)"

lemma and_15_int: "(t :: int) AND 15 = t mod 16"
  using take_bit_eq_mask [of 4 t] by (simp add: take_bit_eq_mod mask_eq_exp_minus_1)

lemma mask4_int: "0 \<le> t \<Longrightarrow> t < 16 \<Longrightarrow> uint (word_of_int t AND 0xf :: u16) = t"
  by (simp add: uint_and and_15_int uint_word_of_int)

lemma shl_0_right: "shl x 0 = x"
  by (simp add: shl_def)

lemma shr_256: "uint (shr (0x100 :: u16) 8) = 1"
  by (simp add: shr_def)

lemma Get_Set:
  assumes "length e = 128"
  shows "0 \<le> t \<Longrightarrow> t < 16 \<Longrightarrow> GetEntryTries (SetEntryTries e t) = t"
    and "stored_priority (SetEntryTries e t) = stored_priority e"
    and "GetEntrySuccessful (SetEntryTries e t) = GetEntrySuccessful e"
    and "GetEntryTries (SetEntryPriority e t) = GetEntryTries e"
    and "0 \<le> t \<Longrightarrow> t < 16 \<Longrightarrow> stored_priority (SetEntryPriority e t) = t"
    and "GetEntrySuccessful (SetEntryPriority e t) = GetEntrySuccessful e"
    and "GetEntryTries (SetEntrySuccessful e b) = GetEntryTries e"
    and "stored_priority (SetEntrySuccessful e b) = stored_priority e"
    and "GetEntrySuccessful (SetEntrySuccessful e b) = (if b then 1 else 0)"
  using assms shl_0_right [of "word_of_int t :: u16"] shr_256
  by (simp_all add: GetEntryTries_def GetEntryPriority_def GetEntrySuccessful_def SetEntryTries_def SetEntryPriority_def
    SetEntrySuccessful_def Let_def att_bits mask4_int)

text \<open>An update changes nothing of an entry but its attributes.\<close>

definition same_partition :: "bytes \<Rightarrow> bytes \<Rightarrow> bool" where
  "same_partition a b \<longleftrightarrow> ent_type a = ent_type b \<and> ent_unique a = ent_unique b \<and>
     starting_lba a = starting_lba b \<and> ending_lba a = ending_lba b"

lemma slice_update: "i < m \<or> m + n \<le> i \<Longrightarrow> take n (drop m (xs[i := v])) = take n (drop m xs)"
  by (rule nth_equalityI) (auto simp: nth_list_update)

lemma same_partition_wr16 [simp]: "same_partition (wr16 e ENT_gpt_att v) e"
  by (simp add: slice_update same_partition_def ent_type_def ent_unique_def starting_lba_def ending_lba_def rd64_def rd32_def wr16_def)

lemma same_partition_trans: "same_partition a b \<Longrightarrow> same_partition b c \<Longrightarrow> same_partition a c"
  by (simp add: same_partition_def)

lemma same_partition_refl: "same_partition a a"
  by (simp add: same_partition_def)

lemma same_partition_Set:
  "same_partition (SetEntryTries e t) e" "same_partition (SetEntryPriority e t) e" "same_partition (SetEntrySuccessful e b) e"
  unfolding SetEntryTries_def SetEntryPriority_def SetEntrySuccessful_def Let_def
  by (blast intro: same_partition_wr16 same_partition_trans)+

text \<open>What an update does to the success flag, the priority and the tries.\<close>

definition attrs :: "bytes \<Rightarrow> int \<times> int \<times> int" where
  "attrs e = (GetEntrySuccessful e, stored_priority e, GetEntryTries e)"

fun kernel_update :: "u32 \<Rightarrow> int \<times> int \<times> int \<Rightarrow> int \<times> int \<times> int" where
  "kernel_update t (successful, priority, tries) =
     (if t = GPT_UPDATE_ENTRY_RESET then (1, 1, 15)
      else if t = GPT_UPDATE_ENTRY_INVALID then (0, 0, 0)
      else if successful \<noteq> 0 then (successful, priority, tries)
      else if t = GPT_UPDATE_ENTRY_TRY \<and> tries > 1 then (0, priority, tries - 1)
      else (0, 0, 0))"

lemma GetEntryTries_bounds: "0 \<le> GetEntryTries e" "GetEntryTries e < 16"
proof -
  have "shr (rd16 e ENT_gpt_att AND 0xf0) 4 = drop_bit 4 (rd16 e ENT_gpt_att) AND 0xf"
    by (rule bit_word_eqI; simp only: bit_and_iff bit_shr bit_drop_bit_eq bit_att; fastforce)
  then show "0 \<le> GetEntryTries e" "GetEntryTries e < 16"
    unfolding GetEntryTries_def by (simp_all add: uint_and and_15_int)
qed

text \<open>The new entry of an update.\<close>

definition updated_entry :: "u32 \<Rightarrow> bytes \<Rightarrow> bool \<times> bytes" where
  "updated_entry t e =
     (if t = GPT_UPDATE_ENTRY_TRY then
        if GetEntryTries e > 1 then (True, SetEntryTries e (GetEntryTries e - 1)) else mark_bad e
      else if t = GPT_UPDATE_ENTRY_BAD then mark_bad e
      else if t = GPT_UPDATE_ENTRY_RESET then (True, SetEntrySuccessful (SetEntryPriority (SetEntryTries e 15) 1) True)
      else (True, SetEntrySuccessful (SetEntryPriority (SetEntryTries e 0) 0) False))"

lemma updated_entry_ok:
  assumes "length e = 128" and "\<not> (t = GPT_UPDATE_ENTRY_TRY \<and> GetEntrySuccessful e \<noteq> 0)"
    and "t \<in> {GPT_UPDATE_ENTRY_TRY, GPT_UPDATE_ENTRY_BAD, GPT_UPDATE_ENTRY_RESET, GPT_UPDATE_ENTRY_INVALID}"
    and "updated_entry t e = (c, e')"
  shows "attrs e' = kernel_update t (attrs e)" and "same_partition e' e" and "length e' = 128" and "\<not> c \<Longrightarrow> e' = e"
proof -
  note b = GetEntryTries_bounds [of e]
  show "attrs e' = kernel_update t (attrs e)"
    using assms b by (auto simp: updated_entry_def mark_bad_def attrs_def Get_Set split: if_splits)
  show "same_partition e' e"
    using assms(4) unfolding updated_entry_def mark_bad_def
    by (auto split: if_splits intro: same_partition_refl same_partition_Set
      same_partition_trans [OF same_partition_Set(3) same_partition_trans [OF same_partition_Set(2) same_partition_Set(1)]]
      same_partition_trans [OF same_partition_Set(2) same_partition_Set(1)])
  show "length e' = 128" "\<not> c \<Longrightarrow> e' = e"
    using assms by (auto simp: updated_entry_def mark_bad_def split: if_splits)
qed

section \<open>Updating an entry\<close>

lemma GptUpdateKernelWithEntry_eq:
  "GptUpdateKernelWithEntry gpt i t =
     (let e = entry_at (primary_entries gpt) i
      in if \<not> IsKernelEntry e then (GPT_ERROR_INVALID_UPDATE_TYPE, gpt)
      else if t = GPT_UPDATE_ENTRY_TRY \<and> GetEntrySuccessful e \<noteq> 0 then (GPT_SUCCESS, gpt)
      else if t \<notin> {GPT_UPDATE_ENTRY_TRY, GPT_UPDATE_ENTRY_BAD, GPT_UPDATE_ENTRY_RESET, GPT_UPDATE_ENTRY_INVALID}
      then (GPT_ERROR_INVALID_UPDATE_TYPE, gpt)
      else let (changed, e) = updated_entry t e
        in if changed then (GPT_SUCCESS, GptModified (put_entry gpt i e)) else (GPT_SUCCESS, gpt))"
  unfolding GptUpdateKernelWithEntry_def updated_entry_def Let_def by (rule refl)

definition layout_ok :: "bytes \<Rightarrow> bytes \<Rightarrow> bool" where
  "layout_ok h entries \<longleftrightarrow>
     (\<forall>i < entry_count h. used entries i \<longrightarrow> in_region h (entry_at entries i)) \<and>
     (\<forall>i < entry_count h. \<forall>j < entry_count h. i \<noteq> j \<and> used entries i \<and> used entries j \<longrightarrow>
       separate (entry_at entries i) (entry_at entries j))"

lemma entries_ok_layout:
  "entries_ok h entries \<longleftrightarrow>
     Crc32 entries (rd32 h HDR_size_of_entry * rd32 h HDR_number_of_entries) = rd32 h HDR_entries_crc32 \<and> layout_ok h entries"
  by (simp add: entries_ok_def layout_ok_def)

lemma layout_ok_same:
  assumes "\<And>i. i < entry_count h \<Longrightarrow> same_partition (entry_at a i) (entry_at b i)" and "layout_ok h b"
  shows "layout_ok h a"
proof -
  have "used a i = used b i" "in_region h (entry_at a i) = in_region h (entry_at b i)"
    if "i < entry_count h" for i
    using assms(1) [OF that] by (simp_all add: same_partition_def used_def IsUnusedEntry_def in_region_def)
  moreover have "separate (entry_at a i) (entry_at a j) = separate (entry_at b i) (entry_at b j)"
    if "i < entry_count h" "j < entry_count h" for i j
    using assms(1) [OF that(1)] assms(1) [OF that(2)] by (simp add: same_partition_def separate_def)
  ultimately show ?thesis using assms(2) unfolding layout_ok_def by blast
qed

text \<open>The header with the new checksum of its entries.\<close>

definition resealed :: "bytes \<Rightarrow> u32 \<Rightarrow> bytes" where
  "resealed h c = (let h' = wr32 h HDR_entries_crc32 c in wr32 h' HDR_header_crc32 (HeaderCrc h'))"

lemma resealed_fields [simp]:
  assumes "length h = 512"
  shows "length (resealed h c) = 512" "take 8 (resealed h c) = take 8 h"
    "rd32 (resealed h c) HDR_revision = rd32 h HDR_revision" "rd32 (resealed h c) HDR_size = rd32 h HDR_size"
    "rd32 (resealed h c) HDR_reserved_zero = rd32 h HDR_reserved_zero"
    "rd64 (resealed h c) HDR_my_lba = rd64 h HDR_my_lba"
    "rd64 (resealed h c) HDR_first_usable_lba = rd64 h HDR_first_usable_lba"
    "rd64 (resealed h c) HDR_last_usable_lba = rd64 h HDR_last_usable_lba"
    "rd64 (resealed h c) HDR_entries_lba = rd64 h HDR_entries_lba"
    "rd32 (resealed h c) HDR_number_of_entries = rd32 h HDR_number_of_entries"
    "rd32 (resealed h c) HDR_size_of_entry = rd32 h HDR_size_of_entry"
    "rd32 (resealed h c) HDR_entries_crc32 = c"
    "HeaderCrc (resealed h c) = rd32 (resealed h c) HDR_header_crc32"
  using assms by (simp_all add: resealed_def Let_def HeaderCrc_set)

lemma resealed_valid:
  assumes "length h = 512" and "CheckHeader (Some h) sec st gs flags = 0"
  shows "CheckHeader (Some (resealed h c)) sec st gs flags = 0"
proof -
  note f = resealed_fields [OF assms(1)]
  have "header_common (resealed h c) st flags = header_common h st flags" "header_place (resealed h c) sec gs = header_place h sec gs"
    unfolding header_common_def header_place_def CalculateEntriesSectors_def entries_bytes_def f by (rule refl)+
  then show ?thesis using assms(2) f unfolding CheckHeader_iff by simp
qed

lemma GptModified_ok:
  assumes shape: "gpt_shape g" and par: "CheckParameters g = 0" and hdr: "primary_ok g"
    and lay: "layout_ok (primary_header g) (primary_entries g)"
  shows "gpt_valid (GptModified g) \<and> gpt_shape (GptModified g) \<and> primary_entries (GptModified g) = primary_entries g \<and>
    current_kernel (GptModified g) = current_kernel g \<and> current_priority (GptModified g) = current_priority g"
proof -
  let ?h = "primary_header g"
  let ?c = "Crc32 (primary_entries g) (rd32 ?h HDR_size_of_entry * rd32 ?h HDR_number_of_entries)"
  define g1 where "g1 = g\<lparr>primary_header := resealed ?h ?c,
    modified := modified g OR (GPT_MODIFIED_HEADER1 OR GPT_MODIFIED_ENTRIES1),
    valid_headers := MASK_PRIMARY, valid_entries := MASK_PRIMARY\<rparr>"
  have eq: "GptModified g = GptRepair g1"
    by (simp add: GptModified_def g1_def resealed_def Let_def)
  have l: "length ?h = 512" using shape by (simp add: gpt_shape_def)
  have g1: "gpt_shape g1" "CheckParameters g1 = 0" "valid_headers g1 = MASK_PRIMARY" "valid_entries g1 = MASK_PRIMARY"
    using shape par l by (simp_all add: g1_def gpt_shape_def)
  have "primary_ok g1" using hdr resealed_valid [OF l] by (simp add: primary_ok_def g1_def)
  moreover have "entries_ok (primary_header g1) (primary_entries g1)"
    using lay l unfolding entries_ok_layout layout_ok_def in_region_def g1_def by simp
  ultimately have "gpt_valid (GptRepair g1) \<and> gpt_shape (GptRepair g1)"
    using g1 by (intro repair_valid) (simp_all add: good_headers_def good_entries_def)
  moreover obtain md where "GptRepair g1 =
    (let (ph, sh) = fixed_headers g1;
         (pe, se) = fixed_entries g1 (unat (rd32 ph HDR_size_of_entry * rd32 ph HDR_number_of_entries))
     in g1\<lparr>primary_header := ph, secondary_header := sh, primary_entries := pe, secondary_entries := se,
          modified := md, valid_headers := MASK_BOTH, valid_entries := MASK_BOTH\<rparr>)"
    using g1 by (elim GptRepair_eq) simp_all
  then have "primary_entries (GptRepair g1) = primary_entries g1 \<and> current_kernel (GptRepair g1) = current_kernel g1 \<and>
      current_priority (GptRepair g1) = current_priority g1"
    using g1 by (simp add: fixed_entries_def Let_def split: prod.split)
  ultimately show ?thesis unfolding eq by (simp add: g1_def)
qed

lemma nth_copy_at_other:
  assumes "off + length src \<le> length dst" and "k < off \<or> off + length src \<le> k"
  shows "copy_at dst off src ! k = dst ! k"
proof (cases "k < off")
  case False
  then have "k - off - length src + (off + length src) = k" "\<not> k - off < length src" using assms(2) by simp_all
  then show ?thesis using assms False by (simp add: copy_at_def nth_append)
qed (use assms in \<open>simp add: copy_at_def nth_append\<close>)

lemma entry_at_put:
  assumes "128 * i + 128 \<le> length es" and "length e = 128"
  shows "entry_at (copy_at es (128 * i) e) j = (if j = i then e else entry_at es j)"
proof (cases "j = i")
  case False
  have "entry_at (copy_at es (128 * i) e) j = entry_at es j"
  proof (rule nth_equalityI)
    fix k assume "k < length (entry_at (copy_at es (128 * i) e) j)"
    then have "k < 128 \<and> k < length es - 128 * j" using assms by (simp add: entry_at_def)
    then have k: "k < 128" "128 * j + k < length es" by linarith+
    have "128 * j + k < 128 * i \<or> 128 * i + length e \<le> 128 * j + k" using False k(1) assms(2) by presburger
    then have "copy_at es (128 * i) e ! (128 * j + k) = es ! (128 * j + k)"
      using assms by (intro nth_copy_at_other) simp_all
    then show "entry_at (copy_at es (128 * i) e) j ! k = entry_at es j ! k"
      using k assms by (simp add: entry_at_def)
  qed (use assms in \<open>simp add: entry_at_def\<close>)
  then show ?thesis using False by simp
next
  case True
  then show ?thesis using assms by (simp add: entry_at_def copy_at_def)
qed

lemma put_entry_ok:
  assumes v: "gpt_valid g" and shape: "gpt_shape g" and i: "i < entry_count (primary_header g)"
    and e: "length e = 128" "same_partition e (entry_at (primary_entries g) i)"
  defines "g' \<equiv> GptModified (put_entry g i e)"
  shows "gpt_valid g' \<and> gpt_shape g' \<and> current_kernel g' = current_kernel g \<and> current_priority g' = current_priority g"
    and "entry_at (primary_entries g') j = (if j = i then e else entry_at (primary_entries g) j)"
proof -
  have hdr: "primary_ok g" "CheckParameters g = 0" "entries_ok (primary_header g) (primary_entries g)"
    using v by (simp_all add: gpt_valid_def primary_ok_def)
  then have "entry_count (primary_header g) \<le> 128" by (auto simp: primary_ok_def CheckHeader_iff dest: header_common_count(2))
  then have le: "128 * i + 128 \<le> length (primary_entries g)" using i shape by (simp add: gpt_shape_def)
  note at = entry_at_put [OF le e(1)]
  have p: "gpt_shape (put_entry g i e)" "CheckParameters (put_entry g i e) = 0" "primary_ok (put_entry g i e)"
    using shape hdr le e by (simp_all add: put_entry_def gpt_shape_def primary_ok_def)
  have "layout_ok (primary_header g) (copy_at (primary_entries g) (128 * i) e)"
    by (rule layout_ok_same [of _ _ "primary_entries g"])
      (use at e hdr in \<open>simp_all add: same_partition_refl entries_ok_layout\<close>)
  then have m: "gpt_valid g' \<and> gpt_shape g' \<and> primary_entries g' = primary_entries (put_entry g i e) \<and>
    current_kernel g' = current_kernel (put_entry g i e) \<and> current_priority g' = current_priority (put_entry g i e)"
    unfolding g'_def by (intro GptModified_ok p) (simp add: put_entry_def)
  then show "gpt_valid g' \<and> gpt_shape g' \<and> current_kernel g' = current_kernel g \<and> current_priority g' = current_priority g"
    by (simp add: put_entry_def)
  show "entry_at (primary_entries g') j = (if j = i then e else entry_at (primary_entries g) j)"
    using m at by (simp add: put_entry_def)
qed

lemma update_ok:
  assumes v: "gpt_valid g" and shape: "gpt_shape g" and i: "i < entry_count (primary_header g)"
    and u: "GptUpdateKernelWithEntry g i t = (GPT_SUCCESS, g')"
  shows "gpt_valid g' \<and> gpt_shape g' \<and> current_kernel g' = current_kernel g \<and> current_priority g' = current_priority g \<and>
    attrs (entry_at (primary_entries g') i) = kernel_update t (attrs (entry_at (primary_entries g) i)) \<and>
    same_partition (entry_at (primary_entries g') i) (entry_at (primary_entries g) i) \<and>
    (\<forall>j. j \<noteq> i \<longrightarrow> entry_at (primary_entries g') j = entry_at (primary_entries g) j)"
proof -
  let ?e = "entry_at (primary_entries g) i"
  have "entry_count (primary_header g) \<le> 128" using v by (auto simp: gpt_valid_def CheckHeader_iff dest: header_common_count(2))
  then have l: "length ?e = 128" using i shape by (simp add: gpt_shape_def entry_at_def)
  obtain c e' where ce: "updated_entry t ?e = (c, e')" by fastforce
  show ?thesis
  proof (cases "t = GPT_UPDATE_ENTRY_TRY \<and> GetEntrySuccessful ?e \<noteq> 0")
    case True
    then have "g' = g" using u by (auto simp: GptUpdateKernelWithEntry_eq Let_def split: if_splits)
    then show ?thesis using v shape True by (simp add: attrs_def same_partition_refl)
  next
    case False
    then have t: "t \<in> {GPT_UPDATE_ENTRY_TRY, GPT_UPDATE_ENTRY_BAD, GPT_UPDATE_ENTRY_RESET, GPT_UPDATE_ENTRY_INVALID}"
      and g': "g' = (if c then GptModified (put_entry g i e') else g)"
      using u ce by (auto simp: GptUpdateKernelWithEntry_eq Let_def split: if_splits)
    note n = updated_entry_ok [OF l False t ce]
    show ?thesis
      using g' n put_entry_ok [OF v shape i n(3,2)] v shape by (cases c) (auto simp: same_partition_refl)
  qed
qed


section \<open>The order in which kernels are tried\<close>

abbreviation priority_at :: "(bytes \<Rightarrow> int) \<Rightarrow> GptData \<Rightarrow> nat \<Rightarrow> int" where
  "priority_at ov g i \<equiv> GetEntryPriority ov (entry_at (primary_entries g) i)"

text \<open>A kernel that may be booted: it booted before or has tries left.\<close>

definition candidate :: "GptData \<Rightarrow> nat \<Rightarrow> bool" where
  "candidate g i \<longleftrightarrow> IsKernelEntry (entry_at (primary_entries g) i) \<and> bootable (entry_at (primary_entries g) i)"

text \<open>Candidates of positive priority by decreasing priority; equal ones in the order of the table.\<close>

definition boot_order :: "(bytes \<Rightarrow> int) \<Rightarrow> GptData \<Rightarrow> nat list" where
  "boot_order ov g = sort_key (\<lambda>i. - priority_at ov g i)
     (filter (\<lambda>i. candidate g i \<and> 0 < priority_at ov g i) [0..<entry_count (primary_header g)])"

lemma next_same_priority_eq:
  "next_same_priority ov g is =
     (case filter (\<lambda>i. candidate g i \<and> priority_at ov g i = current_priority g) is of [] \<Rightarrow> None | i # _ \<Rightarrow> Some i)"
  by (induction "is") (simp_all add: Let_def candidate_def)

lemma filter_above:
  assumes "sorted (map (\<lambda>i. - f i) xs)"
  shows "filter (\<lambda>i. (q :: int) < f i) xs = (case xs of [] \<Rightarrow> [] | j # ys \<Rightarrow> if q < f j then j # filter (\<lambda>i. q < f i) ys else [])"
  using assms by (cases xs) (force simp: filter_empty_conv)+

lemma best_below_eq:
  fixes f :: "nat \<Rightarrow> int"
  shows
  "foldl (\<lambda>(k, p) i. if \<not> C i then (k, p) else if f i > p then (int i, f i) else (k, p)) (k, p) is =
     (case sort_key (\<lambda>i. - f i) (filter (\<lambda>i. C i \<and> p < f i) is) of [] \<Rightarrow> (k, p) | i # _ \<Rightarrow> (int i, f i))"
proof (induction "is" arbitrary: k p)
  case (Cons i "is")
  show ?case
  proof (cases "C i \<and> p < f i")
    case True
    define S where "S = sort_key (\<lambda>i. - f i) (filter (\<lambda>i. C i \<and> p < f i) is)"
    have "filter (\<lambda>j. C j \<and> f i < f j) is = filter (\<lambda>j. f i < f j) (filter (\<lambda>i. C i \<and> p < f i) is)"
      using True by (auto intro: filter_cong)
    then have "sort_key (\<lambda>i. - f i) (filter (\<lambda>j. C j \<and> f i < f j) is) = filter (\<lambda>j. f i < f j) S"
      by (simp only: S_def filter_sort)
    moreover have "sorted (map (\<lambda>i. - f i) S)" by (simp add: S_def)
    ultimately show ?thesis
      using True Cons.IH [of "int i" "f i"] filter_above [of f S "f i"] by (cases S) (auto simp: S_def [symmetric])
  qed (use Cons.IH [of k p] in auto)
qed simp

lemma best_below_sort:
  "best_below ov g is = (case sort_key (\<lambda>i. - priority_at ov g i)
      (filter (\<lambda>i. candidate g i \<and> priority_at ov g i < current_priority g \<and> 0 < priority_at ov g i) is) of
     [] \<Rightarrow> (CGPT_KERNEL_ENTRY_NOT_FOUND, 0) | i # _ \<Rightarrow> (int i, priority_at ov g i))"
proof -
  let ?f = "\<lambda>i. priority_at ov g i" and ?C = "\<lambda>i. candidate g i \<and> priority_at ov g i < current_priority g"
  have "best_below ov g is = foldl (\<lambda>(k, p) i. if \<not> ?C i then (k, p) else if ?f i > p then (int i, ?f i) else (k, p))
      (CGPT_KERNEL_ENTRY_NOT_FOUND, 0) is"
    unfolding best_below_def by (rule foldl_cong) (auto simp: Let_def candidate_def)
  then show ?thesis unfolding best_below_eq by (simp add: conj_assoc)
qed

lemma filter_upt_tl: "filter P [a..<b] = i # xs \<Longrightarrow> xs = filter P [Suc i..<b]"
proof (induction "b - a" arbitrary: a)
  case (Suc m)
  then have "[a..<b] = a # [Suc a..<b]" "m = b - Suc a" by (simp_all add: upt_conv_Cons)
  with Suc show ?case by (cases "P a") auto
qed simp

text \<open>The kernels still to come.\<close>

definition to_come :: "(bytes \<Rightarrow> int) \<Rightarrow> GptData \<Rightarrow> nat list" where
  "to_come ov g =
     (let k = entry_count (primary_header g); f = priority_at ov g; cp = current_priority g in
      (if current_kernel g = CGPT_KERNEL_ENTRY_NOT_FOUND then []
       else filter (\<lambda>i. candidate g i \<and> f i = cp) [nat (current_kernel g + 1)..<k]) @
      sort_key (\<lambda>i. - f i) (filter (\<lambda>i. candidate g i \<and> f i < cp \<and> 0 < f i) [0..<k]))"

lemma sort_key_split:
  assumes "sort_key (\<lambda>i. - f i) xs = i # ys"
  shows "i # ys = filter (\<lambda>j. f j = f i) xs @ sort_key (\<lambda>i. - f i) (filter (\<lambda>j. f j < (f i :: int)) xs)"
proof -
  let ?s = "sort_key (\<lambda>i. - f i) xs"
  have so: "sorted (map (\<lambda>i. - f i) (i # ys))" unfolding assms [symmetric] by simp
  have *: "zs = filter (\<lambda>j. f j = p) zs @ filter (\<lambda>j. f j < p) zs"
    if "sorted (map (\<lambda>i. - f i) zs)" "\<forall>j \<in> set zs. f j \<le> p" for zs p
    using that
  proof (induction zs)
    case (Cons a zs)
    show ?case
    proof (cases "f a = p")
      case False
      then have "\<forall>j \<in> set zs. f j < p" using Cons.prems by force
      then have "filter (\<lambda>j. f j = p) zs = []" "filter (\<lambda>j. f j < p) zs = zs" by (auto simp: filter_empty_conv)
      then show ?thesis using False Cons.prems by simp
    qed (use Cons in auto)
  qed simp
  have "i # ys = filter (\<lambda>j. f j = f i) (i # ys) @ filter (\<lambda>j. f j < f i) (i # ys)"
    by (rule *) (use so in auto)
  also have "filter (\<lambda>j. f j = f i) (i # ys) = filter (\<lambda>j. f j = f i) xs"
    using sort_key_stable [of "\<lambda>i. - f i" "- f i" xs] unfolding assms by simp
  also have "filter (\<lambda>j. f j < f i) (i # ys) = sort_key (\<lambda>i. - f i) (filter (\<lambda>j. f j < f i) xs)"
    unfolding assms [symmetric] by (rule filter_sort)
  finally show ?thesis .
qed

lemma GetEntryPriority_nonneg: "0 \<le> GetEntryPriority ov e"
  by (simp add: GetEntryPriority_def Let_def)

lemma next_kernel_same:
  assumes "current_kernel g \<noteq> CGPT_KERNEL_ENTRY_NOT_FOUND"
    and "filter (\<lambda>i. candidate g i \<and> priority_at ov g i = current_priority g)
           [nat (current_kernel g + 1)..<entry_count (primary_header g)] = i # xs"
  shows "GptNextKernelEntry ov g = (GPT_SUCCESS, Some (starting_lba (entry_at (primary_entries g) i),
      GptGetEntrySizeLba (entry_at (primary_entries g) i)), g\<lparr>current_kernel := int i\<rparr>)"
  using assms by (simp add: GptNextKernelEntry_def next_same_priority_eq GptGetEntrySizeLba_def Let_def)

lemma next_kernel_below:
  assumes "current_kernel g \<noteq> CGPT_KERNEL_ENTRY_NOT_FOUND \<Longrightarrow>
      filter (\<lambda>i. candidate g i \<and> priority_at ov g i = current_priority g)
           [nat (current_kernel g + 1)..<entry_count (primary_header g)] = []"
    and "sort_key (\<lambda>i. - priority_at ov g i) (filter (\<lambda>i. candidate g i \<and> priority_at ov g i < current_priority g \<and>
           0 < priority_at ov g i) [0..<entry_count (primary_header g)]) = L"
  shows "GptNextKernelEntry ov g = (case L of
      [] \<Rightarrow> (GPT_ERROR_NO_VALID_KERNEL, None, g\<lparr>current_kernel := CGPT_KERNEL_ENTRY_NOT_FOUND, current_priority := 0\<rparr>)
    | i # _ \<Rightarrow> (GPT_SUCCESS, Some (starting_lba (entry_at (primary_entries g) i),
        GptGetEntrySizeLba (entry_at (primary_entries g) i)),
        g\<lparr>current_kernel := int i, current_priority := priority_at ov g i\<rparr>))"
  using assms unfolding GptNextKernelEntry_def next_same_priority_eq best_below_sort GptGetEntrySizeLba_def
  by (cases "current_kernel g = CGPT_KERNEL_ENTRY_NOT_FOUND"; cases L) (simp_all add: Let_def)

lemma next_kernel_step:
  "case to_come ov g of
     [] \<Rightarrow> \<exists>g'. GptNextKernelEntry ov g = (GPT_ERROR_NO_VALID_KERNEL, None, g') \<and> current_kernel g' = CGPT_KERNEL_ENTRY_NOT_FOUND \<and>
       primary_entries g' = primary_entries g \<and> primary_header g' = primary_header g \<and> to_come ov g' = []
   | i # is \<Rightarrow> \<exists>g'. GptNextKernelEntry ov g = (GPT_SUCCESS, Some (starting_lba (entry_at (primary_entries g) i),
        GptGetEntrySizeLba (entry_at (primary_entries g) i)), g') \<and> current_kernel g' = int i \<and>
       primary_entries g' = primary_entries g \<and> primary_header g' = primary_header g \<and> to_come ov g' = is"
proof -
  let ?k = "entry_count (primary_header g)" and ?f = "priority_at ov g" and ?cp = "current_priority g"
  define same where "same = (if current_kernel g = CGPT_KERNEL_ENTRY_NOT_FOUND then []
     else filter (\<lambda>i. candidate g i \<and> ?f i = ?cp) [nat (current_kernel g + 1)..<?k])"
  define below where "below = sort_key (\<lambda>i. - ?f i) (filter (\<lambda>i. candidate g i \<and> ?f i < ?cp \<and> 0 < ?f i) [0..<?k])"
  have tc: "to_come ov g = same @ below" by (simp add: to_come_def same_def below_def Let_def)
  show ?thesis
  proof (cases same)
    case (Cons i xs)
    then have nf: "current_kernel g \<noteq> CGPT_KERNEL_ENTRY_NOT_FOUND"
      and f: "filter (\<lambda>i. candidate g i \<and> ?f i = ?cp) [nat (current_kernel g + 1)..<?k] = i # xs"
      by (simp_all add: same_def split: if_splits)
    have "to_come ov (g\<lparr>current_kernel := int i\<rparr>) = xs @ below"
      using filter_upt_tl [OF f] by (simp add: to_come_def below_def Let_def candidate_def nat_add_distrib)
    then show ?thesis using next_kernel_same [OF nf f] tc Cons by simp
  next
    case Nil
    then have nx: "GptNextKernelEntry ov g = (case below of
      [] \<Rightarrow> (GPT_ERROR_NO_VALID_KERNEL, None, g\<lparr>current_kernel := CGPT_KERNEL_ENTRY_NOT_FOUND, current_priority := 0\<rparr>)
    | i # _ \<Rightarrow> (GPT_SUCCESS, Some (starting_lba (entry_at (primary_entries g) i),
        GptGetEntrySizeLba (entry_at (primary_entries g) i)),
        g\<lparr>current_kernel := int i, current_priority := priority_at ov g i\<rparr>))"
      by (intro next_kernel_below) (simp_all add: same_def below_def split: if_splits)
    show ?thesis
    proof (cases below)
      case Nil
      then show ?thesis using nx tc \<open>same = []\<close> by (simp add: to_come_def Let_def filter_empty_conv)
    next
      case (Cons i xs)
      have i: "candidate g i" "?f i < ?cp" "0 < ?f i" "i < ?k"
        using arg_cong [OF Cons, of set] by (auto simp: below_def)
      have "filter P (filter (\<lambda>i. candidate g i \<and> ?f i < ?cp \<and> 0 < ?f i) [0..<?k]) =
          filter (\<lambda>j. candidate g j \<and> P j \<and> 0 < ?f j) [0..<?k]" if "\<And>j. P j \<Longrightarrow> ?f j \<le> ?f i" for P
        using that i(2) by (auto intro!: filter_cong dest: le_less_trans)
      from this [of "\<lambda>j. ?f j = ?f i"] this [of "\<lambda>j. ?f j < ?f i"]
      have sp: "i # xs = filter (\<lambda>j. candidate g j \<and> ?f j = ?f i \<and> 0 < ?f j) [0..<?k] @
          sort_key (\<lambda>i. - ?f i) (filter (\<lambda>j. candidate g j \<and> ?f j < ?f i \<and> 0 < ?f j) [0..<?k])"
        using sort_key_split [OF Cons [unfolded below_def]] by simp
      have eq: "filter (\<lambda>j. candidate g j \<and> ?f j = ?f i \<and> 0 < ?f j) [0..<?k] =
          filter (\<lambda>j. candidate g j \<and> ?f j = ?f i) [0..<?k]"
        using i(3) by (auto intro: filter_cong)
      obtain ys where ys: "filter (\<lambda>j. candidate g j \<and> ?f j = ?f i) [0..<?k] = i # ys"
        using sp i unfolding eq by (cases "filter (\<lambda>j. candidate g j \<and> ?f j = ?f i) [0..<?k]")
          (auto simp: filter_empty_conv)
      have "to_come ov (g\<lparr>current_kernel := int i, current_priority := ?f i\<rparr>) = xs"
        using filter_upt_tl [OF ys] sp unfolding eq ys
        by (simp add: to_come_def Let_def candidate_def nat_add_distrib)
      then show ?thesis using nx tc Cons \<open>same = []\<close> by simp
    qed
  qed
qed

text \<open>Asking for the next kernel again and again.\<close>

fun kernel_sequence :: "(bytes \<Rightarrow> int) \<Rightarrow> GptData \<Rightarrow> nat \<Rightarrow> (int \<times> int \<times> (u64 \<times> u64) option) list" where
  "kernel_sequence ov g 0 = []"
| "kernel_sequence ov g (Suc m) =
     (let (r, part, g') = GptNextKernelEntry ov g in (r, current_kernel g', part) # kernel_sequence ov g' m)"

definition partition_at :: "GptData \<Rightarrow> nat \<Rightarrow> int \<times> int \<times> (u64 \<times> u64) option" where
  "partition_at g i = (GPT_SUCCESS, int i,
     Some (starting_lba (entry_at (primary_entries g) i), GptGetEntrySizeLba (entry_at (primary_entries g) i)))"

lemma kernel_sequence_to_come:
  "kernel_sequence ov g m = take m (map (partition_at g) (to_come ov g) @
     replicate m (GPT_ERROR_NO_VALID_KERNEL, CGPT_KERNEL_ENTRY_NOT_FOUND, None))"
proof (induction m arbitrary: g)
  case (Suc m)
  show ?case
  proof (cases "to_come ov g")
    case Nil
    then obtain g' where "GptNextKernelEntry ov g = (GPT_ERROR_NO_VALID_KERNEL, None, g')"
      "current_kernel g' = CGPT_KERNEL_ENTRY_NOT_FOUND" "to_come ov g' = []"
      using next_kernel_step [of ov g] by auto
    then show ?thesis using Nil Suc [of g'] by simp
  next
    case (Cons i "is")
    then obtain g' where g': "GptNextKernelEntry ov g = (GPT_SUCCESS, Some (starting_lba (entry_at (primary_entries g) i),
        GptGetEntrySizeLba (entry_at (primary_entries g) i)), g')" "current_kernel g' = int i"
      "primary_entries g' = primary_entries g" "to_come ov g' = is"
      using next_kernel_step [of ov g] by auto
    then have "partition_at g' = partition_at g" by (simp add: partition_at_def fun_eq_iff)
    then show ?thesis using g' Cons Suc [of g'] by (simp add: partition_at_def take_append replicate_append_same [symmetric])
  qed
qed simp

lemma GetEntryPriority_less: "GetEntryPriority ov e < 16"
proof -
  have "uint (rd16 e ENT_gpt_att AND 0xf) < 16" by (simp add: uint_and and_15_int)
  then show ?thesis by (simp add: GetEntryPriority_def Let_def)
qed

lemma GptRepair_current:
  "current_kernel (GptRepair g) = current_kernel g" "current_priority (GptRepair g) = current_priority g"
  by (simp_all add: GptRepair_def Let_def)

lemma GptInit_current:
  assumes "GptInit gpt = (GPT_SUCCESS, g)"
  shows "current_kernel g = CGPT_KERNEL_ENTRY_NOT_FOUND" "current_priority g = 999"
proof -
  let ?g0 = "gpt\<lparr>modified := 0, current_kernel := CGPT_KERNEL_ENTRY_NOT_FOUND, current_priority := 999\<rparr>"
  obtain g1 where s: "GptSanityCheck ?g0 = (GPT_SUCCESS, g1)" and g: "g = GptRepair g1"
    using assms by (auto simp: GptInit_def Let_def split: prod.splits if_splits)
  show "current_kernel g = CGPT_KERNEL_ENTRY_NOT_FOUND" "current_priority g = 999"
    using sanity_good [OF s] g by (force simp: GptRepair_current)+
qed


section \<open>A small disk\<close>

text \<open>One kernel in the table of a disk of 2048 sectors.\<close>

definition sample_kernel :: bytes where
  "sample_kernel = wr16 (wr64 (wr64 (GPT_ENT_TYPE_CHROMEOS_KERNEL @ replicate 112 1) ENT_starting_lba 64) ENT_ending_lba 127)
     ENT_gpt_att 0x21"

definition sample_entries :: bytes where
  "sample_entries = copy_at (replicate 16384 0) 0 sample_kernel"

definition sample_header :: bytes where
  "sample_header = resealed
     (wr64 (wr32 (wr32 (wr64 (wr64 (wr64 (wr32 (wr32 (GPT_HEADER_SIGNATURE @ replicate 504 0)
        HDR_revision GPT_HEADER_REVISION) HDR_size 92) HDR_my_lba 1) HDR_first_usable_lba 64) HDR_last_usable_lba 1920)
        HDR_number_of_entries 128) HDR_size_of_entry 128) HDR_entries_lba 2)
     (Crc32 sample_entries 16384)"

definition sample_gpt :: GptData where
  "sample_gpt = \<lparr>primary_header = sample_header, secondary_header = rebuilt (replicate 512 0) sample_header 2047 1 2015,
     primary_entries = sample_entries, secondary_entries = sample_entries, sector_bytes = 512,
     streaming_drive_sectors = 2048, gpt_drive_sectors = 2048, gpt_flags = 0, modified = 0,
     current_kernel = CGPT_KERNEL_ENTRY_NOT_FOUND, valid_headers = MASK_NONE, valid_entries = MASK_NONE, current_priority = 999\<rparr>"

lemma length_sample [simp]: "length sample_kernel = 128" "length sample_entries = 16384" "length sample_header = 512"
  by (simp_all add: sample_kernel_def sample_entries_def sample_header_def GPT_ENT_TYPE_CHROMEOS_KERNEL_def)

lemma sample_entry: "j < 128 \<Longrightarrow> entry_at sample_entries j = (if j = 0 then sample_kernel else replicate 128 0)"
  using entry_at_put [of 0 "replicate 16384 0" sample_kernel j] by (simp add: sample_entries_def entry_at_def)

lemma sample_kernel_fields:
  "ent_type sample_kernel = GPT_ENT_TYPE_CHROMEOS_KERNEL" "starting_lba sample_kernel = 64" "ending_lba sample_kernel = 127"
  using same_partition_wr16 [of "wr64 (wr64 (GPT_ENT_TYPE_CHROMEOS_KERNEL @ replicate 112 1) ENT_starting_lba 64) ENT_ending_lba 127" "0x21"]
  by (simp_all add: sample_kernel_def same_partition_def ent_type_def starting_lba_def ending_lba_def GPT_ENT_TYPE_CHROMEOS_KERNEL_def)

lemma sample_reserved: "rd32 (69 # 70 # 73 # 32 # 80 # 65 # 82 # 84 # replicate 504 0) HDR_reserved_zero = 0"
  by (simp add: rd32_def nth_Cons')

lemma sample_header_fields [simp]:
  "rd32 sample_header HDR_size_of_entry = 128" "rd32 sample_header HDR_number_of_entries = 128"
  "rd32 sample_header HDR_entries_crc32 = Crc32 sample_entries 16384"
  "rd64 sample_header HDR_first_usable_lba = 64" "rd64 sample_header HDR_last_usable_lba = 1920"
  "header_common sample_header 2048 0"
  "CheckHeader (Some sample_header) False 2048 2048 0 = 0"
  by (simp_all add: sample_reserved sample_header_def CheckHeader_iff header_common_def header_place_def CalculateEntriesSectors_def entries_bytes_def)

lemma kernel_type_used: "GPT_ENT_TYPE_CHROMEOS_KERNEL \<noteq> replicate 16 0"
proof
  assume "GPT_ENT_TYPE_CHROMEOS_KERNEL = replicate 16 0"
  then have "GPT_ENT_TYPE_CHROMEOS_KERNEL ! 0 = replicate 16 0 ! 0" by simp
  then show False by (simp add: GPT_ENT_TYPE_CHROMEOS_KERNEL_def)
qed

lemma sample_used: "j < 128 \<Longrightarrow> used sample_entries j \<longleftrightarrow> j = 0"
  by (simp add: used_def sample_entry IsUnusedEntry_def sample_kernel_fields kernel_type_used) (simp add: ent_type_def)

lemma sample_entries_ok: "entries_ok sample_header sample_entries"
  unfolding entries_ok_def by (simp add: sample_used in_region_def sample_entry sample_kernel_fields)

lemma sample_shape: "gpt_shape sample_gpt"
  by (simp add: gpt_shape_def sample_gpt_def rebuilt_fields)

lemma sample_valid: "gpt_valid sample_gpt"
proof -
  note f = rebuilt_fields [of sample_header "replicate 512 0" 2047 1 2015]
  have "CheckHeader (Some (rebuilt (replicate 512 0) sample_header 2047 1 2015)) True 2048 2048 0 = 0"
    by (rule rebuilt_valid) (simp_all add: CalculateEntriesSectors_def entries_bytes_def)
  then show ?thesis
    using f by (simp add: gpt_valid_def sample_gpt_def sample_entries_ok CheckParameters_def)
qed

text \<open>The same disk with the secondary header lost.\<close>

definition damaged_gpt :: GptData where
  "damaged_gpt = sample_gpt\<lparr>secondary_header := replicate 512 0\<rparr>"

lemma damaged_init: "\<exists>g. GptInit damaged_gpt = (GPT_SUCCESS, g)"
proof -
  have "CheckHeader (Some (replicate 512 0)) True 2048 2048 0 \<noteq> 0"
    by (simp add: CheckHeader_iff header_common_def rd32_def)
  moreover have "CheckParameters damaged_gpt = 0" by (simp add: damaged_gpt_def sample_gpt_def CheckParameters_def)
  ultimately show ?thesis
    by (simp add: GptInit_def GptSanityCheck_def headers_mask_def entries_mask_def CheckEntries_iff sample_entries_ok
      damaged_gpt_def sample_gpt_def Let_def)
qed

text \<open>
  C23. When GptInit() succeeds, the tables it leaves are whole again: a second check accepts both
  headers and both copies of the entries, whichever of them it had to rebuild from the other.\<close>

theorem GptInit_repairs:
  assumes "gpt_shape gpt" and "GptInit gpt = (GPT_SUCCESS, g)"
  shows "GptSanityCheck g = (GPT_SUCCESS, g\<lparr>valid_headers := MASK_BOTH, valid_entries := MASK_BOTH\<rparr>) \<and>
    HeaderFieldsSame (primary_header g) (secondary_header g) = 0 \<and> gpt_shape g"
  using GptInit_valid [OF assms] valid_sanity by (simp add: gpt_valid_def)

theorem GptInit_repairs_witness:
  "\<exists>g. gpt_shape damaged_gpt \<and> GptInit damaged_gpt = (GPT_SUCCESS, g) \<and>
     GptSanityCheck g = (GPT_SUCCESS, g\<lparr>valid_headers := MASK_BOTH, valid_entries := MASK_BOTH\<rparr>)"
proof -
  have "gpt_shape damaged_gpt" using sample_shape by (simp add: damaged_gpt_def gpt_shape_def)
  then show ?thesis using damaged_init GptInit_repairs by blast
qed


text \<open>
  C24. CheckEntries() accepts the entries exactly when their checksum is the one in the header, every
  used entry lies in the usable region and is not empty, and no two used entries overlap or have the
  same identifier.\<close>

theorem CheckEntries_correct:
  "CheckEntries (Some entries) h = GPT_SUCCESS \<longleftrightarrow>
     Crc32 entries (rd32 h HDR_size_of_entry * rd32 h HDR_number_of_entries) = rd32 h HDR_entries_crc32 \<and>
     (\<forall>i < entry_count h. used entries i \<longrightarrow> in_region h (entry_at entries i)) \<and>
     (\<forall>i < entry_count h. \<forall>j < entry_count h. i \<noteq> j \<and> used entries i \<and> used entries j \<longrightarrow>
       separate (entry_at entries i) (entry_at entries j))"
  unfolding CheckEntries_iff entries_ok_def by (rule refl)

theorem CheckEntries_correct_witness:
  "CheckEntries (Some sample_entries) sample_header = GPT_SUCCESS \<and> used sample_entries 0 \<and>
     in_region sample_header (entry_at sample_entries 0)"
proof -
  have "CheckEntries (Some sample_entries) sample_header = GPT_SUCCESS" by (simp add: CheckEntries_iff sample_entries_ok)
  then show ?thesis using CheckEntries_correct [of sample_entries sample_header] by (simp add: sample_used)
qed


end
