(* ===== verification/Tpm_Device.thy ===== *)
theory Tpm_Device
  imports Vb2_Prelude "HOL-Library.Monad_Syntax"
begin

text \<open>
  The trusted platform module that the proofs of this repository run the firmware against
  (\<^verbatim>\<open>CBMC/tpm-c/tpm_update.c\<close>, \<^verbatim>\<open>tpm_run_cmd.c\<close>, \<^verbatim>\<open>tpm_pcr.c\<close>): a device with a command FIFO, a status
  register and 24 platform configuration registers.  The invariant of its state, the safety of
  every bus access, and what any sequence of accesses can do to a register.
\<close>

unbundle bit_operations_syntax

section \<open>Arrays\<close>

text \<open>
  An access outside an array has no value: reading, writing or taking a range there is None.
\<close>

definition get8 :: "bytes \<Rightarrow> nat \<Rightarrow> u8 option" where
  "get8 a i = (if i < length a then Some (a ! i) else None)"

definition put8 :: "bytes \<Rightarrow> nat \<Rightarrow> u8 \<Rightarrow> bytes option" where
  "put8 a i v = (if i < length a then Some (a[i := v]) else None)"

definition get_range :: "bytes \<Rightarrow> nat \<Rightarrow> nat \<Rightarrow> bytes option" where
  "get_range a i n = (if i + n \<le> length a then Some (take n (drop i a)) else None)"

definition put_range :: "bytes \<Rightarrow> nat \<Rightarrow> bytes \<Rightarrow> bytes option" where
  "put_range a i v = (if i + length v \<le> length a then Some (copy_at a i v) else None)"

section \<open>The code\<close>

subsection \<open>Constants and state\<close>

abbreviation (input) RD :: u32 where "RD \<equiv> 1"
abbreviation (input) WR :: u32 where "WR \<equiv> 2"

abbreviation (input) FIFO_IDLE :: u32 where "FIFO_IDLE \<equiv> 0"
abbreviation (input) FIFO_ACCEPTING :: u32 where "FIFO_ACCEPTING \<equiv> 1"
abbreviation (input) FIFO_FULL :: u32 where "FIFO_FULL \<equiv> 2"
abbreviation (input) FIFO_SENDING :: u32 where "FIFO_SENDING \<equiv> 3"
abbreviation (input) FIFO_WORKING :: u32 where "FIFO_WORKING \<equiv> 4"

abbreviation (input) FIFO_MAX_AMT :: nat where "FIFO_MAX_AMT \<equiv> 126"

abbreviation (input) STS_VALID :: u32 where "STS_VALID \<equiv> 0x80"
abbreviation (input) STS_DATA_AVAIL :: u32 where "STS_DATA_AVAIL \<equiv> 0x10"
abbreviation (input) STS_DATA_EXPECT :: u32 where "STS_DATA_EXPECT \<equiv> 0x08"
abbreviation (input) STS_GO :: u32 where "STS_GO \<equiv> 0x20"
abbreviation (input) STS_COMMAND_READY :: u32 where "STS_COMMAND_READY \<equiv> 0x40"

abbreviation (input) STS_ADDR :: u32 where "STS_ADDR \<equiv> 0x18"
abbreviation (input) FIFO_ADDR :: u32 where "FIFO_ADDR \<equiv> 0x24"
abbreviation (input) BURST_ADDR :: u32 where "BURST_ADDR \<equiv> 0x1"

text \<open>The global variables of the device.\<close>

record tpm =
  dataout :: u32
  fifo_in_amt :: u32
  fifo_in_cmdsize :: u32
  fifo_out_amt :: u32
  fifo_state :: u32
  fifo_sts :: u32
  fifo_outdata :: bytes
  fifo_indata :: bytes
  pcr_data :: bytes
  cmd_worked :: bool

text \<open>
  \<^verbatim>\<open>tpm_init()\<close>.  It leaves \<^verbatim>\<open>cmd_worked\<close> alone, which is zero when the program starts.
\<close>

definition tpm_init :: "tpm \<Rightarrow> tpm" where
  "tpm_init d = d\<lparr>dataout := 0, fifo_in_amt := 0, fifo_in_cmdsize := 0, fifo_out_amt := 0,
     fifo_state := FIFO_IDLE, fifo_sts := 0, fifo_outdata := replicate 126 0,
     fifo_indata := replicate 126 0, pcr_data := replicate (20 * 24) 0\<rparr>"

subsection \<open>The commands on the platform configuration registers\<close>

text \<open>
  The loop that stores the bytes of a register downwards from a place of the output array.
\<close>

fun put_down :: "bytes \<Rightarrow> nat \<Rightarrow> bytes \<Rightarrow> bytes option" where
  "put_down a k [] = Some a"
| "put_down a k (b # bs) = do { a \<leftarrow> put8 a k b; put_down a (k - 1) bs }"

text \<open>
  The part that \<^verbatim>\<open>pcr_extend()\<close> and \<^verbatim>\<open>pcr_read()\<close> have in common: tag, size and value of the
  register into the output array.
\<close>

definition pcr_output :: "tpm \<Rightarrow> bytes \<Rightarrow> tpm option" where
  "pcr_output d v = do {
     let CMD_SIZE = 0x1e;
     out \<leftarrow> put8 (fifo_outdata d) (CMD_SIZE - 1) 0xc4;
     out \<leftarrow> put8 out (CMD_SIZE - 5) (of_nat CMD_SIZE);
     out \<leftarrow> put_down out (CMD_SIZE - 10) v;
     Some (d\<lparr>fifo_outdata := out, fifo_out_amt := of_nat CMD_SIZE\<rparr>) }"

text \<open>
  \<^verbatim>\<open>pcr_extend()\<close>.  The library function \<^verbatim>\<open>SHA1()\<close> of OpenSSL is a parameter: from the bytes to be
  hashed to the digest it stores.
\<close>

definition pcr_extend :: "(bytes \<Rightarrow> bytes) \<Rightarrow> tpm \<Rightarrow> (int \<times> tpm) option" where
  "pcr_extend SHA1 d = do {
     pcr_index \<leftarrow> map_option unat (get8 (fifo_indata d) 13);
     if pcr_index > 23 then Some (-1, d)
     else do {
       old \<leftarrow> get_range (pcr_data d) (20 * pcr_index) 20;
       input \<leftarrow> get_range (fifo_indata d) 14 20;
       let chosen_pcr = SHA1 (old @ input);
       p \<leftarrow> put_range (pcr_data d) (20 * pcr_index) chosen_pcr;
       d \<leftarrow> pcr_output (d\<lparr>pcr_data := p\<rparr>) chosen_pcr;
       Some (0, d) } }"

definition pcr_read :: "tpm \<Rightarrow> (int \<times> tpm) option" where
  "pcr_read d = do {
     pcr_index \<leftarrow> map_option unat (get8 (fifo_indata d) 13);
     if pcr_index > 23 then Some (-1, d)
     else do {
       v \<leftarrow> get_range (pcr_data d) (20 * pcr_index) 20;
       d \<leftarrow> pcr_output d v;
       Some (0, d) } }"

subsection \<open>Running a command\<close>

definition cmd_code_is :: "tpm \<Rightarrow> u8 \<Rightarrow> bool option" where
  "cmd_code_is d c = do {
     a \<leftarrow> get8 (fifo_indata d) 6;
     b \<leftarrow> get8 (fifo_indata d) 7;
     e \<leftarrow> get8 (fifo_indata d) 8;
     f \<leftarrow> get8 (fifo_indata d) 9;
     Some (a = 0 \<and> b = 0 \<and> e = 0 \<and> f = c) }"

definition run_extend :: "(bytes \<Rightarrow> bytes) \<Rightarrow> tpm \<Rightarrow> tpm option" where
  "run_extend SHA1 d = do {
     is_extend \<leftarrow> cmd_code_is d 0x14;
     if is_extend then do {
       (ret, d) \<leftarrow> pcr_extend SHA1 d;
       Some (if ret = 0 then d\<lparr>cmd_worked := True\<rparr> else d) }
     else Some d }"

definition run_read :: "tpm \<Rightarrow> tpm option" where
  "run_read d = do {
     is_read \<leftarrow> cmd_code_is d 0x15;
     if is_read then do {
       (ret, d) \<leftarrow> pcr_read d;
       Some (if ret = 0 then d\<lparr>cmd_worked := True\<rparr> else d) }
     else Some d }"

definition malformed_output :: "tpm \<Rightarrow> tpm option" where
  "malformed_output d = do {
     let CMD_SIZE = 9;
     let d = d\<lparr>fifo_state := FIFO_SENDING, fifo_in_amt := 0\<rparr>;
     out \<leftarrow> put8 (fifo_outdata d) (CMD_SIZE - 1) 0xc4;
     out \<leftarrow> put8 out (CMD_SIZE - 5) (of_nat CMD_SIZE);
     out \<leftarrow> put8 out (CMD_SIZE - CMD_SIZE) 0xFF;
     Some (d\<lparr>fifo_outdata := out, fifo_out_amt := of_nat CMD_SIZE\<rparr>) }"

definition tpm_runCmd :: "(bytes \<Rightarrow> bytes) \<Rightarrow> tpm \<Rightarrow> tpm option" where
  "tpm_runCmd SHA1 d = do {
     let d = d\<lparr>cmd_worked := False\<rparr>;
     d \<leftarrow> (if fifo_state d = FIFO_ACCEPTING \<and> fifo_in_amt d = fifo_in_cmdsize d
           then run_extend SHA1 d \<bind> run_read else Some d);
     if \<not> cmd_worked d then malformed_output d
     else Some (d\<lparr>fifo_state := FIFO_SENDING\<rparr>) }"

subsection \<open>A bus access\<close>

definition tpm_bus_read :: "tpm \<Rightarrow> u32 \<Rightarrow> tpm option" where
  "tpm_bus_read d cmdaddr =
     (let d = (if cmdaddr = STS_ADDR then d\<lparr>dataout := fifo_sts d\<rparr> else d) in
      if cmdaddr = BURST_ADDR then
        Some (if fifo_state d = FIFO_ACCEPTING
              then d\<lparr>dataout := of_nat FIFO_MAX_AMT - fifo_in_amt d\<rparr>
              else if fifo_state d = FIFO_SENDING then d\<lparr>dataout := fifo_out_amt d\<rparr>
              else d)
      else if cmdaddr = FIFO_ADDR then
        (if fifo_state d = FIFO_SENDING \<and> fifo_out_amt d > 0 then do {
           b \<leftarrow> get8 (fifo_outdata d) (unat (fifo_out_amt d));
           Some (d\<lparr>dataout := ucast b, fifo_out_amt := fifo_out_amt d - 1\<rparr>) }
         else Some d)
      else Some d)"

definition tpm_bus_write :: "(bytes \<Rightarrow> bytes) \<Rightarrow> tpm \<Rightarrow> u32 \<Rightarrow> u32 \<Rightarrow> tpm option" where
  "tpm_bus_write SHA1 d cmdaddr cmddata =
     (if cmdaddr = STS_ADDR then
        (if cmddata = STS_COMMAND_READY then
           Some (d\<lparr>fifo_indata := replicate FIFO_MAX_AMT 0, fifo_state := FIFO_ACCEPTING,
             fifo_in_amt := 0, fifo_out_amt := 0\<rparr>)
         else if cmddata = STS_GO then tpm_runCmd SHA1 d
         else Some d)
      else if cmdaddr = FIFO_ADDR then
        (if fifo_state d \<noteq> FIFO_FULL then do {
           let d = (if fifo_in_amt d = 5 then d\<lparr>fifo_in_cmdsize := cmddata\<rparr> else d);
           ind \<leftarrow> put8 (fifo_indata d) (unat (fifo_in_amt d)) (ucast cmddata);
           let d = d\<lparr>fifo_indata := ind, fifo_in_amt := fifo_in_amt d + 1\<rparr>;
           Some (if fifo_in_amt d = of_nat FIFO_MAX_AMT then d\<lparr>fifo_state := FIFO_FULL\<rparr> else d) }
         else Some d)
      else Some d)"

definition tpm_status :: "tpm \<Rightarrow> u32" where
  "tpm_status d =
     (let data_aval = (if fifo_out_amt d > 0 then STS_DATA_AVAIL else 0);
          sts_valid = (if fifo_state d \<noteq> FIFO_WORKING then STS_VALID else 0);
          data_expected = (if fifo_state d = FIFO_ACCEPTING \<and> fifo_in_amt d < 4 \<or>
                              fifo_in_amt d < fifo_in_cmdsize d
                           then STS_DATA_EXPECT else 0)
      in data_aval OR sts_valid OR data_expected)"

definition tpm_update :: "(bytes \<Rightarrow> bytes) \<Rightarrow> tpm \<Rightarrow> u32 \<Rightarrow> u32 \<Rightarrow> u32 \<Rightarrow> (u32 \<times> tpm) option" where
  "tpm_update SHA1 d cmd cmdaddr cmddata = do {
     let d = d\<lparr>dataout := 0\<rparr>;
     d \<leftarrow> (if cmd = RD then tpm_bus_read d cmdaddr else Some d);
     d \<leftarrow> (if cmd = WR then tpm_bus_write SHA1 d cmdaddr cmddata else Some d);
     let d = d\<lparr>fifo_sts := tpm_status d\<rparr>;
     Some (dataout d, d) }"

section \<open>The invariant\<close>

text \<open>
  The arrays have their sizes and the positions stay inside them.  The cells of the output array
  that make up the first bytes of a reply of 30 bytes, but its tag and its size, are never
  written, so that the result code there is zero.
\<close>

definition reply_cells_clear :: "bytes \<Rightarrow> bool" where
  "reply_cells_clear out \<longleftrightarrow> list_all (\<lambda>i. out ! i = 0) [30, 28, 27, 26, 24, 23, 22, 21]"

definition tpm_wf :: "tpm \<Rightarrow> bool" where
  "tpm_wf d \<longleftrightarrow> length (fifo_outdata d) = 126 \<and> length (fifo_indata d) = 126 \<and>
     length (pcr_data d) = 480 \<and> unat (fifo_in_amt d) \<le> 126 \<and>
     (unat (fifo_in_amt d) = 126 \<longrightarrow> fifo_state d = FIFO_FULL) \<and>
     unat (fifo_out_amt d) \<le> 30 \<and> fifo_state d < FIFO_WORKING \<and>
     reply_cells_clear (fifo_outdata d)"

lemma tpm_wf_init: "tpm_wf (tpm_init d)"
  by (simp add: tpm_wf_def tpm_init_def reply_cells_clear_def)

definition pcr :: "tpm \<Rightarrow> nat \<Rightarrow> bytes" where
  "pcr d i = take 20 (drop (20 * i) (pcr_data d))"

lemma length_pcr [simp]: "length (pcr_data d) = 480 \<Longrightarrow> i < 24 \<Longrightarrow> length (pcr d i) = 20"
  by (simp add: pcr_def)

section \<open>What each step of the device does\<close>

lemma get8_Some [simp]: "i < length a \<Longrightarrow> get8 a i = Some (a ! i)"
  and put8_Some [simp]: "i < length a \<Longrightarrow> put8 a i v = Some (a[i := v])"
  and get_range_Some [simp]: "i + n \<le> length a \<Longrightarrow> get_range a i n = Some (take n (drop i a))"
  and put_range_Some [simp]: "i + length w \<le> length a \<Longrightarrow> put_range a i w = Some (copy_at a i w)"
  by (simp_all add: get8_def put8_def get_range_def put_range_def)

lemma nth_copy_at:
  "off + length src \<le> length dst \<Longrightarrow> i < length dst \<Longrightarrow>
   copy_at dst off src ! i = (if off \<le> i \<and> i < off + length src then src ! (i - off) else dst ! i)"
  by (auto simp: copy_at_def nth_append min_def)

lemma put_down_eq:
  "k < length a \<Longrightarrow> length bs \<le> k + 1 \<Longrightarrow> put_down a k bs = Some (copy_at a (k + 1 - length bs) (rev bs))"
proof (induction a k bs rule: put_down.induct)
  case (1 a k)
  then show ?case by (simp add: copy_at_def)
next
  case (2 a k b bs)
  show ?case
  proof (cases k)
    case 0
    with "2.prems" show ?thesis by (auto simp: copy_at_def upd_conv_take_nth_drop)
  next
    case (Suc k')
    have "copy_at (a[k := b]) (k - length bs) (rev bs) = copy_at a (k - length bs) (rev bs @ [b])"
      using "2.prems" Suc by (intro nth_equalityI) (auto simp: nth_copy_at nth_append nth_list_update)
    with "2.IH" [of "a[k := b]"] "2.prems" Suc show ?thesis by simp
  qed
qed

text \<open>The output array of a command that worked.\<close>

definition reply_out :: "bytes \<Rightarrow> bytes \<Rightarrow> bytes" where
  "reply_out out v = copy_at (out[29 := 0xc4, 25 := 0x1e]) 1 (rev v)"

lemma length_reply_out [simp]: "length out = 126 \<Longrightarrow> length v = 20 \<Longrightarrow> length (reply_out out v) = 126"
  by (simp add: reply_out_def)

lemma reply_cells_clear_reply_out:
  "length out = 126 \<Longrightarrow> length v = 20 \<Longrightarrow> reply_cells_clear out \<Longrightarrow> reply_cells_clear (reply_out out v)"
  by (simp add: reply_cells_clear_def reply_out_def nth_copy_at)

lemma pcr_output_eq:
  "length (fifo_outdata d) = 126 \<Longrightarrow> length v = 20 \<Longrightarrow>
   pcr_output d v = Some (d\<lparr>fifo_outdata := reply_out (fifo_outdata d) v, fifo_out_amt := 0x1e\<rparr>)"
  by (simp add: pcr_output_def put_down_eq reply_out_def)

definition cmd_index :: "tpm \<Rightarrow> nat" where
  "cmd_index d = unat (fifo_indata d ! 13)"

definition cmd_digest :: "tpm \<Rightarrow> bytes" where
  "cmd_digest d = take 20 (drop 14 (fifo_indata d))"

definition cmd_code :: "tpm \<Rightarrow> bytes" where
  "cmd_code d = take 4 (drop 6 (fifo_indata d))"

text \<open>The register and the output array after a command that worked on register i.\<close>

definition replied :: "nat \<Rightarrow> bytes \<Rightarrow> tpm \<Rightarrow> tpm" where
  "replied i v d = d\<lparr>pcr_data := copy_at (pcr_data d) (20 * i) v,
     fifo_outdata := reply_out (fifo_outdata d) v, fifo_out_amt := 0x1e\<rparr>"

lemma copy_at_same: "i + n \<le> length a \<Longrightarrow> copy_at a i (take n (drop i a)) = a"
  by (intro nth_equalityI) (auto simp: nth_copy_at less_diff_conv2)

text \<open>What the device relies on of \<^verbatim>\<open>SHA1()\<close>: a digest has 20 bytes.\<close>

definition sha1_ok :: "(bytes \<Rightarrow> bytes) \<Rightarrow> bool" where
  "sha1_ok SHA1 \<longleftrightarrow> (\<forall>x. length (SHA1 x) = 20)"

lemma sha1_okD [simp]: "sha1_ok SHA1 \<Longrightarrow> length (SHA1 x) = 20"
  by (simp add: sha1_ok_def)

lemma pcr_extend_eq:
  assumes "tpm_wf d" and "sha1_ok SHA1"
  shows "pcr_extend SHA1 d = Some (if 23 < cmd_index d then (-1, d)
    else (0, replied (cmd_index d) (SHA1 (pcr d (cmd_index d) @ cmd_digest d)) d))"
  using assms by (auto simp: pcr_extend_def tpm_wf_def cmd_index_def cmd_digest_def pcr_def
      pcr_output_eq replied_def Let_def)

lemma pcr_read_eq:
  assumes "tpm_wf d"
  shows "pcr_read d = Some (if 23 < cmd_index d then (-1, d)
    else (0, replied (cmd_index d) (pcr d (cmd_index d)) d))"
  using assms
  by (auto simp: pcr_read_def tpm_wf_def cmd_index_def pcr_def pcr_output_eq replied_def copy_at_same)

lemma cmd_code_is_eq:
  "length (fifo_indata d) = 126 \<Longrightarrow> cmd_code_is d c = Some (cmd_code d = [0, 0, 0, c])"
proof -
  assume len: "length (fifo_indata d) = 126"
  then have "cmd_code d = map (\<lambda>i. fifo_indata d ! i) [6, 7, 8, 9]"
    by (intro nth_equalityI) (auto simp: cmd_code_def nth_Cons' numeral_eq_Suc less_Suc_eq)
  with len show ?thesis by (simp add: cmd_code_is_def)
qed

definition malformed :: "tpm \<Rightarrow> tpm" where
  "malformed d = d\<lparr>fifo_state := FIFO_SENDING, fifo_in_amt := 0, fifo_out_amt := 9,
     fifo_outdata := (fifo_outdata d)[8 := 0xc4, 4 := 9, 0 := 0xFF]\<rparr>"

lemma malformed_output_eq: "length (fifo_outdata d) = 126 \<Longrightarrow> malformed_output d = Some (malformed d)"
  by (simp add: malformed_output_def malformed_def)

text \<open>When a command works, and the value its reply carries.\<close>

definition cmd_ok :: "tpm \<Rightarrow> bool" where
  "cmd_ok d \<longleftrightarrow> fifo_state d = FIFO_ACCEPTING \<and> fifo_in_amt d = fifo_in_cmdsize d \<and>
     cmd_code d \<in> {[0, 0, 0, 0x14], [0, 0, 0, 0x15]} \<and> cmd_index d \<le> 23"

definition cmd_value :: "(bytes \<Rightarrow> bytes) \<Rightarrow> tpm \<Rightarrow> bytes" where
  "cmd_value SHA1 d =
     (if cmd_code d = [0, 0, 0, 0x14] then SHA1 (pcr d (cmd_index d) @ cmd_digest d)
      else pcr d (cmd_index d))"

lemma cmd_updates [simp]:
  "cmd_code (d\<lparr>cmd_worked := w\<rparr>) = cmd_code d" "cmd_index (d\<lparr>cmd_worked := w\<rparr>) = cmd_index d"
  "cmd_digest (d\<lparr>cmd_worked := w\<rparr>) = cmd_digest d" "pcr (d\<lparr>cmd_worked := w\<rparr>) = pcr d"
  "cmd_code (replied i v d) = cmd_code d" "cmd_worked (replied i v d) = cmd_worked d"
  "length (fifo_indata (replied i v d)) = length (fifo_indata d)"
  "(replied i v d)\<lparr>cmd_worked := w\<rparr> = replied i v (d\<lparr>cmd_worked := w\<rparr>)"
  "tpm_wf (d\<lparr>cmd_worked := w\<rparr>) = tpm_wf d"
  "cmd_code (d\<lparr>dataout := x\<rparr>) = cmd_code d" "cmd_index (d\<lparr>dataout := x\<rparr>) = cmd_index d"
  "cmd_digest (d\<lparr>dataout := x\<rparr>) = cmd_digest d" "pcr (d\<lparr>dataout := x\<rparr>) = pcr d"
  "tpm_wf (d\<lparr>dataout := x\<rparr>) = tpm_wf d"
  by (simp_all add: cmd_code_def cmd_index_def cmd_digest_def pcr_def replied_def tpm_wf_def fun_eq_iff)

lemma tpm_runCmd_eq:
  assumes "tpm_wf d" and "sha1_ok SHA1"
  shows "tpm_runCmd SHA1 d = Some (if cmd_ok d
    then (replied (cmd_index d) (cmd_value SHA1 d) (d\<lparr>cmd_worked := True\<rparr>))\<lparr>fifo_state := FIFO_SENDING\<rparr>
    else malformed (d\<lparr>cmd_worked := False\<rparr>))"
proof -
  have len: "length (fifo_indata d) = 126" "length (fifo_outdata d) = 126"
    using assms(1) by (simp_all add: tpm_wf_def)
  show ?thesis
    using assms len
    by (simp add: tpm_runCmd_def run_extend_def run_read_def cmd_code_is_eq pcr_extend_eq pcr_read_eq
        malformed_output_eq cmd_ok_def cmd_value_def Let_def)
qed

section \<open>Every bus access is safe\<close>

lemma tpm_wf_replied:
  assumes "tpm_wf d" and "length v = 20" and "i \<le> 23" and "s < FIFO_WORKING"
    and "unat (fifo_in_amt d) \<noteq> 126 \<or> s = FIFO_FULL"
  shows "tpm_wf ((replied i v d)\<lparr>fifo_state := s\<rparr>)"
  using assms by (auto simp: tpm_wf_def replied_def reply_cells_clear_reply_out)

lemma tpm_wf_malformed: "tpm_wf d \<Longrightarrow> tpm_wf (malformed d)"
  by (auto simp: tpm_wf_def malformed_def reply_cells_clear_def)

lemma length_cmd_value:
  "tpm_wf d \<Longrightarrow> sha1_ok SHA1 \<Longrightarrow> cmd_ok d \<Longrightarrow> length (cmd_value SHA1 d) = 20"
  by (auto simp: cmd_value_def tpm_wf_def cmd_ok_def)

lemma tpm_runCmd_wf:
  assumes "tpm_wf d" and "sha1_ok SHA1"
  shows "\<exists>d'. tpm_runCmd SHA1 d = Some d' \<and> tpm_wf d'"
proof -
  have "unat (fifo_in_amt d) \<noteq> 126" if "cmd_ok d"
    using assms(1) that by (auto simp: tpm_wf_def cmd_ok_def)
  then show ?thesis
    using assms by (auto simp: tpm_runCmd_eq length_cmd_value cmd_ok_def
        intro!: tpm_wf_replied tpm_wf_malformed)
qed

lemma unat_minus_1: "0 < (x::u32) \<Longrightarrow> unat (x - 1) = unat x - 1"
  by (simp add: unat_sub word_le_nat_alt word_less_nat_alt Suc_leI)

lemma unat_plus_1: "unat (x::u32) \<le> 126 \<Longrightarrow> unat (x + 1) = unat x + 1"
  by (simp add: unat_word_ariths)

lemma tpm_bus_read_wf:
  assumes "tpm_wf d"
  shows "\<exists>d'. tpm_bus_read d a = Some d' \<and> tpm_wf d' \<and> pcr_data d' = pcr_data d"
  using assms by (auto simp: tpm_bus_read_def Let_def tpm_wf_def unat_minus_1)

lemma tpm_bus_write_wf:
  assumes "tpm_wf d" and "sha1_ok SHA1"
  shows "\<exists>d'. tpm_bus_write SHA1 d a v = Some d' \<and> tpm_wf d'"
proof (cases "a = STS_ADDR \<and> v = STS_GO")
  case True
  then show ?thesis
    using tpm_runCmd_wf [OF assms] by (simp add: tpm_bus_write_def)
next
  case False
  have "unat (fifo_in_amt d) < 126" if "fifo_state d \<noteq> FIFO_FULL"
    using assms(1) that by (auto simp: tpm_wf_def)
  then show ?thesis
    using False assms(1)
    by (auto simp: tpm_bus_write_def Let_def tpm_wf_def unat_plus_1 word_unat_eq_iff)
qed

lemma tpm_status_update [simp]: "tpm_status (d\<lparr>fifo_sts := s\<rparr>) = tpm_status d"
  by (simp add: tpm_status_def)

lemma tpm_wf_sts [simp]: "tpm_wf (d\<lparr>fifo_sts := s\<rparr>) = tpm_wf d"
  by (simp add: tpm_wf_def)

lemma tpm_update_wf:
  assumes "tpm_wf d" and "sha1_ok SHA1"
  obtains r d' where "tpm_update SHA1 d cmd a v = Some (r, d')" and "tpm_wf d'" and "fifo_sts d' = tpm_status d'"
proof -
  let ?d = "d\<lparr>dataout := 0\<rparr>"
  have wf: "tpm_wf ?d" using assms(1) by simp
  obtain d1 where 1: "(if cmd = RD then tpm_bus_read ?d a else Some ?d) = Some d1" "tpm_wf d1"
    using tpm_bus_read_wf [OF wf] wf by metis
  obtain d2 where 2: "(if cmd = WR then tpm_bus_write SHA1 d1 a v else Some d1) = Some d2" "tpm_wf d2"
    using tpm_bus_write_wf [OF 1(2) assms(2)] 1(2) by metis
  show ?thesis
    by (rule that [of "dataout d2" "d2\<lparr>fifo_sts := tpm_status d2\<rparr>"])
      (simp_all add: tpm_update_def 1(1) 2 Let_def)
qed

section \<open>What happens to the registers\<close>

lemma pcr_copy_at:
  assumes "length (pcr_data d) = 480" and "i < 24" and "j < 24" and "length v = 20"
  shows "take 20 (drop (20 * j) (copy_at (pcr_data d) (20 * i) v)) = (if j = i then v else pcr d j)"
  using assms
  by (intro nth_equalityI) (auto simp: nth_copy_at pcr_def)

lemma tpm_runCmd_pcr:
  assumes "tpm_wf d" and "sha1_ok SHA1" and "tpm_runCmd SHA1 d = Some d'" and "j < 24"
  shows "pcr d' j = (if cmd_ok d \<and> cmd_code d = [0, 0, 0, 0x14] \<and> j = cmd_index d
    then SHA1 (pcr d j @ cmd_digest d) else pcr d j)"
proof (cases "cmd_ok d")
  case True
  have "length (pcr_data d) = 480" using assms(1) by (simp add: tpm_wf_def)
  then have "pcr d' j = (if j = cmd_index d then cmd_value SHA1 d else pcr d j)"
    using pcr_copy_at [of d "cmd_index d" j "cmd_value SHA1 d"] True assms
      length_cmd_value [OF assms(1,2) True]
    by (auto simp: tpm_runCmd_eq replied_def cmd_ok_def pcr_def [of "_\<lparr>fifo_state := _\<rparr>"])
  with True show ?thesis by (auto simp: cmd_value_def)
next
  case False
  with assms show ?thesis by (auto simp: tpm_runCmd_eq malformed_def pcr_def)
qed

lemma tpm_update_pcr:
  assumes "tpm_wf d" and "sha1_ok SHA1" and "tpm_update SHA1 d cmd a v = Some (r, d')" and "j < 24"
  shows "pcr d' j = (if cmd = WR \<and> a = STS_ADDR \<and> v = STS_GO \<and> cmd_ok d \<and> cmd_code d = [0, 0, 0, 0x14] \<and>
      j = cmd_index d then SHA1 (pcr d j @ cmd_digest d) else pcr d j)"
proof -
  let ?d = "d\<lparr>dataout := 0\<rparr>"
  have wf: "tpm_wf ?d" using assms(1) by simp
  have ok: "cmd_ok ?d = cmd_ok d" by (simp add: cmd_ok_def)
  obtain d1 where 1: "(if cmd = RD then tpm_bus_read ?d a else Some ?d) = Some d1" "pcr_data d1 = pcr_data d"
    using tpm_bus_read_wf [OF wf] by (metis tpm.select_convs(9) tpm.surjective tpm.update_convs(1))
  obtain d2 where 2: "(if cmd = WR then tpm_bus_write SHA1 d1 a v else Some d1) = Some d2" "d' = d2\<lparr>fifo_sts := tpm_status d2\<rparr>"
    using assms(3) by (auto simp: tpm_update_def 1(1) Let_def bind_eq_Some_conv)
  have p: "pcr d' j = pcr d2 j" "pcr d1 j = pcr d j" using 1(2) 2(2) by (simp_all add: pcr_def)
  show ?thesis
  proof (cases "cmd = WR \<and> a = STS_ADDR \<and> v = STS_GO")
    case True
    then have "tpm_runCmd SHA1 ?d = Some d2" using 1(1) 2(1) by (simp add: tpm_bus_write_def)
    from tpm_runCmd_pcr [OF wf assms(2) this assms(4)] True p(1) show ?thesis
      by (simp add: ok)
  next
    case False
    then have "pcr_data d2 = pcr_data d1"
      using 2(1) by (auto simp: tpm_bus_write_def Let_def bind_eq_Some_conv split: if_splits)
    with False p show ?thesis by (auto simp: pcr_def)
  qed
qed

text \<open>
  C10. Every access of the bus to a well-formed device, whatever command, address and data it has,
  stays inside the arrays of the device, returns, and leaves the device well-formed with its status
  register up to date.  A platform configuration register changes only when a complete extend
  command for it is started, to the digest of its value and the 20 bytes of the command.
\<close>

theorem tpm_update_safe:
  assumes "tpm_wf d" and "sha1_ok SHA1"
  shows "\<exists>r d'. tpm_update SHA1 d cmd a v = Some (r, d') \<and> tpm_wf d' \<and> fifo_sts d' = tpm_status d' \<and>
    (\<forall>j. j < 24 \<longrightarrow> pcr d' j =
      (if cmd = WR \<and> a = STS_ADDR \<and> v = STS_GO \<and> cmd_ok d \<and> cmd_code d = [0, 0, 0, 0x14] \<and> j = cmd_index d
       then SHA1 (pcr d j @ cmd_digest d) else pcr d j))"
proof -
  obtain r d' where u: "tpm_update SHA1 d cmd a v = Some (r, d')" "tpm_wf d'" "fifo_sts d' = tpm_status d'"
    using tpm_update_wf [OF assms] by metis
  with tpm_update_pcr [OF assms u(1)] show ?thesis by blast
qed

definition tpm_power_on :: tpm where
  "tpm_power_on = tpm_init \<lparr>dataout = 0, fifo_in_amt = 0, fifo_in_cmdsize = 0, fifo_out_amt = 0,
     fifo_state = 0, fifo_sts = 0, fifo_outdata = [], fifo_indata = [], pcr_data = [], cmd_worked = False\<rparr>"

lemma tpm_wf_power_on [simp]: "tpm_wf tpm_power_on"
  by (simp add: tpm_power_on_def tpm_wf_init)

theorem tpm_update_safe_witness:
  "tpm_wf tpm_power_on \<and> sha1_ok (\<lambda>x. replicate 20 (of_nat (length x))) \<and>
   (\<exists>r d'. tpm_update (\<lambda>x. replicate 20 (of_nat (length x))) tpm_power_on 2 0x24 7 = Some (r, d') \<and> tpm_wf d' \<and>
     pcr d' 3 = pcr tpm_power_on 3)"
proof -
  have s: "sha1_ok (\<lambda>x. replicate 20 (of_nat (length x)))" by (simp add: sha1_ok_def)
  show ?thesis using tpm_update_safe [OF tpm_wf_power_on s, of 2 "0x24" 7] s by fastforce
qed

section \<open>The history of a register\<close>

inductive tpm_reach :: "(bytes \<Rightarrow> bytes) \<Rightarrow> tpm \<Rightarrow> tpm \<Rightarrow> bool" for SHA1 where
  tpm_here: "tpm_reach SHA1 d d"
| tpm_access: "tpm_reach SHA1 d d' \<Longrightarrow> tpm_update SHA1 d' cmd a v = Some (r, d'') \<Longrightarrow> tpm_reach SHA1 d d''"

inductive_cases tpm_reachE: "tpm_reach SHA1 d d'"

lemma tpm_reach_wf: "tpm_reach SHA1 d d' \<Longrightarrow> tpm_wf d \<Longrightarrow> sha1_ok SHA1 \<Longrightarrow> tpm_wf d'"
proof (induction rule: tpm_reach.induct)
  case (tpm_access d d' cmd a v r d'')
  then show ?case using tpm_update_wf [of d' SHA1 cmd a v] by fastforce
qed

text \<open>Extending a register by one measurement.\<close>

definition extended :: "(bytes \<Rightarrow> bytes) \<Rightarrow> bytes \<Rightarrow> bytes \<Rightarrow> bytes" where
  "extended SHA1 p x = SHA1 (p @ x)"

text \<open>
  C6. Whatever is done to the device on its bus, a platform configuration register only ever holds
  what a sequence of extensions by 20-byte measurements makes of its first value: no access can set
  a register to a chosen value, take a measurement back or reorder measurements.
\<close>

theorem pcr_history:
  assumes "tpm_reach SHA1 d d'" and "tpm_wf d" and "sha1_ok SHA1" and "j < 24"
  shows "\<exists>xs. list_all (\<lambda>x. length x = 20) xs \<and> pcr d' j = foldl (extended SHA1) (pcr d j) xs"
  using assms
proof (induction rule: tpm_reach.induct)
  case (tpm_here d)
  show ?case by (rule exI [of _ "[]"]) simp
next
  case (tpm_access d d' cmd a v r d'')
  then obtain xs where xs: "list_all (\<lambda>x. length x = 20) xs" "pcr d' j = foldl (extended SHA1) (pcr d j) xs"
    by blast
  have wf: "tpm_wf d'" using tpm_access tpm_reach_wf by blast
  then have len: "length (cmd_digest d') = 20" by (simp add: cmd_digest_def tpm_wf_def)
  show ?case
  proof (cases "pcr d'' j = pcr d' j")
    case True
    with xs show ?thesis by metis
  next
    case False
    then have "pcr d'' j = extended SHA1 (pcr d' j) (cmd_digest d')"
      using tpm_update_pcr [OF wf _ tpm_access(2), of j] tpm_access.prems
      by (auto simp: extended_def split: if_splits)
    with xs len show ?thesis by (intro exI [of _ "xs @ [cmd_digest d']"]) simp
  qed
qed

theorem pcr_history_witness:
  "\<exists>d'. tpm_reach (\<lambda>x. replicate 20 (of_nat (length x))) tpm_power_on d' \<and> fifo_state d' = 1 \<and>
    (\<exists>xs. list_all (\<lambda>x. length x = 20) xs \<and>
      pcr d' 3 = foldl (extended (\<lambda>x. replicate 20 (of_nat (length x)))) (pcr tpm_power_on 3) xs)"
proof -
  let ?S = "\<lambda>x::bytes. replicate 20 (of_nat (length x)) :: bytes"
  have s: "sha1_ok ?S" by (simp add: sha1_ok_def)
  obtain r d' where u: "tpm_update ?S tpm_power_on 2 0x18 0x40 = Some (r, d')" and st: "fifo_state d' = 1"
    by (simp add: tpm_update_def tpm_bus_write_def Let_def)
  then have re: "tpm_reach ?S tpm_power_on d'" by (blast intro: tpm_reach.intros)
  from pcr_history [OF re tpm_wf_power_on s, of 3] st re show ?thesis by auto
qed

end
