(* ===== verification/Tpm_Driver.thy ===== *)
theory Tpm_Driver
  imports Tpm_Device
begin

text \<open>
  The driver between the firmware and the device (\<^verbatim>\<open>CBMC/tpm-fw.c\<close>): sending a command byte by byte,
  receiving the reply, and the transaction made of the two, shown to implement a bank of registers.
\<close>

section \<open>The driver\<close>

text \<open>
  A result None stands for an access outside an array, a failed assertion of the code or a wait
  that does not end.
\<close>

abbreviation (input) STS :: "int \<Rightarrow> u32" where "STS l \<equiv> 0x0018 OR shl (of_int l) 12"
abbreviation (input) DATA_FIFO :: "int \<Rightarrow> u32" where "DATA_FIFO l \<equiv> 0x0024 OR shl (of_int l) 12"
abbreviation (input) locality :: int where "locality \<equiv> 0"

definition read8 :: "(bytes \<Rightarrow> bytes) \<Rightarrow> tpm \<Rightarrow> u32 \<Rightarrow> (u32 \<times> tpm) option" where
  "read8 SHA1 d addr = tpm_update SHA1 d 1 addr 0"

definition write8 :: "(bytes \<Rightarrow> bytes) \<Rightarrow> tpm \<Rightarrow> u8 \<Rightarrow> u32 \<Rightarrow> tpm option" where
  "write8 SHA1 d data addr = map_option snd (tpm_update SHA1 d 2 addr (ucast data))"

definition is_data_aval :: "(bytes \<Rightarrow> bytes) \<Rightarrow> tpm \<Rightarrow> int \<Rightarrow> (int \<times> tpm) option" where
  "is_data_aval SHA1 d l =
     (if l < 0 \<or> l > 5 then Some (-1, d)
      else do {
        (status, d) \<leftarrow> read8 SHA1 d (STS l);
        Some (if status AND (STS_DATA_AVAIL OR STS_VALID) = STS_DATA_AVAIL OR STS_VALID then 1 else 0, d) })"

definition readBurstCount :: nat where
  "readBurstCount = 256"

text \<open>The inner loop of \<^verbatim>\<open>send()\<close>: at most a burst of bytes, all but the last byte of the command.\<close>

fun send_burst :: "(bytes \<Rightarrow> bytes) \<Rightarrow> bytes \<Rightarrow> u32 \<Rightarrow> nat \<Rightarrow> tpm \<Rightarrow> u32 \<Rightarrow> (tpm \<times> u32) option" where
  "send_burst SHA1 buf len 0 d count = Some (d, count)"
| "send_burst SHA1 buf len (Suc burstcnt) d count =
     (if count < len - 1 then do {
        c \<leftarrow> get8 buf (unat count);
        d \<leftarrow> write8 SHA1 d c (DATA_FIFO locality);
        send_burst SHA1 buf len burstcnt d (count + 1) }
      else Some (d, count))"

partial_function (option) wait_valid :: "(bytes \<Rightarrow> bytes) \<Rightarrow> tpm \<Rightarrow> (u32 \<times> tpm) option" where
  "wait_valid SHA1 d = do {
     r \<leftarrow> read8 SHA1 d (STS locality);
     (if fst r AND STS_VALID = 0 then wait_valid SHA1 (snd r) else Some r) }"

text \<open>
  The outer loop of \<^verbatim>\<open>send()\<close>; the flag is false when the device does not expect more data.
\<close>

partial_function (option) send_loop :: "(bytes \<Rightarrow> bytes) \<Rightarrow> bytes \<Rightarrow> u32 \<Rightarrow> tpm \<Rightarrow> u32 \<Rightarrow> (bool \<times> tpm \<times> u32) option" where
  "send_loop SHA1 buf len d count =
     (if count < len - 1 then
        (if readBurstCount = 0 then send_loop SHA1 buf len d count
         else do {
           s \<leftarrow> send_burst SHA1 buf len readBurstCount d count;
           r \<leftarrow> wait_valid SHA1 (fst s);
           (if fst r AND STS_DATA_EXPECT = 0 then Some (False, snd r, snd s)
            else send_loop SHA1 buf len (snd r) (snd s)) })
      else Some (True, d, count))"

definition send :: "(bytes \<Rightarrow> bytes) \<Rightarrow> bytes \<Rightarrow> u32 \<Rightarrow> tpm \<Rightarrow> (u32 \<times> tpm) option" where
  "send SHA1 buf len d = do {
     d \<leftarrow> write8 SHA1 d 0x40 (STS locality);
     (expected, d, count) \<leftarrow> send_loop SHA1 buf len d 0;
     if \<not> expected then Some (-1, d)
     else do {
       c \<leftarrow> get8 buf (unat count);
       d \<leftarrow> write8 SHA1 d c (DATA_FIFO locality);
       (status, d) \<leftarrow> wait_valid SHA1 d;
       if status AND STS_DATA_EXPECT \<noteq> 0 then Some (-1, d)
       else if \<not> (len = fifo_in_amt d) then None
       else if \<not> (fifo_in_amt d = fifo_in_cmdsize d) then None
       else do {
         d \<leftarrow> write8 SHA1 d 0x20 (STS locality);
         Some (len, d) } } }"

text \<open>The inner loop of \<^verbatim>\<open>recv_helper()\<close>, which fills the buffer from \<^verbatim>\<open>buf[size]\<close> on.\<close>

fun recv_burst :: "(bytes \<Rightarrow> bytes) \<Rightarrow> nat \<Rightarrow> int \<Rightarrow> nat \<Rightarrow> tpm \<Rightarrow> bytes \<Rightarrow> int \<Rightarrow> (nat \<times> tpm \<times> bytes \<times> int) option" where
  "recv_burst SHA1 off count 0 d buf sz = Some (0, d, buf, sz)"
| "recv_burst SHA1 off count (Suc burstcnt) d buf sz =
     (if sz < count then do {
        (c, d) \<leftarrow> read8 SHA1 d (DATA_FIFO locality);
        buf \<leftarrow> put8 buf (off + nat sz) (ucast c);
        recv_burst SHA1 off count burstcnt d buf (sz + 1) }
      else Some (Suc burstcnt, d, buf, sz))"

text \<open>The outer loop; the address of the buffer is an offset into the buffer of the caller.\<close>

partial_function (option) recv_loop ::
    "(bytes \<Rightarrow> bytes) \<Rightarrow> nat \<Rightarrow> int \<Rightarrow> nat \<Rightarrow> tpm \<Rightarrow> bytes \<Rightarrow> int \<Rightarrow> (int \<times> bytes \<times> tpm) option" where
  "recv_loop SHA1 off count burstcnt d buf sz = do {
     a \<leftarrow> is_data_aval SHA1 d locality;
     (if fst a \<noteq> 0 \<and> sz < count then
        (let burstcnt = (if burstcnt = 0 then readBurstCount else burstcnt) in
         if burstcnt = 0 then recv_loop SHA1 off count burstcnt (snd a) buf sz
         else do {
           s \<leftarrow> recv_burst SHA1 off count burstcnt (snd a) buf sz;
           recv_loop SHA1 off count (fst s) (fst (snd s)) (fst (snd (snd s))) (snd (snd (snd s))) })
      else Some (sz, buf, snd a)) }"

definition recv_helper :: "(bytes \<Rightarrow> bytes) \<Rightarrow> tpm \<Rightarrow> bytes \<Rightarrow> nat \<Rightarrow> int \<Rightarrow> (int \<times> bytes \<times> tpm) option" where
  "recv_helper SHA1 d buf off count = recv_loop SHA1 off count 0 d buf 0"

definition recv :: "(bytes \<Rightarrow> bytes) \<Rightarrow> tpm \<Rightarrow> bytes \<Rightarrow> int \<Rightarrow> (int \<times> bytes \<times> tpm) option" where
  "recv SHA1 d buf count =
     (if count < 6 then Some (-1, buf, d)
      else do {
        (a, d) \<leftarrow> is_data_aval SHA1 d locality;
        if a = 0 then Some (-2, buf, d)
        else do {
          (sz, buf, d) \<leftarrow> recv_helper SHA1 d buf 0 6;
          if sz < 6 then Some (-1, buf, d)
          else do {
            command_size \<leftarrow> map_option (int \<circ> unat) (get8 buf 5);
            if command_size > count then Some (-1, buf, d)
            else do {
              (n, buf, d) \<leftarrow> recv_helper SHA1 d buf 6 (command_size - 6 - 1);
              let sz = sz + n;
              if sz < command_size - 1 then Some (-1, buf, d)
              else do {
                (a, d) \<leftarrow> is_data_aval SHA1 d locality;
                if a = 0 then Some (-1, buf, d)
                else do {
                  (n, buf, d) \<leftarrow> recv_helper SHA1 d buf (nat sz) 1;
                  let sz = sz + n;
                  if sz \<noteq> command_size then Some (-1, buf, d)
                  else do {
                    (a, d) \<leftarrow> is_data_aval SHA1 d locality;
                    if a \<noteq> 0 then Some (-1, buf, d)
                    else do {
                      d \<leftarrow> write8 SHA1 d 0x40 (STS locality);
                      Some (0, buf, d) } } } } } } } })"

definition VbExTpmSendReceive ::
    "(bytes \<Rightarrow> bytes) \<Rightarrow> bytes \<Rightarrow> u32 \<Rightarrow> bytes \<Rightarrow> u32 \<Rightarrow> tpm \<Rightarrow> (u32 \<times> bytes \<times> tpm) option" where
  "VbExTpmSendReceive SHA1 request request_length response response_length d = do {
     (ret, d) \<leftarrow> send SHA1 request request_length d;
     if ret \<noteq> request_length then Some (-1, response, d)
     else do {
       (ret, response, d) \<leftarrow> recv SHA1 d response (sint response_length);
       if ret \<noteq> 0 then Some (-1, response, d)
       else Some (0, response, d) } }"

section \<open>Sending a command\<close>

lemma unat_of_nat_u32 [simp]: "n < 2 ^ 32 \<Longrightarrow> unat (of_nat n :: u32) = n"
  by (simp add: unat_of_nat)

lemma of_nat_u32_eq_numeral: "n < 2 ^ 32 \<Longrightarrow> (numeral k :: nat) < 2 ^ 32 \<Longrightarrow>
    (of_nat n = (numeral k :: u32)) = (n = numeral k)"
  by (metis of_nat_numeral unat_of_nat_u32)

lemma of_nat_u32_less: "m < 2 ^ 32 \<Longrightarrow> n < 2 ^ 32 \<Longrightarrow> (of_nat m < (of_nat n :: u32)) = (m < n)"
  by (simp add: word_less_nat_alt)

lemma of_nat_u32_less_numeral: "m < 2 ^ 32 \<Longrightarrow> (numeral k :: nat) < 2 ^ 32 \<Longrightarrow>
    (of_nat m < (numeral k :: u32)) = (m < numeral k)"
  using of_nat_u32_less [of m "numeral k"] by simp

lemma of_nat_minus_1: "0 < n \<Longrightarrow> (of_nat n :: u32) - 1 = of_nat (n - 1)"
  by (simp add: of_nat_diff)

text \<open>The device after the first n bytes of a command.\<close>

definition filling :: "tpm \<Rightarrow> bytes \<Rightarrow> nat \<Rightarrow> tpm \<Rightarrow> bool" where
  "filling d0 req n d \<longleftrightarrow> tpm_wf d \<and> fifo_sts d = tpm_status d \<and> n \<le> 126 \<and> n \<le> length req \<and>
     fifo_state d = (if n = 126 then FIFO_FULL else FIFO_ACCEPTING) \<and> fifo_in_amt d = of_nat n \<and>
     fifo_out_amt d = 0 \<and> fifo_in_cmdsize d = (if 6 \<le> n then ucast (req ! 5) else fifo_in_cmdsize d0) \<and>
     fifo_indata d = take n req @ replicate (126 - n) 0 \<and> fifo_outdata d = fifo_outdata d0 \<and>
     pcr_data d = pcr_data d0"

lemma tpm_status_dataout [simp]: "tpm_status (d\<lparr>dataout := x\<rparr>) = tpm_status d"
  by (simp add: tpm_status_def)

lemma filling_dataout [simp]: "filling d0 req n (d\<lparr>dataout := x\<rparr>) = filling d0 req n d"
  by (simp add: filling_def)

lemma ucast_u8_u32_u8 [simp]: "ucast (ucast (b::u8) :: u32) = b"
  by (simp add: u8_bitwise bit_simps)

lemma write_ready:
  "tpm_wf d0 \<Longrightarrow> \<exists>d. write8 SHA1 d0 0x40 0x18 = Some d \<and> filling d0 req 0 d"
  by (auto simp: write8_def tpm_update_def tpm_bus_write_def filling_def tpm_wf_def Let_def)

lemma write_fifo:
  assumes "fifo_state d \<noteq> FIFO_FULL" and "fifo_in_amt d = of_nat n" and "n < 126" and "length (fifo_indata d) = 126"
  shows "\<exists>d'. write8 SHA1 d b 0x24 = Some d' \<and> fifo_sts d' = tpm_status d' \<and>
    fifo_state d' = (if Suc n = 126 then FIFO_FULL else fifo_state d) \<and> fifo_in_amt d' = of_nat (Suc n) \<and>
    fifo_in_cmdsize d' = (if n = 5 then ucast b else fifo_in_cmdsize d) \<and> fifo_indata d' = (fifo_indata d)[n := b] \<and>
    fifo_out_amt d' = fifo_out_amt d \<and> fifo_outdata d' = fifo_outdata d \<and> pcr_data d' = pcr_data d"
proof -
  have amt: "(of_nat n + 1 :: u32) = of_nat (Suc n)" by simp
  have 5: "(of_nat n = (5::u32)) = (n = 5)" using assms(3) by (simp add: of_nat_u32_eq_numeral)
  have 126: "(of_nat (Suc n) = (126::u32)) = (Suc n = 126)"
    using assms(3) by (intro of_nat_u32_eq_numeral) simp_all
  have 125: "(of_nat n = (125::u32)) = (n = 125)" using assms(3) by (simp add: of_nat_u32_eq_numeral)
  have n: "unat (of_nat n :: u32) = n" using assms(3) by simp
  show ?thesis
    unfolding write8_def tpm_update_def tpm_bus_write_def Let_def
    using assms by (auto simp: amt 5 125 126 n simp del: of_nat_Suc)
qed

lemma write_byte:
  assumes f: "filling d0 req n d" and n: "n < 126" "n < length req"
  shows "\<exists>d'. write8 SHA1 d (req ! n) 0x24 = Some d' \<and> filling d0 req (Suc n) d'"
proof -
  have upd: "(take n req @ replicate (126 - n) 0)[n := req ! n] = take (Suc n) req @ replicate (126 - Suc n) 0"
    using n by (intro nth_equalityI) (auto simp: nth_append nth_list_update min_def less_Suc_eq)
  have "fifo_state d \<noteq> FIFO_FULL" "fifo_in_amt d = of_nat n" "length (fifo_indata d) = 126"
    using f n by (simp_all add: filling_def tpm_wf_def)
  from write_fifo [OF this(1,2) n(1) this(3), of SHA1 "req ! n"]
  obtain d' where w: "write8 SHA1 d (req ! n) 0x24 = Some d'" "fifo_sts d' = tpm_status d'"
    "fifo_state d' = (if Suc n = 126 then FIFO_FULL else fifo_state d)" "fifo_in_amt d' = of_nat (Suc n)"
    "fifo_in_cmdsize d' = (if n = 5 then ucast (req ! n) else fifo_in_cmdsize d)"
    "fifo_indata d' = (fifo_indata d)[n := req ! n]"
    "fifo_out_amt d' = fifo_out_amt d" "fifo_outdata d' = fifo_outdata d" "pcr_data d' = pcr_data d"
    by blast
  have "unat (fifo_in_amt d') = Suc n" using w(4) n(1) unat_of_nat_u32 [of "Suc n"] by simp
  then have "tpm_wf d'"
    using f n w(2-9) unfolding filling_def tpm_wf_def by auto
  then have "filling d0 req (Suc n) d'"
    using f n w(2-9) upd unfolding filling_def by auto
  with w(1) show ?thesis by blast
qed

lemma read_status:
  "fifo_sts d = tpm_status d \<Longrightarrow> read8 SHA1 d 0x18 = Some (tpm_status d, d\<lparr>dataout := tpm_status d\<rparr>)"
  by (simp add: read8_def tpm_update_def tpm_bus_read_def Let_def)

lemma status_valid:
  "fifo_state d < FIFO_WORKING \<Longrightarrow> tpm_status d AND STS_VALID \<noteq> 0"
  by (simp add: tpm_status_def Let_def)

lemma wait_valid_eq:
  "fifo_sts d = tpm_status d \<Longrightarrow> fifo_state d < FIFO_WORKING \<Longrightarrow>
   wait_valid SHA1 d = Some (tpm_status d, d\<lparr>dataout := tpm_status d\<rparr>)"
  by (simp add: wait_valid.simps read_status status_valid)

lemma status_expect:
  "tpm_status d AND STS_DATA_EXPECT = 0 \<longleftrightarrow>
   \<not> (fifo_state d = FIFO_ACCEPTING \<and> fifo_in_amt d < 4 \<or> fifo_in_amt d < fifo_in_cmdsize d)"
  by (simp add: tpm_status_def Let_def)

lemma send_burst_eq:
  assumes "length req = Suc m" and "m < 126" and "len - 1 = (of_nat m :: u32)"
    and "n \<le> m" and "m - n \<le> b" and "filling d0 req n d"
  shows "\<exists>d'. send_burst SHA1 req len b d (of_nat n) = Some (d', of_nat m) \<and> filling d0 req m d'"
  using assms(4-6)
proof (induction b arbitrary: n d)
  case 0
  then show ?case by auto
next
  case (Suc b)
  have less: "((of_nat n :: u32) < of_nat m) = (n < m)"
    using Suc.prems(1) assms(2) by (intro of_nat_u32_less) simp_all
  show ?case
  proof (cases "n < m")
    case True
    obtain d1 where d1: "write8 SHA1 d (req ! n) 0x24 = Some d1" "filling d0 req (Suc n) d1"
      using write_byte [OF Suc.prems(3)] True assms(1,2) by fastforce
    have "send_burst SHA1 req len (Suc b) d (of_nat n) = send_burst SHA1 req len b d1 (of_nat (Suc n))"
      using True assms(1,2) d1(1) by (simp add: assms(3) less add.commute)
    with Suc.IH [of "Suc n" d1] True Suc.prems(2) d1(2) show ?thesis by simp
  next
    case False
    then have "n = m" using Suc.prems(1) by simp
    with Suc.prems(3) show ?thesis by (simp add: assms(3))
  qed
qed

text \<open>A request the driver can send: it has room for its size, which its sixth byte gives.\<close>

definition request_ok :: "bytes \<Rightarrow> bool" where
  "request_ok req \<longleftrightarrow> 7 \<le> length req \<and> length req \<le> 126 \<and> unat (req ! 5) = length req"

lemma request_size: "request_ok req \<Longrightarrow> ucast (req ! 5) = (of_nat (length req) :: u32)"
  by (simp add: request_ok_def word_unat_eq_iff)

lemma send_loop_eq:
  assumes "request_ok req" and "length req = Suc m" and "filling d0 req 0 d"
  shows "\<exists>d'. send_loop SHA1 req (of_nat (length req)) d 0 = Some (True, d', of_nat m) \<and> filling d0 req m d'"
proof -
  let ?len = "of_nat (length req) :: u32"
  have m: "6 \<le> m" "m < 126" using assms(1,2) by (simp_all add: request_ok_def)
  have len: "?len - 1 = of_nat m" by (simp add: assms(2))
  have less: "(0 :: u32) < of_nat m" using of_nat_u32_less [of 0 m] m by simp
  obtain d1 where d1: "send_burst SHA1 req ?len 256 d 0 = Some (d1, of_nat m)" "filling d0 req m d1"
    using send_burst_eq [OF assms(2) m(2) len, of 0 256 d0 d SHA1] m assms(3) by auto
  have s: "fifo_sts d1 = tpm_status d1" "fifo_state d1 < FIFO_WORKING" "fifo_in_amt d1 = of_nat m"
    "fifo_in_cmdsize d1 = ?len"
    using d1(2) m request_size [OF assms(1)] by (simp_all add: filling_def tpm_wf_def)
  have "fifo_in_amt d1 < fifo_in_cmdsize d1"
    unfolding s(3,4) assms(2) using m by (subst of_nat_u32_less) simp_all
  then have e: "tpm_status d1 AND STS_DATA_EXPECT \<noteq> 0" unfolding status_expect by simp
  have "send_loop SHA1 req ?len d 0 = send_loop SHA1 req ?len (d1\<lparr>dataout := tpm_status d1\<rparr>) (of_nat m)"
    by (subst send_loop.simps) (simp add: len less readBurstCount_def d1(1) wait_valid_eq s(1,2) e)
  also have "\<dots> = Some (True, d1\<lparr>dataout := tpm_status d1\<rparr>, of_nat m)"
    by (subst send_loop.simps) (simp add: len)
  finally show ?thesis using d1(2) by auto
qed

lemma send_eq:
  assumes "tpm_wf d0" and "request_ok req"
  shows "\<exists>d. filling d0 req (length req) d \<and>
    send SHA1 req (of_nat (length req)) d0 = map_option (Pair (of_nat (length req))) (write8 SHA1 d 0x20 0x18)"
proof -
  let ?len = "of_nat (length req) :: u32"
  obtain m where m: "length req = Suc m" "6 \<le> m" "m < 126"
    using assms(2) by (cases "length req") (simp_all add: request_ok_def)
  obtain d1 where d1: "write8 SHA1 d0 0x40 0x18 = Some d1" "filling d0 req 0 d1"
    using write_ready [OF assms(1)] by blast
  obtain d2 where d2: "send_loop SHA1 req ?len d1 0 = Some (True, d2, of_nat m)" "filling d0 req m d2"
    using send_loop_eq [OF assms(2) m(1) d1(2)] by blast
  obtain d3 where d3: "write8 SHA1 d2 (req ! m) 0x24 = Some d3" "filling d0 req (Suc m) d3"
    using write_byte [OF d2(2), of SHA1] m by auto
  have s: "fifo_sts d3 = tpm_status d3" "fifo_state d3 < FIFO_WORKING" "fifo_in_amt d3 = ?len"
    "fifo_in_cmdsize d3 = ?len"
    using d3(2) m request_size [OF assms(2)] by (simp_all add: filling_def tpm_wf_def)
  have "\<not> fifo_in_amt d3 < 4" unfolding s(3) using m by (subst of_nat_u32_less_numeral) simp_all
  then have e: "tpm_status d3 AND STS_DATA_EXPECT = 0" unfolding status_expect by (simp add: s(3,4))
  have g: "get8 req (unat (of_nat m :: u32)) = Some (req ! m)" using m by simp
  have "send SHA1 req ?len d0 = map_option (Pair ?len) (write8 SHA1 (d3\<lparr>dataout := tpm_status d3\<rparr>) 0x20 0x18)"
    unfolding send_def
    by (cases "write8 SHA1 (d3\<lparr>dataout := tpm_status d3\<rparr>) 0x20 0x18")
      (simp_all add: d1(1) d2(1) g d3(1) wait_valid_eq s e del: get8_Some)
  then show ?thesis using d3(2) by (intro exI [of _ "d3\<lparr>dataout := tpm_status d3\<rparr>"]) (simp add: m(1))
qed

section \<open>Receiving a reply\<close>

text \<open>The device with k bytes of its reply left, which it takes from the output array downwards.\<close>

definition answering :: "tpm \<Rightarrow> nat \<Rightarrow> tpm \<Rightarrow> bool" where
  "answering d1 k d \<longleftrightarrow> tpm_wf d \<and> fifo_sts d = tpm_status d \<and> k \<le> 30 \<and> fifo_state d = FIFO_SENDING \<and>
     fifo_out_amt d = of_nat k \<and> fifo_outdata d = fifo_outdata d1 \<and> pcr_data d = pcr_data d1"

definition reply_bytes :: "bytes \<Rightarrow> nat \<Rightarrow> nat \<Rightarrow> bytes" where
  "reply_bytes out k n = map (\<lambda>i. out ! (k - i)) [0..<n]"

lemma length_reply_bytes [simp]: "length (reply_bytes out k n) = n"
  by (simp add: reply_bytes_def)

lemma nth_reply_bytes [simp]: "i < n \<Longrightarrow> reply_bytes out k n ! i = out ! (k - i)"
  by (simp add: reply_bytes_def)

lemma answering_dataout [simp]: "answering d1 k (d\<lparr>dataout := x\<rparr>) = answering d1 k d"
  by (simp add: answering_def)

lemma is_data_aval_eq:
  assumes "answering d1 k d"
  shows "is_data_aval SHA1 d 0 = Some (if 0 < k then 1 else 0, d\<lparr>dataout := tpm_status d\<rparr>)"
proof -
  have k: "(0 < fifo_out_amt d) = (0 < k)" "fifo_state d \<noteq> FIFO_WORKING"
    using assms of_nat_u32_less [of 0 k] by (simp_all add: answering_def)
  have "tpm_status d AND 0x90 = 0x90 \<longleftrightarrow> 0 < fifo_out_amt d"
    using k(2) by (simp add: tpm_status_def Let_def)
  moreover have "fifo_sts d = tpm_status d" using assms by (simp add: answering_def)
  ultimately show ?thesis by (simp add: is_data_aval_def read_status k)
qed

lemma read_fifo:
  assumes "answering d1 (Suc k) d"
  shows "\<exists>d'. read8 SHA1 d 0x24 = Some (ucast (fifo_outdata d1 ! Suc k), d') \<and> answering d1 k d'"
proof -
  have k: "Suc k \<le> 30" "fifo_out_amt d = of_nat (Suc k)" "length (fifo_outdata d) = 126"
    using assms by (auto simp: answering_def tpm_wf_def)
  have u: "unat (fifo_out_amt d) = Suc k" unfolding k(2) using k(1) by (intro unat_of_nat_u32) simp
  have st: "fifo_state d = FIFO_SENDING" "fifo_outdata d1 = fifo_outdata d"
    using assms by (simp_all add: answering_def)
  from u have pos: "0 < fifo_out_amt d" by (simp add: word_less_nat_alt)
  have minus: "fifo_out_amt d - 1 = of_nat k" by (simp add: k(2))
  define d' where "d' = d\<lparr>dataout := ucast (fifo_outdata d1 ! Suc k), fifo_out_amt := of_nat k\<rparr>"
  have "read8 SHA1 d 0x24 = Some (ucast (fifo_outdata d1 ! Suc k), d'\<lparr>fifo_sts := tpm_status d'\<rparr>)"
    unfolding read8_def tpm_update_def tpm_bus_read_def Let_def d'_def using k(1,3) pos
    by (simp add: st u minus)
  moreover have "answering d1 k (d'\<lparr>fifo_sts := tpm_status d'\<rparr>)"
    using assms k(1) by (auto simp: answering_def tpm_wf_def d'_def)
  ultimately show ?thesis by blast
qed

lemma copy_at_Cons:
  "off + Suc (length bs) \<le> length buf \<Longrightarrow> copy_at (buf[off := b]) (Suc off) bs = copy_at buf off (b # bs)"
  by (intro nth_equalityI) (auto simp: nth_copy_at nth_Cons' nth_list_update)

lemma reply_bytes_Suc: "reply_bytes out (Suc k) (Suc n) = out ! Suc k # reply_bytes out k n"
  by (intro nth_equalityI) (auto simp: nth_Cons' Suc_diff_le)

lemma recv_burst_eq:
  assumes "n \<le> b" and "n \<le> k" and "off + nat sz + n \<le> length buf" and "0 \<le> sz" and "answering d1 k d"
  shows "\<exists>d'. recv_burst SHA1 off (sz + int n) b d buf sz = Some (b - n, d',
      copy_at buf (off + nat sz) (reply_bytes (fifo_outdata d1) k n), sz + int n) \<and> answering d1 (k - n) d'"
  using assms
proof (induction n arbitrary: b k d buf sz)
  case 0
  have "recv_burst SHA1 off sz b d buf sz = Some (b, d, buf, sz)" by (cases b) simp_all
  with 0 show ?case by (simp add: copy_at_def reply_bytes_def)
next
  case (Suc n)
  obtain b' k' where b: "b = Suc b'" and k: "k = Suc k'"
    using Suc.prems(1,2) by (cases b; cases k) simp_all
  obtain d2 where d2: "read8 SHA1 d 0x24 = Some (ucast (fifo_outdata d1 ! Suc k'), d2)" "answering d1 k' d2"
    using read_fifo Suc.prems(5) unfolding k by blast
  let ?buf = "buf[off + nat sz := fifo_outdata d1 ! Suc k']"
  have sz: "off + nat (sz + 1) = Suc (off + nat sz)" using Suc.prems(4) by simp
  have c: "sz + 1 + int n = sz + int (Suc n)" by simp
  have step: "recv_burst SHA1 off (sz + int (Suc n)) b d buf sz = recv_burst SHA1 off (sz + int (Suc n)) b' d2 ?buf (sz + 1)"
    using Suc.prems(3) by (simp add: b d2(1))
  have "n \<le> b'" "n \<le> k'" "off + nat (sz + 1) + n \<le> length ?buf" "0 \<le> sz + 1"
    using Suc.prems(1-4) by (simp_all add: b k sz del: add_Suc_right)
  from Suc.IH [OF this d2(2), unfolded sz c] Suc.prems(3) show ?case
    unfolding step by (simp add: b k copy_at_Cons reply_bytes_Suc)
qed

lemma recv_helper_eq:
  assumes "0 < n" and "n \<le> k" and "off + n \<le> length buf" and "answering d1 k d"
  shows "\<exists>d'. recv_helper SHA1 d buf off (int n) =
      Some (int n, copy_at buf off (reply_bytes (fifo_outdata d1) k n), d') \<and> answering d1 (k - n) d'"
proof -
  have n: "n \<le> 256" using assms(2,4) by (simp add: answering_def)
  obtain d2 where d2: "recv_burst SHA1 off (int n) 256 (d\<lparr>dataout := tpm_status d\<rparr>) buf 0 =
      Some (256 - n, d2, copy_at buf off (reply_bytes (fifo_outdata d1) k n), int n)" "answering d1 (k - n) d2"
    using recv_burst_eq [OF n assms(2), of off 0 buf d1 "d\<lparr>dataout := tpm_status d\<rparr>" SHA1] assms(3,4) by auto
  let ?buf = "copy_at buf off (reply_bytes (fifo_outdata d1) k n)"
  have "recv_loop SHA1 off (int n) 0 d buf 0 = recv_loop SHA1 off (int n) (256 - n) d2 ?buf (int n)"
    using assms(1,2)
    by (subst recv_loop.simps) (simp add: is_data_aval_eq [OF assms(4)] readBurstCount_def d2(1))
  also have "\<dots> = Some (int n, ?buf, d2\<lparr>dataout := tpm_status d2\<rparr>)"
    by (subst recv_loop.simps) (simp add: is_data_aval_eq [OF d2(2)])
  finally show ?thesis using d2(2) by (auto simp: recv_helper_def)
qed

lemma reply_bytes_append:
  "reply_bytes out k m @ reply_bytes out (k - m) n = reply_bytes out k (m + n)"
  by (intro nth_equalityI) (auto simp: nth_append)

lemma copy_at_append:
  "off + length a + length b \<le> length buf \<Longrightarrow> copy_at (copy_at buf off a) (off + length a) b = copy_at buf off (a @ b)"
  by (intro nth_equalityI) (auto simp: nth_copy_at nth_append)

lemma recv_eq:
  assumes "answering d1 k d" and "8 \<le> k" and "unat (fifo_outdata d1 ! (k - 5)) = k"
    and "k \<le> length buf" and "int k \<le> count"
  shows "\<exists>d'. recv SHA1 d buf count = Some (0, copy_at buf 0 (reply_bytes (fifo_outdata d1) k k), d') \<and>
    tpm_wf d' \<and> fifo_outdata d' = fifo_outdata d1 \<and> pcr_data d' = pcr_data d1"
proof -
  let ?o = "fifo_outdata d1" and ?d = "\<lambda>d. d\<lparr>dataout := tpm_status d\<rparr>"
  let ?b1 = "copy_at buf 0 (reply_bytes ?o k 6)" and ?b2 = "copy_at buf 0 (reply_bytes ?o k (k - 1))"
    and ?b3 = "copy_at buf 0 (reply_bytes ?o k k)"
  have 1: "is_data_aval SHA1 d 0 = Some (1, ?d d)" using is_data_aval_eq [OF assms(1)] assms(2) by simp
  obtain d2 where d2: "recv_helper SHA1 (?d d) buf 0 6 = Some (6, ?b1, d2)" "answering d1 (k - 6) d2"
    using recv_helper_eq [of 6 k 0 buf d1 "?d d" SHA1] assms(1,2,4) by auto
  have g: "get8 ?b1 5 = Some (?o ! (k - 5))" using assms(2,4) by (simp add: nth_copy_at)
  have b2: "copy_at ?b1 6 (reply_bytes ?o (k - 6) (k - 7)) = ?b2"
    using copy_at_append [of 0 "reply_bytes ?o k 6" "reply_bytes ?o (k - 6) (k - 7)" buf] assms(2,4)
    by (simp add: reply_bytes_append)
  obtain d3 where d3: "recv_helper SHA1 d2 ?b1 6 (int (k - 7)) = Some (int (k - 7), ?b2, d3)" "answering d1 1 d3"
  proof -
    have "0 < k - 7" "k - 7 \<le> k - 6" "6 + (k - 7) \<le> length ?b1" "k - 6 - (k - 7) = 1"
      using assms(2,4) by simp_all
    from recv_helper_eq [OF this(1-3) d2(2)] this(4) show thesis
      by (metis b2 that)
  qed
  have 3: "is_data_aval SHA1 d3 0 = Some (1, ?d d3)" using is_data_aval_eq [OF d3(2)] by simp
  have b3: "copy_at ?b2 (k - 1) (reply_bytes ?o 1 1) = ?b3"
  proof -
    have "reply_bytes ?o k (k - 1) @ reply_bytes ?o 1 1 = reply_bytes ?o k k"
      using reply_bytes_append [of ?o k "k - 1" 1] assms(2) by simp
    then show ?thesis
      using copy_at_append [of 0 "reply_bytes ?o k (k - 1)" "reply_bytes ?o 1 1" buf] assms(2,4) by simp
  qed
  obtain d4 where d4: "recv_helper SHA1 (?d d3) ?b2 (k - 1) 1 = Some (1, ?b3, d4)" "answering d1 0 d4"
    using recv_helper_eq [of 1 1 "k - 1" ?b2 d1 "?d d3" SHA1] assms(2,4) d3(2) by (auto simp: b3 [unfolded One_nat_def])
  have 4: "is_data_aval SHA1 d4 0 = Some (0, ?d d4)" using is_data_aval_eq [OF d4(2)] by simp
  obtain d5 where d5: "write8 SHA1 (?d d4) 0x40 0x18 = Some d5" "filling (?d d4) [] 0 d5"
    using write_ready [of "?d d4"] d4(2) by (auto simp: answering_def)
  have n: "int k - 6 - 1 = int (k - 7)" "nat (6 + int (k - 7)) = k - 1" "\<not> int k > count"
    "6 + int (k - 7) + 1 = int k" "\<not> 6 + int (k - 7) < int k - 1" "\<not> count < 6" "\<not> 7 + int (k - 7) < int k"
    using assms(2,5) by simp_all
  have "recv SHA1 d buf count = Some (0, ?b3, d5)"
    unfolding recv_def
    by (simp add: 1 d2(1) g assms(3) n d3(1) 3 d4(1) 4 d5(1) Let_def del: get8_Some One_nat_def)
  moreover have "tpm_wf d5 \<and> fifo_outdata d5 = ?o \<and> pcr_data d5 = pcr_data d1" using d5(2) d4(2) by (simp add: filling_def answering_def)
  ultimately show ?thesis by blast
qed

section \<open>A transaction\<close>

text \<open>
  The device as its users see it: a bank of registers, and what a request does to it.  The request
  is padded with zeros, the input array being cleared before a command.
\<close>

definition req_byte :: "bytes \<Rightarrow> nat \<Rightarrow> u8" where
  "req_byte req i = (if i < length req then req ! i else 0)"

definition req_code :: "bytes \<Rightarrow> bytes" where
  "req_code req = map (req_byte req) [6..<10]"

definition req_index :: "bytes \<Rightarrow> nat" where
  "req_index req = unat (req_byte req 13)"

definition req_digest :: "bytes \<Rightarrow> bytes" where
  "req_digest req = map (req_byte req) [14..<34]"

definition req_works :: "bytes \<Rightarrow> bool" where
  "req_works req \<longleftrightarrow> length req < 126 \<and> req_code req \<in> {[0, 0, 0, 0x14], [0, 0, 0, 0x15]} \<and> req_index req \<le> 23"

definition req_value :: "(bytes \<Rightarrow> bytes) \<Rightarrow> (nat \<Rightarrow> bytes) \<Rightarrow> bytes \<Rightarrow> bytes" where
  "req_value SHA1 bank req =
     (if req_code req = [0, 0, 0, 0x14] then extended SHA1 (bank (req_index req)) (req_digest req)
      else bank (req_index req))"

definition error_reply :: "bytes \<Rightarrow> bytes" where
  "error_reply out = [out ! 9, 0xc4, out ! 7, out ! 6, out ! 5, 9, out ! 3, out ! 2, out ! 1]"

definition value_reply :: "bytes \<Rightarrow> bytes" where
  "value_reply v = [0, 0xc4, 0, 0, 0, 0x1e, 0, 0, 0, 0] @ v"

lemma filling_cmd:
  assumes "filling d0 req (length req) d"
  shows "cmd_code d = req_code req" "cmd_index d = req_index req" "cmd_digest d = req_digest req"
    "pcr d = pcr d0"
proof -
  have i: "fifo_indata d = req @ replicate (126 - length req) 0" "length req \<le> 126" "pcr_data d = pcr_data d0"
    using assms by (simp_all add: filling_def)
  have n: "fifo_indata d ! i = req_byte req i" if "i < 126" for i
    using that i(2) by (simp add: i(1) req_byte_def nth_append)
  have l: "length (fifo_indata d) = 126" using i by simp
  show "cmd_code d = req_code req" "cmd_digest d = req_digest req"
    by (intro nth_equalityI; simp add: cmd_code_def req_code_def cmd_digest_def req_digest_def n l del: upt.simps upt_rec_numeral)+
  show "cmd_index d = req_index req" by (simp add: cmd_index_def req_index_def n)
  show "pcr d = pcr d0" by (simp add: pcr_def i(3) fun_eq_iff)
qed

lemma filling_cmd_ok:
  assumes "filling d0 req (length req) d" and "request_ok req"
  shows "cmd_ok d \<longleftrightarrow> req_works req"
  using assms(1) request_size [OF assms(2)] assms(2)
  by (auto simp: cmd_ok_def req_works_def filling_cmd [OF assms(1)] filling_def request_ok_def)

lemma value_reply_eq:
  assumes "length out = 126" and "reply_cells_clear out" and "length v = 20"
  shows "reply_bytes (reply_out out v) 30 30 = value_reply v"
proof (rule nth_equalityI)
  fix i assume i: "i < length (reply_bytes (reply_out out v) 30 30)"
  then have "i < 10 \<or> 10 \<le> i \<and> i < 30" by auto
  then show "reply_bytes (reply_out out v) 30 30 ! i = value_reply v ! i"
  proof
    assume "10 \<le> i \<and> i < 30"
    then obtain j where j: "i = 10 + j" "j < 20" using le_Suc_ex [of 10 i] by auto
    have "20 - j < 21" by simp
    then have "reply_out out v ! (20 - j) = v ! j"
      using assms j(2) by (simp add: reply_out_def nth_copy_at rev_nth Suc_le_eq less_Suc_eq_le)
    with j show ?thesis by (simp add: value_reply_def nth_append)
  next
    assume "i < 10"
    then have "i \<in> {0, 1, 2, 3, 4, 5, 6, 7, 8, 9}" by auto
    with assms show ?thesis
      by (auto simp: reply_out_def nth_copy_at value_reply_def reply_cells_clear_def)
  qed
qed (use assms in \<open>simp add: value_reply_def\<close>)

lemma error_reply_eq:
  "length out = 126 \<Longrightarrow> reply_bytes (out[8 := 0xc4, 4 := 9, 0 := 0xFF]) 9 9 = error_reply out"
  by (simp add: reply_bytes_def error_reply_def upt_rec)

lemma run_sent:
  assumes f: "filling d0 req (length req) d" and ok: "request_ok req" and sha: "sha1_ok SHA1" and wf: "tpm_wf d0"
  shows "\<exists>d' k. write8 SHA1 d 0x20 0x18 = Some d' \<and> answering d' k d' \<and> 9 \<le> k \<and>
    reply_bytes (fifo_outdata d') k k =
      (if req_works req then value_reply (req_value SHA1 (pcr d0) req) else error_reply (fifo_outdata d0)) \<and>
    unat (fifo_outdata d' ! (k - 5)) = k \<and>
    pcr_data d' = (if req_works req
      then copy_at (pcr_data d0) (20 * req_index req) (req_value SHA1 (pcr d0) req) else pcr_data d0)"
proof -
  have wfd: "tpm_wf (d\<lparr>dataout := 0\<rparr>)" using f by (simp add: filling_def)
  have o: "fifo_outdata d = fifo_outdata d0" "pcr_data d = pcr_data d0" "length (fifo_outdata d0) = 126"
    "reply_cells_clear (fifo_outdata d0)"
    using f wf by (simp_all add: filling_def tpm_wf_def)
  have works: "cmd_ok (d\<lparr>dataout := 0\<rparr>) = req_works req"
    using filling_cmd_ok [OF f ok] by (simp add: cmd_ok_def)
  have v: "cmd_value SHA1 (d\<lparr>dataout := 0\<rparr>) = req_value SHA1 (pcr d0) req"
    by (simp add: cmd_value_def req_value_def filling_cmd [OF f] extended_def)
  have len: "req_works req \<Longrightarrow> length (req_value SHA1 (pcr d0) req) = 20"
    using length_cmd_value [OF wfd sha] works v by simp
  obtain d1 where r: "tpm_runCmd SHA1 (d\<lparr>dataout := 0\<rparr>) = Some d1" "tpm_wf d1"
    using tpm_runCmd_wf [OF wfd sha] by blast
  let ?d' = "d1\<lparr>fifo_sts := tpm_status d1\<rparr>"
  have w: "write8 SHA1 d 0x20 0x18 = Some ?d'"
    by (simp add: write8_def tpm_update_def tpm_bus_write_def r(1) Let_def)
  note d1 = r(1) [unfolded tpm_runCmd_eq [OF wfd sha] works v]
  show ?thesis
  proof (cases "req_works req")
    case True
    then have e: "fifo_state d1 = FIFO_SENDING" "fifo_out_amt d1 = 30"
      "fifo_outdata d1 = reply_out (fifo_outdata d0) (req_value SHA1 (pcr d0) req)"
      "pcr_data d1 = copy_at (pcr_data d0) (20 * req_index req) (req_value SHA1 (pcr d0) req)"
      using d1 by (auto simp: replied_def o filling_cmd [OF f])
    have "fifo_outdata d1 ! 25 = 30" unfolding e(3) using o len True
      by (simp add: reply_out_def nth_copy_at)
    with w r(2) e True o len show ?thesis
      by (intro exI [of _ ?d'] exI [of _ 30]) (simp add: answering_def value_reply_eq)
  next
    case False
    then have e: "fifo_state d1 = FIFO_SENDING" "fifo_out_amt d1 = 9"
      "fifo_outdata d1 = (fifo_outdata d0)[8 := 0xc4, 4 := 9, 0 := 0xFF]" "pcr_data d1 = pcr_data d0"
      using d1 by (auto simp: malformed_def o)
    with w r(2) False o show ?thesis
      by (intro exI [of _ ?d'] exI [of _ 9]) (simp add: answering_def error_reply_eq)
  qed
qed

lemma reply_length:
  "answering d1 k d \<Longrightarrow> k \<le> 30" "answering d1 k d \<Longrightarrow> tpm_wf d"
  by (simp_all add: answering_def)

lemma transaction:
  assumes wf: "tpm_wf d" and ok: "request_ok req" and sha: "sha1_ok SHA1"
    and room: "30 \<le> sint L" "sint L \<le> int (length buf)"
  shows "\<exists>d'. VbExTpmSendReceive SHA1 req (of_nat (length req)) buf L d =
      Some (0, copy_at buf 0 (if req_works req then value_reply (req_value SHA1 (pcr d) req)
        else error_reply (fifo_outdata d)), d') \<and> tpm_wf d' \<and>
    pcr_data d' = (if req_works req
      then copy_at (pcr_data d) (20 * req_index req) (req_value SHA1 (pcr d) req) else pcr_data d)"
proof -
  obtain d1 where d1: "filling d req (length req) d1"
    "send SHA1 req (of_nat (length req)) d = map_option (Pair (of_nat (length req))) (write8 SHA1 d1 0x20 0x18)"
    using send_eq [OF wf ok] by blast
  obtain d2 k where d2: "write8 SHA1 d1 0x20 0x18 = Some d2" "answering d2 k d2" "9 \<le> k"
    "reply_bytes (fifo_outdata d2) k k =
      (if req_works req then value_reply (req_value SHA1 (pcr d) req) else error_reply (fifo_outdata d))"
    "unat (fifo_outdata d2 ! (k - 5)) = k"
    "pcr_data d2 = (if req_works req
      then copy_at (pcr_data d) (20 * req_index req) (req_value SHA1 (pcr d) req) else pcr_data d)"
    using run_sent [OF d1(1) ok sha wf] by blast
  have k: "8 \<le> k" "k \<le> length buf" "int k \<le> sint L" using reply_length(1) [OF d2(2)] d2(3) room by simp_all
  obtain d3 where "recv SHA1 d2 buf (sint L) = Some (0, copy_at buf 0 (reply_bytes (fifo_outdata d2) k k), d3)"
    "tpm_wf d3" "pcr_data d3 = pcr_data d2"
    using recv_eq [OF d2(2) k(1) d2(5) k(2,3)] by blast
  with d2 d1(2) show ?thesis by (auto simp: VbExTpmSendReceive_def)
qed

lemma transaction_bank:
  assumes "tpm_wf d" and "request_ok req" and "sha1_ok SHA1"
    and "30 \<le> sint L" and "sint L \<le> int (length buf)"
  shows "\<exists>reply d'. VbExTpmSendReceive SHA1 req (of_nat (length req)) buf L d = Some (0, copy_at buf 0 reply, d') \<and>
    tpm_wf d' \<and>
    (if req_works req
     then reply = value_reply (req_value SHA1 (pcr d) req) \<and>
       (\<forall>j. j < 24 \<longrightarrow> pcr d' j = (if j = req_index req then req_value SHA1 (pcr d) req else pcr d j))
     else reply = error_reply (fifo_outdata d) \<and> pcr d' = pcr d)"
proof -
  obtain d' where d': "VbExTpmSendReceive SHA1 req (of_nat (length req)) buf L d =
      Some (0, copy_at buf 0 (if req_works req then value_reply (req_value SHA1 (pcr d) req)
        else error_reply (fifo_outdata d)), d')" "tpm_wf d'"
    "pcr_data d' = (if req_works req
      then copy_at (pcr_data d) (20 * req_index req) (req_value SHA1 (pcr d) req) else pcr_data d)"
    using transaction [OF assms] by blast
  have len: "length (pcr_data d) = 480" using assms(1) by (simp add: tpm_wf_def)
  then have "length (req_value SHA1 (pcr d) req) = 20" if "req_works req"
    using that assms(3) by (auto simp: req_value_def extended_def req_works_def)
  then have "pcr d' j = (if j = req_index req then req_value SHA1 (pcr d) req else pcr d j)"
    if "req_works req" "j < 24" for j
    using pcr_copy_at [OF len, of "req_index req" j "req_value SHA1 (pcr d) req"] that
    by (simp add: pcr_def [of d'] d'(3) req_works_def)
  then show ?thesis using d' by (cases "req_works req") (auto simp: pcr_def fun_eq_iff)
qed



end
