(* ===== verification/Tlcl.thy ===== *)
theory Tlcl
  imports Tpm_Driver
begin

text \<open>
  The command library \<^verbatim>\<open>firmware/lib/tpm_lite/tlcl.c\<close> over a port to the device: the prepared commands of
  \<^verbatim>\<open>tlcl_structures.h\<close> and one operation per function.
\<close>

section \<open>The port to the device\<close>

text \<open>
  What the command library needs of the platform: the callbacks of \<^verbatim>\<open>vboot_api.h\<close>, on a state of the
  platform of any type, the contents of stack memory that has not been written yet, and the build
  options.  \<^verbatim>\<open>ex_send_receive request request_length response response_length s\<close> gives the error code,
  the response buffer and the state after the call, or None if it does not return.
\<close>

record 's tpm_port =
  ex_send_receive :: "bytes \<Rightarrow> u32 \<Rightarrow> bytes \<Rightarrow> u32 \<Rightarrow> 's \<Rightarrow> (u32 \<times> bytes \<times> 's) option"
  ex_tpm_init :: "'s \<Rightarrow> u32 \<times> 's"
  ex_tpm_close :: "'s \<Rightarrow> u32 \<times> 's"
  stack_byte :: "'s \<Rightarrow> nat \<Rightarrow> u8"
  chromeos_environment :: bool
  blocking_continueselftest :: bool
  manual_selftest :: bool
  soft_reboot_workaround :: bool

definition uninit :: "'s tpm_port \<Rightarrow> 's \<Rightarrow> nat \<Rightarrow> bytes" where
  "uninit P s n = map (stack_byte P s) [0..<n]"

abbreviation (input) TPM_SUCCESS :: u32 where "TPM_SUCCESS \<equiv> 0"
abbreviation (input) TPM_E_BADINDEX :: u32 where "TPM_E_BADINDEX \<equiv> 0x2"
abbreviation (input) TPM_E_IOERROR :: u32 where "TPM_E_IOERROR \<equiv> 0x1f"
abbreviation (input) TPM_E_INVALID_POSTINIT :: u32 where "TPM_E_INVALID_POSTINIT \<equiv> 0x26"
abbreviation (input) TPM_E_MAXNVWRITES :: u32 where "TPM_E_MAXNVWRITES \<equiv> 0x48"
abbreviation (input) TPM_E_NEEDS_SELFTEST :: u32 where "TPM_E_NEEDS_SELFTEST \<equiv> 0x801"
abbreviation (input) TPM_E_DOING_SELFTEST :: u32 where "TPM_E_DOING_SELFTEST \<equiv> 0x802"
abbreviation (input) TPM_E_MUST_REBOOT :: u32 where "TPM_E_MUST_REBOOT \<equiv> 0x5002"
abbreviation (input) TPM_E_CORRUPTED_STATE :: u32 where "TPM_E_CORRUPTED_STATE \<equiv> 0x5003"
abbreviation (input) TPM_E_RESPONSE_TOO_LARGE :: u32 where "TPM_E_RESPONSE_TOO_LARGE \<equiv> 0x5005"

abbreviation (input) TPM_NV_INDEX0 :: u32 where "TPM_NV_INDEX0 \<equiv> 0"
abbreviation (input) TPM_NV_INDEX_LOCK :: u32 where "TPM_NV_INDEX_LOCK \<equiv> 0xffffffff"
abbreviation (input) TPM_NV_PER_GLOBALLOCK :: u32 where "TPM_NV_PER_GLOBALLOCK \<equiv> 0x8000"
abbreviation (input) TPM_NV_PER_PPWRITE :: u32 where "TPM_NV_PER_PPWRITE \<equiv> 1"

abbreviation (input) TPM_LARGE_ENOUGH_COMMAND_SIZE :: nat where "TPM_LARGE_ENOUGH_COMMAND_SIZE \<equiv> 256"
abbreviation (input) TPM_PUBEK_SIZE :: nat where "TPM_PUBEK_SIZE \<equiv> 256"
abbreviation (input) kTpmRequestHeaderLength :: nat where "kTpmRequestHeaderLength \<equiv> 10"
abbreviation (input) kTpmResponseHeaderLength :: nat where "kTpmResponseHeaderLength \<equiv> 10"
abbreviation (input) kPcrDigestLength :: nat where "kPcrDigestLength \<equiv> 20"
abbreviation (input) kWriteInfoLength :: nat where "kWriteInfoLength \<equiv> 12"
abbreviation (input) kNvDataPublicPermissionsOffset :: nat where "kNvDataPublicPermissionsOffset \<equiv> 60"

section \<open>The prepared commands\<close>

definition tpm_extend_cmd :: bytes where
  "tpm_extend_cmd = [0x0, 0xc1, 0x0, 0x0, 0x0, 0x22, 0x0, 0x0, 0x0, 0x14] @ replicate 24 0"

definition tpm_get_random_cmd :: bytes where
  "tpm_get_random_cmd = [0x0, 0xc1, 0x0, 0x0, 0x0, 0xe, 0x0, 0x0, 0x0, 0x46] @ replicate 4 0"

definition tpm_getownership_cmd :: bytes where
  "tpm_getownership_cmd = [0x0, 0xc1, 0x0, 0x0, 0x0, 0x16, 0x0, 0x0, 0x0, 0x65, 0x0, 0x0, 0x0, 0x5,
     0x0, 0x0, 0x0, 0x4, 0x0, 0x0, 0x1, 0x11]"

definition tpm_getpermissions_cmd :: bytes where
  "tpm_getpermissions_cmd = [0x0, 0xc1, 0x0, 0x0, 0x0, 0x16, 0x0, 0x0, 0x0, 0x65, 0x0, 0x0, 0x0, 0x11,
     0x0, 0x0, 0x0, 0x4] @ replicate 4 0"

definition tpm_getstclearflags_cmd :: bytes where
  "tpm_getstclearflags_cmd = [0x0, 0xc1, 0x0, 0x0, 0x0, 0x16, 0x0, 0x0, 0x0, 0x65, 0x0, 0x0, 0x0, 0x4,
     0x0, 0x0, 0x0, 0x4, 0x0, 0x0, 0x1, 0x9]"

definition tpm_getflags_cmd :: bytes where
  "tpm_getflags_cmd = [0x0, 0xc1, 0x0, 0x0, 0x0, 0x16, 0x0, 0x0, 0x0, 0x65, 0x0, 0x0, 0x0, 0x4,
     0x0, 0x0, 0x0, 0x4, 0x0, 0x0, 0x1, 0x8]"

definition tpm_physicalsetdeactivated_cmd :: bytes where
  "tpm_physicalsetdeactivated_cmd = [0x0, 0xc1, 0x0, 0x0, 0x0, 0xb, 0x0, 0x0, 0x0, 0x72, 0x0]"

definition tpm_physicalenable_cmd :: bytes where
  "tpm_physicalenable_cmd = [0x0, 0xc1, 0x0, 0x0, 0x0, 0xa, 0x0, 0x0, 0x0, 0x6f]"

definition tpm_physicaldisable_cmd :: bytes where
  "tpm_physicaldisable_cmd = [0x0, 0xc1, 0x0, 0x0, 0x0, 0xa, 0x0, 0x0, 0x0, 0x70]"

definition tpm_forceclear_cmd :: bytes where
  "tpm_forceclear_cmd = [0x0, 0xc1, 0x0, 0x0, 0x0, 0xa, 0x0, 0x0, 0x0, 0x5d]"

definition tpm_readpubek_cmd :: bytes where
  "tpm_readpubek_cmd = [0x0, 0xc1, 0x0, 0x0, 0x0, 0x1e, 0x0, 0x0, 0x0, 0x7c] @ replicate 20 0"

definition tpm_continueselftest_cmd :: bytes where
  "tpm_continueselftest_cmd = [0x0, 0xc1, 0x0, 0x0, 0x0, 0xa, 0x0, 0x0, 0x0, 0x53]"

definition tpm_selftestfull_cmd :: bytes where
  "tpm_selftestfull_cmd = [0x0, 0xc1, 0x0, 0x0, 0x0, 0xa, 0x0, 0x0, 0x0, 0x50]"

definition tpm_resume_cmd :: bytes where
  "tpm_resume_cmd = [0x0, 0xc1, 0x0, 0x0, 0x0, 0xc, 0x0, 0x0, 0x0, 0x99, 0x0, 0x2]"

definition tpm_savestate_cmd :: bytes where
  "tpm_savestate_cmd = [0x0, 0xc1, 0x0, 0x0, 0x0, 0xa, 0x0, 0x0, 0x0, 0x98]"

definition tpm_startup_cmd :: bytes where
  "tpm_startup_cmd = [0x0, 0xc1, 0x0, 0x0, 0x0, 0xc, 0x0, 0x0, 0x0, 0x99, 0x0, 0x1]"

definition tpm_finalizepp_cmd :: bytes where
  "tpm_finalizepp_cmd = [0x0, 0xc1, 0x0, 0x0, 0x0, 0xc, 0x40, 0x0, 0x0, 0xa, 0x2, 0xa0]"

definition tpm_pplock_cmd :: bytes where
  "tpm_pplock_cmd = [0x0, 0xc1, 0x0, 0x0, 0x0, 0xc, 0x40, 0x0, 0x0, 0xa, 0x0, 0x4]"

definition tpm_ppenable_cmd :: bytes where
  "tpm_ppenable_cmd = [0x0, 0xc1, 0x0, 0x0, 0x0, 0xc, 0x40, 0x0, 0x0, 0xa, 0x0, 0x20]"

definition tpm_ppassert_cmd :: bytes where
  "tpm_ppassert_cmd = [0x0, 0xc1, 0x0, 0x0, 0x0, 0xc, 0x40, 0x0, 0x0, 0xa, 0x0, 0x8]"

definition tpm_pcr_read_cmd :: bytes where
  "tpm_pcr_read_cmd = [0x0, 0xc1, 0x0, 0x0, 0x0, 0xe, 0x0, 0x0, 0x0, 0x15] @ replicate 4 0"

definition tpm_nv_read_cmd :: bytes where
  "tpm_nv_read_cmd = [0x0, 0xc1, 0x0, 0x0, 0x0, 0x16, 0x0, 0x0, 0x0, 0xcf] @ replicate 12 0"

definition tpm_nv_write_cmd :: bytes where
  "tpm_nv_write_cmd = [0x0, 0xc1, 0x0, 0x0, 0x0, 0x0, 0x0, 0x0, 0x0, 0xcd] @ replicate 246 0"

definition tpm_nv_definespace_cmd :: bytes where
  "tpm_nv_definespace_cmd = [0x0, 0xc1, 0x0, 0x0, 0x0, 0x65, 0x0, 0x0, 0x0, 0xcc, 0x0, 0x18, 0, 0, 0, 0,
     0x0, 0x3, 0, 0, 0, 0x1f] @ replicate 20 0 @ [0x0, 0x3, 0, 0, 0, 0x1f] @ replicate 20 0 @
     [0x0, 0x17] @ replicate 31 0"

section \<open>The command library\<close>

subsection \<open>Fields of a packet\<close>

definition ToTpmUint32 :: "bytes \<Rightarrow> nat \<Rightarrow> u32 \<Rightarrow> bytes" where
  "ToTpmUint32 buffer off x = buffer[off := ucast (shr x 24), off + 1 := ucast (shr x 16 AND 0xff),
     off + 2 := ucast (shr x 8 AND 0xff), off + 3 := ucast (x AND 0xff)]"

definition FromTpmUint32 :: "bytes \<Rightarrow> nat \<Rightarrow> u32" where
  "FromTpmUint32 buffer off = shl (ucast (buffer ! off)) 24 OR shl (ucast (buffer ! (off + 1))) 16 OR
     shl (ucast (buffer ! (off + 2))) 8 OR ucast (buffer ! (off + 3))"

definition SetTpmCommandSize :: "bytes \<Rightarrow> u32 \<Rightarrow> bytes" where
  "SetTpmCommandSize buffer sz = ToTpmUint32 buffer 2 sz"

definition TpmCommandSize :: "bytes \<Rightarrow> u32" where
  "TpmCommandSize buffer = FromTpmUint32 buffer 2"

definition TlclPacketSize :: "bytes \<Rightarrow> u32" where
  "TlclPacketSize packet = TpmCommandSize packet"

definition TpmCommandCode :: "bytes \<Rightarrow> u32" where
  "TpmCommandCode buffer = FromTpmUint32 buffer 6"

definition TpmReturnCode :: "bytes \<Rightarrow> u32" where
  "TpmReturnCode buffer = TpmCommandCode buffer"

subsection \<open>Sending a packet\<close>

definition TlclSendReceiveNoRetry :: "'s tpm_port \<Rightarrow> bytes \<Rightarrow> bytes \<Rightarrow> u32 \<Rightarrow> 's \<Rightarrow> (u32 \<times> bytes \<times> 's) option" where
  "TlclSendReceiveNoRetry P request response max_length s = do {
     (result, response, s) \<leftarrow> ex_send_receive P request (TpmCommandSize request) response max_length s;
     if result \<noteq> 0 then Some (result, response, s)
     else Some (TpmReturnCode response, response, s) }"

definition TlclContinueSelfTest :: "'s tpm_port \<Rightarrow> 's \<Rightarrow> (u32 \<times> 's) option" where
  "TlclContinueSelfTest P s = do {
     (result, response, s) \<leftarrow> TlclSendReceiveNoRetry P tpm_continueselftest_cmd (uninit P s 256) 256 s;
     Some (result, s) }"

text \<open>The loop that repeats the command as long as the self test goes on.\<close>

partial_function (option) retry_doing_selftest ::
    "'s tpm_port \<Rightarrow> bytes \<Rightarrow> bytes \<Rightarrow> u32 \<Rightarrow> 's \<Rightarrow> (u32 \<times> bytes \<times> 's) option" where
  "retry_doing_selftest P request response max_length s = do {
     r \<leftarrow> TlclSendReceiveNoRetry P request response max_length s;
     (if fst r = TPM_E_DOING_SELFTEST
      then retry_doing_selftest P request (fst (snd r)) max_length (snd (snd r)) else Some r) }"

definition TlclSendReceive :: "'s tpm_port \<Rightarrow> bytes \<Rightarrow> bytes \<Rightarrow> u32 \<Rightarrow> 's \<Rightarrow> (u32 \<times> bytes \<times> 's) option" where
  "TlclSendReceive P request response max_length s = do {
     (result, response, s) \<leftarrow> TlclSendReceiveNoRetry P request response max_length s;
     if \<not> chromeos_environment P \<and> (result = TPM_E_NEEDS_SELFTEST \<or> result = TPM_E_DOING_SELFTEST) then do {
       (result, s) \<leftarrow> TlclContinueSelfTest P s;
       if result \<noteq> TPM_SUCCESS then Some (result, response, s)
       else if blocking_continueselftest P then TlclSendReceiveNoRetry P request response max_length s
       else retry_doing_selftest P request response max_length s }
     else Some (result, response, s) }"

text \<open>\<^verbatim>\<open>Send()\<close>, and a command whose reply goes to a buffer of 256 bytes.\<close>

definition exchange :: "'s tpm_port \<Rightarrow> bytes \<Rightarrow> 's \<Rightarrow> (u32 \<times> bytes \<times> 's) option" where
  "exchange P command s = TlclSendReceive P command (uninit P s TPM_LARGE_ENOUGH_COMMAND_SIZE) 256 s"

definition Send :: "'s tpm_port \<Rightarrow> bytes \<Rightarrow> 's \<Rightarrow> (u32 \<times> 's) option" where
  "Send P command s = do { (result, response, s) \<leftarrow> exchange P command s; Some (result, s) }"

subsection \<open>Commands without parameters\<close>

definition TlclLibInit :: "'s tpm_port \<Rightarrow> 's \<Rightarrow> (u32 \<times> 's) option" where
  "TlclLibInit P s = Some (ex_tpm_init P s)"

definition TlclLibClose :: "'s tpm_port \<Rightarrow> 's \<Rightarrow> (u32 \<times> 's) option" where
  "TlclLibClose P s = Some (ex_tpm_close P s)"

definition TlclStartup :: "'s tpm_port \<Rightarrow> 's \<Rightarrow> (u32 \<times> 's) option" where
  "TlclStartup P = Send P tpm_startup_cmd"

definition TlclSaveState :: "'s tpm_port \<Rightarrow> 's \<Rightarrow> (u32 \<times> 's) option" where
  "TlclSaveState P = Send P tpm_savestate_cmd"

definition TlclResume :: "'s tpm_port \<Rightarrow> 's \<Rightarrow> (u32 \<times> 's) option" where
  "TlclResume P = Send P tpm_resume_cmd"

definition TlclSelfTestFull :: "'s tpm_port \<Rightarrow> 's \<Rightarrow> (u32 \<times> 's) option" where
  "TlclSelfTestFull P = Send P tpm_selftestfull_cmd"

definition TlclAssertPhysicalPresence :: "'s tpm_port \<Rightarrow> 's \<Rightarrow> (u32 \<times> 's) option" where
  "TlclAssertPhysicalPresence P = Send P tpm_ppassert_cmd"

definition TlclPhysicalPresenceCMDEnable :: "'s tpm_port \<Rightarrow> 's \<Rightarrow> (u32 \<times> 's) option" where
  "TlclPhysicalPresenceCMDEnable P = Send P tpm_ppenable_cmd"

definition TlclFinalizePhysicalPresence :: "'s tpm_port \<Rightarrow> 's \<Rightarrow> (u32 \<times> 's) option" where
  "TlclFinalizePhysicalPresence P = Send P tpm_finalizepp_cmd"

definition TlclAssertPhysicalPresenceResult :: "'s tpm_port \<Rightarrow> 's \<Rightarrow> (u32 \<times> 's) option" where
  "TlclAssertPhysicalPresenceResult P s = do {
     (result, response, s) \<leftarrow> exchange P tpm_ppassert_cmd s; Some (result, s) }"

definition TlclLockPhysicalPresence :: "'s tpm_port \<Rightarrow> 's \<Rightarrow> (u32 \<times> 's) option" where
  "TlclLockPhysicalPresence P = Send P tpm_pplock_cmd"

definition TlclIsOwned :: "'s tpm_port \<Rightarrow> 's \<Rightarrow> (bool \<times> 's) option" where
  "TlclIsOwned P s = do {
     (result, response, s) \<leftarrow> TlclSendReceive P tpm_readpubek_cmd
       (uninit P s (TPM_LARGE_ENOUGH_COMMAND_SIZE + TPM_PUBEK_SIZE)) 512 s;
     Some (result \<noteq> TPM_SUCCESS, s) }"

definition TlclForceClear :: "'s tpm_port \<Rightarrow> 's \<Rightarrow> (u32 \<times> 's) option" where
  "TlclForceClear P = Send P tpm_forceclear_cmd"

definition TlclSetEnable :: "'s tpm_port \<Rightarrow> 's \<Rightarrow> (u32 \<times> 's) option" where
  "TlclSetEnable P = Send P tpm_physicalenable_cmd"

definition TlclClearEnable :: "'s tpm_port \<Rightarrow> 's \<Rightarrow> (u32 \<times> 's) option" where
  "TlclClearEnable P = Send P tpm_physicaldisable_cmd"

definition TlclSetDeactivated :: "'s tpm_port \<Rightarrow> u8 \<Rightarrow> 's \<Rightarrow> (u32 \<times> 's) option" where
  "TlclSetDeactivated P flag = Send P (tpm_physicalsetdeactivated_cmd[10 := flag])"

subsection \<open>Non-volatile memory\<close>

definition TlclDefineSpace :: "'s tpm_port \<Rightarrow> u32 \<Rightarrow> u32 \<Rightarrow> u32 \<Rightarrow> 's \<Rightarrow> (u32 \<times> 's) option" where
  "TlclDefineSpace P index perm sz =
     Send P (ToTpmUint32 (ToTpmUint32 (ToTpmUint32 tpm_nv_definespace_cmd 12 index) 70 perm) 77 sz)"

text \<open>
  The copy of the data into the 256 bytes of the command has no value when they do not fit or the
  caller has less data than it says.
\<close>

definition TlclWrite :: "'s tpm_port \<Rightarrow> u32 \<Rightarrow> bytes \<Rightarrow> u32 \<Rightarrow> 's \<Rightarrow> (u32 \<times> 's) option" where
  "TlclWrite P index data len s = do {
     let total_length = of_nat (kTpmRequestHeaderLength + kWriteInfoLength) + len;
     let cmd = SetTpmCommandSize tpm_nv_write_cmd total_length;
     let cmd = ToTpmUint32 cmd 10 index;
     let cmd = ToTpmUint32 cmd 18 len;
     src \<leftarrow> get_range data 0 (unat len);
     cmd \<leftarrow> put_range cmd 22 src;
     (result, response, s) \<leftarrow> exchange P cmd s;
     Some (result, s) }"

text \<open>
  The number of bytes copied to the caller is the one the response names.
\<close>

definition TlclRead :: "'s tpm_port \<Rightarrow> u32 \<Rightarrow> bytes \<Rightarrow> u32 \<Rightarrow> 's \<Rightarrow> (u32 \<times> bytes \<times> 's) option" where
  "TlclRead P index data len s = do {
     let cmd = ToTpmUint32 (ToTpmUint32 tpm_nv_read_cmd 10 index) 18 len;
     (result, response, s) \<leftarrow> exchange P cmd s;
     if result = TPM_SUCCESS \<and> len > 0 then do {
       let result_length = FromTpmUint32 response kTpmResponseHeaderLength;
       src \<leftarrow> get_range response (kTpmResponseHeaderLength + 4) (unat result_length);
       data \<leftarrow> put_range data 0 src;
       Some (result, data, s) }
     else Some (result, data, s) }"

definition TlclWriteLock :: "'s tpm_port \<Rightarrow> u32 \<Rightarrow> 's \<Rightarrow> (u32 \<times> 's) option" where
  "TlclWriteLock P index = TlclWrite P index [] 0"

definition TlclReadLock :: "'s tpm_port \<Rightarrow> u32 \<Rightarrow> 's \<Rightarrow> (u32 \<times> 's) option" where
  "TlclReadLock P index s = do { (result, data, s) \<leftarrow> TlclRead P index [] 0 s; Some (result, s) }"

definition TlclSetNvLocked :: "'s tpm_port \<Rightarrow> 's \<Rightarrow> (u32 \<times> 's) option" where
  "TlclSetNvLocked P = TlclDefineSpace P TPM_NV_INDEX_LOCK 0 0"

definition TlclSetGlobalLock :: "'s tpm_port \<Rightarrow> 's \<Rightarrow> (u32 \<times> 's) option" where
  "TlclSetGlobalLock P s = TlclWrite P TPM_NV_INDEX0 (uninit P s 4) 0 s"

definition TlclGetPermissions :: "'s tpm_port \<Rightarrow> u32 \<Rightarrow> u32 \<Rightarrow> 's \<Rightarrow> (u32 \<times> u32 \<times> 's) option" where
  "TlclGetPermissions P index permissions s = do {
     (result, response, s) \<leftarrow> exchange P (ToTpmUint32 tpm_getpermissions_cmd 18 index) s;
     if result \<noteq> TPM_SUCCESS then Some (result, permissions, s)
     else Some (result,
       FromTpmUint32 response (kTpmResponseHeaderLength + 4 + kNvDataPublicPermissionsOffset), s) }"

subsection \<open>Registers\<close>

definition TlclPCRRead :: "'s tpm_port \<Rightarrow> u32 \<Rightarrow> bytes \<Rightarrow> u32 \<Rightarrow> 's \<Rightarrow> (u32 \<times> bytes \<times> 's) option" where
  "TlclPCRRead P index data len s =
     (if unat len < kPcrDigestLength then Some (TPM_E_IOERROR, data, s)
      else do {
        (result, response, s) \<leftarrow> exchange P (ToTpmUint32 tpm_pcr_read_cmd 10 index) s;
        if result = TPM_SUCCESS then do {
          src \<leftarrow> get_range response kTpmResponseHeaderLength kPcrDigestLength;
          data \<leftarrow> put_range data 0 src;
          Some (result, data, s) }
        else Some (result, data, s) })"

definition TlclExtend :: "'s tpm_port \<Rightarrow> u32 \<Rightarrow> bytes \<Rightarrow> bytes \<Rightarrow> 's \<Rightarrow> (u32 \<times> bytes \<times> 's) option" where
  "TlclExtend P pcr_num in_digest out_digest s = do {
     src \<leftarrow> get_range in_digest 0 kPcrDigestLength;
     cmd \<leftarrow> put_range (ToTpmUint32 tpm_extend_cmd 10 pcr_num) 14 src;
     (result, response, s) \<leftarrow>
       TlclSendReceive P cmd (uninit P s (kTpmResponseHeaderLength + kPcrDigestLength)) 30 s;
     if result \<noteq> TPM_SUCCESS then Some (result, out_digest, s)
     else do {
       v \<leftarrow> get_range response kTpmResponseHeaderLength kPcrDigestLength;
       out_digest \<leftarrow> put_range out_digest 0 v;
       Some (result, out_digest, s) } }"

subsection \<open>Capabilities\<close>

text \<open>A structure of n bytes that follows the size field of a reply.\<close>

definition get_capability :: "'s tpm_port \<Rightarrow> bytes \<Rightarrow> nat \<Rightarrow> bytes \<Rightarrow> 's \<Rightarrow> (u32 \<times> bytes \<times> 's) option" where
  "get_capability P cmd n out s = do {
     (result, response, s) \<leftarrow> exchange P cmd s;
     if result \<noteq> TPM_SUCCESS then Some (result, out, s)
     else do {
       src \<leftarrow> get_range response (kTpmResponseHeaderLength + 4) n;
       out \<leftarrow> put_range out 0 src;
       Some (result, out, s) } }"

definition TlclGetPermanentFlags :: "'s tpm_port \<Rightarrow> bytes \<Rightarrow> 's \<Rightarrow> (u32 \<times> bytes \<times> 's) option" where
  "TlclGetPermanentFlags P pflags = get_capability P tpm_getflags_cmd 22 pflags"

definition TlclGetSTClearFlags :: "'s tpm_port \<Rightarrow> bytes \<Rightarrow> 's \<Rightarrow> (u32 \<times> bytes \<times> 's) option" where
  "TlclGetSTClearFlags P vflags = get_capability P tpm_getstclearflags_cmd 8 vflags"

definition TlclGetOwnership :: "'s tpm_port \<Rightarrow> bytes \<Rightarrow> 's \<Rightarrow> (u32 \<times> bytes \<times> 's) option" where
  "TlclGetOwnership P owned = get_capability P tpm_getownership_cmd 1 owned"

text \<open>
  The three flags; a NULL pointer of the caller is a result it does not look at.
\<close>

definition TlclGetFlags :: "'s tpm_port \<Rightarrow> 's \<Rightarrow> (u32 \<times> (u8 \<times> u8 \<times> u8) option \<times> 's) option" where
  "TlclGetFlags P s = do {
     (result, pflags, s) \<leftarrow> TlclGetPermanentFlags P (uninit P s 22) s;
     Some (result, if result = TPM_SUCCESS then Some (pflags ! 2, pflags ! 4, pflags ! 17) else None, s) }"

definition TlclGetRandom :: "'s tpm_port \<Rightarrow> bytes \<Rightarrow> u32 \<Rightarrow> u32 \<Rightarrow> 's \<Rightarrow> (u32 \<times> bytes \<times> u32 \<times> 's) option" where
  "TlclGetRandom P data len sz s =
     (let cmd = ToTpmUint32 tpm_get_random_cmd 10 len in
      if unat len > TPM_LARGE_ENOUGH_COMMAND_SIZE - kTpmResponseHeaderLength - 4
      then Some (TPM_E_IOERROR, data, sz, s)
      else do {
        (result, response, s) \<leftarrow> exchange P cmd s;
        if result = TPM_SUCCESS then do {
          let sz = FromTpmUint32 response kTpmResponseHeaderLength;
          if sz > len then Some (TPM_E_RESPONSE_TOO_LARGE, data, sz, s)
          else do {
            src \<leftarrow> get_range response (kTpmResponseHeaderLength + 4) (unat sz);
            data \<leftarrow> put_range data 0 src;
            Some (result, data, sz, s) } }
        else Some (result, data, sz, s) })"

end
