(* ===== verification/Tpm_Measure.thy ===== *)
theory Tpm_Measure
  imports Tlcl
begin

text \<open>
  Measured boot: the command library on the driver and the device of \<^verbatim>\<open>CBMC\<close>, and the measurement of
  the boot mode by \<^verbatim>\<open>firmware/lib/tpm_bootmode.c\<close>.
\<close>

section \<open>The library on the simulated device\<close>

definition VbExTpmInit :: "tpm \<Rightarrow> u32 \<times> tpm" where
  "VbExTpmInit d = (0, d)"

definition VbExTpmClose :: "tpm \<Rightarrow> u32 \<times> tpm" where
  "VbExTpmClose d = (0, d)"

text \<open>
  The driver of \<^verbatim>\<open>tpm-fw.c\<close> as the port of the command library, for a build option and a stack that
  may hold anything.
\<close>

definition sim_port :: "(bytes \<Rightarrow> bytes) \<Rightarrow> (tpm \<Rightarrow> nat \<Rightarrow> u8) \<Rightarrow> bool \<Rightarrow> bool \<Rightarrow> tpm tpm_port" where
  "sim_port SHA1 stk env blocking = \<lparr>ex_send_receive = VbExTpmSendReceive SHA1,
     ex_tpm_init = VbExTpmInit, ex_tpm_close = VbExTpmClose, stack_byte = stk,
     chromeos_environment = env, blocking_continueselftest = blocking,
     manual_selftest = False, soft_reboot_workaround = False\<rparr>"

lemma length_uninit [simp]: "length (uninit P s n) = n"
  by (simp add: uninit_def)

lemma length_ToTpmUint32 [simp]: "length (ToTpmUint32 b off x) = length b"
  by (simp add: ToTpmUint32_def)

lemma nth_ToTpmUint32_other [simp]: "i < off \<or> off + 3 < i \<Longrightarrow> ToTpmUint32 b off x ! i = b ! i"
  by (auto simp: ToTpmUint32_def)

lemma FromTpmUint32_same:
  "off + 3 < length b \<Longrightarrow> FromTpmUint32 (ToTpmUint32 b off x) off = x"
proof -
  assume "off + 3 < length b"
  then have "FromTpmUint32 (ToTpmUint32 b off x) off = shl (ucast (ucast (shr x 24) :: u8)) 24 OR
      shl (ucast (ucast (shr x 16 AND 0xff) :: u8)) 16 OR shl (ucast (ucast (shr x 8 AND 0xff) :: u8)) 8 OR
      ucast (ucast (x AND 0xff) :: u8)"
    by (simp add: FromTpmUint32_def ToTpmUint32_def)
  also have "\<dots> = x" unfolding u32_bitwise by (simp add: bit_simps)
  finally show ?thesis .
qed

text \<open>A reply with result code zero ends the exchange, whatever the build options.\<close>

lemma TlclSendReceive_success:
  assumes "ex_send_receive P request (TpmCommandSize request) response max_length s = Some (0, r, s')"
    and "TpmReturnCode r = 0"
  shows "TlclSendReceive P request response max_length s = Some (0, r, s')"
  using assms by (simp add: TlclSendReceive_def TlclSendReceiveNoRetry_def)

lemma value_reply_code:
  "length v = 20 \<Longrightarrow> 30 \<le> length buf \<Longrightarrow> TpmReturnCode (copy_at buf 0 (value_reply v)) = 0"
  by (simp add: TpmReturnCode_def TpmCommandCode_def FromTpmUint32_def nth_copy_at value_reply_def)

lemma value_reply_value:
  "length v = 20 \<Longrightarrow> 30 \<le> length buf \<Longrightarrow> take 20 (drop 10 (copy_at buf 0 (value_reply v))) = v"
  by (simp add: copy_at_def value_reply_def)

text \<open>The requests of the two commands on registers.\<close>

definition extend_request :: "u32 \<Rightarrow> bytes \<Rightarrow> bytes" where
  "extend_request i x = copy_at (ToTpmUint32 tpm_extend_cmd 10 i) 14 x"

definition read_request :: "u32 \<Rightarrow> bytes" where
  "read_request i = ToTpmUint32 tpm_pcr_read_cmd 10 i"

lemma ucast_and_ff: "ucast ((x::u32) AND 0xff) = (ucast x :: u8)"
  by (simp add: u8_bitwise bit_simps)

lemma extend_request_fields:
  assumes "length x = 20"
  shows "request_ok (extend_request i x)" "TpmCommandSize (extend_request i x) = of_nat (length (extend_request i x))"
    "req_code (extend_request i x) = [0, 0, 0, 0x14]" "req_index (extend_request i x) = unat (ucast i :: u8)"
    "req_digest (extend_request i x) = x" "length (extend_request i x) = 34"
proof -
  have len: "length (extend_request i x) = 34" using assms by (simp add: extend_request_def tpm_extend_cmd_def)
  then show "length (extend_request i x) = 34" .
  have lo: "extend_request i x ! k = tpm_extend_cmd ! k" if "k < 10" for k
    using that assms by (simp add: extend_request_def nth_copy_at tpm_extend_cmd_def)
  have "extend_request i x ! 13 = ucast i"
    using assms by (simp add: extend_request_def nth_copy_at tpm_extend_cmd_def ToTpmUint32_def ucast_and_ff)
  then show "req_index (extend_request i x) = unat (ucast i :: u8)"
    by (simp add: req_index_def req_byte_def len)
  show "request_ok (extend_request i x)"
    by (simp add: request_ok_def len lo) (simp add: tpm_extend_cmd_def)
  show "TpmCommandSize (extend_request i x) = of_nat (length (extend_request i x))"
    by (simp add: TpmCommandSize_def FromTpmUint32_def len lo) (simp add: tpm_extend_cmd_def)
  show "req_code (extend_request i x) = [0, 0, 0, 0x14]"
    by (simp add: req_code_def upt_rec req_byte_def len lo) (simp add: tpm_extend_cmd_def)
  show "req_digest (extend_request i x) = x"
    using assms
    by (intro nth_equalityI)
      (simp_all add: req_digest_def req_byte_def len extend_request_def nth_copy_at tpm_extend_cmd_def
        del: upt_rec_numeral)
qed

lemma read_request_fields:
  "request_ok (read_request i)" "TpmCommandSize (read_request i) = of_nat (length (read_request i))"
  "req_code (read_request i) = [0, 0, 0, 0x15]" "req_index (read_request i) = unat (ucast i :: u8)"
  "length (read_request i) = 14"
proof -
  show len: "length (read_request i) = 14" by (simp add: read_request_def tpm_pcr_read_cmd_def)
  have lo: "read_request i ! k = tpm_pcr_read_cmd ! k" if "k < 10" for k
    using that by (simp add: read_request_def)
  have "read_request i ! 13 = ucast i"
    by (simp add: read_request_def tpm_pcr_read_cmd_def ToTpmUint32_def ucast_and_ff)
  then show "req_index (read_request i) = unat (ucast i :: u8)"
    by (simp add: req_index_def req_byte_def len)
  show "request_ok (read_request i)"
    by (simp add: request_ok_def len lo) (simp add: tpm_pcr_read_cmd_def)
  show "TpmCommandSize (read_request i) = of_nat (length (read_request i))"
    by (simp add: TpmCommandSize_def FromTpmUint32_def len lo) (simp add: tpm_pcr_read_cmd_def)
  show "req_code (read_request i) = [0, 0, 0, 0x15]"
    by (simp add: req_code_def upt_rec req_byte_def len lo) (simp add: tpm_pcr_read_cmd_def)
qed

lemma sim_value:
  assumes wf: "tpm_wf d" and sha: "sha1_ok SHA1" and ok: "request_ok req" and works: "req_works req"
    and sz: "TpmCommandSize req = of_nat (length req)" and L: "30 \<le> sint L" "sint L \<le> int (length buf)"
  shows "\<exists>r d'. TlclSendReceive (sim_port SHA1 stk env blocking) req buf L d = Some (0, r, d') \<and>
    30 \<le> length r \<and> take 20 (drop 10 r) = req_value SHA1 (pcr d) req \<and> tpm_wf d' \<and>
    (\<forall>j. j < 24 \<longrightarrow> pcr d' j = (if j = req_index req then req_value SHA1 (pcr d) req else pcr d j))"
proof -
  let ?v = "req_value SHA1 (pcr d) req"
  obtain d' where d': "VbExTpmSendReceive SHA1 req (of_nat (length req)) buf L d = Some (0, copy_at buf 0 (value_reply ?v), d')"
    "tpm_wf d'" "\<forall>j. j < 24 \<longrightarrow> pcr d' j = (if j = req_index req then ?v else pcr d j)"
    using transaction_bank [OF wf ok sha L] works by auto
  have len: "length ?v = 20" using wf works sha
    by (auto simp: req_value_def extended_def req_works_def tpm_wf_def)
  have b: "30 \<le> length buf" using L by simp
  have "length (copy_at buf 0 (value_reply ?v)) = length buf" using b len by (simp add: value_reply_def)
  moreover have "TlclSendReceive (sim_port SHA1 stk env blocking) req buf L d = Some (0, copy_at buf 0 (value_reply ?v), d')"
    by (rule TlclSendReceive_success) (simp_all add: sim_port_def sz d'(1) value_reply_code [OF len b])
  ultimately show ?thesis using d'(2,3) value_reply_value [OF len b] b by (intro exI [of _ "copy_at buf 0 (value_reply ?v)"]) auto
qed

lemma copy_at_whole: "length v = length out \<Longrightarrow> copy_at out 0 v = v"
  by (simp add: copy_at_def)

lemma TlclExtend_eq:
  assumes wf: "tpm_wf d" and sha: "sha1_ok SHA1" and x: "length x = 20" "length out = 20"
    and i: "i = unat (ucast pcr_num :: u8)" "i \<le> 23"
  shows "\<exists>d'. TlclExtend (sim_port SHA1 stk env blocking) pcr_num x out d =
      Some (0, extended SHA1 (pcr d i) x, d') \<and> tpm_wf d' \<and>
    (\<forall>j. j < 24 \<longrightarrow> pcr d' j = (if j = i then extended SHA1 (pcr d i) x else pcr d j))"
proof -
  let ?P = "sim_port SHA1 stk env blocking" and ?r = "extend_request pcr_num x"
  note f = extend_request_fields [OF x(1), of pcr_num]
  have w: "req_works ?r" using f i by (simp add: req_works_def)
  have v: "req_value SHA1 (pcr d) ?r = extended SHA1 (pcr d i) x" using f i by (simp add: req_value_def)
  have cmd: "put_range (ToTpmUint32 tpm_extend_cmd 10 pcr_num) 14 x = Some ?r"
    using x by (simp add: extend_request_def tpm_extend_cmd_def)
  obtain r d' where d': "TlclSendReceive ?P ?r (uninit ?P d 30) 30 d = Some (0, r, d')"
    "30 \<le> length r" "take 20 (drop 10 r) = extended SHA1 (pcr d i) x" "tpm_wf d'"
    "\<forall>j. j < 24 \<longrightarrow> pcr d' j = (if j = i then extended SHA1 (pcr d i) x else pcr d j)"
    using sim_value [OF wf sha f(1) w f(2), of 30 "uninit ?P d 30" stk env blocking] f(4) i(1) by (auto simp: v)
  have len: "length (extended SHA1 (pcr d i) x) = 20" using sha by (simp add: extended_def)
  have "TlclExtend ?P pcr_num x out d = Some (0, extended SHA1 (pcr d i) x, d')"
    unfolding TlclExtend_def using x d'(1,2) len by (simp add: cmd d'(3) copy_at_whole)
  with d'(4,5) show ?thesis by blast
qed

lemma TlclPCRRead_eq:
  assumes wf: "tpm_wf d" and sha: "sha1_ok SHA1" and x: "length out = 20"
    and i: "i = unat (ucast pcr_num :: u8)" "i \<le> 23"
  shows "\<exists>d'. TlclPCRRead (sim_port SHA1 stk env blocking) pcr_num out 20 d = Some (0, pcr d i, d') \<and> tpm_wf d' \<and>
    (\<forall>j. j < 24 \<longrightarrow> pcr d' j = pcr d j)"
proof -
  let ?P = "sim_port SHA1 stk env blocking" and ?r = "read_request pcr_num"
  note f = read_request_fields [of pcr_num]
  have w: "req_works ?r" using f i by (simp add: req_works_def)
  have v: "req_value SHA1 (pcr d) ?r = pcr d i" using f i by (simp add: req_value_def)
  obtain r d' where d': "TlclSendReceive ?P ?r (uninit ?P d 256) 256 d = Some (0, r, d')"
    "30 \<le> length r" "take 20 (drop 10 r) = pcr d i" "tpm_wf d'" "\<forall>j. j < 24 \<longrightarrow> pcr d' j = pcr d j"
    using sim_value [OF wf sha f(1) w f(2), of 256 "uninit ?P d 256" stk env blocking] f(4) i(1)
    by (auto simp: v split: if_splits)
  have len: "length (pcr d i) = 20" using wf i by (simp add: tpm_wf_def)
  have "TlclPCRRead ?P pcr_num out 20 d = Some (0, pcr d i, d')"
    unfolding TlclPCRRead_def exchange_def using x d'(1,2) len
    by (simp add: read_request_def [symmetric] d'(3) copy_at_whole)
  with d'(4,5) show ?thesis by blast
qed

text \<open>
  C8. Measuring and reading back, from the command library over the driver to the device: extending
  a register with a digest returns the new value of the register, which is the digest of its old
  value and the measurement; reading a register afterwards returns that value for the extended
  register and the old value for every other one.  The library takes the register number as 32
  bits, of which the device looks at the lowest byte only.
\<close>

theorem TlclExtend_PCRRead:
  assumes "tpm_wf d" and "sha1_ok SHA1" and "length x = 20" and "length out = 20" and "length out' = 20"
    and "i = unat (ucast pcr_num :: u8)" and "i \<le> 23" and "j = unat (ucast pcr_num' :: u8)" and "j \<le> 23"
  shows "\<exists>d' d''. TlclExtend (sim_port SHA1 stk env blocking) pcr_num x out d =
      Some (0, SHA1 (pcr d i @ x), d') \<and>
    TlclPCRRead (sim_port SHA1 stk env blocking) pcr_num' out' 20 d' =
      Some (0, if j = i then SHA1 (pcr d i @ x) else pcr d j, d'') \<and> tpm_wf d''"
proof -
  obtain d' where d': "TlclExtend (sim_port SHA1 stk env blocking) pcr_num x out d = Some (0, extended SHA1 (pcr d i) x, d')"
    "tpm_wf d'" "\<forall>j. j < 24 \<longrightarrow> pcr d' j = (if j = i then extended SHA1 (pcr d i) x else pcr d j)"
    using TlclExtend_eq [OF assms(1,2,3,4,6,7)] by blast
  with TlclPCRRead_eq [OF d'(2) assms(2,5,8,9), of stk env blocking] assms(9) show ?thesis
    by (auto simp: extended_def)
qed

theorem TlclExtend_PCRRead_witness:
  "\<exists>d' d''. TlclExtend (sim_port (\<lambda>x. replicate 20 (of_nat (length x))) (\<lambda>d i. 0xAA) True True) 3 (replicate 20 7)
       (replicate 20 0) tpm_power_on = Some (0, replicate 20 40, d') \<and>
    TlclPCRRead (sim_port (\<lambda>x. replicate 20 (of_nat (length x))) (\<lambda>d i. 0xAA) True True) 3 (replicate 20 1) 20 d' =
      Some (0, replicate 20 40, d'') \<and> tpm_wf d''"
proof -
  let ?S = "\<lambda>x::bytes. replicate 20 (of_nat (length x)) :: bytes"
  have s: "sha1_ok ?S" by (simp add: sha1_ok_def)
  have "length (pcr tpm_power_on 3) = 20" by code_simp
  then have v: "?S (pcr tpm_power_on 3 @ replicate 20 7) = replicate 20 40" by simp
  have l: "length (replicate 20 y) = 20" for y :: u8 by simp
  have 3: "3 = unat (ucast (3::u32) :: u8)" "(3::nat) \<le> 23" by simp_all
  show ?thesis
    using TlclExtend_PCRRead [OF tpm_wf_power_on s l [of 7] l [of 0] l [of 1] 3 3, of "\<lambda>d i. 0xAA" True True]
    unfolding v by simp
qed

section \<open>The result of a command that failed\<close>



section \<open>Measuring the boot mode\<close>

definition kBootStateSHA1Digests_v1 :: "bytes list" where
  "kBootStateSHA1Digests_v1 =
     [[0x29, 0xe2, 0xdc, 0xfb, 0xb1, 0x6f, 0x63, 0xbb, 0x02, 0x54, 0xdf, 0x75,
       0x85, 0xa1, 0x5b, 0xb6, 0xfb, 0x5e, 0x92, 0x7d],
      [0x25, 0x47, 0xcc, 0x73, 0x6e, 0x95, 0x1f, 0xa4, 0x91, 0x98, 0x53, 0xc4,
       0x3a, 0xe8, 0x90, 0x86, 0x1a, 0x3b, 0x32, 0x64],
      [0x1e, 0xf6, 0x24, 0x48, 0x2d, 0x62, 0x0e, 0x43, 0xe6, 0xd3, 0x4d, 0xa1,
       0xaf, 0xe4, 0x62, 0x67, 0xfc, 0x69, 0x5d, 0x9b],
      [0x62, 0x57, 0x18, 0x91, 0x21, 0x5b, 0x4e, 0xfc, 0x1c, 0xea, 0xb7, 0x44,
       0xce, 0x59, 0xdd, 0x0b, 0x66, 0xea, 0x6f, 0x73],
      [0xee, 0xe4, 0x47, 0xed, 0xc7, 0x9f, 0xea, 0x1c, 0xa7, 0xc7, 0xd3, 0x4e,
       0x46, 0x32, 0x61, 0xcd, 0xa4, 0xba, 0x33, 0x9e],
      [0x0c, 0x7a, 0x62, 0x3f, 0xd2, 0xbb, 0xc0, 0x5b, 0x06, 0x42, 0x3b, 0xe3,
       0x59, 0xe4, 0x02, 0x1d, 0x36, 0xe7, 0x21, 0xad],
      [0x95, 0x08, 0xe9, 0x05, 0x48, 0xb0, 0x44, 0x0a, 0x4a, 0x61, 0xe5, 0x74,
       0x3b, 0x76, 0xc1, 0xe3, 0x09, 0xb2, 0x3b, 0x7f],
      [0xc4, 0x2a, 0xc1, 0xc4, 0x6f, 0x1d, 0x4e, 0x21, 0x1c, 0x73, 0x5c, 0xc7,
       0xdf, 0xad, 0x4f, 0xf8, 0x39, 0x11, 0x10, 0xe9],
      [0xfa, 0x01, 0x0d, 0x26, 0x64, 0xcc, 0x5b, 0x3b, 0x82, 0xee, 0x48, 0x8f,
       0xe2, 0xb9, 0xf5, 0x0f, 0x49, 0x32, 0xeb, 0x8f],
      [0x47, 0xec, 0x8d, 0x98, 0x36, 0x64, 0x33, 0xdc, 0x00, 0x2e, 0x77, 0x21,
       0xc9, 0xe3, 0x7d, 0x50, 0x67, 0x54, 0x79, 0x37],
      [0x28, 0xd8, 0x6c, 0x56, 0xb3, 0xbf, 0x26, 0xd2, 0x36, 0x56, 0x9b, 0x8d,
       0xc8, 0xc3, 0xf9, 0x1f, 0x32, 0xf4, 0x7b, 0xc7],
      [0x12, 0xa3, 0x40, 0xd7, 0x89, 0x7f, 0xe7, 0x13, 0xfc, 0x8f, 0x02, 0xac,
       0x53, 0x65, 0xb8, 0x6e, 0xbf, 0x35, 0x31, 0x78]]"

definition kBootInvalidSHA1Digest :: bytes where
  "kBootInvalidSHA1Digest = replicate 20 0xff"

definition GetBootStateIndex :: "int \<Rightarrow> int \<Rightarrow> u64 \<Rightarrow> int" where
  "GetBootStateIndex dev_mode rec_mode keyblock_flags =
     (let index = (if keyblock_flags = 6 then 2 else if keyblock_flags = 7 then 1 else 0);
          index = (if rec_mode \<noteq> 0 then index + 3 else index)
      in if dev_mode \<noteq> 0 then index + 6 else index)"

text \<open>
  The block header, when there is one, by its minor version and the digest of the hardware id.
\<close>

record gbb_view =
  gbb_minor_version :: u16
  gbb_hwid_digest :: bytes

definition SetTPMBootModeState ::
    "'s tpm_port \<Rightarrow> int \<Rightarrow> int \<Rightarrow> u64 \<Rightarrow> gbb_view option \<Rightarrow> 's \<Rightarrow> (u32 \<times> 's) option" where
  "SetTPMBootModeState P developer_mode recovery_mode fw_keyblock_flags gbb s = do {
     let out_digest = uninit P s 20;
     let digest_index = GetBootStateIndex developer_mode recovery_mode fw_keyblock_flags;
     let in_digest = (if 0 \<le> digest_index \<and> digest_index < int (length kBootStateSHA1Digests_v1)
                      then kBootStateSHA1Digests_v1 ! nat digest_index else kBootInvalidSHA1Digest);
     (result0, out_digest, s) \<leftarrow> TlclExtend P 0 in_digest out_digest s;
     (result1, out_digest, s) \<leftarrow>
       (case gbb of
          Some g \<Rightarrow> if gbb_minor_version g \<ge> 2 then TlclExtend P 1 (gbb_hwid_digest g) out_digest s
                    else Some (0, out_digest, s)
        | None \<Rightarrow> Some (0, out_digest, s));
     Some (if result0 \<noteq> 0 \<or> result1 \<noteq> 0 then 1 else 0, s) }"

subsection \<open>What is measured\<close>

lemma digests_ok: "length kBootStateSHA1Digests_v1 = 12" "list_all (\<lambda>x. length x = 20) kBootStateSHA1Digests_v1"
  "distinct kBootStateSHA1Digests_v1"
  by (simp_all add: kBootStateSHA1Digests_v1_def)

lemma GetBootStateIndex_bounds:
  "0 \<le> GetBootStateIndex dv rc f" "GetBootStateIndex dv rc f < 12"
  by (simp_all add: GetBootStateIndex_def Let_def)

text \<open>The measurement of a boot mode.\<close>

definition boot_digest :: "int \<Rightarrow> int \<Rightarrow> u64 \<Rightarrow> bytes" where
  "boot_digest dv rc f = kBootStateSHA1Digests_v1 ! nat (GetBootStateIndex dv rc f)"

lemma length_boot_digest [simp]: "length (boot_digest dv rc f) = 20"
  using digests_ok GetBootStateIndex_bounds [of dv rc f]
  by (simp add: boot_digest_def list_all_length)

definition keyblock_mode :: "u64 \<Rightarrow> nat" where
  "keyblock_mode f = (if f = 6 then 2 else if f = 7 then 1 else 0)"

lemma boot_digest_eq_iff:
  "boot_digest dv rc f = boot_digest dv' rc' f' \<longleftrightarrow>
   (dv \<noteq> 0) = (dv' \<noteq> 0) \<and> (rc \<noteq> 0) = (rc' \<noteq> 0) \<and> keyblock_mode f = keyblock_mode f'"
proof -
  have "boot_digest dv rc f = boot_digest dv' rc' f' \<longleftrightarrow> GetBootStateIndex dv rc f = GetBootStateIndex dv' rc' f'"
    unfolding boot_digest_def
    using nth_eq_iff_index_eq [OF digests_ok(3)] digests_ok(1) GetBootStateIndex_bounds [of dv rc f]
      GetBootStateIndex_bounds [of dv' rc' f']
    by (simp add: eq_nat_nat_iff)
  then show ?thesis by (auto simp: GetBootStateIndex_def keyblock_mode_def Let_def split: if_splits)
qed

lemma drop_prefix: "length x = 32 \<Longrightarrow> get_range x 0 20 = Some (take 20 x)"
  by simp

lemma TlclExtend_prefix:
  "length x = 32 \<Longrightarrow> TlclExtend P i x out s = TlclExtend P i (take 20 x) out s"
  by (simp add: TlclExtend_def)

text \<open>
  C9. Measured boot mode: on a well-formed device \<^verbatim>\<open>SetTPMBootModeState()\<close> succeeds, extends register
  0 by the digest of the boot mode and, for a block header of version 1.2 or later, register 1 by
  the first 20 bytes of the hardware id digest, and changes no other register.  The digests of two
  boot modes are the same only when developer switch, recovery mode and kind of key block are.
\<close>

theorem SetTPMBootModeState_measures:
  assumes wf: "tpm_wf d" and sha: "sha1_ok SHA1" and g: "\<And>h. gbb = Some h \<Longrightarrow> length (gbb_hwid_digest h) = 32"
  shows "\<exists>d'. SetTPMBootModeState (sim_port SHA1 stk env blocking) dv rc f gbb d = Some (0, d') \<and> tpm_wf d' \<and>
    pcr d' 0 = SHA1 (pcr d 0 @ boot_digest dv rc f) \<and>
    pcr d' 1 = (case gbb of Some h \<Rightarrow> if 2 \<le> gbb_minor_version h
        then SHA1 (pcr d 1 @ take 20 (gbb_hwid_digest h)) else pcr d 1 | None \<Rightarrow> pcr d 1) \<and>
    (\<forall>j. 2 \<le> j \<and> j < 24 \<longrightarrow> pcr d' j = pcr d j) \<and>
    (\<forall>dv' rc' f'. boot_digest dv rc f = boot_digest dv' rc' f' \<longleftrightarrow>
      (dv \<noteq> 0) = (dv' \<noteq> 0) \<and> (rc \<noteq> 0) = (rc' \<noteq> 0) \<and> keyblock_mode f = keyblock_mode f')"
proof -
  let ?P = "sim_port SHA1 stk env blocking"
  have 0: "0 = unat (ucast (0::u32) :: u8)" "(0::nat) \<le> 23" and 1: "1 = unat (ucast (1::u32) :: u8)" "(1::nat) \<le> 23"
    by simp_all
  have x: "(if 0 \<le> GetBootStateIndex dv rc f \<and> GetBootStateIndex dv rc f < int (length kBootStateSHA1Digests_v1)
      then kBootStateSHA1Digests_v1 ! nat (GetBootStateIndex dv rc f) else kBootInvalidSHA1Digest) = boot_digest dv rc f"
    using GetBootStateIndex_bounds [of dv rc f] by (simp add: boot_digest_def digests_ok(1))
  obtain d1 where d1: "TlclExtend ?P 0 (boot_digest dv rc f) (uninit ?P d 20) d = Some (0, SHA1 (pcr d 0 @ boot_digest dv rc f), d1)"
    "tpm_wf d1" "\<forall>j. j < 24 \<longrightarrow> pcr d1 j = (if j = 0 then SHA1 (pcr d 0 @ boot_digest dv rc f) else pcr d j)"
    using TlclExtend_eq [OF wf sha length_boot_digest [of dv rc f] length_uninit [of ?P d] 0, of stk env blocking] unfolding extended_def by blast
  note unf = SetTPMBootModeState_def x Let_def
  show ?thesis
  proof (cases "\<exists>h. gbb = Some h \<and> 2 \<le> gbb_minor_version h")
    case False
    then have "SetTPMBootModeState ?P dv rc f gbb d = Some (0, d1)"
      unfolding unf by (auto simp: d1(1) split: option.splits)
    with False d1(2,3) boot_digest_eq_iff show ?thesis by (auto split: option.splits)
  next
    case True
    then obtain h where h: "gbb = Some h" "2 \<le> gbb_minor_version h" by blast
    obtain d2 where d2: "TlclExtend ?P 1 (take 20 (gbb_hwid_digest h)) (SHA1 (pcr d 0 @ boot_digest dv rc f)) d1 =
        Some (0, SHA1 (pcr d1 1 @ take 20 (gbb_hwid_digest h)), d2)"
      "tpm_wf d2" "\<forall>j. j < 24 \<longrightarrow> pcr d2 j = (if j = 1 then SHA1 (pcr d1 1 @ take 20 (gbb_hwid_digest h)) else pcr d1 j)"
    proof -
      have l: "length (take 20 (gbb_hwid_digest h)) = 20" using g [OF h(1)] by simp
      show thesis
        using TlclExtend_eq [OF d1(2) sha l sha1_okD [OF sha] 1, of stk env blocking] that
        unfolding extended_def by blast
    qed
    have "SetTPMBootModeState ?P dv rc f gbb d = Some (0, d2)"
      unfolding unf by (simp add: d1(1) h TlclExtend_prefix [OF g [OF h(1)]] d2(1))
    with h d1(3) d2(2,3) boot_digest_eq_iff show ?thesis by auto
  qed
qed

theorem SetTPMBootModeState_measures_witness:
  "\<exists>d'. SetTPMBootModeState (sim_port (\<lambda>x. replicate 20 (of_nat (length x))) (\<lambda>d i. 0xAA) True True) 1 0 7
      (Some \<lparr>gbb_minor_version = 2, gbb_hwid_digest = replicate 32 5\<rparr>) tpm_power_on = Some (0, d') \<and>
    pcr d' 0 = replicate 20 40 \<and> pcr d' 1 = replicate 20 40 \<and> pcr d' 2 = replicate 20 0"
proof -
  let ?S = "\<lambda>x::bytes. replicate 20 (of_nat (length x)) :: bytes"
  let ?g = "Some \<lparr>gbb_minor_version = 2, gbb_hwid_digest = replicate 32 5\<rparr>"
  have s: "sha1_ok ?S" by (simp add: sha1_ok_def)
  have g: "?g = Some h \<Longrightarrow> length (gbb_hwid_digest h) = 32" for h by auto
  have p: "length (pcr tpm_power_on 0) = 20" "length (pcr tpm_power_on 1) = 20" "pcr tpm_power_on 2 = replicate 20 0"
    by (code_simp, code_simp, code_simp)
  obtain d' where "SetTPMBootModeState (sim_port ?S (\<lambda>d i. 0xAA) True True) 1 0 7 ?g tpm_power_on = Some (0, d')"
    "pcr d' 0 = ?S (pcr tpm_power_on 0 @ boot_digest 1 0 7)" "pcr d' 1 = ?S (pcr tpm_power_on 1 @ take 20 (replicate 32 5))"
    "pcr d' 2 = pcr tpm_power_on 2"
    using SetTPMBootModeState_measures [OF tpm_wf_power_on s g, of ?g "\<lambda>d i. 0xAA" True True 1 0 7] by auto
  with p show ?thesis by auto
qed

end
