(* ===== verification/Spec2Isabelle.thy ===== *)
theory Spec2Isabelle
  imports VbNv Kernel_Trust Gpt_Kernels Tpm_Measure
begin

text \<open>
  A verification library for the firmware side of Chrome verified boot
  (\<^verbatim>\<open>src/_vboot_reference/firmware\<close>).
\<close>

end
